(* ===== verification/Prelude.thy ===== *)
theory Prelude
  imports
    Complex_Main
    "HOL-Library.AList"
    "HOL-Library.Char_ord"
    "HOL-Library.List_Lexorder"
    "HOL-Library.Product_Lexorder"
    "HOL-Library.Multiset"
    "HOL-Library.Sublist"
begin

text \<open>
  Shared vocabulary of the development.

  \<^item> Go maps are association lists with distinct keys (\<open>gomap\<close>); \<open>m[k]\<close> on a string map is
    \<open>gm_idx\<close> (the zero value for an absent key), assignment is \<open>AList.update\<close>, \<open>delete\<close> is
    \<open>AList.delete\<close> and \<open>maps.Copy\<close> is \<open>gm_copy\<close>.  The iteration order of a Go map is not
    specified; where the code ranges over one the model takes the list order and the result
    does not depend on it.
  \<^item> Fallible operations return a value of the sum type \<open>err + 'a\<close>, \<open>Inl\<close> for the error.
  \<^item> \<open>string\<close> is a list of bytes, ordered lexicographically as Go orders strings; letter case
    and white space are those of ASCII.
  \<^item> \<open>int32\<close> and \<open>int64\<close> values are integers; where an operation can leave the range the
    wrap-around is written out with \<open>wrap32\<close> and \<open>wrap64\<close>.
\<close>

named_theorems go_simps \<open>characteristic equations of the modelled Go library\<close>
named_theorems gomap_simps \<open>lookups after updates of Go maps\<close>

section \<open>Errors\<close>

text \<open>Errors the code distinguishes with \<open>errors.Is\<close> are constructors; the others carry a message.\<close>

datatype err = ErrNotFound | ErrAlreadyExists | ErrMsg string

fun is_Inr :: "'a + 'b \<Rightarrow> bool" where
  "is_Inr (Inr _) = True"
| "is_Inr (Inl _) = False"

lemma is_Inr_ex: "is_Inr x \<longleftrightarrow> (\<exists>y. x = Inr y)"
  by (cases x) auto

section \<open>Go maps\<close>

type_synonym ('k, 'v) gomap = "('k \<times> 'v) list"
type_synonym props = "(string, string) gomap"

abbreviation gm_wf :: "('k, 'v) gomap \<Rightarrow> bool" where
  "gm_wf m \<equiv> distinct (map fst m)"

definition gm_has :: "('k, 'v) gomap \<Rightarrow> 'k \<Rightarrow> bool" where
  "gm_has m k = (case map_of m k of None \<Rightarrow> False | Some _ \<Rightarrow> True)"

definition gm_idx :: "('k, string) gomap \<Rightarrow> 'k \<Rightarrow> string" where
  "gm_idx m k = (case map_of m k of None \<Rightarrow> [] | Some v \<Rightarrow> v)"

definition gm_copy :: "('k, 'v) gomap \<Rightarrow> ('k, 'v) gomap \<Rightarrow> ('k, 'v) gomap" where
  "gm_copy dst src = AList.merge dst src"

lemma gm_has_iff [gomap_simps]: "gm_has m k \<longleftrightarrow> map_of m k \<noteq> None"
  by (simp add: gm_has_def split: option.split)

lemma gm_has_dom: "gm_has m k \<longleftrightarrow> k \<in> fst ` set m"
  by (simp add: gm_has_iff map_of_eq_None_iff)

lemma map_of_gm_update [gomap_simps]: "map_of (AList.update k v m) = (map_of m)(k \<mapsto> v)"
  by (rule update_conv')

lemma map_of_gm_delete [gomap_simps]: "map_of (AList.delete k m) = (map_of m)(k := None)"
  by (rule delete_conv')

lemma map_of_gm_copy [gomap_simps]: "map_of (gm_copy dst src) = map_of dst ++ map_of src"
  by (simp add: gm_copy_def merge_conv')

lemma gm_wf_copy [simp]: "gm_wf dst \<Longrightarrow> gm_wf (gm_copy dst src)"
  by (simp add: gm_copy_def distinct_merge)

lemma gm_idx_update [gomap_simps]:
  "gm_idx (AList.update k v m) k' = (if k' = k then v else gm_idx m k')"
  by (simp add: gm_idx_def update_conv')

lemma gm_idx_copy [gomap_simps]:
  "gm_idx (gm_copy dst src) k = (if gm_has src k then gm_idx src k else gm_idx dst k)"
  by (auto simp: gm_idx_def gm_has_iff map_of_gm_copy map_add_def split: option.split)

lemma set_update_gm:
  "gm_wf m \<Longrightarrow> set (AList.update k v m) = insert (k, v) {p \<in> set m. fst p \<noteq> k}"
  by (induction m) (auto simp: image_iff)

lemma set_delete_gm: "set (AList.delete k m) = {p \<in> set m. fst p \<noteq> k}"
  by (auto simp: AList.delete_eq)

lemma gm_update_fresh:
  "map_of m k = None \<Longrightarrow> AList.update k v m = m @ [(k, v)]"
  by (induction m) (auto split: if_splits)

section \<open>Integers\<close>

definition wrap32 :: "int \<Rightarrow> int" where
  "wrap32 i = (i + 2 ^ 31) mod 2 ^ 32 - 2 ^ 31"

definition wrap64 :: "int \<Rightarrow> int" where
  "wrap64 i = (i + 2 ^ 63) mod 2 ^ 64 - 2 ^ 63"

definition MaxInt32 :: int where "MaxInt32 = 2 ^ 31 - 1"
definition MinInt32 :: int where "MinInt32 = - (2 ^ 31)"
definition MaxInt64 :: int where "MaxInt64 = 2 ^ 63 - 1"
definition MinInt64 :: int where "MinInt64 = - (2 ^ 63)"

definition in_int32 :: "int \<Rightarrow> bool" where
  "in_int32 i = (MinInt32 \<le> i \<and> i \<le> MaxInt32)"

definition in_int64 :: "int \<Rightarrow> bool" where
  "in_int64 i = (MinInt64 \<le> i \<and> i \<le> MaxInt64)"

lemma wrap32_id [simp]: "in_int32 i \<Longrightarrow> wrap32 i = i"
  by (simp add: wrap32_def in_int32_def MinInt32_def MaxInt32_def)

lemma wrap64_id [simp]: "in_int64 i \<Longrightarrow> wrap64 i = i"
  by (simp add: wrap64_def in_int64_def MinInt64_def MaxInt64_def)

lemma in_int32_wrap32 [simp]: "in_int32 (wrap32 i)"
  using pos_mod_bound [of "2 ^ 32" "i + 2 ^ 31"]
  by (simp add: in_int32_def wrap32_def MinInt32_def MaxInt32_def)

lemma in_int64_wrap64 [simp]: "in_int64 (wrap64 i)"
  using pos_mod_bound [of "2 ^ 64" "i + 2 ^ 63"]
  by (simp add: in_int64_def wrap64_def MinInt64_def MaxInt64_def)

section \<open>Strings\<close>

definition HasPrefix :: "string \<Rightarrow> string \<Rightarrow> bool" where
  "HasPrefix s p = (take (length p) s = p)"

definition CutPrefix :: "string \<Rightarrow> string \<Rightarrow> string \<times> bool" where
  "CutPrefix s p = (if HasPrefix s p then (drop (length p) s, True) else (s, False))"

text \<open>\<open>strings.Cut\<close> with a separator of one byte.\<close>

definition Cut :: "string \<Rightarrow> char \<Rightarrow> string \<times> string \<times> bool" where
  "Cut s c = (if c \<in> set s then (takeWhile (\<lambda>x. x \<noteq> c) s, tl (dropWhile (\<lambda>x. x \<noteq> c) s), True)
              else (s, [], False))"

definition is_space :: "char \<Rightarrow> bool" where
  "is_space c = (c \<in> {CHR '' '', CHR 0x09, CHR 0x0A, CHR 0x0B, CHR 0x0C, CHR 0x0D})"

definition TrimSpace :: "string \<Rightarrow> string" where
  "TrimSpace s = rev (dropWhile is_space (rev (dropWhile is_space s)))"

definition to_upper :: "char \<Rightarrow> char" where
  "to_upper c = (if CHR ''a'' \<le> c \<and> c \<le> CHR ''z'' then char_of (of_char c - 32 :: nat) else c)"

definition to_lower :: "char \<Rightarrow> char" where
  "to_lower c = (if CHR ''A'' \<le> c \<and> c \<le> CHR ''Z'' then char_of (of_char c + 32 :: nat) else c)"

definition ToUpper :: "string \<Rightarrow> string" where "ToUpper s = map to_upper s"
definition ToLower :: "string \<Rightarrow> string" where "ToLower s = map to_lower s"

definition EqualFold :: "string \<Rightarrow> string \<Rightarrow> bool" where
  "EqualFold s t = (ToLower s = ToLower t)"

fun join_with :: "string \<Rightarrow> string list \<Rightarrow> string" where
  "join_with sep [] = []"
| "join_with sep [x] = x"
| "join_with sep (x # y # ys) = x @ sep @ join_with sep (y # ys)"

lemma HasPrefix_append [simp]: "HasPrefix (p @ s) p"
  by (simp add: HasPrefix_def)

lemma HasPrefix_iff: "HasPrefix s p \<longleftrightarrow> prefix p s"
  by (metis HasPrefix_def append_eq_conv_conj prefix_def)

lemma Cut_no_sep: "c \<notin> set s \<Longrightarrow> Cut s c = (s, [], False)"
  by (simp add: Cut_def)

lemma Cut_sep: "c \<notin> set k \<Longrightarrow> Cut (k @ c # v) c = (k, v, True)"
  by (simp add: Cut_def takeWhile_append dropWhile_append)

lemma Cut_True:
  assumes "Cut s c = (k, v, True)"
  shows "s = k @ c # v" and "c \<notin> set k"
proof -
  from assms have c: "c \<in> set s" and k: "k = takeWhile (\<lambda>x. x \<noteq> c) s"
    and v: "v = tl (dropWhile (\<lambda>x. x \<noteq> c) s)"
    by (auto simp: Cut_def split: if_splits)
  have ne: "dropWhile (\<lambda>x. x \<noteq> c) s \<noteq> []" using c by auto
  then have "hd (dropWhile (\<lambda>x. x \<noteq> c) s) = c"
    using hd_dropWhile [OF ne] by simp
  with ne v have "dropWhile (\<lambda>x. x \<noteq> c) s = c # v" by (metis list.collapse)
  with k show "s = k @ c # v" by (metis takeWhile_dropWhile_id)
  from k show "c \<notin> set k" by (auto dest: set_takeWhileD)
qed

section \<open>Lists\<close>

text \<open>\<open>sort.Slice\<close> and \<open>sort.SliceStable\<close> by a key: a stable insertion sort.  Where the keys of
  the sorted rows are distinct, as in the stores, every sorting algorithm gives this result.\<close>

abbreviation sort_by :: "('a \<Rightarrow> 'k :: linorder) \<Rightarrow> 'a list \<Rightarrow> 'a list" where
  "sort_by \<equiv> sort_key"

definition sum_wrap64 :: "int list \<Rightarrow> int" where
  "sum_wrap64 xs = fold (\<lambda>x acc. wrap64 (acc + x)) xs 0"

lemma sort_by_perm: "mset (sort_by f xs) = mset xs"
  by simp

lemma filter_unique_key:
  assumes "inj_on f (set xs)" "distinct xs" "x \<in> set xs"
  shows "filter (\<lambda>y. f y = f x) xs = [x]"
  using assms
proof (induction xs)
  case Nil
  then show ?case by simp
next
  case (Cons a xs)
  show ?case
  proof (cases "a = x")
    case True
    with Cons.prems have "\<forall>y \<in> set xs. f y \<noteq> f x"
      by (metis (no_types, opaque_lifting) distinct.simps(2) inj_on_def list.set_intros(1,2))
    with True show ?thesis by (simp add: filter_empty_conv)
  next
    case False
    with Cons.prems have "x \<in> set xs" "f a \<noteq> f x"
      by (auto simp: inj_on_def)
    with Cons show ?thesis by (simp add: inj_on_def)
  qed
qed

text \<open>\<open>sort.SliceStable\<close> with a comparison: stable insertion, the result of every stable sorting
  algorithm when the comparison is a strict weak order.\<close>

fun insert_slice :: "('a \<Rightarrow> 'a \<Rightarrow> bool) \<Rightarrow> 'a \<Rightarrow> 'a list \<Rightarrow> 'a list" where
  "insert_slice lt x [] = [x]"
| "insert_slice lt x (y # ys) =
     (if lt y x then y # insert_slice lt x ys else x # y # ys)"

definition SliceStable :: "('a \<Rightarrow> 'a \<Rightarrow> bool) \<Rightarrow> 'a list \<Rightarrow> 'a list" where
  "SliceStable lt xs = foldr (insert_slice lt) xs []"

lemma mset_insert_slice [simp]: "mset (insert_slice lt x xs) = add_mset x (mset xs)"
  by (induction xs) auto

lemma mset_SliceStable [simp]: "mset (SliceStable lt xs) = mset xs"
  by (induction xs) (auto simp: SliceStable_def)

lemma set_insert_slice [simp]: "set (insert_slice lt x xs) = insert x (set xs)"
  by (metis mset_insert_slice set_mset_add_mset_insert set_mset_mset)

lemma set_SliceStable [simp]: "set (SliceStable lt xs) = set xs"
  by (metis mset_SliceStable set_mset_mset)

lemma length_SliceStable [simp]: "length (SliceStable lt xs) = length xs"
  by (metis mset_SliceStable size_mset)

text \<open>A comparison that is a strict weak order on the elements sorted.\<close>

definition weak_order_on :: "'a set \<Rightarrow> ('a \<Rightarrow> 'a \<Rightarrow> bool) \<Rightarrow> bool" where
  "weak_order_on A lt \<longleftrightarrow>
     (\<forall>x \<in> A. \<forall>y \<in> A. lt x y \<longrightarrow> \<not> lt y x) \<and>
     (\<forall>x \<in> A. \<forall>y \<in> A. \<forall>z \<in> A. \<not> lt x y \<longrightarrow> \<not> lt y z \<longrightarrow> \<not> lt x z)"

lemma weak_order_onI:
  assumes "\<And>x y. x \<in> A \<Longrightarrow> y \<in> A \<Longrightarrow> lt x y \<Longrightarrow> \<not> lt y x"
    and "\<And>x y z. x \<in> A \<Longrightarrow> y \<in> A \<Longrightarrow> z \<in> A \<Longrightarrow> \<not> lt x y \<Longrightarrow> \<not> lt y z \<Longrightarrow> \<not> lt x z"
  shows "weak_order_on A lt"
  using assms unfolding weak_order_on_def by blast

lemma weak_order_on_subset: "weak_order_on A lt \<Longrightarrow> B \<subseteq> A \<Longrightarrow> weak_order_on B lt"
  unfolding weak_order_on_def by blast

lemma weak_order_on_asym:
  "weak_order_on A lt \<Longrightarrow> x \<in> A \<Longrightarrow> y \<in> A \<Longrightarrow> lt x y \<Longrightarrow> \<not> lt y x"
  unfolding weak_order_on_def by blast

lemma weak_order_on_trans:
  "weak_order_on A lt \<Longrightarrow> x \<in> A \<Longrightarrow> y \<in> A \<Longrightarrow> z \<in> A \<Longrightarrow> \<not> lt x y \<Longrightarrow> \<not> lt y z \<Longrightarrow> \<not> lt x z"
  unfolding weak_order_on_def by blast

lemma sorted_insert_slice:
  assumes "weak_order_on (insert x (set xs)) lt" "sorted_wrt (\<lambda>a b. \<not> lt b a) xs"
  shows "sorted_wrt (\<lambda>a b. \<not> lt b a) (insert_slice lt x xs)"
  using assms
proof (induction xs)
  case Nil
  then show ?case by simp
next
  case (Cons y ys)
  have "weak_order_on (insert x (set ys)) lt"
    using Cons.prems(1) by (rule weak_order_on_subset) auto
  with Cons have IH: "sorted_wrt (\<lambda>a b. \<not> lt b a) (insert_slice lt x ys)" by simp
  from Cons.prems(2) have y: "\<forall>z \<in> set ys. \<not> lt z y" by simp
  show ?case
  proof (cases "lt y x")
    case True
    have "\<not> lt x y" by (rule weak_order_on_asym [OF Cons.prems(1) _ _ True]) auto
    with True IH y show ?thesis by auto
  next
    case False
    have "\<not> lt z x" if "z \<in> set ys" for z
      using weak_order_on_trans [OF Cons.prems(1), of z y x] that y False by auto
    with False Cons.prems(2) show ?thesis by auto
  qed
qed

lemma sorted_SliceStable:
  "weak_order_on (set xs) lt \<Longrightarrow> sorted_wrt (\<lambda>a b. \<not> lt b a) (SliceStable lt xs)"
proof (induction xs)
  case Nil
  then show ?case by (simp add: SliceStable_def)
next
  case (Cons x xs)
  have "weak_order_on (set xs) lt"
    using Cons.prems by (rule weak_order_on_subset) auto
  with Cons.IH have S: "sorted_wrt (\<lambda>a b. \<not> lt b a) (SliceStable lt xs)" .
  have "weak_order_on (insert x (set (SliceStable lt xs))) lt"
    using Cons.prems by simp
  from sorted_insert_slice [OF this S] show ?case by (simp add: SliceStable_def)
qed

lemma fold_invariant:
  assumes "P s" and "\<And>x s. x \<in> set xs \<Longrightarrow> P s \<Longrightarrow> P (f x s)"
  shows "P (fold f xs s)"
  using assms by (induction xs arbitrary: s) auto

end
