(* ===== verification/Float64.thy ===== *)
theory Float64
  imports Prelude "HOL-Library.Log_Nat"
begin

text \<open>
  Go's \<open>float64\<close>: finite values are the rationals that IEEE 754 binary64 can represent, and every
  operation rounds its exact result to the nearest such value, ties to the even significand.
  Positive and negative zero are one value (the code never divides by a zero it did not test).
  The theory also models \<open>strconv.ParseInt\<close>, \<open>strconv.ParseBool\<close> and \<open>strconv.ParseFloat\<close>,
  the decoders the placement code reads its properties with.
\<close>

section \<open>Rounding\<close>

definition pow2 :: "int \<Rightarrow> rat" where
  "pow2 k = (if 0 \<le> k then 2 ^ nat k else 1 / 2 ^ nat (- k))"

text \<open>The binary exponent of a positive rational: \<open>pow2 (floorlog2 q) \<le> q < pow2 (floorlog2 q + 1)\<close>.\<close>

definition floorlog2 :: "rat \<Rightarrow> int" where
  "floorlog2 q = (let (n, d) = quotient_of q; k = bitlen n - bitlen d
                  in if pow2 k \<le> q then k else k - 1)"

definition round_half_even :: "rat \<Rightarrow> int" where
  "round_half_even x = (let f = \<lfloor>x\<rfloor>; r = x - of_int f
     in if r < 1 / 2 then f else if 1 / 2 < r then f + 1 else if even f then f else f + 1)"

definition ulp_exp :: "rat \<Rightarrow> int" where
  "ulp_exp q = max (floorlog2 q - 52) (- 1074)"

definition round_pos :: "rat \<Rightarrow> rat" where
  "round_pos q = (let u = ulp_exp q in of_int (round_half_even (q / pow2 u)) * pow2 u)"

datatype float64 = NaN | Inf bool | Fin rat

definition f64_of_rat :: "rat \<Rightarrow> float64" where
  "f64_of_rat q = (if q = 0 then Fin 0
     else let v = round_pos \<bar>q\<bar>
          in if 2 ^ 1024 \<le> v then Inf (q < 0) else Fin (if q < 0 then - v else v))"

definition f64_of_int :: "int \<Rightarrow> float64" where
  "f64_of_int i = f64_of_rat (of_int i)"

section \<open>Arithmetic and comparison\<close>

fun f64_add :: "float64 \<Rightarrow> float64 \<Rightarrow> float64" where
  "f64_add NaN _ = NaN"
| "f64_add _ NaN = NaN"
| "f64_add (Inf s) (Inf t) = (if s = t then Inf s else NaN)"
| "f64_add (Inf s) (Fin _) = Inf s"
| "f64_add (Fin _) (Inf t) = Inf t"
| "f64_add (Fin a) (Fin b) = f64_of_rat (a + b)"

fun f64_neg :: "float64 \<Rightarrow> float64" where
  "f64_neg NaN = NaN"
| "f64_neg (Inf s) = Inf (\<not> s)"
| "f64_neg (Fin a) = Fin (- a)"

definition f64_sub :: "float64 \<Rightarrow> float64 \<Rightarrow> float64" where
  "f64_sub x y = f64_add x (f64_neg y)"

fun f64_mul :: "float64 \<Rightarrow> float64 \<Rightarrow> float64" where
  "f64_mul NaN _ = NaN"
| "f64_mul _ NaN = NaN"
| "f64_mul (Inf s) (Inf t) = Inf (s \<noteq> t)"
| "f64_mul (Inf s) (Fin b) = (if b = 0 then NaN else Inf (s \<noteq> (b < 0)))"
| "f64_mul (Fin a) (Inf t) = (if a = 0 then NaN else Inf ((a < 0) \<noteq> t))"
| "f64_mul (Fin a) (Fin b) = f64_of_rat (a * b)"

fun f64_div :: "float64 \<Rightarrow> float64 \<Rightarrow> float64" where
  "f64_div NaN _ = NaN"
| "f64_div _ NaN = NaN"
| "f64_div (Inf s) (Inf t) = NaN"
| "f64_div (Inf s) (Fin b) = Inf (s \<noteq> (b < 0))"
| "f64_div (Fin a) (Inf t) = Fin 0"
| "f64_div (Fin a) (Fin b) =
     (if b = 0 then (if a = 0 then NaN else Inf (a < 0)) else f64_of_rat (a / b))"

fun f64_lt :: "float64 \<Rightarrow> float64 \<Rightarrow> bool" where
  "f64_lt NaN _ = False"
| "f64_lt _ NaN = False"
| "f64_lt (Inf s) (Inf t) = (s \<and> \<not> t)"
| "f64_lt (Inf s) (Fin _) = s"
| "f64_lt (Fin _) (Inf t) = (\<not> t)"
| "f64_lt (Fin a) (Fin b) = (a < b)"

fun f64_eq :: "float64 \<Rightarrow> float64 \<Rightarrow> bool" where
  "f64_eq NaN _ = False"
| "f64_eq _ NaN = False"
| "f64_eq x y = (x = y)"

definition f64_le :: "float64 \<Rightarrow> float64 \<Rightarrow> bool" where
  "f64_le x y = (f64_lt x y \<or> f64_eq x y)"

text \<open>The conversion \<open>int64(x)\<close>: truncation towards zero.  On NaN, infinities and values outside
  the range Go leaves the result to the implementation; the code tests the range first.\<close>

fun f64_to_int :: "float64 \<Rightarrow> int" where
  "f64_to_int (Fin a) = (if a < 0 then - \<lfloor>- a\<rfloor> else \<lfloor>a\<rfloor>)"
| "f64_to_int _ = 0"

section \<open>Decoding numbers\<close>

definition is_digit :: "char \<Rightarrow> bool" where
  "is_digit c = (CHR ''0'' \<le> c \<and> c \<le> CHR ''9'')"

definition is_hex_letter :: "char \<Rightarrow> bool" where
  "is_hex_letter c = (CHR ''a'' \<le> to_lower c \<and> to_lower c \<le> CHR ''f'')"

definition digit_val :: "char \<Rightarrow> int" where
  "digit_val c = (if is_digit c then of_char c - 48 else of_char (to_lower c) - 87)"

fun cut_sign :: "string \<Rightarrow> bool \<times> string" where
  "cut_sign (c # cs) = (if c = CHR ''-'' then (True, cs) else if c = CHR ''+'' then (False, cs)
                        else (False, c # cs))"
| "cut_sign [] = (False, [])"

text \<open>\<open>strconv.ParseInt(s, 10, bits)\<close>: base 10 admits digits only; a value outside the signed range
  of \<open>bits\<close> bits is an error.\<close>

definition ParseInt :: "nat \<Rightarrow> string \<Rightarrow> int option" where
  "ParseInt bits s = (let (neg, ds) = cut_sign s in
     if ds = [] \<or> \<not> list_all is_digit ds then None
     else let v = foldl (\<lambda>a c. 10 * a + digit_val c) 0 ds; i = (if neg then - v else v)
          in if - (2 ^ (bits - 1)) \<le> i \<and> i < 2 ^ (bits - 1) then Some i else None)"

definition ParseBool :: "string \<Rightarrow> bool option" where
  "ParseBool s =
     (if s \<in> set [''1'', ''t'', ''T'', ''TRUE'', ''true'', ''True''] then Some True
      else if s \<in> set [''0'', ''f'', ''F'', ''FALSE'', ''false'', ''False''] then Some False
      else None)"

text \<open>\<open>underscoreOK\<close> of \<open>strconv\<close>: \<open>saw\<close> is 0 at the start, 1 after a digit or base prefix,
  2 after an underscore, 3 after any other byte.\<close>

fun underscore_scan :: "bool \<Rightarrow> nat \<Rightarrow> string \<Rightarrow> bool" where
  "underscore_scan hex saw [] = (saw \<noteq> 2)"
| "underscore_scan hex saw (c # cs) =
     (if is_digit c \<or> hex \<and> is_hex_letter c then underscore_scan hex 1 cs
      else if c = CHR ''_'' then saw = 1 \<and> underscore_scan hex 2 cs
      else saw \<noteq> 2 \<and> underscore_scan hex 3 cs)"

definition underscoreOK :: "string \<Rightarrow> bool" where
  "underscoreOK s = (case snd (cut_sign s) of
     a # b # cs \<Rightarrow>
       if a = CHR ''0'' \<and> to_lower b \<in> set ''box'' then underscore_scan (to_lower b = CHR ''x'') 1 cs
       else underscore_scan False 0 (a # b # cs)
   | cs \<Rightarrow> underscore_scan False 0 cs)"

text \<open>The mantissa: (whether a digit was seen, its digits as an integer, how many of them follow
  the point, what is left of the input).\<close>

fun scan_mantissa :: "bool \<Rightarrow> bool \<Rightarrow> bool \<Rightarrow> int \<Rightarrow> nat \<Rightarrow> string \<Rightarrow> bool \<times> int \<times> nat \<times> string" where
  "scan_mantissa hex sawdot sawdigits m fd [] = (sawdigits, m, fd, [])"
| "scan_mantissa hex sawdot sawdigits m fd (c # cs) =
     (if c = CHR ''_'' then scan_mantissa hex sawdot sawdigits m fd cs
      else if c = CHR ''.'' then
        (if sawdot then (sawdigits, m, fd, c # cs) else scan_mantissa hex True sawdigits m fd cs)
      else if is_digit c \<or> hex \<and> is_hex_letter c then
        scan_mantissa hex sawdot True ((if hex then 16 else 10) * m + digit_val c)
          (if sawdot then Suc fd else fd) cs
      else (sawdigits, m, fd, c # cs))"

fun scan_exponent :: "int \<Rightarrow> string \<Rightarrow> int option" where
  "scan_exponent e [] = Some e"
| "scan_exponent e (c # cs) =
     (if c = CHR ''_'' then scan_exponent e cs
      else if is_digit c then scan_exponent (if e < 10000 then 10 * e + digit_val c else e) cs
      else None)"

definition parse_exponent :: "bool \<Rightarrow> string \<Rightarrow> int option" where
  "parse_exponent hex cs =
     (case cs of
        [] \<Rightarrow> if hex then None else Some 0
      | c # rest \<Rightarrow>
          if to_lower c \<noteq> (if hex then CHR ''p'' else CHR ''e'') then None
          else let (neg, ds) = cut_sign rest
               in if ds = [] \<or> \<not> is_digit (hd ds) then None
                  else map_option (\<lambda>e. if neg then - e else e) (scan_exponent 0 ds))"

definition parse_special :: "string \<Rightarrow> float64 option" where
  "parse_special s = (let (neg, t) = cut_sign s in
     if ToLower t = ''inf'' \<or> ToLower t = ''infinity'' then Some (Inf neg)
     else if ToLower s = ''nan'' then Some NaN else None)"

definition rat_of_parts :: "bool \<Rightarrow> int \<Rightarrow> nat \<Rightarrow> int \<Rightarrow> rat" where
  "rat_of_parts hex m fd e =
     (if hex then of_int m * pow2 (e - 4 * int fd)
      else if int fd \<le> e then of_int m * 10 ^ nat (e - int fd)
      else of_int m / 10 ^ nat (int fd - e))"

text \<open>\<open>strconv.ParseFloat(s, 64)\<close>; \<open>None\<close> is a syntax error or a value out of range.\<close>

definition ParseFloat :: "string \<Rightarrow> float64 option" where
  "ParseFloat s = (case parse_special s of
     Some x \<Rightarrow> Some x
   | None \<Rightarrow>
      let (neg, t) = cut_sign s;
          hex = (case t of a # b # _ # _ \<Rightarrow> a = CHR ''0'' \<and> to_lower b = CHR ''x'' | _ \<Rightarrow> False);
          (sawdigits, m, fd, rest) = scan_mantissa hex False False 0 0 (if hex then drop 2 t else t)
      in if \<not> sawdigits then None
         else (case parse_exponent hex rest of
                 None \<Rightarrow> None
               | Some e \<Rightarrow>
                   if CHR ''_'' \<in> set s \<and> \<not> underscoreOK s then None
                   else (case f64_of_rat (rat_of_parts hex m fd e) of
                           Inf _ \<Rightarrow> None
                         | x \<Rightarrow> Some (if neg then f64_neg x else x))))"

section \<open>Rounding is monotone\<close>

lemma pow2_pos [simp]: "0 < pow2 k"
  by (simp add: pow2_def)

lemma pow2_nonzero [simp]: "pow2 k \<noteq> 0"
  using pow2_pos [of k] by linarith

lemma pow2_powi: "pow2 k = 2 powi k"
  by (simp add: pow2_def power_int_def power_one_over inverse_eq_divide)

lemma pow2_add: "pow2 (j + k) = pow2 j * pow2 k"
  unfolding pow2_powi by (rule power_int_add) simp

lemma pow2_mono: "j \<le> k \<Longrightarrow> pow2 j \<le> pow2 k"
  unfolding pow2_powi by (rule power_int_increasing) simp_all

lemma pow2_of_nat: "pow2 (int n) = 2 ^ n"
  by (simp add: pow2_def)

lemma bitlen_pow2_bounds:
  assumes "0 < (n :: int)"
  shows "pow2 (bitlen n - 1) \<le> of_int n" and "of_int n < pow2 (bitlen n)"
proof -
  have b: "2 ^ nat (bitlen n - 1) \<le> n" "n < 2 ^ nat (bitlen n)"
    using bitlen_bounds [OF assms] by blast+
  have p: "0 \<le> bitlen n - 1"
    using bitlen_ge_iff_power [of 1 n] assms by simp
  from b(1) have "(of_int (2 ^ nat (bitlen n - 1)) :: rat) \<le> of_int n"
    by (simp only: of_int_le_iff)
  then show "pow2 (bitlen n - 1) \<le> of_int n" using p by (simp add: pow2_def)
  from b(2) have "(of_int n :: rat) < of_int (2 ^ nat (bitlen n))"
    by (simp only: of_int_less_iff)
  then show "of_int n < pow2 (bitlen n)" using p by (simp add: pow2_def)
qed

lemma floorlog2_bounds:
  assumes "0 < q"
  shows "pow2 (floorlog2 q) \<le> q" and "q < pow2 (floorlog2 q + 1)"
proof -
  obtain n d where nd: "quotient_of q = (n, d)" by force
  then have d: "0 < d" and q: "q = of_int n / of_int d"
    by (auto simp: quotient_of_denom_pos quotient_of_div)
  with assms have n: "0 < n"
    by (simp add: zero_less_divide_iff)
  let ?k = "bitlen n - bitlen d"
  note B = bitlen_pow2_bounds [OF n] bitlen_pow2_bounds [OF d]
  have "pow2 (?k - 1) * of_int d \<le> pow2 (?k - 1) * pow2 (bitlen d)"
    using B(4) by simp
  also have "\<dots> = pow2 (bitlen n - 1)" by (simp flip: pow2_add)
  also have "\<dots> \<le> of_int n" by (rule B(1))
  finally have lo: "pow2 (?k - 1) \<le> q" using d by (simp add: q field_simps)
  have "of_int n < pow2 (bitlen n)" by (rule B(2))
  also have "\<dots> = pow2 (?k + 1) * pow2 (bitlen d - 1)" by (simp flip: pow2_add)
  also have "\<dots> \<le> pow2 (?k + 1) * of_int d" using B(3) by simp
  finally have hi: "q < pow2 (?k + 1)" using d by (simp add: q field_simps)
  show "pow2 (floorlog2 q) \<le> q" and "q < pow2 (floorlog2 q + 1)"
    using lo hi by (auto simp: floorlog2_def nd Let_def)
qed

lemma round_half_even_bounds: "\<lfloor>x\<rfloor> \<le> round_half_even x" "round_half_even x \<le> \<lfloor>x\<rfloor> + 1"
  by (simp_all add: round_half_even_def Let_def)

lemma round_half_even_int [simp]: "round_half_even (of_int i) = i"
  by (simp add: round_half_even_def)

lemma round_half_even_mono:
  assumes "x \<le> y"
  shows "round_half_even x \<le> round_half_even y"
proof (cases "\<lfloor>x\<rfloor> = \<lfloor>y\<rfloor>")
  case True
  with assms show ?thesis by (auto simp: round_half_even_def Let_def)
next
  case False
  with assms have "\<lfloor>x\<rfloor> + 1 \<le> \<lfloor>y\<rfloor>"
    using floor_mono [of x y] by linarith
  then show ?thesis
    using round_half_even_bounds(2) [of x] round_half_even_bounds(1) [of y] by linarith
qed

lemma round_pos_nonneg: "0 < q \<Longrightarrow> 0 \<le> round_pos q"
  using round_half_even_mono [of 0 "q / pow2 (ulp_exp q)"] round_half_even_int [of 0]
    pow2_pos [of "ulp_exp q"]
  by (simp add: round_pos_def Let_def zero_le_mult_iff less_imp_le)

lemma round_pos_le_pow2:
  assumes "0 < q" "floorlog2 q < k" "- 1074 \<le> k"
  shows "round_pos q \<le> pow2 k"
proof -
  let ?u = "ulp_exp q"
  have u: "?u \<le> k" using assms by (simp add: ulp_exp_def)
  have "q \<le> pow2 (floorlog2 q + 1)" using floorlog2_bounds(2) [OF assms(1)] by simp
  also have "\<dots> \<le> pow2 k" using assms(2) by (intro pow2_mono) simp
  finally have "q / pow2 ?u \<le> pow2 k / pow2 ?u" by (simp add: divide_right_mono less_imp_le)
  also have "\<dots> = of_int (2 ^ nat (k - ?u))"
    using u pow2_add [of "k - ?u" ?u] by (simp add: pow2_def)
  finally have "round_half_even (q / pow2 ?u) \<le> 2 ^ nat (k - ?u)"
    using round_half_even_mono round_half_even_int by metis
  then have "of_int (round_half_even (q / pow2 ?u)) \<le> (of_int (2 ^ nat (k - ?u)) :: rat)"
    by (simp only: of_int_le_iff)
  also have "\<dots> = pow2 (k - ?u)" using u by (simp add: pow2_def)
  finally have "of_int (round_half_even (q / pow2 ?u)) * pow2 ?u \<le> pow2 (k - ?u) * pow2 ?u"
    by simp
  then show ?thesis by (simp add: round_pos_def Let_def flip: pow2_add)
qed

lemma pow2_le_round_pos:
  assumes "0 < q" "pow2 k \<le> q" "ulp_exp q \<le> k"
  shows "pow2 k \<le> round_pos q"
proof -
  let ?u = "ulp_exp q"
  have "of_int (2 ^ nat (k - ?u)) = pow2 k / pow2 ?u"
    using assms(3) pow2_add [of "k - ?u" ?u] by (simp add: pow2_def)
  also have "\<dots> \<le> q / pow2 ?u" using assms(2) by (simp add: divide_right_mono less_imp_le)
  finally have "2 ^ nat (k - ?u) \<le> round_half_even (q / pow2 ?u)"
    using round_half_even_mono round_half_even_int by metis
  then have "(of_int (2 ^ nat (k - ?u)) :: rat) \<le> of_int (round_half_even (q / pow2 ?u))"
    by (simp only: of_int_le_iff)
  moreover have "(of_int (2 ^ nat (k - ?u)) :: rat) = pow2 (k - ?u)"
    using assms(3) by (simp add: pow2_def)
  ultimately have "pow2 (k - ?u) \<le> of_int (round_half_even (q / pow2 ?u))"
    by (simp only:)
  then have "pow2 (k - ?u) * pow2 ?u \<le> of_int (round_half_even (q / pow2 ?u)) * pow2 ?u"
    by simp
  then show ?thesis by (simp add: round_pos_def Let_def flip: pow2_add)
qed

lemma floorlog2_mono:
  assumes "0 < p" "p \<le> q"
  shows "floorlog2 p \<le> floorlog2 q"
proof (rule ccontr)
  assume "\<not> floorlog2 p \<le> floorlog2 q"
  then have "pow2 (floorlog2 q + 1) \<le> pow2 (floorlog2 p)" by (intro pow2_mono) simp
  with floorlog2_bounds(1) [of p] floorlog2_bounds(2) [of q] assms show False by simp
qed

lemma floorlog2_eqI:
  assumes "0 < q" "pow2 k \<le> q" "q < pow2 (k + 1)"
  shows "floorlog2 q = k"
proof -
  have "\<not> floorlog2 q < k"
    using pow2_mono [of "floorlog2 q + 1" k] floorlog2_bounds(2) [OF assms(1)] assms(2) by force
  moreover have "\<not> k < floorlog2 q"
    using pow2_mono [of "k + 1" "floorlog2 q"] floorlog2_bounds(1) [OF assms(1)] assms(3) by force
  ultimately show ?thesis by simp
qed

lemma round_pos_mono:
  assumes "0 < p" "p \<le> q"
  shows "round_pos p \<le> round_pos q"
proof (cases "ulp_exp p = ulp_exp q")
  case True
  from assms have "p / pow2 (ulp_exp q) \<le> q / pow2 (ulp_exp q)"
    by (simp add: divide_right_mono less_imp_le)
  from round_half_even_mono [OF this] True show ?thesis
    by (simp add: round_pos_def Let_def)
next
  case False
  with floorlog2_mono [OF assms]
  have e: "floorlog2 p < floorlog2 q" "- 1074 < floorlog2 q - 52"
    by (auto simp: ulp_exp_def)
  have "round_pos p \<le> pow2 (floorlog2 q)"
    using assms(1) e by (intro round_pos_le_pow2) auto
  also have "\<dots> \<le> round_pos q"
    using assms e floorlog2_bounds(1) [of q] by (intro pow2_le_round_pos) (auto simp: ulp_exp_def)
  finally show ?thesis .
qed

section \<open>The order of float64 values\<close>

lemma f64_le_refl: "x \<noteq> NaN \<Longrightarrow> f64_le x x"
  by (cases x) (auto simp: f64_le_def)

lemma f64_le_trans: "f64_le x y \<Longrightarrow> f64_le y z \<Longrightarrow> f64_le x z"
  by (cases x; cases y; cases z) (auto simp: f64_le_def)

lemma f64_lt_asym: "f64_lt x y \<Longrightarrow> \<not> f64_lt y x"
  by (cases x; cases y) auto

lemma f64_not_lt: "x \<noteq> NaN \<Longrightarrow> y \<noteq> NaN \<Longrightarrow> \<not> f64_lt x y \<longleftrightarrow> f64_le y x"
  by (cases x; cases y) (auto simp: f64_le_def)

lemma f64_eq_iff: "x \<noteq> NaN \<Longrightarrow> f64_eq x y \<longleftrightarrow> x = y"
  by (cases x; cases y) auto

lemma f64_of_rat_not_NaN [simp]: "f64_of_rat q \<noteq> NaN"
  by (simp add: f64_of_rat_def Let_def)

lemma f64_of_rat_mono:
  assumes "p \<le> q"
  shows "f64_le (f64_of_rat p) (f64_of_rat q)"
proof -
  have pos: "f64_le (f64_of_rat p) (f64_of_rat q)" if "0 \<le> p" "p \<le> q" for p q
  proof (cases "p = 0")
    case True
    with that round_pos_nonneg [of q] show ?thesis
      by (auto simp: f64_of_rat_def Let_def f64_le_def)
  next
    case False
    with that have "round_pos p \<le> round_pos q" by (intro round_pos_mono) auto
    with False that show ?thesis by (auto simp: f64_of_rat_def Let_def f64_le_def)
  qed
  have neg: "f64_of_rat (- p) = f64_neg (f64_of_rat p)" for p
    by (auto simp: f64_of_rat_def Let_def)
  have flip: "f64_le (f64_neg y) (f64_neg x)" if "f64_le x y" for x y
    using that by (cases x; cases y) (auto simp: f64_le_def)
  consider "0 \<le> p" | "p < 0" "0 \<le> q" | "q < 0" using assms by linarith
  then show ?thesis
  proof cases
    case 1
    with assms show ?thesis by (intro pos) auto
  next
    case 2
    have "f64_le (f64_of_rat 0) (f64_of_rat q)" using 2 by (intro pos) auto
    moreover have "f64_le (f64_of_rat 0) (f64_of_rat (- p))" using 2 by (intro pos) auto
    then have "f64_le (f64_neg (f64_of_rat (- p))) (f64_neg (f64_of_rat 0))" by (rule flip)
    then have "f64_le (f64_of_rat p) (f64_of_rat 0)" using neg [of "- p"] neg [of 0] by simp
    ultimately show ?thesis by (blast intro: f64_le_trans)
  next
    case 3
    with assms have "f64_le (f64_of_rat (- q)) (f64_of_rat (- p))" by (intro pos) auto
    then have "f64_le (f64_neg (f64_of_rat (- p))) (f64_neg (f64_of_rat (- q)))" by (rule flip)
    then show ?thesis using neg [of "- p"] neg [of "- q"] by simp
  qed
qed

lemma f64_of_int_mono: "i \<le> j \<Longrightarrow> f64_le (f64_of_int i) (f64_of_int j)"
  by (simp add: f64_of_int_def f64_of_rat_mono)

lemma f64_to_int_mono:
  assumes "f64_le (Fin a) (Fin b)" "0 \<le> a"
  shows "f64_to_int (Fin a) \<le> f64_to_int (Fin b)"
  using assms by (auto simp: f64_le_def floor_mono)

lemma ParseInt_range: "ParseInt bits s = Some i \<Longrightarrow> - (2 ^ (bits - 1)) \<le> i \<and> i < 2 ^ (bits - 1)"
  by (auto simp: ParseInt_def Let_def split: prod.splits if_splits)

section \<open>Exact values\<close>

text \<open>
  Rationals with a small power of two as denominator and fewer than 53 bits are represented exactly.
  The equation is also how the model evaluates on such values.
\<close>

lemma round_pos_exact:
  assumes "0 < n" "n < 2 ^ 53" "j \<le> 1000"
  shows "round_pos (of_int n / 2 ^ j) = of_int n / 2 ^ j"
proof -
  let ?q = "of_int n / 2 ^ j :: rat"
  have q: "0 < ?q" using assms(1) by simp
  have pj: "pow2 (- int j) = 1 / 2 ^ j" by (cases "j = 0") (simp_all add: pow2_def)
  have "?q < pow2 (53 - int j)"
  proof -
    have "of_int n < (2 ^ 53 :: rat)"
      using assms(2) by (metis of_int_less_iff of_int_numeral of_int_power)
    then have "?q < 2 ^ 53 * (1 / 2 ^ j)" by (simp add: divide_strict_right_mono)
    also have "\<dots> = pow2 53 * pow2 (- int j)" using pow2_of_nat [of 53] pj by simp
    also have "\<dots> = pow2 (53 - int j)" using pow2_add [of 53 "- int j"] by simp
    finally show ?thesis .
  qed
  then have "pow2 (floorlog2 ?q) < pow2 (53 - int j)"
    using floorlog2_bounds(1) [OF q] by linarith
  then have "floorlog2 ?q < 53 - int j"
    using pow2_mono [of "53 - int j" "floorlog2 ?q"] by linarith
  then have u: "ulp_exp ?q \<le> - int j"
    using assms(3) by (simp add: ulp_exp_def)
  define u' where "u' = ulp_exp ?q"
  define k where "k = nat (- int j - u')"
  have "pow2 (- int j) = pow2 u' * 2 ^ k"
    using pow2_add [of u' "int k"] pow2_of_nat [of k] u unfolding k_def u'_def by simp
  moreover have "?q = of_int n * pow2 (- int j)" by (simp add: pj)
  ultimately have split: "?q = of_int (n * 2 ^ k) * pow2 u'" by simp
  then have "?q / pow2 u' = of_int (n * 2 ^ k)"
    by (metis nonzero_mult_div_cancel_right pow2_nonzero)
  then have "round_pos ?q = of_int (n * 2 ^ k) * pow2 u'"
    unfolding round_pos_def Let_def u'_def [symmetric] by (simp only: round_half_even_int)
  then show ?thesis using split by simp
qed

definition f64_round :: "rat \<Rightarrow> float64" where
  "f64_round = f64_of_rat"

lemma f64_of_rat_exact:
  assumes "\<bar>n\<bar> < 2 ^ 53" "j \<le> 1000"
  shows "f64_of_rat (of_int n / 2 ^ j) = Fin (of_int n / 2 ^ j)"
proof (cases "n = 0")
  case True
  then show ?thesis by (simp add: f64_of_rat_def)
next
  case False
  let ?q = "of_int n / 2 ^ j :: rat"
  have a: "\<bar>?q\<bar> = of_int \<bar>n\<bar> / 2 ^ j" by simp
  have r: "round_pos \<bar>?q\<bar> = \<bar>?q\<bar>"
    unfolding a using False assms by (intro round_pos_exact) simp_all
  have "\<bar>?q\<bar> \<le> of_int \<bar>n\<bar>"
    unfolding a by (simp add: divide_le_eq mult_le_cancel_left1)
  moreover have "of_int \<bar>n\<bar> < (2 ^ 53 :: rat)"
    using assms(1) by (metis of_int_less_iff of_int_numeral of_int_power)
  moreover have "(2 ^ 53 :: rat) < 2 ^ 1024" by (rule power_strict_increasing) simp_all
  ultimately have "\<not> 2 ^ 1024 \<le> \<bar>?q\<bar>" by linarith
  moreover have "?q \<noteq> 0" "(if ?q < 0 then - \<bar>?q\<bar> else \<bar>?q\<bar>) = ?q"
    using False by (simp_all add: abs_if)
  ultimately show ?thesis
    unfolding f64_of_rat_def Let_def r by (simp only: if_False)
qed

lemma f64_of_rat_code [code]:
  "f64_of_rat q = (let (n, d) = quotient_of q
     in if \<bar>n\<bar> < 9007199254740992 \<and>
           (d = 1 \<or> d = 2 \<or> d = 4 \<or> d = 8 \<or> d = 16 \<or> d = 32 \<or> d = 64 \<or> d = 128 \<or> d = 256 \<or> d = 512 \<or> d = 1024)
        then Fin q else f64_round q)"
proof -
  obtain n d where nd: "quotient_of q = (n, d)" by force
  then have q: "q = of_int n / of_int d" by (rule quotient_of_div)
  have "f64_of_rat q = Fin q" if "\<bar>n\<bar> < 9007199254740992" "d = 2 ^ j" "j \<le> 10" for j
    using f64_of_rat_exact [of n j] that q by simp
  from this [of 0] this [of 1] this [of 2] this [of 3] this [of 4] this [of 5] this [of 6] this [of 7]
    this [of 8] this [of 9] this [of 10]
  show ?thesis
    by (simp add: nd f64_round_def) blast
qed

lemma f64_round_code [code]:
  "f64_round q = (if q = 0 then Fin 0
     else let v = round_pos \<bar>q\<bar>
          in if 2 ^ 1024 \<le> v then Inf (q < 0) else Fin (if q < 0 then - v else v))"
  by (simp only: f64_round_def f64_of_rat_def)

end
