(* ===== verification/Api_Types.thy ===== *)
theory Api_Types
  imports Float64
begin

text \<open>
  The wire types of \<open>pkg/api/v1\<close> and the functions that package defines on them.

  Structs are records whose fields carry a short prefix of the struct's name; slices are lists (a
  nil slice is the empty one); pointers to optional data and maps whose nil-ness the code tests are
  \<open>option\<close>s.  Code outside the repository is a parameter: the record \<open>golib\<close> bundles the UUID
  library's name-based generator and its URL name space, and Go's regular-expression compiler,
  which returns a matcher or fails.
\<close>

section \<open>Libraries the code calls\<close>

record golib =
  NewSHA1 :: "string \<Rightarrow> string \<Rightarrow> string"
  NameSpaceURL :: string
  regexpCompile :: "string \<Rightarrow> (string \<Rightarrow> bool) option"

section \<open>Constants\<close>

definition NodeFlagEvicted :: string where "NodeFlagEvicted = ''EVICTED''"
definition NodeFlagLost :: string where "NodeFlagLost = ''LOST''"
definition ResourceFlagDiskless :: string where "ResourceFlagDiskless = ''DISKLESS''"
definition ResourceFlagInactive :: string where "ResourceFlagInactive = ''INACTIVE''"
definition ResourceFlagTieBreaker :: string where "ResourceFlagTieBreaker = ''TIE_BREAKER''"

definition StoragePoolKindLVM :: string where "StoragePoolKindLVM = ''LVM''"
definition StoragePoolKindLVMThin :: string where "StoragePoolKindLVMThin = ''LVM_THIN''"
definition StoragePoolKindZFS :: string where "StoragePoolKindZFS = ''ZFS''"
definition StoragePoolKindZFSThin :: string where "StoragePoolKindZFSThin = ''ZFS_THIN''"
definition StoragePoolKindFile :: string where "StoragePoolKindFile = ''FILE''"
definition StoragePoolKindFileThin :: string where "StoragePoolKindFileThin = ''FILE_THIN''"
definition StoragePoolKindDiskless :: string where "StoragePoolKindDiskless = ''DISKLESS''"
definition StoragePoolKindRemoteSPDK :: string where "StoragePoolKindRemoteSPDK = ''REMOTE_SPDK''"

definition LayerKindDRBD :: string where "LayerKindDRBD = ''DRBD''"
definition LayerKindLUKS :: string where "LayerKindLUKS = ''LUKS''"
definition LayerKindStorage :: string where "LayerKindStorage = ''STORAGE''"

lemmas flag_defs = NodeFlagEvicted_def NodeFlagLost_def ResourceFlagDiskless_def
  ResourceFlagInactive_def ResourceFlagTieBreaker_def

lemmas kind_defs = StoragePoolKindLVM_def StoragePoolKindLVMThin_def StoragePoolKindZFS_def
  StoragePoolKindZFSThin_def StoragePoolKindFile_def StoragePoolKindFileThin_def
  StoragePoolKindDiskless_def StoragePoolKindRemoteSPDK_def

lemmas layer_defs = LayerKindDRBD_def LayerKindLUKS_def LayerKindStorage_def

section \<open>Structs\<close>

record NetInterface =
  ni_UUID :: string
  ni_Name :: string
  ni_Address :: string
  ni_SatellitePort :: int
  ni_SatelliteEncryptionType :: string
  ni_IsActive :: bool

record Node =
  n_Name :: string
  n_Type :: string
  n_UUID :: string
  n_Flags :: "string list"
  n_Props :: props
  n_NetInterfaces :: "NetInterface list"
  n_ConnectionStatus :: string
  n_ResourceLayers :: "string list"
  n_StorageProviders :: "string list"
  n_UnsupportedLayers :: "(string, string list) gomap option"
  n_UnsupportedProviders :: "(string, string list) gomap option"

record APICallRc =
  rc_RetCode :: int
  rc_Message :: string
  rc_Cause :: string
  rc_Details :: string
  rc_Correc :: string
  rc_ObjRefs :: props
  rc_ErrorRep :: string

record StoragePool =
  sp_StoragePoolName :: string
  sp_NodeName :: string
  sp_ProviderKind :: string
  sp_Props :: props
  sp_StaticTraits :: props
  sp_FreeCapacity :: int
  sp_TotalCapacity :: int
  sp_FreeSpaceMgrName :: string
  sp_SharedSpaceID :: string
  sp_Reports :: "APICallRc list"
  sp_SupportsSnapshot :: bool
  sp_ExternalLocking :: bool
  sp_UUID :: string
  sp_State :: string
  sp_PoolMissing :: bool

record DrbdConnection =
  dc_Connected :: bool
  dc_Message :: string
  dc_ReplicationState :: string

record DrbdVolume =
  dv_VolumeNumber :: int
  dv_DiskState :: string
  dv_DevicePath :: string

record DrbdResourceLayer =
  drl_TCPPorts :: "int list"
  drl_Connections :: "(string, DrbdConnection) gomap"
  drl_DrbdVolumes :: "DrbdVolume list"

record StorageVolumeLayer =
  svl_VolumeNumber :: int
  svl_DevicePath :: string
  svl_AllocatedSizeKib :: int
  svl_UsableSizeKib :: int
  svl_DiskState :: string

record StorageResourceLayer =
  srl_ProviderKind :: string
  srl_StorageVolumes :: "StorageVolumeLayer list"

datatype json = JNull | JBool bool | JNum float64 | JStr string | JArr "json list"
  | JObj "(string \<times> json) list"

datatype ResourceLayer = ResourceLayer
  (rl_Type: string) (rl_NameSuffix: string) (rl_Children: "ResourceLayer list")
  (rl_Drbd: "DrbdResourceLayer option") (rl_Storage: "StorageResourceLayer option")
  (rl_Data: "(string \<times> json) list")

record ReplicationState =
  rs_ReplicationState :: string
  rs_DonePercentage :: "float64 option"

record VolumeState =
  vs_DiskState :: string
  vs_CurrentGi :: string
  vs_OutOfSyncKib :: int
  vs_ReplicationStates :: "(string, ReplicationState) gomap"

record VolumeLayerData =
  vld_Type :: string

record Volume =
  v_VolumeNumber :: int
  v_StoragePool :: string
  v_DevicePath :: string
  v_AllocatedKib :: int
  v_UsableKib :: int
  v_Props :: props
  v_Flags :: "string list"
  v_UUID :: string
  v_State :: VolumeState
  v_LayerDataList :: "VolumeLayerData list"

record ResourceState =
  st_InUse :: "bool option"
  st_DrbdState :: string
  st_ToggleDiskRetries :: int
  st_Suspended :: "bool option"

record VolumeObservation =
  vo_VolumeNumber :: int
  vo_State :: VolumeState

record EffectivePropEntry =
  ep_Value :: string
  ep_Scope :: string

record Resource =
  r_Name :: string
  r_NodeName :: string
  r_Props :: props
  r_Flags :: "string list"
  r_State :: ResourceState
  r_UUID :: string
  r_LayerObject :: "ResourceLayer option"
  r_Annotations :: "props option"
  r_ToggleDiskCancel :: bool
  r_Volumes :: "Volume list"
  r_EffectiveProps :: "(string, EffectivePropEntry) gomap"
  r_CreateTimestamp :: int

record VolumeDefinition =
  vd_VolumeNumber :: int
  vd_SizeKib :: int
  vd_Props :: props
  vd_Flags :: "string list"
  vd_UUID :: string

record ResourceDefinition =
  rd_Name :: string
  rd_ExternalName :: string
  rd_ResourceGroupName :: string
  rd_Props :: props
  rd_Annotations :: "props option"
  rd_Flags :: "string list"
  rd_LayerData :: "ResourceLayer list"
  rd_LayerStack :: "string list"
  rd_UUID :: string
  rd_VolumeDefinitions :: "VolumeDefinition list"
  rd_EffectiveProps :: "(string, EffectivePropEntry) gomap"

record AutoSelectFilter =
  PlaceCount :: int
  AdditionalPlaceCount :: int
  NodeNameList :: "string list"
  FilterStoragePool :: string
  StoragePoolList :: "string list"
  StoragePoolDisklessList :: "string list"
  NotPlaceWithRsc :: "string list"
  NotPlaceWithRscRegex :: string
  ReplicasOnSame :: "string list"
  ReplicasOnDifferent :: "string list"
  XReplicasOnDifferentMap :: "(string, int) gomap"
  FilterLayerStack :: "string list"
  ProviderList :: "string list"
  DisklessOnRemaining :: bool
  OverrideVlmID :: string

record VolumeGroup =
  vg_VolumeNumber :: int
  vg_Props :: props
  vg_Flags :: "string list"
  vg_UUID :: string

record ResourceGroup =
  rg_Name :: string
  rg_Description :: string
  rg_Props :: props
  rg_Annotations :: "props option"
  rg_SelectFilter :: AutoSelectFilter
  rg_VolumeGroups :: "VolumeGroup list"
  rg_UUID :: string
  rg_PeerSlots :: int
  rg_OverrideProps :: props
  rg_DeleteProps :: "string list"
  rg_DeleteNamespace :: "string list"

record SnapshotVolumeDef =
  svd_VolumeNumber :: int
  svd_SizeKib :: int
  svd_VolumeDefinitionProps :: props

record SnapshotVolume =
  sv_VolumeNumber :: int
  sv_State :: string

record SnapshotPerNode =
  spn_SnapshotName :: string
  spn_NodeName :: string
  spn_CreateTimestamp :: int
  spn_Flags :: "string list"
  spn_SnapshotVolumes :: "SnapshotVolume list"
  spn_UUID :: string

record Snapshot =
  sn_Name :: string
  sn_ResourceName :: string
  sn_Nodes :: "string list"
  sn_Props :: props
  sn_Annotations :: "props option"
  sn_Flags :: "string list"
  sn_VolumeDefinitions :: "SnapshotVolumeDef list"
  sn_Snapshots :: "SnapshotPerNode list"
  sn_SnapshotDefinitionProps :: props
  sn_ResourceDefinitionProps :: props
  sn_UUID :: string
  sn_GroupID :: string
  sn_GroupSize :: int

record PhysicalDeviceAttachTo =
  at_StoragePoolName :: string
  at_ProviderKind :: string
  at_VGName :: string
  at_ThinPoolName :: string
  at_ZPoolName :: string
  at_Directory :: string
  at_Wipe :: bool

record PhysicalDevice =
  pd_Name :: string
  pd_NodeName :: string
  pd_StableID :: string
  pd_DevicePath :: string
  pd_CurrentDevPath :: string
  pd_SizeBytes :: int
  pd_Model :: string
  pd_Serial :: string
  pd_Rotational :: "bool option"
  pd_Transport :: string
  pd_Phase :: string
  pd_AttachTo :: "PhysicalDeviceAttachTo option"
  pd_Free :: "bool option"
  pd_FreeReason :: string
  pd_FreeMessage :: string

text \<open>The zero value of a \<open>Resource\<close>, which composite literals extend.\<close>

definition zero_ResourceState :: ResourceState where
  "zero_ResourceState = \<lparr>st_InUse = None, st_DrbdState = [], st_ToggleDiskRetries = 0, st_Suspended = None\<rparr>"

definition zero_Resource :: Resource where
  "zero_Resource = \<lparr>r_Name = [], r_NodeName = [], r_Props = [], r_Flags = [],
     r_State = zero_ResourceState, r_UUID = [], r_LayerObject = None, r_Annotations = None,
     r_ToggleDiskCancel = False, r_Volumes = [], r_EffectiveProps = [], r_CreateTimestamp = 0\<rparr>"

section \<open>Operations on the structs\<close>

definition DefaultSatellitePort :: int where "DefaultSatellitePort = 3366"
definition DefaultSatelliteEncryptionType :: string where
  "DefaultSatelliteEncryptionType = ''PLAIN''"

definition SyntheticNetInterfaceUUID :: "golib \<Rightarrow> string \<Rightarrow> string \<Rightarrow> string" where
  "SyntheticNetInterfaceUUID L nodeName ifaceName =
     NewSHA1 L (NameSpaceURL L) (''blockstor:netif:'' @ nodeName @ '':'' @ ifaceName)"

definition default_net_iface :: "golib \<Rightarrow> string \<Rightarrow> nat \<Rightarrow> NetInterface \<Rightarrow> NetInterface" where
  "default_net_iface L nodeName i ni =
     (if ni_Address ni = [] then ni
      else ni\<lparr>ni_SatellitePort := (if ni_SatellitePort ni = 0 then DefaultSatellitePort
                                   else ni_SatellitePort ni),
              ni_SatelliteEncryptionType := (if ni_SatelliteEncryptionType ni = []
                                   then DefaultSatelliteEncryptionType
                                   else ni_SatelliteEncryptionType ni),
              ni_IsActive := (i = 0),
              ni_UUID := (if ni_UUID ni = [] then SyntheticNetInterfaceUUID L nodeName (ni_Name ni)
                          else ni_UUID ni)\<rparr>)"

definition DefaultNetInterfaceFields :: "golib \<Rightarrow> string \<Rightarrow> NetInterface list \<Rightarrow> NetInterface list" where
  "DefaultNetInterfaceFields L nodeName ifaces =
     map (\<lambda>(i, ni). default_net_iface L nodeName i ni) (List.enumerate 0 ifaces)"

definition nodeNamespaceUUID :: "golib \<Rightarrow> string" where
  "nodeNamespaceUUID L = NewSHA1 L (NameSpaceURL L) ''blockstor.cozystack.io/node''"

definition StableNodeUUID :: "golib \<Rightarrow> string \<Rightarrow> string" where
  "StableNodeUUID L name = NewSHA1 L (nodeNamespaceUUID L) name"

definition SupportedResourceLayers :: "string list" where
  "SupportedResourceLayers = [''DRBD'', ''STORAGE'', ''LUKS'']"

definition SupportedStorageProviders :: "string list" where
  "SupportedStorageProviders =
     [''LVM'', ''LVM_THIN'', ''ZFS'', ''ZFS_THIN'', ''FILE'', ''FILE_THIN'', ''DISKLESS'']"

definition unsupportedLayerReason :: string where
  "unsupportedLayerReason = ''not implemented in blockstor satellite''"

definition unsupportedProviderReason :: string where
  "unsupportedProviderReason = ''scoped out of blockstor (upstream-only provider)''"

definition SynthesizeNodeCapabilities :: "golib \<Rightarrow> Node \<Rightarrow> Node" where
  "SynthesizeNodeCapabilities L n =
     (if n_Name n = [] then n
      else let p1 = (if gm_has (n_Props n) ''NodeUname'' then n_Props n
                     else AList.update ''NodeUname'' (TrimSpace (n_Name n)) (n_Props n));
               p2 = (if gm_has p1 ''CurStltConnName'' then p1
                     else AList.update ''CurStltConnName'' ''default'' p1)
           in n\<lparr>n_UUID := (if n_UUID n = [] then StableNodeUUID L (n_Name n) else n_UUID n),
                n_Props := p2,
                n_ResourceLayers := (if n_ResourceLayers n = [] then SupportedResourceLayers
                                     else n_ResourceLayers n),
                n_StorageProviders := (if n_StorageProviders n = [] then SupportedStorageProviders
                                       else n_StorageProviders n),
                n_UnsupportedLayers := (case n_UnsupportedLayers n of
                    Some m \<Rightarrow> Some m
                  | None \<Rightarrow> Some [(''CACHE'', [unsupportedLayerReason]),
                                  (''WRITECACHE'', [unsupportedLayerReason]),
                                  (''NVME'', [unsupportedLayerReason])]),
                n_UnsupportedProviders := (case n_UnsupportedProviders n of
                    Some m \<Rightarrow> Some m
                  | None \<Rightarrow> Some [(''OPENFLEX_TARGET'', [unsupportedProviderReason]),
                                  (''REMOTE_SPDK'', [unsupportedProviderReason]),
                                  (''SPDK'', [unsupportedProviderReason]),
                                  (''STORAGE_SPACES'', [unsupportedProviderReason]),
                                  (''STORAGE_SPACES_THIN'', [unsupportedProviderReason]),
                                  (''EBS_TARGET'', [unsupportedProviderReason]),
                                  (''EBS_INIT'', [unsupportedProviderReason])])\<rparr>)"

fun promote_flags_loop :: "bool \<Rightarrow> string list \<Rightarrow> string list \<Rightarrow> bool \<Rightarrow> string list \<times> bool" where
  "promote_flags_loop wantDiskful [] keep was = (keep, was)"
| "promote_flags_loop wantDiskful (flag # rest) keep was =
     (if flag = ResourceFlagTieBreaker then promote_flags_loop wantDiskful rest keep True
      else if flag = ResourceFlagDiskless then
        (if wantDiskful then promote_flags_loop wantDiskful rest keep True
         else promote_flags_loop wantDiskful rest (keep @ [flag]) True)
      else promote_flags_loop wantDiskful rest (keep @ [flag]) was)"

definition PromoteWitnessFlags :: "string list \<Rightarrow> bool \<Rightarrow> string list \<times> bool" where
  "PromoteWitnessFlags flags wantDiskful = promote_flags_loop wantDiskful flags [] False"

definition DefaultLayerStack :: "string list" where
  "DefaultLayerStack = [LayerKindDRBD, LayerKindStorage]"

definition ResolveLayerStack :: "string list \<Rightarrow> string list \<Rightarrow> string list" where
  "ResolveLayerStack rdLayers rgLayers =
     (if rdLayers \<noteq> [] then rdLayers else if rgLayers \<noteq> [] then rgLayers else DefaultLayerStack)"

fun LayerInStack :: "string list \<Rightarrow> string \<Rightarrow> bool" where
  "LayerInStack [] kind = False"
| "LayerInStack (s # ss) kind = (if EqualFold s kind then True else LayerInStack ss kind)"

fun LacksLayerOf :: "string list \<Rightarrow> string list \<Rightarrow> bool" where
  "LacksLayerOf stack [] = False"
| "LacksLayerOf stack (layer # ls) = (if \<not> LayerInStack stack layer then True else LacksLayerOf stack ls)"

definition SameLayerSet :: "string list \<Rightarrow> string list \<Rightarrow> bool" where
  "SameLayerSet have_ls want_ls =
     (list_all (LayerInStack want_ls) have_ls \<and> list_all (LayerInStack have_ls) want_ls)"

definition ContainsReplicationLayer :: "string list \<Rightarrow> bool" where
  "ContainsReplicationLayer stack = LayerInStack stack LayerKindDRBD"

fun index_layers :: "ResourceLayer \<Rightarrow> (string, ResourceLayer) gomap \<Rightarrow> (string, ResourceLayer) gomap" where
  "index_layers (ResourceLayer t ns cs d s x) out =
     (let out' = AList.update t (ResourceLayer t ns cs d s x) out
      in case cs of [] \<Rightarrow> out' | c # _ \<Rightarrow> index_layers c out')"

definition indexLayerByType :: "ResourceLayer option \<Rightarrow> (string, ResourceLayer) gomap" where
  "indexLayerByType layer = (case layer of None \<Rightarrow> [] | Some l \<Rightarrow> index_layers l [])"

definition layer_with_payload :: "(string, ResourceLayer) gomap \<Rightarrow> string \<Rightarrow> ResourceLayer list \<Rightarrow> ResourceLayer" where
  "layer_with_payload prior t children =
     (case map_of prior t of
        None \<Rightarrow> ResourceLayer t [] children None None []
      | Some p \<Rightarrow> ResourceLayer t (rl_NameSuffix p) children (rl_Drbd p) (rl_Storage p) (rl_Data p))"

fun rebuild_chain :: "(string, ResourceLayer) gomap \<Rightarrow> string list \<Rightarrow> ResourceLayer list" where
  "rebuild_chain prior [] = []"
| "rebuild_chain prior (t # ts) = [layer_with_payload prior t (rebuild_chain prior ts)]"

definition rebuildLayerObject :: "ResourceLayer option \<Rightarrow> string list \<Rightarrow> ResourceLayer option" where
  "rebuildLayerObject existing stack =
     (case stack of [] \<Rightarrow> existing
      | t # ts \<Rightarrow> let prior = indexLayerByType existing
                  in Some (layer_with_payload prior t (rebuild_chain prior ts)))"

definition ApplyLayerStack :: "Resource option \<Rightarrow> string list \<Rightarrow> Resource option" where
  "ApplyLayerStack r stack =
     (case r of None \<Rightarrow> None
      | Some res \<Rightarrow> if stack = [] then Some res
                    else Some (res\<lparr>r_LayerObject := rebuildLayerObject (r_LayerObject res) stack\<rparr>))"

definition volumeLayerDataFromStack :: "string list \<Rightarrow> VolumeLayerData list" where
  "volumeLayerDataFromStack stack = map (\<lambda>kind. \<lparr>vld_Type = kind\<rparr>) stack"

definition ApplyLayerStackToVolumes :: "Volume list \<Rightarrow> string list \<Rightarrow> Volume list" where
  "ApplyLayerStackToVolumes vols stack =
     (if vols = [] \<or> stack = [] then vols
      else map (\<lambda>v. v\<lparr>v_LayerDataList := volumeLayerDataFromStack stack\<rparr>) vols)"

section \<open>Their behaviour\<close>

lemma promote_flags_loop_spec:
  "promote_flags_loop w flags keep was =
     (keep @ filter (\<lambda>f. f \<noteq> ResourceFlagTieBreaker \<and> (w \<longrightarrow> f \<noteq> ResourceFlagDiskless)) flags,
      was \<or> ResourceFlagTieBreaker \<in> set flags \<or> ResourceFlagDiskless \<in> set flags)"
  by (induction flags arbitrary: keep was) (auto simp: flag_defs)

lemma PromoteWitnessFlags_spec:
  "PromoteWitnessFlags flags w =
     (filter (\<lambda>f. f \<noteq> ResourceFlagTieBreaker \<and> (w \<longrightarrow> f \<noteq> ResourceFlagDiskless)) flags,
      ResourceFlagTieBreaker \<in> set flags \<or> ResourceFlagDiskless \<in> set flags)"
  by (simp add: PromoteWitnessFlags_def promote_flags_loop_spec)

lemma LayerInStack_iff: "LayerInStack stack kind \<longleftrightarrow> ToLower kind \<in> ToLower ` set stack"
  by (induction stack) (auto simp: EqualFold_def)

lemma LacksLayerOf_iff: "LacksLayerOf stack grp \<longleftrightarrow> \<not> ToLower ` set grp \<subseteq> ToLower ` set stack"
  by (induction grp) (auto simp: LayerInStack_iff)

lemma SameLayerSet_iff: "SameLayerSet xs ys \<longleftrightarrow> ToLower ` set xs = ToLower ` set ys"
  by (auto simp: SameLayerSet_def list_all_iff LayerInStack_iff)

text \<open>The chain of layer types below a layer object, first children only.\<close>

fun layer_types :: "ResourceLayer \<Rightarrow> string list" where
  "layer_types (ResourceLayer t ns cs d s x) = t # (case cs of [] \<Rightarrow> [] | c # _ \<Rightarrow> layer_types c)"

lemma layer_types_with_payload:
  "layer_types (layer_with_payload prior t cs) = t # (case cs of [] \<Rightarrow> [] | c # _ \<Rightarrow> layer_types c)"
  by (simp add: layer_with_payload_def split: option.split)

lemma layer_types_rebuild_chain:
  "(case rebuild_chain prior ts of [] \<Rightarrow> [] | c # _ \<Rightarrow> layer_types c) = ts"
  by (induction ts) (simp_all add: layer_types_with_payload)

lemma rebuildLayerObject_types:
  "stack \<noteq> [] \<Longrightarrow> map_option layer_types (rebuildLayerObject existing stack) = Some stack"
  by (cases stack)
    (simp_all add: rebuildLayerObject_def Let_def layer_types_with_payload layer_types_rebuild_chain)

lemma SynthesizeNodeCapabilities_keeps [simp]:
  "n_Name (SynthesizeNodeCapabilities L n) = n_Name n"
  "n_Flags (SynthesizeNodeCapabilities L n) = n_Flags n"
  by (simp_all add: SynthesizeNodeCapabilities_def Let_def)

lemma SynthesizeNodeCapabilities_props:
  assumes "k \<noteq> ''NodeUname''" "k \<noteq> ''CurStltConnName''"
  shows "map_of (n_Props (SynthesizeNodeCapabilities L n)) k = map_of (n_Props n) k"
  using assms by (simp add: SynthesizeNodeCapabilities_def Let_def gomap_simps)

end
