(* ===== verification/Store_Spec.thy ===== *)
theory Store_Spec
  imports Prelude
begin

text \<open>
  What a table of the metadata store promises its clients, independent of how it keeps its rows.

  The contract is an abstract machine over a partial map from keys to rows: \<open>Create\<close> refuses a key
  that exists, \<open>Update\<close> and \<open>Delete\<close> refuse one that does not, \<open>Update\<close> may refuse or complete the
  new row from the stored one, and a refused operation changes nothing.  The locale \<open>row_store\<close>
  says what it means for concrete operations to implement that machine; its lemmas (a run of any
  sequence of operations refines the machine, lookups after an operation, the listing) hold for
  every table that is shown to be an instance.  \<open>patch_store\<close> adds the read-modify-write call.
\<close>

section \<open>The abstract machine\<close>

datatype ('k, 'v) row_op = RCreate 'v | RUpdate 'v | RDelete 'k

fun spec_step ::
  "('v \<Rightarrow> 'k) \<Rightarrow> ('v \<Rightarrow> 'v \<Rightarrow> err + 'v) \<Rightarrow> ('k \<Rightarrow> 'v option) \<Rightarrow> ('k, 'v) row_op \<Rightarrow> err + ('k \<Rightarrow> 'v option)"
where
  "spec_step key upd m (RCreate v) =
     (case m (key v) of Some _ \<Rightarrow> Inl ErrAlreadyExists | None \<Rightarrow> Inr (m(key v \<mapsto> v)))"
| "spec_step key upd m (RUpdate v) =
     (case m (key v) of None \<Rightarrow> Inl ErrNotFound
      | Some prev \<Rightarrow> (case upd prev v of Inl e \<Rightarrow> Inl e | Inr w \<Rightarrow> Inr (m(key v \<mapsto> w))))"
| "spec_step key upd m (RDelete k) =
     (case m k of None \<Rightarrow> Inl ErrNotFound | Some _ \<Rightarrow> Inr (m(k := None)))"

text \<open>A run performs every operation in turn and collects the errors; a refused one is skipped.\<close>

fun run_ops :: "('s \<Rightarrow> 'o \<Rightarrow> err + 's) \<Rightarrow> 's \<Rightarrow> 'o list \<Rightarrow> 's \<times> err option list" where
  "run_ops step s [] = (s, [])"
| "run_ops step s (x # xs) =
     (case step s x of
        Inl e \<Rightarrow> (let (s', es) = run_ops step s xs in (s', Some e # es))
      | Inr s1 \<Rightarrow> (let (s', es) = run_ops step s1 xs in (s', None # es)))"

text \<open>The concrete step a table offers, out of its three calls.\<close>

fun table_step ::
  "('t \<Rightarrow> 'v \<Rightarrow> err + 't) \<Rightarrow> ('t \<Rightarrow> 'v \<Rightarrow> err + 't) \<Rightarrow> ('t \<Rightarrow> 'k \<Rightarrow> err + 't) \<Rightarrow>
   't \<Rightarrow> ('k, 'v) row_op \<Rightarrow> err + 't"
where
  "table_step create update delete t (RCreate v) = create t v"
| "table_step create update delete t (RUpdate v) = update t v"
| "table_step create update delete t (RDelete k) = delete t k"

text \<open>\<open>refines wft absm c a\<close>: the concrete result \<open>c\<close> and the abstract one \<open>a\<close> agree.\<close>

fun refines :: "('t \<Rightarrow> bool) \<Rightarrow> ('t \<Rightarrow> 'm) \<Rightarrow> err + 't \<Rightarrow> err + 'm \<Rightarrow> bool" where
  "refines wft absm (Inl e) (Inl e') = (e = e')"
| "refines wft absm (Inr t) (Inr m) = (wft t \<and> absm t = m)"
| "refines wft absm (Inl e) (Inr m) = False"
| "refines wft absm (Inr t) (Inl e) = False"

section \<open>Tables\<close>

locale row_store =
  fixes key :: "'v \<Rightarrow> 'k"
    and upd :: "'v \<Rightarrow> 'v \<Rightarrow> err + 'v"
    and wft :: "'t \<Rightarrow> bool"
    and absm :: "'t \<Rightarrow> 'k \<Rightarrow> 'v option"
    and create :: "'t \<Rightarrow> 'v \<Rightarrow> err + 't"
    and update :: "'t \<Rightarrow> 'v \<Rightarrow> err + 't"
    and delete :: "'t \<Rightarrow> 'k \<Rightarrow> err + 't"
  assumes create_refines:
      "wft t \<Longrightarrow> refines wft absm (create t v) (spec_step key upd (absm t) (RCreate v))"
    and update_refines:
      "wft t \<Longrightarrow> refines wft absm (update t v) (spec_step key upd (absm t) (RUpdate v))"
    and delete_refines:
      "wft t \<Longrightarrow> refines wft absm (delete t k) (spec_step key upd (absm t) (RDelete k))"
begin

lemma step_refines:
  assumes "wft t"
  shows "refines wft absm (table_step create update delete t x) (spec_step key upd (absm t) x)"
  using assms by (cases x) (simp_all only: table_step.simps create_refines update_refines delete_refines)

lemma run_refines:
  assumes "wft t"
  shows "wft (fst (run_ops (table_step create update delete) t xs)) \<and>
         absm (fst (run_ops (table_step create update delete) t xs)) =
           fst (run_ops (spec_step key upd) (absm t) xs) \<and>
         snd (run_ops (table_step create update delete) t xs) =
           snd (run_ops (spec_step key upd) (absm t) xs)"
  using assms
proof (induction xs arbitrary: t)
  case Nil
  then show ?case by simp
next
  case (Cons x xs)
  note r = step_refines [OF Cons.prems, of x]
  show ?case
  proof (cases "table_step create update delete t x")
    case (Inl e)
    then have "spec_step key upd (absm t) x = Inl e"
      using r by (cases "spec_step key upd (absm t) x") simp_all
    then show ?thesis
      using Inl Cons.IH [OF Cons.prems] by (simp add: split_beta)
  next
    case (Inr t1)
    then have "spec_step key upd (absm t) x = Inr (absm t1)" and "wft t1"
      using r by (cases "spec_step key upd (absm t) x"; simp)+
    then show ?thesis
      using Inr Cons.IH [of t1] by (simp add: split_beta)
  qed
qed

lemma create_ok: "wft t \<Longrightarrow> absm t (key v) = None \<Longrightarrow> \<exists>t'. create t v = Inr t' \<and> wft t' \<and> absm t' = (absm t)(key v \<mapsto> v)"
  using create_refines [of t v] by (cases "create t v") simp_all

lemma create_dup: "wft t \<Longrightarrow> absm t (key v) = Some w \<Longrightarrow> create t v = Inl ErrAlreadyExists"
  using create_refines [of t v] by (cases "create t v") simp_all

lemma create_Inr:
  assumes "wft t" and "create t v = Inr t'"
  shows "wft t' \<and> absm t (key v) = None \<and> absm t' = (absm t)(key v \<mapsto> v)"
  using create_refines [OF assms(1), of v] assms(2) by (cases "absm t (key v)") simp_all

lemma update_missing: "wft t \<Longrightarrow> absm t (key v) = None \<Longrightarrow> update t v = Inl ErrNotFound"
  using update_refines [of t v] by (cases "update t v") simp_all

lemma delete_Inr:
  assumes "wft t" and "delete t k = Inr t'"
  shows "wft t' \<and> absm t k \<noteq> None \<and> absm t' = (absm t)(k := None)"
  using delete_refines [OF assms(1), of k] assms(2) by (cases "absm t k") simp_all

lemma delete_missing: "wft t \<Longrightarrow> absm t k = None \<Longrightarrow> delete t k = Inl ErrNotFound"
  using delete_refines [of t k] by (cases "delete t k") simp_all

text \<open>Creating a row and deleting it again gives the table back, for every reader.\<close>

lemma create_delete:
  assumes "wft t" and "create t v = Inr t1"
  shows "\<exists>t2. delete t1 (key v) = Inr t2 \<and> wft t2 \<and> absm t2 = absm t"
proof -
  have 1: "wft t1" "absm t (key v) = None" "absm t1 = (absm t)(key v \<mapsto> v)"
    using create_Inr [OF assms] by simp_all
  have "refines wft absm (delete t1 (key v)) (Inr ((absm t1)(key v := None)))"
    using delete_refines [OF 1(1), of "key v"] 1(3) by simp
  then show ?thesis
    using 1 by (cases "delete t1 (key v)") (auto simp: fun_upd_idem_iff)
qed

end

text \<open>
  The read-modify-write call: it hands a private copy of the row to a mutator and stores what the
  mutator returns, completed from the previous row, unless the mutator refuses.  \<open>upd\<close>'s
  counterpart \<open>carry\<close> completes the row.  The key stays consistent as long as the mutator does not
  rename the row.
\<close>

locale patch_store = row_store key upd wft absm create update delete
  for key :: "'v \<Rightarrow> 'k"
    and upd :: "'v \<Rightarrow> 'v \<Rightarrow> err + 'v"
    and wft :: "'t \<Rightarrow> bool"
    and absm :: "'t \<Rightarrow> 'k \<Rightarrow> 'v option"
    and create :: "'t \<Rightarrow> 'v \<Rightarrow> err + 't"
    and update :: "'t \<Rightarrow> 'v \<Rightarrow> err + 't"
    and delete :: "'t \<Rightarrow> 'k \<Rightarrow> err + 't" +
  fixes carry :: "'v \<Rightarrow> 'v \<Rightarrow> 'v"
    and patch :: "'t \<Rightarrow> 'k \<Rightarrow> ('v \<Rightarrow> err + 'v) \<Rightarrow> err + 't"
  assumes patch_missing: "wft t \<Longrightarrow> absm t k = None \<Longrightarrow> patch t k f = Inl ErrNotFound"
    and patch_refused: "wft t \<Longrightarrow> absm t k = Some v \<Longrightarrow> f v = Inl e \<Longrightarrow> patch t k f = Inl e"
    and patch_done: "wft t \<Longrightarrow> absm t k = Some v \<Longrightarrow> f v = Inr w \<Longrightarrow> key w = k \<Longrightarrow>
      \<exists>t'. patch t k f = Inr t' \<and> wft t' \<and> absm t' = (absm t)(k \<mapsto> carry v w)"
begin

lemma patch_Inr:
  assumes "wft t" and "patch t k f = Inr t'"
    and "\<And>v w. f v = Inr w \<Longrightarrow> key w = key v"
    and "\<And>v. absm t k = Some v \<Longrightarrow> key v = k"
  shows "\<exists>v w. absm t k = Some v \<and> f v = Inr w \<and> wft t' \<and> absm t' = (absm t)(k \<mapsto> carry v w)"
proof (cases "absm t k")
  case None
  then show ?thesis using patch_missing [OF assms(1)] assms(2) by simp
next
  case (Some v)
  show ?thesis
  proof (cases "f v")
    case (Inl e)
    then show ?thesis using patch_refused [of t k v f e] assms(1,2) Some by simp
  next
    case (Inr w)
    then show ?thesis
      using patch_done [of t k v f w] assms(1,2) assms(3) [OF Inr] assms(4) [OF Some] Some by auto
  qed
qed

end

section \<open>Tables kept in a Go map\<close>

text \<open>The well-formedness of a map whose rows carry their own key.\<close>

definition rows_wf :: "('v \<Rightarrow> 'k) \<Rightarrow> ('k, 'v) gomap \<Rightarrow> bool" where
  "rows_wf key m = (gm_wf m \<and> list_all (\<lambda>(k, v). key v = k) m)"

lemma rows_wf_empty [simp]: "rows_wf key []"
  by (simp add: rows_wf_def)

lemma rows_wf_update: "rows_wf key m \<Longrightarrow> key v = k \<Longrightarrow> rows_wf key (AList.update k v m)"
  by (auto simp: rows_wf_def distinct_update list_all_iff set_update_gm)

lemma rows_wf_delete: "rows_wf key m \<Longrightarrow> rows_wf key (AList.delete k m)"
  by (auto simp: rows_wf_def distinct_delete list_all_iff set_delete_gm)

lemma rows_wf_lookup: "rows_wf key m \<Longrightarrow> map_of m k = Some v \<Longrightarrow> key v = k"
  by (auto simp: rows_wf_def list_all_iff dest: map_of_SomeD)

lemma rows_wf_keys: "rows_wf key m \<Longrightarrow> map key (map snd m) = map fst m"
  by (auto simp: rows_wf_def list_all_iff)

lemma rows_wf_distinct: "rows_wf key m \<Longrightarrow> distinct (map key (map snd m))"
  unfolding rows_wf_keys by (simp add: rows_wf_def)

lemma set_rows: "gm_wf m \<Longrightarrow> set (map snd m) = ran (map_of m)"
  by (simp add: ran_distinct)

text \<open>
  A listing sorted by the key shows every row once, in key order, and depends on the lookup
  function only: not on the order in which the map is traversed.
\<close>

lemma sort_rows_unique:
  fixes key :: "'v \<Rightarrow> 'k::linorder"
  assumes "rows_wf key m" "rows_wf key m'" "map_of m = map_of m'"
  shows "sort_key key (map snd m) = sort_key key (map snd m')"
proof -
  let ?xs = "map snd m" and ?ys = "map snd m'"
  have d: "distinct (map key ?xs)" "distinct (map key ?ys)"
    by (rule rows_wf_distinct [OF assms(1)]) (rule rows_wf_distinct [OF assms(2)])
  have s: "set ?xs = set ?ys"
    using set_rows [of m] set_rows [of m'] assms by (simp add: rows_wf_def)
  have dx: "distinct ?xs" "distinct ?ys"
    using d by (simp_all only: distinct_map)
  then have ms: "mset ?xs = mset ?ys"
    using s set_eq_iff_mset_eq_distinct by blast
  have inj: "inj_on key (set ?xs)" "inj_on key (set ?ys)"
    using d by (simp_all only: distinct_map)
  show ?thesis
  proof (rule properties_for_sort_key)
    show "mset (sort_key key ?ys) = mset ?xs"
      using ms by simp
    show "sorted (map key (sort_key key ?ys))"
      by simp
    fix v assume "v \<in> set (sort_key key ?ys)"
    then have v: "v \<in> set ?ys" "v \<in> set ?xs"
      using s by simp_all
    have i: "inj_on key (set (sort_key key ?ys))" "distinct (sort_key key ?ys)"
      using inj(2) dx(2) by simp_all
    show "filter (\<lambda>x. key v = key x) (sort_key key ?ys) = filter (\<lambda>x. key v = key x) ?xs"
      using filter_unique_key [OF i] filter_unique_key [OF inj(1) dx(1) v(2)] v(1)
      by (simp only: eq_commute [of "key v"] set_sort)
  qed
qed

end
