(* ===== verification/Store.thy ===== *)
theory Store
  imports Api_Types Store_Spec
begin

text \<open>
  The in-memory metadata store, \<open>pkg/store/inmemory*.go\<close>.

  Every table is the Go map the code keeps it in, and every method is a function from the table
  to the new table or an error; the methods run under the table's mutex, so one call is one step.
  Pointer arguments that the code tests against nil are \<open>option\<close>s.  A \<open>mutate func(*T) error\<close> works
  on a deep copy of the row (\<open>cloneForPatch\<close>), so it is a function from the row to an error or the
  edited row; the one exception, \<open>PatchNetInterfaces\<close>, hands out the stored slice itself, and its
  mutator therefore also says what it leaves in that slice.  Wrapping an error keeps what
  \<open>errors.Is\<close> sees of it; the added text is dropped.
\<close>

section \<open>Common helpers\<close>

definition FoldName :: "string \<Rightarrow> string" where
  "FoldName name = ToLower name"

definition carryAnnotationsOnNil :: "props option \<Rightarrow> props option \<Rightarrow> props option" where
  "carryAnnotationsOnNil next prev = (if next = None then prev else next)"

section \<open>Storage pool definitions\<close>

record StoragePoolDefinition =
  spd_Name :: string
  spd_Props :: props

type_synonym spd_table = "(string, StoragePoolDefinition) gomap"

definition StoragePoolDefinitions_List :: "spd_table \<Rightarrow> StoragePoolDefinition list" where
  "StoragePoolDefinitions_List m = sort_key spd_Name (map snd m)"

definition StoragePoolDefinitions_Get :: "spd_table \<Rightarrow> string \<Rightarrow> err + StoragePoolDefinition" where
  "StoragePoolDefinitions_Get m name =
     (case map_of m name of None \<Rightarrow> Inl ErrNotFound | Some d \<Rightarrow> Inr d)"

definition StoragePoolDefinitions_Create :: "spd_table \<Rightarrow> StoragePoolDefinition option \<Rightarrow> err + spd_table" where
  "StoragePoolDefinitions_Create m def = (case def of
       None \<Rightarrow> Inl (ErrMsg ''nil StoragePoolDefinition'')
     | Some d \<Rightarrow> if gm_has m (spd_Name d) then Inl ErrAlreadyExists
                 else Inr (AList.update (spd_Name d) d m))"

definition StoragePoolDefinitions_Update :: "spd_table \<Rightarrow> StoragePoolDefinition option \<Rightarrow> err + spd_table" where
  "StoragePoolDefinitions_Update m def = (case def of
       None \<Rightarrow> Inl (ErrMsg ''nil StoragePoolDefinition'')
     | Some d \<Rightarrow> if \<not> gm_has m (spd_Name d) then Inl ErrNotFound
                 else Inr (AList.update (spd_Name d) d m))"

definition StoragePoolDefinitions_Delete :: "spd_table \<Rightarrow> string \<Rightarrow> err + spd_table" where
  "StoragePoolDefinitions_Delete m name =
     (if \<not> gm_has m name then Inl ErrNotFound else Inr (AList.delete name m))"

section \<open>Controller properties\<close>

definition ControllerProps_Get :: "props \<Rightarrow> props" where
  "ControllerProps_Get p = gm_copy [] p"

definition ControllerProps_Set :: "props \<Rightarrow> props \<Rightarrow> props" where
  "ControllerProps_Set p new = gm_copy [] new"

definition ControllerProps_PatchProps :: "props \<Rightarrow> (props \<Rightarrow> err + props) option \<Rightarrow> err + props" where
  "ControllerProps_PatchProps p mutate = (case mutate of
       None \<Rightarrow> Inl (ErrMsg ''nil mutate'')
     | Some f \<Rightarrow> f (gm_copy [] p))"

section \<open>Nodes\<close>

type_synonym node_table = "(string, Node) gomap"

definition decorateInMemoryNode :: "golib \<Rightarrow> Node \<Rightarrow> Node" where
  "decorateInMemoryNode L n =
     SynthesizeNodeCapabilities L
       (if n_NetInterfaces n \<noteq> []
        then n\<lparr>n_NetInterfaces := DefaultNetInterfaceFields L (n_Name n) (n_NetInterfaces n)\<rparr>
        else n)"

definition Nodes_List :: "golib \<Rightarrow> node_table \<Rightarrow> Node list" where
  "Nodes_List L m = sort_key n_Name (map (decorateInMemoryNode L) (map snd m))"

definition Nodes_Get :: "golib \<Rightarrow> node_table \<Rightarrow> string \<Rightarrow> err + Node" where
  "Nodes_Get L m name =
     (case map_of m name of None \<Rightarrow> Inl ErrNotFound | Some n \<Rightarrow> Inr (decorateInMemoryNode L n))"

definition Nodes_Create :: "node_table \<Rightarrow> Node option \<Rightarrow> err + node_table" where
  "Nodes_Create m n = (case n of
       None \<Rightarrow> Inl (ErrMsg ''nil Node'')
     | Some n \<Rightarrow> if gm_has m (n_Name n) then Inl ErrAlreadyExists
                 else Inr (AList.update (n_Name n) n m))"

definition Nodes_Update :: "node_table \<Rightarrow> Node option \<Rightarrow> err + node_table" where
  "Nodes_Update m n = (case n of
       None \<Rightarrow> Inl (ErrMsg ''nil Node'')
     | Some n \<Rightarrow> if \<not> gm_has m (n_Name n) then Inl ErrNotFound
                 else Inr (AList.update (n_Name n) n m))"

text \<open>
  The mutator of \<open>PatchNetInterfaces\<close> sees the stored slice: the first component of its result is
  what that slice holds when it returns, the second the error or the slice to store.  An error
  therefore leaves the in-place edits behind.
\<close>

definition Nodes_PatchNetInterfaces ::
  "node_table \<Rightarrow> string \<Rightarrow> (NetInterface list \<Rightarrow> NetInterface list \<times> (err + NetInterface list)) option \<Rightarrow>
   err option \<times> node_table"
where
  "Nodes_PatchNetInterfaces m name mutate = (case mutate of
       None \<Rightarrow> (Some (ErrMsg ''nil mutate''), m)
     | Some f \<Rightarrow> (case map_of m name of
           None \<Rightarrow> (Some ErrNotFound, m)
         | Some node \<Rightarrow> (case f (n_NetInterfaces node) of
               (inplace, Inl e) \<Rightarrow>
                 (Some e, AList.update name (node\<lparr>n_NetInterfaces := inplace\<rparr>) m)
             | (inplace, Inr out) \<Rightarrow>
                 (None, AList.update name (node\<lparr>n_NetInterfaces := out\<rparr>) m))))"

definition Nodes_PatchProps :: "node_table \<Rightarrow> string \<Rightarrow> (props \<Rightarrow> err + props) option \<Rightarrow> err + node_table" where
  "Nodes_PatchProps m name mutate = (case mutate of
       None \<Rightarrow> Inl (ErrMsg ''nil mutate'')
     | Some f \<Rightarrow> (case map_of m name of
           None \<Rightarrow> Inl ErrNotFound
         | Some node \<Rightarrow> (case f (n_Props node) of
               Inl e \<Rightarrow> Inl e
             | Inr p \<Rightarrow> Inr (AList.update name (node\<lparr>n_Props := p\<rparr>) m))))"

definition Nodes_PatchNodeSpec :: "node_table \<Rightarrow> string \<Rightarrow> (Node \<Rightarrow> err + Node) option \<Rightarrow> err + node_table" where
  "Nodes_PatchNodeSpec m name mutate = (case mutate of
       None \<Rightarrow> Inl (ErrMsg ''nil mutate'')
     | Some f \<Rightarrow> (case map_of m name of
           None \<Rightarrow> Inl ErrNotFound
         | Some node \<Rightarrow> (case f node of
               Inl e \<Rightarrow> Inl e
             | Inr working \<Rightarrow> Inr (AList.update name working m))))"

definition Nodes_Delete :: "node_table \<Rightarrow> string \<Rightarrow> err + node_table" where
  "Nodes_Delete m name = (if \<not> gm_has m name then Inl ErrNotFound else Inr (AList.delete name m))"

definition Nodes_SetConnectionStatus :: "node_table \<Rightarrow> string \<Rightarrow> string \<Rightarrow> err + node_table" where
  "Nodes_SetConnectionStatus m name status = (case map_of m name of
       None \<Rightarrow> Inl ErrNotFound
     | Some node \<Rightarrow> Inr (AList.update name (node\<lparr>n_ConnectionStatus := status\<rparr>) m))"

section \<open>Storage pools\<close>

type_synonym pool_table = "(string \<times> string, StoragePool) gomap"

abbreviation sp_key :: "StoragePool \<Rightarrow> string \<times> string" where
  "sp_key sp \<equiv> (sp_NodeName sp, sp_StoragePoolName sp)"

text \<open>The return code is the bitwise or of three constants, evaluated.\<close>

definition poolMissingReport :: "string \<Rightarrow> string \<Rightarrow> APICallRc" where
  "poolMissingReport node pool =
     \<lparr>rc_RetCode = - 0x4000000000000000 + 0x140000 + 990,
      rc_Message = ''pool backing storage missing on node '' @ node @
        '': storage pool '' @ pool @ '' is not present'',
      rc_Cause = ''The satellite probed the backing volume group / zpool / '' @
        ''directory for this storage pool and found it absent '' @
        [CHR 0xE2, CHR 0x80, CHR 0x94] @ '' typically the result of an operator `zpool destroy`, '' @
        ''`vgremove`, or an unmounted filesystem.'',
      rc_Details = [],
      rc_Correc = ''Re-discover the pool via `linstor ps cdp <provider> '' @
        ''<node> <pool>` once the backing storage is restored, or '' @
        ''recreate the pool with `linstor sp c`.'',
      rc_ObjRefs = [(''Node'', node), (''StorPool'', pool)],
      rc_ErrorRep = []\<rparr>"

definition withDerivedState :: "StoragePool \<Rightarrow> StoragePool" where
  "withDerivedState sp =
     (let sp1 = (if sp_State sp = []
                 then sp\<lparr>sp_State := (if sp_PoolMissing sp then ''Faulty'' else ''Ok'')\<rparr> else sp);
          sp2 = (if sp_PoolMissing sp1 \<and> sp_Reports sp1 = []
                 then sp1\<lparr>sp_Reports := [poolMissingReport (sp_NodeName sp1) (sp_StoragePoolName sp1)]\<rparr>
                 else sp1)
      in if sp_FreeSpaceMgrName sp2 = [] then
           (if sp_SharedSpaceID sp2 \<noteq> [] then sp2\<lparr>sp_FreeSpaceMgrName := sp_SharedSpaceID sp2\<rparr>
            else if sp_NodeName sp2 \<noteq> [] \<and> sp_StoragePoolName sp2 \<noteq> []
            then sp2\<lparr>sp_FreeSpaceMgrName := sp_NodeName sp2 @ '':'' @ sp_StoragePoolName sp2\<rparr>
            else sp2)
         else sp2)"

definition StoragePools_List :: "pool_table \<Rightarrow> StoragePool list" where
  "StoragePools_List m = sort_key sp_key (map withDerivedState (map snd m))"

definition StoragePools_ListByNode :: "pool_table \<Rightarrow> string \<Rightarrow> StoragePool list" where
  "StoragePools_ListByNode m node =
     sort_key sp_StoragePoolName
       (map withDerivedState (filter (\<lambda>sp. sp_NodeName sp = node) (map snd m)))"

definition StoragePools_Get :: "pool_table \<Rightarrow> string \<Rightarrow> string \<Rightarrow> err + StoragePool" where
  "StoragePools_Get m node pool =
     (case map_of m (node, pool) of None \<Rightarrow> Inl ErrNotFound | Some sp \<Rightarrow> Inr (withDerivedState sp))"

definition StoragePools_Create :: "pool_table \<Rightarrow> StoragePool option \<Rightarrow> err + pool_table" where
  "StoragePools_Create m sp = (case sp of
       None \<Rightarrow> Inl (ErrMsg ''nil StoragePool'')
     | Some sp \<Rightarrow> if gm_has m (sp_key sp) then Inl ErrAlreadyExists
                  else Inr (AList.update (sp_key sp) sp m))"

definition StoragePools_Update :: "pool_table \<Rightarrow> StoragePool option \<Rightarrow> err + pool_table" where
  "StoragePools_Update m sp = (case sp of
       None \<Rightarrow> Inl (ErrMsg ''nil StoragePool'')
     | Some sp \<Rightarrow> if \<not> gm_has m (sp_key sp) then Inl ErrNotFound
                  else Inr (AList.update (sp_key sp) sp m))"

definition StoragePools_SetCapacity ::
  "pool_table \<Rightarrow> string \<Rightarrow> string \<Rightarrow> int \<Rightarrow> int \<Rightarrow> bool \<Rightarrow> err + pool_table"
where
  "StoragePools_SetCapacity m node pool freeKib totalKib supportsSnap =
     (case map_of m (node, pool) of
        None \<Rightarrow> Inl ErrNotFound
      | Some sp \<Rightarrow> Inr (AList.update (node, pool)
          (sp\<lparr>sp_FreeCapacity := freeKib, sp_TotalCapacity := totalKib,
              sp_SupportsSnapshot := supportsSnap\<rparr>) m))"

definition StoragePools_PatchStoragePoolSpec ::
  "pool_table \<Rightarrow> string \<Rightarrow> string \<Rightarrow> (StoragePool \<Rightarrow> err + StoragePool) option \<Rightarrow> err + pool_table"
where
  "StoragePools_PatchStoragePoolSpec m node pool mutate = (case mutate of
       None \<Rightarrow> Inl (ErrMsg ''nil mutate'')
     | Some f \<Rightarrow> (case map_of m (node, pool) of
           None \<Rightarrow> Inl ErrNotFound
         | Some sp \<Rightarrow> (case f sp of
               Inl e \<Rightarrow> Inl e
             | Inr working \<Rightarrow> Inr (AList.update (node, pool) working m))))"

definition StoragePools_Delete :: "pool_table \<Rightarrow> string \<Rightarrow> string \<Rightarrow> err + pool_table" where
  "StoragePools_Delete m node pool =
     (if \<not> gm_has m (node, pool) then Inl ErrNotFound else Inr (AList.delete (node, pool) m))"

section \<open>Resource groups\<close>

type_synonym rg_table = "(string, ResourceGroup) gomap"

definition ResourceGroups_List :: "rg_table \<Rightarrow> ResourceGroup list" where
  "ResourceGroups_List m = sort_key rg_Name (map snd m)"

definition ResourceGroups_Get :: "rg_table \<Rightarrow> string \<Rightarrow> err + ResourceGroup" where
  "ResourceGroups_Get m name = (case map_of m name of None \<Rightarrow> Inl ErrNotFound | Some rg \<Rightarrow> Inr rg)"

definition ResourceGroups_Create :: "rg_table \<Rightarrow> ResourceGroup option \<Rightarrow> err + rg_table" where
  "ResourceGroups_Create m rg = (case rg of
       None \<Rightarrow> Inl (ErrMsg ''nil ResourceGroup'')
     | Some rg \<Rightarrow> if gm_has m (rg_Name rg) then Inl ErrAlreadyExists
                  else Inr (AList.update (rg_Name rg) rg m))"

definition ResourceGroups_Update :: "rg_table \<Rightarrow> ResourceGroup option \<Rightarrow> err + rg_table" where
  "ResourceGroups_Update m rg = (case rg of
       None \<Rightarrow> Inl (ErrMsg ''nil ResourceGroup'')
     | Some rg \<Rightarrow> (case map_of m (rg_Name rg) of
           None \<Rightarrow> Inl ErrNotFound
         | Some prev \<Rightarrow> Inr (AList.update (rg_Name rg)
             (rg\<lparr>rg_Annotations := carryAnnotationsOnNil (rg_Annotations rg) (rg_Annotations prev)\<rparr>) m)))"

definition ResourceGroups_PatchResourceGroup ::
  "rg_table \<Rightarrow> string \<Rightarrow> (ResourceGroup \<Rightarrow> err + ResourceGroup) option \<Rightarrow> err + rg_table"
where
  "ResourceGroups_PatchResourceGroup m name mutate = (case mutate of
       None \<Rightarrow> Inl (ErrMsg ''nil mutate'')
     | Some f \<Rightarrow> (case map_of m name of
           None \<Rightarrow> Inl ErrNotFound
         | Some rg \<Rightarrow> (case f rg of
               Inl e \<Rightarrow> Inl e
             | Inr w \<Rightarrow> Inr (AList.update name
                 (w\<lparr>rg_Annotations := carryAnnotationsOnNil (rg_Annotations w) (rg_Annotations rg)\<rparr>) m))))"

definition ResourceGroups_Delete :: "rg_table \<Rightarrow> string \<Rightarrow> err + rg_table" where
  "ResourceGroups_Delete m name =
     (if \<not> gm_has m name then Inl ErrNotFound else Inr (AList.delete name m))"

section \<open>Resource definitions\<close>

type_synonym rd_table = "(string, ResourceDefinition) gomap"

definition ResourceDefinitions_List :: "rd_table \<Rightarrow> ResourceDefinition list" where
  "ResourceDefinitions_List m = sort_key rd_Name (map snd m)"

definition ResourceDefinitions_Get :: "rd_table \<Rightarrow> string \<Rightarrow> err + ResourceDefinition" where
  "ResourceDefinitions_Get m name =
     (case map_of m name of None \<Rightarrow> Inl ErrNotFound | Some rd \<Rightarrow> Inr rd)"

definition ResourceDefinitions_Create :: "rd_table \<Rightarrow> ResourceDefinition option \<Rightarrow> err + rd_table" where
  "ResourceDefinitions_Create m rd = (case rd of
       None \<Rightarrow> Inl (ErrMsg ''nil ResourceDefinition'')
     | Some rd \<Rightarrow> if gm_has m (rd_Name rd) then Inl ErrAlreadyExists
                  else Inr (AList.update (rd_Name rd) rd m))"

definition ResourceDefinitions_Update :: "rd_table \<Rightarrow> ResourceDefinition option \<Rightarrow> err + rd_table" where
  "ResourceDefinitions_Update m rd = (case rd of
       None \<Rightarrow> Inl (ErrMsg ''nil ResourceDefinition'')
     | Some rd \<Rightarrow> (case map_of m (rd_Name rd) of
           None \<Rightarrow> Inl ErrNotFound
         | Some prev \<Rightarrow>
             (let nxt = (if rd_LayerStack rd = [] then rd\<lparr>rd_LayerStack := rd_LayerStack prev\<rparr> else rd)
              in Inr (AList.update (rd_Name rd)
                (nxt\<lparr>rd_Annotations := carryAnnotationsOnNil (rd_Annotations nxt) (rd_Annotations prev)\<rparr>) m))))"

definition ResourceDefinitions_PatchResourceDefinitionSpec ::
  "rd_table \<Rightarrow> string \<Rightarrow> (ResourceDefinition \<Rightarrow> err + ResourceDefinition) option \<Rightarrow> err + rd_table"
where
  "ResourceDefinitions_PatchResourceDefinitionSpec m name mutate = (case mutate of
       None \<Rightarrow> Inl (ErrMsg ''nil mutate'')
     | Some f \<Rightarrow> (case map_of m name of
           None \<Rightarrow> Inl ErrNotFound
         | Some rd \<Rightarrow> (case f rd of
               Inl e \<Rightarrow> Inl e
             | Inr w \<Rightarrow> Inr (AList.update name
                 (w\<lparr>rd_Annotations := carryAnnotationsOnNil (rd_Annotations w) (rd_Annotations rd)\<rparr>) m))))"

definition ResourceDefinitions_Delete :: "rd_table \<Rightarrow> string \<Rightarrow> err + rd_table" where
  "ResourceDefinitions_Delete m name =
     (if \<not> gm_has m name then Inl ErrNotFound else Inr (AList.delete name m))"

section \<open>Resources\<close>

record res_table =
  res_m :: "(string \<times> string, Resource) gomap"
  res_volStates :: "(string \<times> string, (int, VolumeState) gomap) gomap"

abbreviation r_key :: "Resource \<Rightarrow> string \<times> string" where
  "r_key r \<equiv> (r_Name r, r_NodeName r)"

definition Resources_List :: "res_table \<Rightarrow> Resource list" where
  "Resources_List t = sort_key r_key (map snd (res_m t))"

definition Resources_ListByNode :: "res_table \<Rightarrow> string \<Rightarrow> Resource list" where
  "Resources_ListByNode t node =
     sort_key r_Name (filter (\<lambda>r. r_NodeName r = node) (map snd (res_m t)))"

definition Resources_ListByDefinition :: "res_table \<Rightarrow> string \<Rightarrow> Resource list" where
  "Resources_ListByDefinition t rdName =
     sort_key r_NodeName (filter (\<lambda>r. r_Name r = rdName) (map snd (res_m t)))"

definition Resources_Get :: "res_table \<Rightarrow> string \<Rightarrow> string \<Rightarrow> err + Resource" where
  "Resources_Get t rdName node =
     (case map_of (res_m t) (rdName, node) of None \<Rightarrow> Inl ErrNotFound | Some r \<Rightarrow> Inr r)"

definition Resources_Create :: "res_table \<Rightarrow> Resource option \<Rightarrow> err + res_table" where
  "Resources_Create t r = (case r of
       None \<Rightarrow> Inl (ErrMsg ''nil Resource'')
     | Some r \<Rightarrow> if gm_has (res_m t) (r_key r) then Inl ErrAlreadyExists
                 else Inr (t\<lparr>res_m := AList.update (r_key r) r (res_m t)\<rparr>))"

definition Resources_Update :: "res_table \<Rightarrow> Resource option \<Rightarrow> err + res_table" where
  "Resources_Update t r = (case r of
       None \<Rightarrow> Inl (ErrMsg ''nil Resource'')
     | Some r \<Rightarrow> (case map_of (res_m t) (r_key r) of
           None \<Rightarrow> Inl ErrNotFound
         | Some prev \<Rightarrow> Inr (t\<lparr>res_m := AList.update (r_key r)
             (r\<lparr>r_Annotations := carryAnnotationsOnNil (r_Annotations r) (r_Annotations prev)\<rparr>)
             (res_m t)\<rparr>)))"

definition Resources_PatchResourceSpec ::
  "res_table \<Rightarrow> string \<Rightarrow> string \<Rightarrow> (Resource \<Rightarrow> err + Resource) option \<Rightarrow> err + res_table"
where
  "Resources_PatchResourceSpec t rdName node mutate = (case mutate of
       None \<Rightarrow> Inl (ErrMsg ''nil mutate'')
     | Some f \<Rightarrow> (case map_of (res_m t) (rdName, node) of
           None \<Rightarrow> Inl ErrNotFound
         | Some r \<Rightarrow> (case f r of
               Inl e \<Rightarrow> Inl e
             | Inr w \<Rightarrow> Inr (t\<lparr>res_m := AList.update (rdName, node)
                 (w\<lparr>r_Annotations := carryAnnotationsOnNil (r_Annotations w) (r_Annotations r)\<rparr>)
                 (res_m t)\<rparr>))))"

definition Resources_Delete :: "res_table \<Rightarrow> string \<Rightarrow> string \<Rightarrow> err + res_table" where
  "Resources_Delete t rdName node =
     (if \<not> gm_has (res_m t) (rdName, node) then Inl ErrNotFound
      else Inr (t\<lparr>res_m := AList.delete (rdName, node) (res_m t)\<rparr>))"

definition Resources_DeleteIfTieBreaker :: "res_table \<Rightarrow> string \<Rightarrow> string \<Rightarrow> bool \<times> res_table" where
  "Resources_DeleteIfTieBreaker t rdName node =
     (case map_of (res_m t) (rdName, node) of
        None \<Rightarrow> (False, t)
      | Some r \<Rightarrow> if ResourceFlagTieBreaker \<notin> set (r_Flags r) then (False, t)
                  else (True, t\<lparr>res_m := AList.delete (rdName, node) (res_m t)\<rparr>))"

definition vol_states_at ::
  "(string \<times> string, (int, VolumeState) gomap) gomap \<Rightarrow> string \<times> string \<Rightarrow> (int, VolumeState) gomap"
where
  "vol_states_at vs k = (case map_of vs k of None \<Rightarrow> [] | Some m \<Rightarrow> m)"

definition Resources_SetState ::
  "res_table \<Rightarrow> string \<Rightarrow> string \<Rightarrow> ResourceState \<Rightarrow> VolumeObservation list \<Rightarrow> err + res_table"
where
  "Resources_SetState t rdName node state volumes =
     (case map_of (res_m t) (rdName, node) of
        None \<Rightarrow> Inl ErrNotFound
      | Some r \<Rightarrow>
          (let t1 = t\<lparr>res_m := AList.update (rdName, node) (r\<lparr>r_State := state\<rparr>) (res_m t)\<rparr>
           in Inr (if volumes = [] then t1
                   else t1\<lparr>res_volStates := AList.update (rdName, node)
                          (fold (\<lambda>vol. AList.update (vo_VolumeNumber vol) (vo_State vol)) volumes
                             (vol_states_at (res_volStates t1) (rdName, node)))
                          (res_volStates t1)\<rparr>)))"

definition Resources_ClearDRBDPort :: "res_table \<Rightarrow> string \<Rightarrow> string \<Rightarrow> err + res_table" where
  "Resources_ClearDRBDPort t rdName node =
     (case map_of (res_m t) (rdName, node) of
        None \<Rightarrow> Inl ErrNotFound
      | Some r \<Rightarrow> Inr (t\<lparr>res_m := AList.update (rdName, node)
          (case r_LayerObject r of
             None \<Rightarrow> r
           | Some (ResourceLayer ty ns cs None st d) \<Rightarrow> r
           | Some (ResourceLayer ty ns cs (Some dl) st d) \<Rightarrow>
               r\<lparr>r_LayerObject := Some (ResourceLayer ty ns cs (Some (dl\<lparr>drl_TCPPorts := []\<rparr>)) st d)\<rparr>)
          (res_m t)\<rparr>))"

definition Resources_VolumeStateForTest :: "res_table \<Rightarrow> string \<Rightarrow> string \<Rightarrow> int \<Rightarrow> VolumeState option" where
  "Resources_VolumeStateForTest t rdName node volumeNumber =
     map_of (vol_states_at (res_volStates t) (rdName, node)) volumeNumber"

section \<open>Volume definitions\<close>

type_synonym vd_table = "(string \<times> int, VolumeDefinition) gomap"

definition VolumeDefinitions_List :: "vd_table \<Rightarrow> string \<Rightarrow> VolumeDefinition list" where
  "VolumeDefinitions_List m rdName =
     sort_key vd_VolumeNumber (map snd (filter (\<lambda>(k, _). FoldName (fst k) = FoldName rdName) m))"

definition vd_group :: "vd_table \<Rightarrow> (string, VolumeDefinition list) gomap" where
  "vd_group m = fold (\<lambda>(k, vd) out.
       AList.update (FoldName (fst k))
         ((case map_of out (FoldName (fst k)) of None \<Rightarrow> [] | Some vds \<Rightarrow> vds) @ [vd]) out) m []"

definition VolumeDefinitions_ListAll :: "vd_table \<Rightarrow> (string, VolumeDefinition list) gomap" where
  "VolumeDefinitions_ListAll m = map (\<lambda>(rd, vds). (rd, sort_key vd_VolumeNumber vds)) (vd_group m)"

definition VolumeDefinitions_Get :: "vd_table \<Rightarrow> string \<Rightarrow> int \<Rightarrow> err + VolumeDefinition" where
  "VolumeDefinitions_Get m rdName volumeNumber =
     (case map_of m (rdName, volumeNumber) of None \<Rightarrow> Inl ErrNotFound | Some vd \<Rightarrow> Inr vd)"

definition VolumeDefinitions_Create :: "vd_table \<Rightarrow> string \<Rightarrow> VolumeDefinition option \<Rightarrow> err + vd_table" where
  "VolumeDefinitions_Create m rdName vd = (case vd of
       None \<Rightarrow> Inl (ErrMsg ''nil VolumeDefinition'')
     | Some vd \<Rightarrow> if gm_has m (rdName, vd_VolumeNumber vd) then Inl ErrAlreadyExists
                  else Inr (AList.update (rdName, vd_VolumeNumber vd) vd m))"

text \<open>
  The loop that looks for the first free number; the counter is an \<open>int32\<close>.  The first argument
  bounds the number of turns and \<open>None\<close> says that it was not enough.
\<close>

fun auto_number_loop :: "nat \<Rightarrow> (int, bool) gomap \<Rightarrow> int \<Rightarrow> int option" where
  "auto_number_loop 0 used assigned = None"
| "auto_number_loop (Suc n) used assigned =
     (if gm_has used assigned then auto_number_loop n used (wrap32 (assigned + 1)) else Some assigned)"

definition used_numbers :: "vd_table \<Rightarrow> string \<Rightarrow> (int, bool) gomap" where
  "used_numbers m rdName =
     fold (\<lambda>(k, _) used. if fst k = rdName then AList.update (snd k) True used else used) m []"

definition VolumeDefinitions_CreateAutoNumbered ::
  "vd_table \<Rightarrow> string \<Rightarrow> VolumeDefinition option \<Rightarrow> (err + int \<times> vd_table) option"
where
  "VolumeDefinitions_CreateAutoNumbered m rdName vd = (case vd of
       None \<Rightarrow> Some (Inl (ErrMsg ''nil VolumeDefinition''))
     | Some vd \<Rightarrow> (let used = used_numbers m rdName in
           case auto_number_loop (Suc (length used)) used 0 of
             None \<Rightarrow> None
           | Some assigned \<Rightarrow>
               Some (Inr (assigned, AList.update (rdName, assigned) (vd\<lparr>vd_VolumeNumber := assigned\<rparr>) m))))"

definition VolumeDefinitions_Update :: "vd_table \<Rightarrow> string \<Rightarrow> VolumeDefinition option \<Rightarrow> err + vd_table" where
  "VolumeDefinitions_Update m rdName vd = (case vd of
       None \<Rightarrow> Inl (ErrMsg ''nil VolumeDefinition'')
     | Some vd \<Rightarrow> if \<not> gm_has m (rdName, vd_VolumeNumber vd) then Inl ErrNotFound
                  else Inr (AList.update (rdName, vd_VolumeNumber vd) vd m))"

definition VolumeDefinitions_PatchVolumeDefinitionSpec ::
  "vd_table \<Rightarrow> string \<Rightarrow> int \<Rightarrow> (VolumeDefinition \<Rightarrow> err + VolumeDefinition) option \<Rightarrow> err + vd_table"
where
  "VolumeDefinitions_PatchVolumeDefinitionSpec m rdName volumeNumber mutate = (case mutate of
       None \<Rightarrow> Inl (ErrMsg ''nil mutate'')
     | Some f \<Rightarrow> (case map_of m (rdName, volumeNumber) of
           None \<Rightarrow> Inl ErrNotFound
         | Some vd \<Rightarrow> (case f vd of
               Inl e \<Rightarrow> Inl e
             | Inr working \<Rightarrow> Inr (AList.update (rdName, volumeNumber) working m))))"

definition VolumeDefinitions_Delete :: "vd_table \<Rightarrow> string \<Rightarrow> int \<Rightarrow> err + vd_table" where
  "VolumeDefinitions_Delete m rdName volumeNumber =
     (if \<not> gm_has m (rdName, volumeNumber) then Inl ErrNotFound
      else Inr (AList.delete (rdName, volumeNumber) m))"

section \<open>Snapshots\<close>

type_synonym snap_table = "(string \<times> string, Snapshot) gomap"

abbreviation sn_key :: "Snapshot \<Rightarrow> string \<times> string" where
  "sn_key s \<equiv> (sn_ResourceName s, sn_Name s)"

definition Snapshots_List :: "snap_table \<Rightarrow> Snapshot list" where
  "Snapshots_List m = sort_key sn_key (map snd m)"

definition Snapshots_ListByDefinition :: "snap_table \<Rightarrow> string \<Rightarrow> Snapshot list" where
  "Snapshots_ListByDefinition m rdName =
     sort_key sn_Name (filter (\<lambda>s. sn_ResourceName s = rdName) (map snd m))"

definition Snapshots_Get :: "snap_table \<Rightarrow> string \<Rightarrow> string \<Rightarrow> err + Snapshot" where
  "Snapshots_Get m rdName snapName =
     (case map_of m (rdName, snapName) of None \<Rightarrow> Inl ErrNotFound | Some s \<Rightarrow> Inr s)"

definition Snapshots_Create :: "snap_table \<Rightarrow> Snapshot option \<Rightarrow> err + snap_table" where
  "Snapshots_Create m snap = (case snap of
       None \<Rightarrow> Inl (ErrMsg ''nil Snapshot'')
     | Some s \<Rightarrow> if gm_has m (sn_key s) then Inl ErrAlreadyExists
                 else Inr (AList.update (sn_key s) s m))"

definition Snapshots_Update :: "snap_table \<Rightarrow> Snapshot option \<Rightarrow> err + snap_table" where
  "Snapshots_Update m snap = (case snap of
       None \<Rightarrow> Inl (ErrMsg ''nil Snapshot'')
     | Some s \<Rightarrow> (case map_of m (sn_key s) of
           None \<Rightarrow> Inl ErrNotFound
         | Some prev \<Rightarrow> Inr (AList.update (sn_key s)
             (s\<lparr>sn_Annotations := carryAnnotationsOnNil (sn_Annotations s) (sn_Annotations prev)\<rparr>) m)))"

definition Snapshots_PatchSnapshotProps ::
  "snap_table \<Rightarrow> string \<Rightarrow> string \<Rightarrow> (props \<Rightarrow> err + props) \<Rightarrow> err + snap_table"
where
  "Snapshots_PatchSnapshotProps m rdName snapName mutate =
     (case map_of m (rdName, snapName) of
        None \<Rightarrow> Inl ErrNotFound
      | Some s \<Rightarrow> (case mutate (sn_Props s) of
            Inl e \<Rightarrow> Inl e
          | Inr p \<Rightarrow> Inr (AList.update (rdName, snapName) (s\<lparr>sn_Props := p\<rparr>) m)))"

definition Snapshots_Delete :: "snap_table \<Rightarrow> string \<Rightarrow> string \<Rightarrow> err + snap_table" where
  "Snapshots_Delete m rdName snapName =
     (if \<not> gm_has m (rdName, snapName) then Inl ErrNotFound
      else Inr (AList.delete (rdName, snapName) m))"

section \<open>Physical devices\<close>

type_synonym pd_table = "(string, PhysicalDevice) gomap"

definition PhysicalDevices_List :: "pd_table \<Rightarrow> PhysicalDevice list" where
  "PhysicalDevices_List m = sort_key pd_Name (map snd m)"

definition PhysicalDevices_ListForNode :: "pd_table \<Rightarrow> string \<Rightarrow> PhysicalDevice list" where
  "PhysicalDevices_ListForNode m nodeName =
     sort_key pd_Name (filter (\<lambda>d. pd_NodeName d = nodeName) (map snd m))"

definition PhysicalDevices_Get :: "pd_table \<Rightarrow> string \<Rightarrow> err + PhysicalDevice" where
  "PhysicalDevices_Get m name = (case map_of m name of None \<Rightarrow> Inl ErrNotFound | Some d \<Rightarrow> Inr d)"

definition PhysicalDevices_Create :: "pd_table \<Rightarrow> PhysicalDevice option \<Rightarrow> err + pd_table" where
  "PhysicalDevices_Create m dev = (case dev of
       None \<Rightarrow> Inl (ErrMsg ''nil PhysicalDevice'')
     | Some d \<Rightarrow> if gm_has m (pd_Name d) then Inl ErrAlreadyExists
                 else Inr (AList.update (pd_Name d) d m))"

definition PhysicalDevices_Update :: "pd_table \<Rightarrow> PhysicalDevice option \<Rightarrow> err + pd_table" where
  "PhysicalDevices_Update m dev = (case dev of
       None \<Rightarrow> Inl (ErrMsg ''nil PhysicalDevice'')
     | Some d \<Rightarrow> (case map_of m (pd_Name d) of
           None \<Rightarrow> Inl ErrNotFound
         | Some existing \<Rightarrow>
             if pd_AttachTo d \<noteq> None \<and> pd_AttachTo existing \<noteq> None then Inl ErrAlreadyExists
             else Inr (AList.update (pd_Name d) d m)))"

definition PhysicalDevices_PatchPhysicalDeviceSpec ::
  "pd_table \<Rightarrow> string \<Rightarrow> (PhysicalDevice \<Rightarrow> err + PhysicalDevice) option \<Rightarrow> err + pd_table"
where
  "PhysicalDevices_PatchPhysicalDeviceSpec m name mutate = (case mutate of
       None \<Rightarrow> Inl (ErrMsg ''nil mutate'')
     | Some f \<Rightarrow> (case map_of m name of
           None \<Rightarrow> Inl ErrNotFound
         | Some d \<Rightarrow> (case f d of
               Inl e \<Rightarrow> Inl e
             | Inr working \<Rightarrow> Inr (AList.update name working m))))"

definition PhysicalDevices_Delete :: "pd_table \<Rightarrow> string \<Rightarrow> err + pd_table" where
  "PhysicalDevices_Delete m name =
     (if \<not> gm_has m name then Inl ErrNotFound else Inr (AList.delete name m))"

section \<open>The store\<close>

record InMemory =
  im_nodes :: node_table
  im_storagePools :: pool_table
  im_resourceGroups :: rg_table
  im_resourceDefinitions :: rd_table
  im_resources :: res_table
  im_volumeDefinitions :: vd_table
  im_snapshots :: snap_table
  im_physicalDevices :: pd_table
  im_controllerProps :: props
  im_storagePoolDefinitions :: spd_table

definition NewInMemory :: InMemory where
  "NewInMemory = \<lparr>im_nodes = [], im_storagePools = [], im_resourceGroups = [],
     im_resourceDefinitions = [], im_resources = \<lparr>res_m = [], res_volStates = []\<rparr>,
     im_volumeDefinitions = [], im_snapshots = [], im_physicalDevices = [],
     im_controllerProps = [], im_storagePoolDefinitions = []\<rparr>"

text \<open>Every row is filed under the key it carries, and every map has distinct keys.\<close>

definition vd_wf :: "vd_table \<Rightarrow> bool" where
  "vd_wf m = (gm_wf m \<and> list_all (\<lambda>(k, v). vd_VolumeNumber v = snd k) m)"

definition store_wf :: "InMemory \<Rightarrow> bool" where
  "store_wf s = (rows_wf n_Name (im_nodes s) \<and> rows_wf sp_key (im_storagePools s) \<and>
     rows_wf rg_Name (im_resourceGroups s) \<and> rows_wf rd_Name (im_resourceDefinitions s) \<and>
     rows_wf r_key (res_m (im_resources s)) \<and> vd_wf (im_volumeDefinitions s) \<and>
     rows_wf sn_key (im_snapshots s) \<and> rows_wf pd_Name (im_physicalDevices s) \<and>
     gm_wf (im_controllerProps s) \<and> rows_wf spd_Name (im_storagePoolDefinitions s))"

section \<open>The tables implement the contract\<close>

lemmas row_wf_intros = rows_wf_update rows_wf_delete

text \<open>Rewriting a row that is already filed under its key keeps the table well-formed.\<close>

lemma rows_wf_modify:
  assumes "rows_wf key m" and "map_of m k = Some v" and "key w = key v"
  shows "rows_wf key (AList.update k w m)"
  using rows_wf_update [OF assms(1), of w k] rows_wf_lookup [OF assms(1,2)] assms(3) by simp

interpretation spds: row_store
  "spd_Name"
  "\<lambda>prev v. Inr v"
  "rows_wf spd_Name"
  "map_of"
  "\<lambda>t v. StoragePoolDefinitions_Create t (Some v)"
  "\<lambda>t v. StoragePoolDefinitions_Update t (Some v)"
  "StoragePoolDefinitions_Delete"
  by unfold_locales
    (auto simp: StoragePoolDefinitions_Create_def StoragePoolDefinitions_Update_def StoragePoolDefinitions_Delete_def gomap_simps
       rows_wf_update rows_wf_delete split: option.split)

interpretation nodes: patch_store
  "n_Name"
  "\<lambda>prev v. Inr v"
  "rows_wf n_Name"
  "map_of"
  "\<lambda>t v. Nodes_Create t (Some v)"
  "\<lambda>t v. Nodes_Update t (Some v)"
  "Nodes_Delete"
  "\<lambda>prev v. v"
  "\<lambda>t k f. Nodes_PatchNodeSpec t k (Some f)"
  by unfold_locales
    (auto simp: Nodes_Create_def Nodes_Update_def Nodes_Delete_def Nodes_PatchNodeSpec_def gomap_simps
       rows_wf_update rows_wf_delete split: option.split)

interpretation pools: patch_store
  "sp_key"
  "\<lambda>prev v. Inr v"
  "rows_wf sp_key"
  "map_of"
  "\<lambda>t v. StoragePools_Create t (Some v)"
  "\<lambda>t v. StoragePools_Update t (Some v)"
  "\<lambda>t k. StoragePools_Delete t (fst k) (snd k)"
  "\<lambda>prev v. v"
  "\<lambda>t k f. StoragePools_PatchStoragePoolSpec t (fst k) (snd k) (Some f)"
  by unfold_locales
    (auto simp: StoragePools_Create_def StoragePools_Update_def StoragePools_Delete_def StoragePools_PatchStoragePoolSpec_def gomap_simps
       rows_wf_update rows_wf_delete split: option.split)

interpretation rgs: patch_store
  "rg_Name"
  "\<lambda>prev v. Inr (v\<lparr>rg_Annotations := carryAnnotationsOnNil (rg_Annotations v) (rg_Annotations prev)\<rparr>)"
  "rows_wf rg_Name"
  "map_of"
  "\<lambda>t v. ResourceGroups_Create t (Some v)"
  "\<lambda>t v. ResourceGroups_Update t (Some v)"
  "ResourceGroups_Delete"
  "\<lambda>prev v. v\<lparr>rg_Annotations := carryAnnotationsOnNil (rg_Annotations v) (rg_Annotations prev)\<rparr>"
  "\<lambda>t k f. ResourceGroups_PatchResourceGroup t k (Some f)"
  by unfold_locales
    (auto simp: ResourceGroups_Create_def ResourceGroups_Update_def ResourceGroups_Delete_def ResourceGroups_PatchResourceGroup_def gomap_simps
       rows_wf_update rows_wf_delete split: option.split)

interpretation rds: patch_store
  "rd_Name"
  "\<lambda>prev v. Inr (v\<lparr>rd_LayerStack := (if rd_LayerStack v = [] then rd_LayerStack prev else rd_LayerStack v),
     rd_Annotations := carryAnnotationsOnNil (rd_Annotations v) (rd_Annotations prev)\<rparr>)"
  "rows_wf rd_Name"
  "map_of"
  "\<lambda>t v. ResourceDefinitions_Create t (Some v)"
  "\<lambda>t v. ResourceDefinitions_Update t (Some v)"
  "ResourceDefinitions_Delete"
  "\<lambda>prev v. v\<lparr>rd_Annotations := carryAnnotationsOnNil (rd_Annotations v) (rd_Annotations prev)\<rparr>"
  "\<lambda>t k f. ResourceDefinitions_PatchResourceDefinitionSpec t k (Some f)"
  by unfold_locales
    (auto simp: ResourceDefinitions_Create_def ResourceDefinitions_Update_def ResourceDefinitions_Delete_def ResourceDefinitions_PatchResourceDefinitionSpec_def gomap_simps
       rows_wf_update rows_wf_delete split: option.split)

interpretation ress: patch_store
  "r_key"
  "\<lambda>prev v. Inr (v\<lparr>r_Annotations := carryAnnotationsOnNil (r_Annotations v) (r_Annotations prev)\<rparr>)"
  "\<lambda>t. rows_wf r_key (res_m t)"
  "\<lambda>t. map_of (res_m t)"
  "\<lambda>t v. Resources_Create t (Some v)"
  "\<lambda>t v. Resources_Update t (Some v)"
  "\<lambda>t k. Resources_Delete t (fst k) (snd k)"
  "\<lambda>prev v. v\<lparr>r_Annotations := carryAnnotationsOnNil (r_Annotations v) (r_Annotations prev)\<rparr>"
  "\<lambda>t k f. Resources_PatchResourceSpec t (fst k) (snd k) (Some f)"
  by unfold_locales
    (auto simp: Resources_Create_def Resources_Update_def Resources_Delete_def Resources_PatchResourceSpec_def gomap_simps
       rows_wf_update rows_wf_delete split: option.split)

interpretation snaps: row_store
  "sn_key"
  "\<lambda>prev v. Inr (v\<lparr>sn_Annotations := carryAnnotationsOnNil (sn_Annotations v) (sn_Annotations prev)\<rparr>)"
  "rows_wf sn_key"
  "map_of"
  "\<lambda>t v. Snapshots_Create t (Some v)"
  "\<lambda>t v. Snapshots_Update t (Some v)"
  "\<lambda>t k. Snapshots_Delete t (fst k) (snd k)"
  by unfold_locales
    (auto simp: Snapshots_Create_def Snapshots_Update_def Snapshots_Delete_def gomap_simps
       rows_wf_update rows_wf_delete split: option.split)

interpretation pds: patch_store
  "pd_Name"
  "\<lambda>prev v. if pd_AttachTo v \<noteq> None \<and> pd_AttachTo prev \<noteq> None then Inl ErrAlreadyExists else Inr v"
  "rows_wf pd_Name"
  "map_of"
  "\<lambda>t v. PhysicalDevices_Create t (Some v)"
  "\<lambda>t v. PhysicalDevices_Update t (Some v)"
  "PhysicalDevices_Delete"
  "\<lambda>prev v. v"
  "\<lambda>t k f. PhysicalDevices_PatchPhysicalDeviceSpec t k (Some f)"
  by unfold_locales
    (auto simp: PhysicalDevices_Create_def PhysicalDevices_Update_def PhysicalDevices_Delete_def PhysicalDevices_PatchPhysicalDeviceSpec_def gomap_simps
       rows_wf_update rows_wf_delete split: option.split)

text \<open>Volume definitions do not carry the name of their resource definition; the row is the pair.\<close>

lemma vd_wf_update: "vd_wf m \<Longrightarrow> vd_VolumeNumber v = snd k \<Longrightarrow> vd_wf (AList.update k v m)"
  by (auto simp: vd_wf_def distinct_update list_all_iff set_update_gm)

lemma vd_wf_delete: "vd_wf m \<Longrightarrow> vd_wf (AList.delete k m)"
  by (auto simp: vd_wf_def distinct_delete list_all_iff set_delete_gm)

interpretation vds: patch_store
  "\<lambda>v. (fst v, vd_VolumeNumber (snd v))"
  "\<lambda>prev v. Inr v"
  vd_wf
  "\<lambda>m k. map_option (Pair (fst k)) (map_of m k)"
  "\<lambda>m v. VolumeDefinitions_Create m (fst v) (Some (snd v))"
  "\<lambda>m v. VolumeDefinitions_Update m (fst v) (Some (snd v))"
  "\<lambda>m k. VolumeDefinitions_Delete m (fst k) (snd k)"
  "\<lambda>prev v. v"
  "\<lambda>m k f. VolumeDefinitions_PatchVolumeDefinitionSpec m (fst k) (snd k)
     (Some (\<lambda>vd. map_sum id snd (f (fst k, vd))))"
  by unfold_locales
    (auto simp: VolumeDefinitions_Create_def VolumeDefinitions_Update_def VolumeDefinitions_Delete_def
       VolumeDefinitions_PatchVolumeDefinitionSpec_def gomap_simps vd_wf_update vd_wf_delete
       fun_eq_iff split: option.split)

section \<open>Listings\<close>

lemma decorateInMemoryNode_keeps [simp]:
  "n_Name (decorateInMemoryNode L n) = n_Name n"
  "n_Flags (decorateInMemoryNode L n) = n_Flags n"
  by (simp_all add: decorateInMemoryNode_def)

lemma withDerivedState_keeps [simp]:
  "sp_NodeName (withDerivedState sp) = sp_NodeName sp"
  "sp_StoragePoolName (withDerivedState sp) = sp_StoragePoolName sp"
  "sp_ProviderKind (withDerivedState sp) = sp_ProviderKind sp"
  "sp_FreeCapacity (withDerivedState sp) = sp_FreeCapacity sp"
  "sp_TotalCapacity (withDerivedState sp) = sp_TotalCapacity sp"
  "sp_SharedSpaceID (withDerivedState sp) = sp_SharedSpaceID sp"
  "sp_PoolMissing (withDerivedState sp) = sp_PoolMissing sp"
  "sp_Props (withDerivedState sp) = sp_Props sp"
  by (simp_all add: withDerivedState_def Let_def)

lemma set_Resources_ListByDefinition [simp]:
  "set (Resources_ListByDefinition t rd) = {r \<in> snd ` set (res_m t). r_Name r = rd}"
  by (auto simp: Resources_ListByDefinition_def)

lemma set_Resources_List [simp]: "set (Resources_List t) = snd ` set (res_m t)"
  by (simp add: Resources_List_def)

lemma set_StoragePools_List [simp]:
  "set (StoragePools_List m) = withDerivedState ` snd ` set m"
  by (simp add: StoragePools_List_def image_image)

lemma set_Nodes_List [simp]: "set (Nodes_List L m) = decorateInMemoryNode L ` snd ` set m"
  by (simp add: Nodes_List_def image_image)

lemma Resources_ListByDefinition_distinct:
  assumes "rows_wf r_key (res_m t)"
  shows "distinct (map r_NodeName (Resources_ListByDefinition t rd))"
proof -
  let ?xs = "filter (\<lambda>r. r_Name r = rd) (map snd (res_m t))"
  have d: "distinct (map r_key (map snd (res_m t)))"
    by (rule rows_wf_distinct [OF assms])
  have inj: "inj_on r_NodeName (set ?xs)"
    using d by (auto simp: distinct_map inj_on_def)
  have "distinct ?xs"
    using d by (simp only: distinct_map distinct_filter simp_thms)
  with inj show ?thesis
    unfolding Resources_ListByDefinition_def by (simp add: distinct_map)
qed

section \<open>Volume definitions: listing and numbering\<close>

lemma vd_group_fold:
  "map_of (fold (\<lambda>(k, vd) out. AList.update (FoldName (fst k))
       ((case map_of out (FoldName (fst k)) of None \<Rightarrow> [] | Some vds \<Rightarrow> vds) @ [vd]) out) m out0) rd =
   (let vds = map snd (filter (\<lambda>(k, _). FoldName (fst k) = rd) m)
    in if vds = [] then map_of out0 rd
       else Some ((case map_of out0 rd of None \<Rightarrow> [] | Some w \<Rightarrow> w) @ vds))"
  by (induction m arbitrary: out0) (auto simp: Let_def gomap_simps split: option.split)

lemma map_of_vd_group:
  "map_of (vd_group m) rd =
   (let vds = map snd (filter (\<lambda>(k, _). FoldName (fst k) = rd) m) in if vds = [] then None else Some vds)"
  unfolding vd_group_def vd_group_fold by (simp add: Let_def)

lemma VolumeDefinitions_ListAll_List:
  "map_of (VolumeDefinitions_ListAll m) (FoldName rd) =
     (if VolumeDefinitions_List m rd = [] then None else Some (VolumeDefinitions_List m rd))"
proof -
  have "sort_key f xs = [] \<longleftrightarrow> xs = []" for f :: "VolumeDefinition \<Rightarrow> int" and xs
    by (metis length_0_conv length_sort)
  then show ?thesis
    by (simp add: VolumeDefinitions_ListAll_def VolumeDefinitions_List_def map_of_map map_of_vd_group
        Let_def)
qed

lemma used_numbers_fold:
  "gm_has (fold (\<lambda>(k, _) used. if fst k = rd then AList.update (snd k) True used else used) m u) i
     \<longleftrightarrow> gm_has u i \<or> gm_has m (rd, i)"
  by (induction m arbitrary: u) (auto simp: gomap_simps split: if_splits)

lemma used_numbers_has: "gm_has (used_numbers m rd) i \<longleftrightarrow> gm_has m (rd, i)"
  unfolding used_numbers_def used_numbers_fold by (simp add: gm_has_def)

lemma used_numbers_wf: "gm_wf (used_numbers m rd)"
proof -
  have "gm_wf u \<Longrightarrow> gm_wf (fold (\<lambda>(k, _) used. if fst k = rd then AList.update (snd k) True used else used) m u)" for u
    by (induction m arbitrary: u) (auto simp: distinct_update)
  then show ?thesis by (simp add: used_numbers_def)
qed

lemma auto_number_loop_finds:
  assumes "gm_wf used" "int (length used) \<le> MaxInt32"
    and "0 \<le> a" "\<forall>i. 0 \<le> i \<and> i < a \<longrightarrow> gm_has used i" "int (length used) < a + int n"
  shows "\<exists>b. auto_number_loop n used a = Some b \<and> 0 \<le> b \<and> \<not> gm_has used b \<and>
             (\<forall>i. 0 \<le> i \<and> i < b \<longrightarrow> gm_has used i)"
proof -
  have bound: "c \<le> int (length used)" if "0 \<le> c" "\<forall>i. 0 \<le> i \<and> i < c \<longrightarrow> gm_has used i" for c
  proof -
    have "{0..<c} \<subseteq> fst ` set used"
      using that(2) by (auto simp: gm_has_dom)
    then have "card {0..<c} \<le> card (fst ` set used)"
      by (intro card_mono) auto
    also have "\<dots> \<le> length used"
      by (metis card_length length_map list.set_map)
    finally show ?thesis using that(1) by simp
  qed
  show ?thesis
    using assms(3-5)
  proof (induction n arbitrary: a)
    case 0
    then show ?case using bound [of a] by simp
  next
    case (Suc n)
    show ?case
    proof (cases "gm_has used a")
      case False
      then show ?thesis using Suc.prems by simp
    next
      case True
      have upto: "\<forall>i. 0 \<le> i \<and> i < a + 1 \<longrightarrow> gm_has used i"
        using Suc.prems(2) True by (auto simp: order_le_less)
      have "a + 1 \<le> MaxInt32"
        using bound [of "a + 1"] upto Suc.prems(1) assms(2) by simp
      then have "wrap32 (a + 1) = a + 1"
        using Suc.prems(1) by (intro wrap32_id) (simp add: in_int32_def MinInt32_def)
      then show ?thesis
        using True Suc.IH [of "a + 1"] Suc.prems upto by simp
    qed
  qed
qed

lemma VolumeDefinitions_CreateAutoNumbered_spec:
  assumes "int (length (used_numbers m rd)) \<le> MaxInt32"
  shows "\<exists>b. VolumeDefinitions_CreateAutoNumbered m rd (Some vd) =
               Some (Inr (b, AList.update (rd, b) (vd\<lparr>vd_VolumeNumber := b\<rparr>) m)) \<and>
             0 \<le> b \<and> \<not> gm_has m (rd, b) \<and> (\<forall>i. 0 \<le> i \<and> i < b \<longrightarrow> gm_has m (rd, i))"
proof -
  have none: "\<forall>i. 0 \<le> i \<and> i < (0::int) \<longrightarrow> gm_has (used_numbers m rd) i"
    by auto
  obtain b where "auto_number_loop (Suc (length (used_numbers m rd))) (used_numbers m rd) 0 = Some b"
    "0 \<le> b" "\<not> gm_has (used_numbers m rd) b" "\<forall>i. 0 \<le> i \<and> i < b \<longrightarrow> gm_has (used_numbers m rd) i"
    using auto_number_loop_finds [OF used_numbers_wf assms order.refl none, of "Suc (length (used_numbers m rd))"]
    by (auto simp del: auto_number_loop.simps)
  then show ?thesis
    by (simp add: VolumeDefinitions_CreateAutoNumbered_def Let_def used_numbers_has
        del: auto_number_loop.simps)
qed

end
