(* ===== verification/Oversub.thy ===== *)
theory Oversub
  imports Api_Types
begin

text \<open>
  Two gates of the autoplacer: the over-subscription caps of \<open>pkg/placer/oversub.go\<close> and the
  compatibility matrix of storage drivers of \<open>pkg/placer/provider_kind_mixing.go\<close>.
\<close>

section \<open>Over-subscription\<close>

definition propOversubMaster :: string where "propOversubMaster = ''MaxOversubscriptionRatio''"
definition propOversubFree :: string where "propOversubFree = ''MaxFreeCapacityOversubscriptionRatio''"
definition propOversubTotal :: string where "propOversubTotal = ''MaxTotalCapacityOversubscriptionRatio''"

definition defaultOversubRatio :: float64 where "defaultOversubRatio = Fin 20"

datatype OversubRatioKind = OversubRatioFree | OversubRatioTotal | OversubRatioMaster

definition isThinForOversub :: "string \<Rightarrow> bool" where
  "isThinForOversub kind =
     (kind = StoragePoolKindLVMThin \<or> kind = StoragePoolKindZFSThin \<or> kind = StoragePoolKindFileThin)"

definition parseOversubRatio :: "string \<Rightarrow> float64 option" where
  "parseOversubRatio raw =
     (if raw = [] then None
      else case ParseFloat raw of
        None \<Rightarrow> None
      | Some ratio \<Rightarrow> if f64_le ratio (Fin 0) \<or> ratio = NaN \<or> ratio = Inf True \<or> ratio = Inf False
                      then None else Some ratio)"

definition lookupOversubRatio :: "props \<Rightarrow> props \<Rightarrow> string \<Rightarrow> float64 option" where
  "lookupOversubRatio poolProps ctrlProps key =
     (case parseOversubRatio (gm_idx poolProps key) of
        Some v \<Rightarrow> Some v
      | None \<Rightarrow> (case parseOversubRatio (gm_idx ctrlProps key) of Some v \<Rightarrow> Some v | None \<Rightarrow> None))"

definition scaleClampOversub :: "int \<Rightarrow> float64 \<Rightarrow> int" where
  "scaleClampOversub sz ratio =
     (if sz \<le> 0 \<or> f64_le ratio (Fin 0) then 0
      else let scaled = f64_mul (f64_of_int sz) ratio
           in if f64_le (f64_of_int MaxInt64) scaled then MaxInt64 else f64_to_int scaled)"

definition attributeRatio :: "OversubRatioKind \<Rightarrow> bool \<Rightarrow> bool \<Rightarrow> OversubRatioKind" where
  "attributeRatio specific hasSpecific hasOverall =
     (if \<not> hasSpecific \<and> hasOverall then OversubRatioMaster else specific)"

definition pickRatioValue :: "float64 \<Rightarrow> bool \<Rightarrow> bool \<Rightarrow> float64 \<Rightarrow> float64" where
  "pickRatioValue specificValue hasSpecific hasOverall overallValue =
     (if hasSpecific then specificValue else if hasOverall then overallValue else defaultOversubRatio)"

text \<open>A ratio lookup with a flag, as the Go function returns it.\<close>

definition ratio_or :: "float64 \<Rightarrow> float64 option \<Rightarrow> float64 \<times> bool" where
  "ratio_or dflt r = (case r of None \<Rightarrow> (dflt, False) | Some v \<Rightarrow> (v, True))"

definition effectiveOversubCaps :: "StoragePool \<Rightarrow> props \<Rightarrow> int \<times> OversubRatioKind \<times> float64" where
  "effectiveOversubCaps pool ctrlProps =
     (if \<not> isThinForOversub (sp_ProviderKind pool) then (sp_FreeCapacity pool, OversubRatioFree, Fin 1)
      else
        let (overall, hasOverall) =
              ratio_or defaultOversubRatio (lookupOversubRatio (sp_Props pool) ctrlProps propOversubMaster);
            (freeRatio, hasFree) =
              ratio_or overall (lookupOversubRatio (sp_Props pool) ctrlProps propOversubFree);
            (totalRatio, hasTotal) =
              ratio_or overall (lookupOversubRatio (sp_Props pool) ctrlProps propOversubTotal);
            freeCap = scaleClampOversub (sp_FreeCapacity pool) freeRatio;
            totalCap = scaleClampOversub (sp_TotalCapacity pool) totalRatio
        in if sp_TotalCapacity pool = 0 then
             (freeCap, attributeRatio OversubRatioFree hasFree hasOverall,
              pickRatioValue freeRatio hasFree hasOverall overall)
           else if totalCap < freeCap then
             (totalCap, attributeRatio OversubRatioTotal hasTotal hasOverall,
              pickRatioValue totalRatio hasTotal hasOverall overall)
           else
             (freeCap, attributeRatio OversubRatioFree hasFree hasOverall,
              pickRatioValue freeRatio hasFree hasOverall overall))"

section \<open>Mixing storage drivers\<close>

definition isThinCrossKindPair :: "string \<Rightarrow> string \<Rightarrow> bool" where
  "isThinCrossKindPair left right =
     (if left = StoragePoolKindLVMThin \<and> right = StoragePoolKindZFSThin then True
      else if left = StoragePoolKindZFSThin \<and> right = StoragePoolKindLVMThin then True
      else False)"

definition isMixingAllowedDirected :: "string \<Rightarrow> string \<Rightarrow> bool" where
  "isMixingAllowedDirected kind1 kind2 =
     (if kind1 = StoragePoolKindFile \<or> kind1 = StoragePoolKindFileThin then
        kind2 = StoragePoolKindFile \<or> kind2 = StoragePoolKindFileThin \<or> kind2 = StoragePoolKindDiskless
      else if kind1 = StoragePoolKindLVM then False
      else if kind1 = StoragePoolKindLVMThin then False
      else if kind1 = StoragePoolKindZFS \<or> kind1 = StoragePoolKindZFSThin then
        kind2 = StoragePoolKindZFS \<or> kind2 = StoragePoolKindZFSThin
      else if kind1 = StoragePoolKindRemoteSPDK then False
      else False)"

definition IsProviderKindMixingAllowed :: "string \<Rightarrow> string \<Rightarrow> bool \<Rightarrow> bool" where
  "IsProviderKindMixingAllowed left right allowMixing =
     (if left = StoragePoolKindDiskless \<or> right = StoragePoolKindDiskless then True
      else if left = right then True
      else if isMixingAllowedDirected left right \<or> isMixingAllowedDirected right left then True
      else if allowMixing \<and> isThinCrossKindPair left right then True
      else False)"

section \<open>Facts about the caps\<close>

lemma parseOversubRatio_pos:
  assumes "parseOversubRatio raw = Some r"
  shows "\<exists>q. r = Fin q \<and> 0 < q"
  using assms
  by (cases r) (auto simp: parseOversubRatio_def f64_le_def split: if_splits option.splits)

lemma lookupOversubRatio_pos:
  "lookupOversubRatio pp cp k = Some r \<Longrightarrow> \<exists>q. r = Fin q \<and> 0 < q"
  by (auto simp: lookupOversubRatio_def dest: parseOversubRatio_pos split: option.splits)

lemma f64_of_MaxInt64: "f64_of_int MaxInt64 = Fin 9223372036854775808"
proof -
  have "floorlog2 9223372036854775807 = 62"
    by (rule floorlog2_eqI) (simp_all add: pow2_def)
  moreover have "\<lfloor>9223372036854775807 / 1024 :: rat\<rfloor> = 9007199254740991"
    by (simp add: floor_eq_iff)
  ultimately have "round_pos 9223372036854775807 = 9223372036854775808"
    by (simp add: round_pos_def ulp_exp_def pow2_def round_half_even_def Let_def)
  then show ?thesis
    by (simp add: f64_of_int_def f64_of_rat_def MaxInt64_def)
qed

lemma scaleClampOversub_code [code]:
  "scaleClampOversub sz ratio =
     (if sz \<le> 0 \<or> f64_le ratio (Fin 0) then 0
      else let scaled = f64_mul (f64_of_int sz) ratio
           in if f64_le (Fin 9223372036854775808) scaled then MaxInt64 else f64_to_int scaled)"
  unfolding scaleClampOversub_def f64_of_MaxInt64 ..

lemma f64_of_one: "f64_of_int 1 = Fin 1"
  by code_simp

lemma f64_of_int_pos: "0 < i \<Longrightarrow> f64_lt (Fin 0) (f64_of_int i)"
  using f64_of_int_mono [of 1 i] by (cases "f64_of_int i") (auto simp: f64_of_one f64_le_def)

lemma f64_mul_mono:
  assumes "f64_lt (Fin 0) x" "f64_lt (Fin 0) r" "f64_le r r'"
  shows "f64_le (f64_mul x r) (f64_mul x r')"
proof (cases x)
  case (Fin a)
  then have a: "0 < a" using assms(1) by simp
  show ?thesis
  proof (cases r)
    case NaN
    then show ?thesis using assms(2) by simp
  next
    case (Inf s)
    then show ?thesis using assms Fin a by (cases r') (auto simp: f64_le_def)
  next
    case (Fin b)
    show ?thesis
    proof (cases r')
      case NaN
      then show ?thesis using assms(3) Fin by (simp add: f64_le_def)
    next
      case (Inf t)
      then have "f64_mul x r' = Inf False"
        using assms(3) Fin \<open>x = Fin a\<close> a by (auto simp: f64_le_def)
      moreover have "f64_mul x r \<noteq> NaN"
        using Fin \<open>x = Fin a\<close> by simp
      ultimately show ?thesis
        by (cases "f64_mul x r") (auto simp: f64_le_def)
    next
      case (Fin c)
      then have "b \<le> c" using assms(3) \<open>r = Fin b\<close> by (auto simp: f64_le_def)
      then show ?thesis
        using Fin \<open>r = Fin b\<close> \<open>x = Fin a\<close> a by (simp add: f64_of_rat_mono mult_left_mono)
    qed
  qed
qed (use assms in \<open>cases r; cases r'; auto simp: f64_le_def\<close>)+

lemma f64_mul_nonneg:
  assumes "f64_lt (Fin 0) x" "f64_lt (Fin 0) r"
  shows "f64_le (Fin 0) (f64_mul x r)"
proof -
  have z: "f64_of_rat 0 = Fin 0" by (simp add: f64_of_rat_def)
  have "f64_le (Fin 0) (f64_of_rat q)" if "0 \<le> q" for q
    using f64_of_rat_mono [OF that] by (simp add: z)
  then show ?thesis
    using assms by (cases x; cases r) (auto simp: f64_le_def)
qed

lemma scaleClampOversub_bounds:
  "0 \<le> scaleClampOversub sz ratio \<and> scaleClampOversub sz ratio \<le> MaxInt64"
proof (cases "sz \<le> 0 \<or> f64_le ratio (Fin 0) \<or> ratio = NaN")
  case True
  then show ?thesis
    by (cases "f64_of_int sz")
      (auto simp: scaleClampOversub_def MaxInt64_def f64_le_def)
next
  case False
  let ?s = "f64_mul (f64_of_int sz) ratio"
  have r: "f64_lt (Fin 0) ratio"
    using False by (cases ratio) (auto simp: f64_le_def)
  have nn: "f64_le (Fin 0) ?s"
    using False by (intro f64_mul_nonneg f64_of_int_pos r) simp
  show ?thesis
  proof (cases "f64_le (f64_of_int MaxInt64) ?s")
    case True
    then show ?thesis
      using False by (simp add: scaleClampOversub_def Let_def MaxInt64_def)
  next
    case lt: False
    then obtain q where q: "?s = Fin q" "q < 9223372036854775808" "0 \<le> q"
      using nn by (cases ?s) (auto simp: f64_le_def f64_of_MaxInt64)
    then have "\<lfloor>q\<rfloor> < 9223372036854775808"
      by (simp add: floor_less_iff)
    then show ?thesis
      using False lt q by (simp add: scaleClampOversub_def Let_def MaxInt64_def)
  qed
qed

text \<open>Raising a ratio never lowers a cap.\<close>

lemma scaleClampOversub_mono:
  assumes "f64_lt (Fin 0) r" "f64_le r r'"
  shows "scaleClampOversub sz r \<le> scaleClampOversub sz r'"
proof (cases "sz \<le> 0")
  case True
  then show ?thesis by (simp add: scaleClampOversub_def)
next
  case False
  let ?s = "f64_mul (f64_of_int sz) r" and ?s' = "f64_mul (f64_of_int sz) r'"
  have pos: "f64_lt (Fin 0) (f64_of_int sz)" using False by (simp add: f64_of_int_pos)
  have le: "f64_le ?s ?s'" by (rule f64_mul_mono [OF pos assms])
  have nn: "f64_le (Fin 0) ?s" by (rule f64_mul_nonneg [OF pos assms(1)])
  have r: "\<not> f64_le r (Fin 0)" "\<not> f64_le r' (Fin 0)"
    using assms by (cases r; cases r'; auto simp: f64_le_def)+
  show ?thesis
  proof (cases "f64_le (f64_of_int MaxInt64) ?s'")
    case True
    then have "scaleClampOversub sz r' = MaxInt64"
      using False r by (simp add: scaleClampOversub_def)
    then show ?thesis using scaleClampOversub_bounds by simp
  next
    case lt': False
    then have lt: "\<not> f64_le (f64_of_int MaxInt64) ?s"
      using le f64_le_trans by blast
    obtain q q' where q: "?s = Fin q" "?s' = Fin q'"
      using lt lt' nn le by (cases ?s; cases ?s') (auto simp: f64_le_def f64_of_MaxInt64)
    then have "f64_to_int ?s \<le> f64_to_int ?s'"
      using nn le by (simp add: f64_le_def) (auto simp: floor_mono)
    then show ?thesis
      using False r lt lt' by (simp add: scaleClampOversub_def Let_def)
  qed
qed

text \<open>The two ratios a thin pool ends up with.\<close>

definition free_ratio :: "StoragePool \<Rightarrow> props \<Rightarrow> float64" where
  "free_ratio pool cp = fst (ratio_or
     (fst (ratio_or defaultOversubRatio (lookupOversubRatio (sp_Props pool) cp propOversubMaster)))
     (lookupOversubRatio (sp_Props pool) cp propOversubFree))"

definition total_ratio :: "StoragePool \<Rightarrow> props \<Rightarrow> float64" where
  "total_ratio pool cp = fst (ratio_or
     (fst (ratio_or defaultOversubRatio (lookupOversubRatio (sp_Props pool) cp propOversubMaster)))
     (lookupOversubRatio (sp_Props pool) cp propOversubTotal))"

lemma ratio_or_pos:
  assumes "f64_lt (Fin 0) d" "\<And>v. r = Some v \<Longrightarrow> f64_lt (Fin 0) v"
  shows "f64_lt (Fin 0) (fst (ratio_or d r))"
  using assms by (cases r) (simp_all add: ratio_or_def)

lemma ratios_pos: "f64_lt (Fin 0) (free_ratio pool cp)" "f64_lt (Fin 0) (total_ratio pool cp)"
proof -
  have l: "f64_lt (Fin 0) v" if "lookupOversubRatio pp cp k = Some v" for pp k v
    using lookupOversubRatio_pos [OF that] by auto
  show "f64_lt (Fin 0) (free_ratio pool cp)" "f64_lt (Fin 0) (total_ratio pool cp)"
    unfolding free_ratio_def total_ratio_def
    by (intro ratio_or_pos; auto simp: defaultOversubRatio_def dest: l)+
qed

lemma effectiveOversubCaps_thin:
  assumes "isThinForOversub (sp_ProviderKind pool)"
  shows "fst (effectiveOversubCaps pool cp) =
     (if sp_TotalCapacity pool = 0 then scaleClampOversub (sp_FreeCapacity pool) (free_ratio pool cp)
      else min (scaleClampOversub (sp_FreeCapacity pool) (free_ratio pool cp))
               (scaleClampOversub (sp_TotalCapacity pool) (total_ratio pool cp)))"
  using assms
  by (simp add: effectiveOversubCaps_def free_ratio_def total_ratio_def Let_def split_beta)

lemma effectiveOversubCaps_thick:
  "\<not> isThinForOversub (sp_ProviderKind pool) \<Longrightarrow>
   effectiveOversubCaps pool cp = (sp_FreeCapacity pool, OversubRatioFree, Fin 1)"
  by (simp add: effectiveOversubCaps_def)

section \<open>Facts about the matrix\<close>

text \<open>Two groups of interchangeable drivers, and otherwise only a driver with itself.\<close>

definition kind_class :: "string \<Rightarrow> string" where
  "kind_class k = (if k = StoragePoolKindFileThin then StoragePoolKindFile
                   else if k = StoragePoolKindZFSThin then StoragePoolKindZFS else k)"

lemma mixing_iff:
  "IsProviderKindMixingAllowed a b flag \<longleftrightarrow>
     a = StoragePoolKindDiskless \<or> b = StoragePoolKindDiskless \<or> kind_class a = kind_class b \<or>
     flag \<and> {a, b} = {StoragePoolKindLVMThin, StoragePoolKindZFSThin}"
  by (auto simp: IsProviderKindMixingAllowed_def isMixingAllowedDirected_def isThinCrossKindPair_def
      kind_class_def kind_defs doubleton_eq_iff)

lemma mixing_sym: "IsProviderKindMixingAllowed a b flag = IsProviderKindMixingAllowed b a flag"
  by (auto simp: mixing_iff insert_commute)

lemma mixing_trans_strict:
  assumes "IsProviderKindMixingAllowed k a False" "IsProviderKindMixingAllowed k b False"
    and "k \<noteq> StoragePoolKindDiskless"
  shows "IsProviderKindMixingAllowed a b False"
  using assms by (auto simp: mixing_iff)

end
