(* ===== verification/Go_Sort.thy ===== *)
theory Go_Sort
  imports Prelude
begin

text \<open>
  The algorithm of \<open>sort.SliceStable\<close> of Go's standard library, on lists.

  The comparison is a function of the current slice and two indices, which is what the Go function
  takes: a caller's closure may look at more than the two elements at those positions, and then the
  documented contract (a stable sort) says nothing and only the algorithm does.  Where the closure
  depends on the two elements only, \<^const>\<open>SliceStable\<close> of the prelude states the contract.
  The algorithm sorts blocks of twenty by insertion and merges them in place; every write is a swap
  of two positions, so the result is a permutation whatever the comparison says.
\<close>

type_synonym 'a idx_less = "'a list \<Rightarrow> nat \<Rightarrow> nat \<Rightarrow> bool"

definition swap_at :: "'a list \<Rightarrow> nat \<Rightarrow> nat \<Rightarrow> 'a list" where
  "swap_at xs i j = (if i < length xs \<and> j < length xs then xs[i := xs ! j, j := xs ! i] else xs)"

text \<open>\<open>insertionSort_func(data, a, b)\<close>: the inner loop sinks position \<open>j\<close>, the outer runs \<open>i\<close> from \<open>a + 1\<close>.\<close>

fun sink :: "'a idx_less \<Rightarrow> nat \<Rightarrow> nat \<Rightarrow> 'a list \<Rightarrow> 'a list" where
  "sink less_at a 0 xs = xs"
| "sink less_at a (Suc j) xs =
     (if a < Suc j \<and> less_at xs (Suc j) j then sink less_at a j (swap_at xs (Suc j) j) else xs)"

definition insertionSort :: "'a idx_less \<Rightarrow> nat \<Rightarrow> nat \<Rightarrow> 'a list \<Rightarrow> 'a list" where
  "insertionSort less_at a b xs = fold (sink less_at a) [a + 1..<b] xs"

definition swapRange :: "nat \<Rightarrow> nat \<Rightarrow> nat \<Rightarrow> 'a list \<Rightarrow> 'a list" where
  "swapRange a b n xs = fold (\<lambda>i ys. swap_at ys (a + i) (b + i)) [0..<n] xs"

function rotate_loop :: "nat \<Rightarrow> nat \<Rightarrow> nat \<Rightarrow> 'a list \<Rightarrow> 'a list" where
  "rotate_loop m i j xs =
     (if i = j \<or> i = 0 \<or> j = 0 then swapRange (m - i) m i xs
      else if j < i then rotate_loop m (i - j) j (swapRange (m - i) m j xs)
      else rotate_loop m i (j - i) (swapRange (m - i) (m + j - i) i xs))"
  by pat_completeness auto
termination by (relation "measure (\<lambda>(m, i, j, xs). i + j)") auto

declare rotate_loop.simps [simp del]

definition rotate_range :: "nat \<Rightarrow> nat \<Rightarrow> nat \<Rightarrow> 'a list \<Rightarrow> 'a list" where
  "rotate_range a m b xs = rotate_loop m (m - a) (b - m) xs"

text \<open>The binary searches of \<open>symMerge_func\<close>: the smallest position in \<open>[i, j)\<close> where the test fails.\<close>

function bin_search :: "(nat \<Rightarrow> bool) \<Rightarrow> nat \<Rightarrow> nat \<Rightarrow> nat" where
  "bin_search test i j =
     (if i < j then let h = (i + j) div 2 in if test h then bin_search test (h + 1) j else bin_search test i h
      else i)"
  by pat_completeness auto
termination by (relation "measure (\<lambda>(test, i, j). j - i)") auto

declare bin_search.simps [simp del]

lemma mid_bounds:
  "\<not> b - a < (2 :: nat) \<Longrightarrow> (a + b) div 2 - a < b - a"
  "\<not> b - a < (2 :: nat) \<Longrightarrow> b - (a + b) div 2 < b - a"
  by linarith+

function symMerge :: "'a idx_less \<Rightarrow> nat \<Rightarrow> nat \<Rightarrow> nat \<Rightarrow> 'a list \<Rightarrow> 'a list" where
  "symMerge less_at a m b xs =
     (if m - a = 1 then
        let i = bin_search (\<lambda>h. less_at xs h a) m b
        in fold (\<lambda>k ys. swap_at ys k (k + 1)) [a..<i - 1] xs
      else if b - m = 1 then
        let i = bin_search (\<lambda>h. \<not> less_at xs m h) a m
        in fold (\<lambda>k ys. swap_at ys k (k - 1)) (rev [i + 1..<m + 1]) xs
      else if b - a < 2 then xs
      else
        let mid = (a + b) div 2; n = mid + m;
            start0 = (if mid < m then n - b else a); r = (if mid < m then mid else m); p = n - 1;
            start = bin_search (\<lambda>c. \<not> less_at xs (p - c) c) start0 r; stop = n - start;
            xs1 = (if start < m \<and> m < stop then rotate_range start m stop xs else xs);
            xs2 = (if a < start \<and> start < mid then symMerge less_at a start mid xs1 else xs1)
        in if mid < stop \<and> stop < b then symMerge less_at mid stop b xs2 else xs2)"
  by pat_completeness auto
termination
proof (relation "measure (\<lambda>(less_at, a, m, b, xs). b - a)", goal_cases)
  case 1
  show ?case by (rule wf_measure)
next
  case (2 less_at a m b xs mid)
  then show ?case using mid_bounds(1) [OF 2(3)] 2(4) by (simp only: in_measure split_conv)
next
  case (3 less_at a m b xs mid)
  then show ?case using mid_bounds(2) [OF 3(3)] 3(4) by (simp only: in_measure split_conv)
qed

declare symMerge.simps [simp del]

function sort_blocks :: "'a idx_less \<Rightarrow> nat \<Rightarrow> nat \<Rightarrow> nat \<Rightarrow> 'a list \<Rightarrow> 'a list" where
  "sort_blocks less_at blockSize a n xs =
     (if a + blockSize \<le> n \<and> 0 < blockSize
      then sort_blocks less_at blockSize (a + blockSize) n (insertionSort less_at a (a + blockSize) xs)
      else insertionSort less_at a n xs)"
  by pat_completeness auto
termination by (relation "measure (\<lambda>(less_at, blockSize, a, n, xs). n - a)") auto

declare sort_blocks.simps [simp del]

function merge_pass :: "'a idx_less \<Rightarrow> nat \<Rightarrow> nat \<Rightarrow> nat \<Rightarrow> 'a list \<Rightarrow> 'a list" where
  "merge_pass less_at blockSize a n xs =
     (if a + 2 * blockSize \<le> n \<and> 0 < blockSize
      then merge_pass less_at blockSize (a + 2 * blockSize) n
             (symMerge less_at a (a + blockSize) (a + 2 * blockSize) xs)
      else if a + blockSize < n then symMerge less_at a (a + blockSize) n xs
      else xs)"
  by pat_completeness auto
termination by (relation "measure (\<lambda>(less_at, blockSize, a, n, xs). n - a)") auto

declare merge_pass.simps [simp del]

function merge_blocks :: "'a idx_less \<Rightarrow> nat \<Rightarrow> nat \<Rightarrow> 'a list \<Rightarrow> 'a list" where
  "merge_blocks less_at blockSize n xs =
     (if blockSize < n \<and> 0 < blockSize
      then merge_blocks less_at (2 * blockSize) n (merge_pass less_at blockSize 0 n xs)
      else xs)"
  by pat_completeness auto
termination by (relation "measure (\<lambda>(less_at, blockSize, n, xs). n - blockSize)") auto

declare merge_blocks.simps [simp del]

definition SliceStable_at :: "'a idx_less \<Rightarrow> 'a list \<Rightarrow> 'a list" where
  "SliceStable_at less_at xs =
     merge_blocks less_at 20 (length xs) (sort_blocks less_at 20 0 (length xs) xs)"

section \<open>The result is a permutation\<close>

lemma mset_swap_at [simp]: "mset (swap_at xs i j) = mset xs"
  by (simp add: swap_at_def mset_swap)

lemma mset_fold:
  "(\<And>x ys. mset (f x ys) = mset ys) \<Longrightarrow> mset (fold f xs ys) = mset ys"
  by (induction xs arbitrary: ys) simp_all

lemma mset_sink [simp]: "mset (sink less_at a j xs) = mset xs"
  by (induction less_at a j xs rule: sink.induct) simp_all

lemma mset_insertionSort [simp]: "mset (insertionSort less_at a b xs) = mset xs"
  by (simp add: insertionSort_def mset_fold)

lemma mset_swapRange [simp]: "mset (swapRange a b n xs) = mset xs"
  by (simp add: swapRange_def mset_fold)

lemma mset_rotate_loop [simp]: "mset (rotate_loop m i j xs) = mset xs"
  by (induction m i j xs rule: rotate_loop.induct)
    (subst rotate_loop.simps, simp)

lemma mset_symMerge [simp]: "mset (symMerge less_at a m b xs) = mset xs"
proof (induction "b - a" arbitrary: a m b xs rule: less_induct)
  case less
  show ?case
  proof (cases "b - a < 2")
    case True
    show ?thesis
      by (subst symMerge.simps)
        (simp only: True if_True if_distrib [of mset] Let_def mset_fold mset_swap_at if_cancel)
  next
    case False
    have ih: "mset (symMerge less_at a s ((a + b) div 2) ys) = mset ys"
      "mset (symMerge less_at ((a + b) div 2) s b ys) = mset ys" for s ys
      using less mid_bounds [OF False] by blast+
    show ?thesis
      by (subst symMerge.simps)
        (simp only: False if_False if_distrib [of mset] Let_def mset_fold mset_swap_at rotate_range_def
          mset_rotate_loop ih if_cancel)
  qed
qed

lemma mset_sort_blocks [simp]: "mset (sort_blocks less_at bs a n xs) = mset xs"
  by (induction less_at bs a n xs rule: sort_blocks.induct) (subst sort_blocks.simps, simp)

lemma mset_merge_pass [simp]: "mset (merge_pass less_at bs a n xs) = mset xs"
  by (induction less_at bs a n xs rule: merge_pass.induct) (subst merge_pass.simps, simp)

lemma mset_merge_blocks [simp]: "mset (merge_blocks less_at bs n xs) = mset xs"
  by (induction less_at bs n xs rule: merge_blocks.induct) (subst merge_blocks.simps, simp)

theorem mset_SliceStable_at [simp]: "mset (SliceStable_at less_at xs) = mset xs"
  by (simp add: SliceStable_at_def)

lemma set_SliceStable_at [simp]: "set (SliceStable_at less_at xs) = set xs"
  using mset_SliceStable_at by (rule mset_eq_setD)

lemma length_SliceStable_at [simp]: "length (SliceStable_at less_at xs) = length xs"
  using mset_SliceStable_at by (rule mset_eq_length)

text \<open>Up to twenty elements the algorithm is one insertion sort.\<close>

lemma SliceStable_at_small:
  assumes "length xs < 20"
  shows "SliceStable_at less_at xs = insertionSort less_at 0 (length xs) xs"
  using assms by (simp add: SliceStable_at_def sort_blocks.simps merge_blocks.simps)

end
