(* ===== verification/Placer.thy ===== *)
theory Placer
  imports Store Oversub Go_Sort
begin

text \<open>
  The autoplacer, \<open>pkg/placer/placer.go\<close>, over the in-memory store.

  The definitions follow the file's functions.  Sets (\<open>map[string]struct{}\<close>) are lists.  The read
  methods of the in-memory store do not fail, so the read side of \<open>Place\<close> returns plain values;
  \<open>Place\<close> itself returns the new store, the two counts and the error.  The code that talks to the
  store between reads is one thread: calls of other clients in between are not interleaved.
\<close>

section \<open>Errors and plans\<close>

definition storPoolNameProp :: string where "storPoolNameProp = ''StorPoolName''"
definition restoreFromSnapshotProp :: string where
  "restoreFromSnapshotProp = ''BlockstorRestoreFromSnapshot''"

record OversubscriptionShortfallError =
  os_RequiredKib :: int
  os_PoolName :: string
  os_NodeName :: string
  os_Ratio :: OversubRatioKind
  os_RatioValue :: float64
  os_EffectiveCapKib :: int

datatype place_err = StoreErr err | CapacityShortfall int int
  | OversubShortfall OversubscriptionShortfallError

record candidateGates =
  maxFreeBelow :: int
  oversubBest :: "OversubscriptionShortfallError option"

section \<open>Small helpers\<close>

definition props_at :: "(string, props) gomap \<Rightarrow> string \<Rightarrow> props" where
  "props_at nodes n = (case map_of nodes n of None \<Rightarrow> [] | Some p \<Rightarrow> p)"

definition int_at :: "(string, int) gomap \<Rightarrow> string \<Rightarrow> int" where
  "int_at m k = (case map_of m k of None \<Rightarrow> 0 | Some v \<Rightarrow> v)"

definition auxKey :: "string \<Rightarrow> string" where
  "auxKey key = (if HasPrefix key ''Aux/'' then key else ''Aux/'' @ key)"

definition parseDiffSpec :: "string \<Rightarrow> string \<times> string \<times> bool" where
  "parseDiffSpec spec = (let (k, v, ok) = Cut spec CHR ''='' in
     if \<not> ok then (spec, [], False) else (k, v, True))"

definition parseSameSpec :: "string \<Rightarrow> string \<times> string \<times> bool" where
  "parseSameSpec spec = (let (k, v, ok) = Cut spec CHR ''='' in
     if \<not> ok then (spec, [], False) else (k, v, True))"

definition hasValue :: "string \<times> string \<times> bool \<Rightarrow> bool" where
  "hasValue p = snd (snd p)"

definition xBucketKey :: "string \<Rightarrow> props \<Rightarrow> string" where
  "xBucketKey key nodeProps = key @ ''='' @ gm_idx nodeProps (auxKey key)"

definition poolKey :: "string \<Rightarrow> string \<Rightarrow> string" where
  "poolKey node pool = node @ [CHR 0x1F] @ pool"

definition poolsByKey :: "StoragePool list \<Rightarrow> (string, StoragePool) gomap" where
  "poolsByKey pools =
     fold (\<lambda>p out. AList.update (poolKey (sp_NodeName p) (sp_StoragePoolName p)) p out) pools []"

section \<open>Topology helpers\<close>

definition lookupKeys :: "props \<Rightarrow> string list \<Rightarrow> props" where
  "lookupKeys nodeProps keys =
     fold (\<lambda>spec out. let (key, value, hv) = parseSameSpec spec in
             if hv then AList.update (auxKey key) value out
             else AList.update (auxKey key) (gm_idx nodeProps (auxKey key)) out) keys []"

definition topologyTuple :: "Resource list \<Rightarrow> (string, props) gomap \<Rightarrow> string list \<Rightarrow> props option" where
  "topologyTuple existing nodes keys =
     (case existing of
        [] \<Rightarrow> None
      | r # _ \<Rightarrow> if keys = [] then None else Some (lookupKeys (props_at nodes (r_NodeName r)) keys))"

definition topologySeen :: "Resource list \<Rightarrow> (string, props) gomap \<Rightarrow> string list \<Rightarrow> string list" where
  "topologySeen existing nodes keys =
     fold (\<lambda>k out. if hasValue (parseDiffSpec k) then out
             else fold (\<lambda>r out. List.insert
                      (k @ ''='' @ gm_idx (props_at nodes (r_NodeName r)) (auxKey k)) out) existing out)
       keys []"

definition matchesTuple :: "props \<Rightarrow> string list \<Rightarrow> props option \<Rightarrow> bool" where
  "matchesTuple nodeProps keys want =
     (case want of
        None \<Rightarrow> True
      | Some w \<Rightarrow> list_all (\<lambda>spec. let (key, _, _) = parseSameSpec spec in
                    gm_idx nodeProps (auxKey key) = gm_idx w (auxKey key)) keys)"

definition collidesWithDiff :: "props \<Rightarrow> string list \<Rightarrow> string list \<Rightarrow> bool" where
  "collidesWithDiff nodeProps keys seen =
     list_ex (\<lambda>k. \<not> hasValue (parseDiffSpec k) \<and>
                  k @ ''='' @ gm_idx nodeProps (auxKey k) \<in> set seen) keys"

definition matchesAnyExcludedPair :: "props \<Rightarrow> string list \<Rightarrow> bool" where
  "matchesAnyExcludedPair nodeProps keys =
     list_ex (\<lambda>spec. let (k, v, hv) = parseDiffSpec spec in hv \<and> gm_idx nodeProps (auxKey k) = v) keys"

definition partitionByExclusion ::
  "StoragePool list \<Rightarrow> (string, props) gomap \<Rightarrow> string list \<Rightarrow> StoragePool list \<times> StoragePool list"
where
  "partitionByExclusion candidates nodes keys =
     (if \<not> list_ex (\<lambda>spec. hasValue (parseDiffSpec spec)) keys then (candidates, [])
      else (filter (\<lambda>p. \<not> matchesAnyExcludedPair (props_at nodes (sp_NodeName p)) keys) candidates,
            filter (\<lambda>p. matchesAnyExcludedPair (props_at nodes (sp_NodeName p)) keys) candidates))"

definition matchesAllSamePins :: "props \<Rightarrow> string list \<Rightarrow> bool" where
  "matchesAllSamePins nodeProps keys =
     list_all (\<lambda>spec. let (key, value, hv) = parseSameSpec spec in
                 hv \<longrightarrow> gm_idx nodeProps (auxKey key) = value) keys"

definition filterSamePinned ::
  "StoragePool list \<Rightarrow> (string, props) gomap \<Rightarrow> string list \<Rightarrow> StoragePool list"
where
  "filterSamePinned candidates nodes keys =
     (if \<not> list_ex (\<lambda>spec. hasValue (parseSameSpec spec)) keys then candidates
      else filter (\<lambda>p. matchesAllSamePins (props_at nodes (sp_NodeName p)) keys) candidates)"

definition tupleKey :: "props \<Rightarrow> string" where
  "tupleKey tuple =
     join_with [CHR 0x1F] (map (\<lambda>k. k @ ''='' @ gm_idx tuple k) (sort (map fst tuple)))"

record same_group =
  g_tuple :: props
  g_key :: string
  g_pools :: "StoragePool list"
  g_seen :: "string list"
  g_free :: int

definition group_add :: "(string, props) gomap \<Rightarrow> string list \<Rightarrow> StoragePool \<Rightarrow>
    (string, same_group) gomap \<Rightarrow> (string, same_group) gomap" where
  "group_add nodes keys pool byKey =
     (let tuple = lookupKeys (props_at nodes (sp_NodeName pool)) keys;
          key = tupleKey tuple;
          grp = (case map_of byKey key of
                   Some g \<Rightarrow> g
                 | None \<Rightarrow> \<lparr>g_tuple = tuple, g_key = key, g_pools = [], g_seen = [], g_free = 0\<rparr>)
      in AList.update key
           (grp\<lparr>g_pools := g_pools grp @ [pool], g_seen := List.insert (sp_NodeName pool) (g_seen grp),
                g_free := wrap64 (g_free grp + sp_FreeCapacity pool)\<rparr>) byKey)"

definition group_before :: "same_group \<Rightarrow> same_group \<Rightarrow> bool" where
  "group_before a b = (if g_free a \<noteq> g_free b then g_free b < g_free a else g_key a < g_key b)"

definition pickSameGroup ::
  "StoragePool list \<Rightarrow> (string, props) gomap \<Rightarrow> string list \<Rightarrow> int \<Rightarrow> StoragePool list \<times> props option"
where
  "pickSameGroup candidates nodes keys want =
     (let byKey = fold (group_add nodes keys) candidates [];
          groups = filter (\<lambda>g. want \<le> int (length (g_seen g))) (map snd byKey)
      in case SliceStable group_before groups of
           [] \<Rightarrow> (candidates, None)
         | winner # _ \<Rightarrow> (g_pools winner, Some (g_tuple winner)))"

section \<open>Reading the store\<close>

definition requiredKib :: "InMemory \<Rightarrow> string \<Rightarrow> int" where
  "requiredKib st rdName =
     fold (\<lambda>vd maxKib. if maxKib < vd_SizeKib vd then vd_SizeKib vd else maxKib)
       (VolumeDefinitions_List (im_volumeDefinitions st) rdName) 0"

definition disabledNodes :: "golib \<Rightarrow> InMemory \<Rightarrow> string list" where
  "disabledNodes L st =
     map n_Name (filter (\<lambda>n. list_ex (\<lambda>f. f = NodeFlagEvicted \<or> f = NodeFlagLost) (n_Flags n))
                   (Nodes_List L (im_nodes st)))"

definition PropAutoplaceTarget :: string where "PropAutoplaceTarget = ''AutoplaceTarget''"

definition autoplaceExcludedNodes :: "golib \<Rightarrow> InMemory \<Rightarrow> string list \<Rightarrow> string list" where
  "autoplaceExcludedNodes L st disabled =
     fold (\<lambda>n out. case map_of (n_Props n) PropAutoplaceTarget of
             None \<Rightarrow> out
           | Some raw \<Rightarrow> if ParseBool raw = Some False then List.insert (n_Name n) out else out)
       (Nodes_List L (im_nodes st)) disabled"

definition nodesByName :: "golib \<Rightarrow> InMemory \<Rightarrow> (string, props) gomap" where
  "nodesByName L st = fold (\<lambda>n out. AList.update (n_Name n) (n_Props n) out) (Nodes_List L (im_nodes st)) []"

definition resourcesPerNode :: "InMemory \<Rightarrow> (string, int) gomap" where
  "resourcesPerNode st =
     fold (\<lambda>r out. AList.update (r_NodeName r) (int_at out (r_NodeName r) + 1) out)
       (Resources_List (im_resources st)) []"

definition parseWeight :: "string \<Rightarrow> float64" where
  "parseWeight raw =
     (if raw = [] then Fin 1
      else case ParseFloat raw of
        None \<Rightarrow> Fin 1
      | Some w \<Rightarrow> if f64_lt w (Fin 0) then Fin 0 else w)"

record weights =
  w_maxFreeSpace :: float64
  w_minReservedSpace :: float64
  w_minRscCount :: float64
  w_maxThroughput :: float64

definition loadWeights :: "InMemory \<Rightarrow> weights" where
  "loadWeights st = (let p = ControllerProps_Get (im_controllerProps st) in
     \<lparr>w_maxFreeSpace = parseWeight (gm_idx p ''Autoplacer/Weights/MaxFreeSpace''),
      w_minReservedSpace = parseWeight (gm_idx p ''Autoplacer/Weights/MinReservedSpace''),
      w_minRscCount = parseWeight (gm_idx p ''Autoplacer/Weights/MinRscCount''),
      w_maxThroughput = parseWeight (gm_idx p ''Autoplacer/Weights/MaxThroughput'')\<rparr>)"

definition loadAllowPoolDriverMixing :: "InMemory \<Rightarrow> bool" where
  "loadAllowPoolDriverMixing st =
     EqualFold (gm_idx (ControllerProps_Get (im_controllerProps st)) ''AllowMixingStoragePoolDriver'') ''true''"

section \<open>Candidate pools\<close>

definition matchesPoolFilter :: "StoragePool \<Rightarrow> AutoSelectFilter \<Rightarrow> string list \<Rightarrow> bool" where
  "matchesPoolFilter pool fl disabled =
     (if sp_ProviderKind pool = StoragePoolKindDiskless then False
      else if sp_NodeName pool \<in> set disabled then False
      else if sp_PoolMissing pool then False
      else if FilterStoragePool fl \<noteq> [] \<and> sp_StoragePoolName pool \<noteq> FilterStoragePool fl then False
      else if StoragePoolList fl \<noteq> [] \<and> sp_StoragePoolName pool \<notin> set (StoragePoolList fl) then False
      else if NodeNameList fl \<noteq> [] \<and> sp_NodeName pool \<notin> set (NodeNameList fl) then False
      else if ProviderList fl \<noteq> [] \<and> sp_ProviderKind pool \<notin> set (ProviderList fl) then False
      else True)"

definition oversubRejects :: "StoragePool \<Rightarrow> props \<Rightarrow> int \<Rightarrow> candidateGates \<Rightarrow> bool \<times> candidateGates" where
  "oversubRejects pool ctrlProps minFreeKib gates =
     (let (capKib, kind, ratioValue) = effectiveOversubCaps pool ctrlProps in
      if minFreeKib \<le> capKib then (False, gates)
      else (True,
        if oversubBest gates = None \<or> os_EffectiveCapKib (the (oversubBest gates)) < capKib
        then gates\<lparr>oversubBest := Some
               \<lparr>os_RequiredKib = minFreeKib, os_PoolName = sp_StoragePoolName pool,
                os_NodeName = sp_NodeName pool, os_Ratio = kind, os_RatioValue = ratioValue,
                os_EffectiveCapKib = capKib\<rparr>\<rparr>
        else gates))"

fun gates_loop :: "AutoSelectFilter \<Rightarrow> string list \<Rightarrow> props \<Rightarrow> int \<Rightarrow> StoragePool list \<Rightarrow>
    StoragePool list \<Rightarrow> candidateGates \<Rightarrow> StoragePool list \<times> candidateGates" where
  "gates_loop fl disabled ctrlProps minFreeKib [] out gates = (out, gates)"
| "gates_loop fl disabled ctrlProps minFreeKib (pool # rest) out gates =
     (if \<not> matchesPoolFilter pool fl disabled then
        gates_loop fl disabled ctrlProps minFreeKib rest out gates
      else if 0 < minFreeKib \<and> sp_FreeCapacity pool < minFreeKib then
        gates_loop fl disabled ctrlProps minFreeKib rest out
          (if maxFreeBelow gates < sp_FreeCapacity pool
           then gates\<lparr>maxFreeBelow := sp_FreeCapacity pool\<rparr> else gates)
      else if 0 < minFreeKib then
        (let (rej, gates') = oversubRejects pool ctrlProps minFreeKib gates
         in gates_loop fl disabled ctrlProps minFreeKib rest (if rej then out else out @ [pool]) gates')
      else gates_loop fl disabled ctrlProps minFreeKib rest (out @ [pool]) gates)"

definition applyCapacityAndOversubGates ::
  "StoragePool list \<Rightarrow> AutoSelectFilter \<Rightarrow> string list \<Rightarrow> props \<Rightarrow> int \<Rightarrow> StoragePool list \<times> candidateGates"
where
  "applyCapacityAndOversubGates all fl disabled ctrlProps minFreeKib =
     gates_loop fl disabled ctrlProps minFreeKib all [] \<lparr>maxFreeBelow = 0, oversubBest = None\<rparr>"

definition reservedKib :: "StoragePool \<Rightarrow> int" where
  "reservedKib pool = (let raw = gm_idx (sp_Props pool) ''Aux/blockstor.io/reserved-kib'' in
     if raw = [] then 0
     else case ParseInt 64 raw of None \<Rightarrow> 0 | Some v \<Rightarrow> if v < 0 then 0 else v)"

definition throughputHint :: "StoragePool \<Rightarrow> float64" where
  "throughputHint pool = (let raw = gm_idx (sp_Props pool) ''Autoplacer/MaxThroughput'' in
     if raw = [] then Fin 0
     else case ParseFloat raw of None \<Rightarrow> Fin 0 | Some v \<Rightarrow> if f64_lt v (Fin 0) then Fin 0 else v)"

definition composite :: "StoragePool \<Rightarrow> weights \<Rightarrow> (string, int) gomap \<Rightarrow> float64 \<Rightarrow> float64" where
  "composite pool w rscPerNode maxThroughput =
     (let total = f64_of_int (sp_TotalCapacity pool);
          s0 = Fin 0;
          s1 = (if f64_lt (Fin 0) (w_maxFreeSpace w) \<and> 0 < sp_TotalCapacity pool
                then f64_add s0 (f64_mul (w_maxFreeSpace w) (f64_div (f64_of_int (sp_FreeCapacity pool)) total))
                else s0);
          s2 = (if f64_lt (Fin 0) (w_minReservedSpace w) \<and> 0 < sp_TotalCapacity pool
                then f64_add s1 (f64_mul (w_minReservedSpace w)
                       (f64_sub (Fin 1)
                          (f64_div (f64_of_int (min (reservedKib pool) (sp_TotalCapacity pool))) total)))
                else s1);
          s3 = (if f64_lt (Fin 0) (w_minRscCount w)
                then f64_add s2 (f64_mul (w_minRscCount w)
                       (f64_div (Fin 1) (f64_of_int (1 + int_at rscPerNode (sp_NodeName pool)))))
                else s2)
      in if f64_lt (Fin 0) (w_maxThroughput w) \<and> f64_lt (Fin 0) maxThroughput
         then f64_add s3 (f64_mul (w_maxThroughput w) (f64_div (throughputHint pool) maxThroughput))
         else s3)"

text \<open>
  The comparison of \<open>rankCandidates\<close> reads the scores through the position in the slice that is
  being sorted, while the array of scores keeps the order of the input.
\<close>

definition rank_less :: "float64 list \<Rightarrow> StoragePool list \<Rightarrow> nat \<Rightarrow> nat \<Rightarrow> bool" where
  "rank_less scores pools i j =
     (if \<not> f64_eq (scores ! i) (scores ! j) then f64_lt (scores ! j) (scores ! i)
      else sp_NodeName (pools ! i) < sp_NodeName (pools ! j))"

definition maxThroughputOf :: "StoragePool list \<Rightarrow> float64" where
  "maxThroughputOf pools =
     fold (\<lambda>p m. let t = throughputHint p in if f64_lt m t then t else m) pools (Fin 0)"

definition rankCandidates :: "StoragePool list \<Rightarrow> weights \<Rightarrow> (string, int) gomap \<Rightarrow> StoragePool list" where
  "rankCandidates pools w rscPerNode =
     (if length pools < 2 then pools
      else let scores = map (\<lambda>p. composite p w rscPerNode (maxThroughputOf pools)) pools
           in SliceStable_at (rank_less scores) pools)"

definition candidatePools ::
  "golib \<Rightarrow> InMemory \<Rightarrow> AutoSelectFilter \<Rightarrow> int \<Rightarrow> StoragePool list \<times> candidateGates"
where
  "candidatePools L st fl minFreeKib =
     (let all = StoragePools_List (im_storagePools st);
          excludedTargets = autoplaceExcludedNodes L st (disabledNodes L st);
          ctrlProps = ControllerProps_Get (im_controllerProps st);
          (out, gates) = applyCapacityAndOversubGates all fl excludedTargets ctrlProps minFreeKib
      in (rankCandidates out (loadWeights st) (resourcesPerNode st), gates))"

definition applyNotPlaceWith ::
  "golib \<Rightarrow> InMemory \<Rightarrow> string \<Rightarrow> AutoSelectFilter \<Rightarrow> StoragePool list \<Rightarrow> StoragePool list"
where
  "applyNotPlaceWith L st rdName fl candidates =
     (if NotPlaceWithRsc fl = [] \<and> NotPlaceWithRscRegex fl = [] then candidates
      else
        let pattern = (if NotPlaceWithRscRegex fl \<noteq> [] then regexpCompile L (NotPlaceWithRscRegex fl) else None);
            excluded = fold (\<lambda>r out.
                if r_Name r = rdName then out
                else if r_Name r \<in> set (NotPlaceWithRsc fl) then List.insert (r_NodeName r) out
                else case pattern of
                       None \<Rightarrow> out
                     | Some matches \<Rightarrow> if matches (r_Name r) then List.insert (r_NodeName r) out else out)
              (Resources_List (im_resources st)) []
        in if excluded = [] then candidates
           else filter (\<lambda>p. sp_NodeName p \<notin> set excluded) candidates)"

section \<open>The bookkeeping of one call\<close>

record pstate =
  ps_nodes :: "(string, props) gomap"
  ps_taken :: "string list"
  ps_sameTuple :: "props option"
  ps_diffSeen :: "string list"
  ps_sharedSeen :: "string list"
  ps_pools :: "(string, StoragePool) gomap"
  ps_filter :: AutoSelectFilter
  ps_firstKind :: string
  ps_allowPoolDriverMixing :: bool
  ps_xBuckets :: "(string, int) gomap"
  ps_upgradeable :: "(string, string) gomap"

definition bump_buckets :: "AutoSelectFilter \<Rightarrow> props \<Rightarrow> (string, int) gomap \<Rightarrow> (string, int) gomap" where
  "bump_buckets fl nodeProps b =
     fold (\<lambda>(key, _) b. AList.update (xBucketKey key nodeProps) (int_at b (xBucketKey key nodeProps) + 1) b)
       (XReplicasOnDifferentMap fl) b"

definition seed_existing :: "Resource \<Rightarrow> pstate \<Rightarrow> pstate" where
  "seed_existing r s =
     (if ResourceFlagDiskless \<in> set (r_Flags r)
      then s\<lparr>ps_upgradeable := AList.update (r_NodeName r) (gm_idx (r_Props r) storPoolNameProp) (ps_upgradeable s)\<rparr>
      else
        let nodeProps = props_at (ps_nodes s) (r_NodeName r);
            s1 = s\<lparr>ps_taken := List.insert (r_NodeName r) (ps_taken s),
                   ps_xBuckets := bump_buckets (ps_filter s) nodeProps (ps_xBuckets s)\<rparr>;
            stor = gm_idx (r_Props r) storPoolNameProp
        in if stor = [] then s1
           else case map_of (ps_pools s) (poolKey (r_NodeName r) stor) of
                  None \<Rightarrow> s1
                | Some pool \<Rightarrow>
                    s1\<lparr>ps_sharedSeen := (if sp_SharedSpaceID pool \<noteq> []
                          then List.insert (sp_SharedSpaceID pool) (ps_sharedSeen s) else ps_sharedSeen s),
                       ps_firstKind := (if ps_firstKind s = [] then sp_ProviderKind pool else ps_firstKind s)\<rparr>)"

definition newState ::
  "AutoSelectFilter \<Rightarrow> Resource list \<Rightarrow> (string, props) gomap \<Rightarrow> StoragePool list \<Rightarrow> bool \<Rightarrow> pstate"
where
  "newState fl existing nodes pools allowMixing =
     fold seed_existing existing
       \<lparr>ps_nodes = nodes, ps_taken = [],
        ps_sameTuple = topologyTuple existing nodes (ReplicasOnSame fl),
        ps_diffSeen = topologySeen existing nodes (ReplicasOnDifferent fl),
        ps_sharedSeen = [], ps_pools = poolsByKey pools, ps_filter = fl, ps_firstKind = [],
        ps_allowPoolDriverMixing = allowMixing, ps_xBuckets = [], ps_upgradeable = []\<rparr>"

definition exceedsXBucket :: "pstate \<Rightarrow> props \<Rightarrow> bool" where
  "exceedsXBucket s nodeProps =
     list_ex (\<lambda>(key, maxPerBucket). \<not> maxPerBucket \<le> 0 \<and>
                maxPerBucket \<le> int_at (ps_xBuckets s) (xBucketKey key nodeProps))
       (XReplicasOnDifferentMap (ps_filter s))"

definition allowsKindMix :: "pstate \<Rightarrow> string \<Rightarrow> bool" where
  "allowsKindMix s kind =
     (if ps_firstKind s = [] then True
      else IsProviderKindMixingAllowed (ps_firstKind s) kind (ps_allowPoolDriverMixing s))"

definition candidateNodeProps :: "pstate \<Rightarrow> StoragePool \<Rightarrow> props option" where
  "candidateNodeProps s pool =
     (if sp_NodeName pool \<in> set (ps_taken s) then None
      else let nodeProps = props_at (ps_nodes s) (sp_NodeName pool) in
        if \<not> matchesTuple nodeProps (ReplicasOnSame (ps_filter s)) (ps_sameTuple s) then None
        else if collidesWithDiff nodeProps (ReplicasOnDifferent (ps_filter s)) (ps_diffSeen s) then None
        else if exceedsXBucket s nodeProps then None
        else if sp_SharedSpaceID pool \<noteq> [] \<and> sp_SharedSpaceID pool \<in> set (ps_sharedSeen s) then None
        else if \<not> allowsKindMix s (sp_ProviderKind pool) then None
        else Some nodeProps)"

section \<open>Placing one replica\<close>

definition diskful_replica :: "string \<Rightarrow> StoragePool \<Rightarrow> Resource" where
  "diskful_replica rdName pool =
     zero_Resource\<lparr>r_Name := rdName, r_NodeName := sp_NodeName pool,
       r_Props := [(storPoolNameProp, sp_StoragePoolName pool)]\<rparr>"

text \<open>\<open>Resources().Create\<close> where an existing row is not an error.\<close>

definition create_tolerant :: "InMemory \<Rightarrow> Resource \<Rightarrow> err + InMemory" where
  "create_tolerant st res =
     (case Resources_Create (im_resources st) (Some res) of
        Inr t \<Rightarrow> Inr (st\<lparr>im_resources := t\<rparr>)
      | Inl e \<Rightarrow> if e = ErrAlreadyExists then Inr st else Inl e)"

definition promote_row :: "StoragePool \<Rightarrow> Resource \<Rightarrow> err + Resource" where
  "promote_row pool live =
     Inr (live\<lparr>r_Flags := fst (PromoteWitnessFlags (r_Flags live) True),
               r_Props := AList.update storPoolNameProp (sp_StoragePoolName pool) (r_Props live)\<rparr>)"

definition promoteWitness :: "InMemory \<Rightarrow> string \<Rightarrow> StoragePool \<Rightarrow> err + InMemory" where
  "promoteWitness st rdName pool =
     (case Resources_PatchResourceSpec (im_resources st) rdName (sp_NodeName pool) (Some (promote_row pool)) of
        Inr t \<Rightarrow> Inr (st\<lparr>im_resources := t\<rparr>)
      | Inl e \<Rightarrow> if e \<noteq> ErrNotFound then Inl e
                 else create_tolerant st (diskful_replica rdName pool))"

definition note_placed :: "pstate \<Rightarrow> StoragePool \<Rightarrow> props \<Rightarrow> pstate" where
  "note_placed s pool nodeProps =
     s\<lparr>ps_taken := List.insert (sp_NodeName pool) (ps_taken s),
       ps_upgradeable := AList.delete (sp_NodeName pool) (ps_upgradeable s),
       ps_sameTuple := (if ps_sameTuple s = None \<and> ReplicasOnSame (ps_filter s) \<noteq> []
          then Some (lookupKeys nodeProps (ReplicasOnSame (ps_filter s))) else ps_sameTuple s),
       ps_diffSeen := fold (\<lambda>k seen. if hasValue (parseDiffSpec k) then seen
            else List.insert (k @ ''='' @ gm_idx nodeProps (auxKey k)) seen)
          (ReplicasOnDifferent (ps_filter s)) (ps_diffSeen s),
       ps_xBuckets := bump_buckets (ps_filter s) nodeProps (ps_xBuckets s),
       ps_sharedSeen := (if sp_SharedSpaceID pool \<noteq> []
          then List.insert (sp_SharedSpaceID pool) (ps_sharedSeen s) else ps_sharedSeen s),
       ps_firstKind := (if ps_firstKind s = [] then sp_ProviderKind pool else ps_firstKind s)\<rparr>"

definition tryPlace :: "InMemory \<Rightarrow> pstate \<Rightarrow> string \<Rightarrow> StoragePool \<Rightarrow> err + InMemory \<times> pstate \<times> bool" where
  "tryPlace st s rdName pool =
     (case candidateNodeProps s pool of
        None \<Rightarrow> Inr (st, s, False)
      | Some nodeProps \<Rightarrow>
          (case (if gm_has (ps_upgradeable s) (sp_NodeName pool) then promoteWitness st rdName pool
                 else create_tolerant st (diskful_replica rdName pool)) of
             Inl e \<Rightarrow> Inl e
           | Inr st' \<Rightarrow> Inr (st', note_placed s pool nodeProps, True)))"

fun placeDiskful ::
  "InMemory \<Rightarrow> string \<Rightarrow> pstate \<Rightarrow> StoragePool list \<Rightarrow> int \<Rightarrow> int \<Rightarrow> InMemory \<times> pstate \<times> int \<times> err option"
where
  "placeDiskful st rdName s [] placed want = (st, s, placed, None)"
| "placeDiskful st rdName s (pool # rest) placed want =
     (if want \<le> placed then (st, s, placed, None)
      else case tryPlace st s rdName pool of
             Inl e \<Rightarrow> (st, s, placed, Some e)
           | Inr (st', s', ok) \<Rightarrow> placeDiskful st' rdName s' rest (if ok then placed + 1 else placed) want)"

definition diskless_replica :: "string \<Rightarrow> string \<Rightarrow> Resource" where
  "diskless_replica rdName nodeName =
     zero_Resource\<lparr>r_Name := rdName, r_NodeName := nodeName, r_Flags := [''DISKLESS'']\<rparr>"

fun diskless_loop :: "InMemory \<Rightarrow> string \<Rightarrow> pstate \<Rightarrow> string list \<Rightarrow> InMemory \<times> pstate \<times> err option" where
  "diskless_loop st rdName s [] = (st, s, None)"
| "diskless_loop st rdName s (nodeName # rest) =
     (if nodeName \<in> set (ps_taken s) then diskless_loop st rdName s rest
      else case create_tolerant st (diskless_replica rdName nodeName) of
             Inl e \<Rightarrow> (st, s, Some e)
           | Inr st' \<Rightarrow> diskless_loop st' rdName
                          (s\<lparr>ps_taken := List.insert nodeName (ps_taken s)\<rparr>) rest)"

definition placeDisklessOnRemaining :: "InMemory \<Rightarrow> string \<Rightarrow> pstate \<Rightarrow> InMemory \<times> pstate \<times> err option" where
  "placeDisklessOnRemaining st rdName s = diskless_loop st rdName s (map fst (ps_nodes s))"

section \<open>The plan\<close>

datatype placePlan =
  ShortfallPlan (sf_requiredKib: int) (sf_gates: candidateGates)
| Plan (pl_state: pstate) (pl_preferred: "StoragePool list") (pl_lastResort: "StoragePool list")
    (pl_existing: "Resource list") (pl_disabled: "string list") (pl_requiredKib: int)
    (pl_gates: candidateGates)

definition countDiskfulReplicas :: "Resource list \<Rightarrow> string list \<Rightarrow> int" where
  "countDiskfulReplicas existing disabled =
     fold (\<lambda>r count. if r_NodeName r \<in> set disabled then count
                     else if ResourceFlagDiskless \<in> set (r_Flags r) then count
                     else if ResourceFlagInactive \<in> set (r_Flags r) then count
                     else count + 1) existing 0"

definition assemblePlan ::
  "golib \<Rightarrow> InMemory \<Rightarrow> string \<Rightarrow> AutoSelectFilter \<Rightarrow> StoragePool list \<Rightarrow> int \<Rightarrow> candidateGates \<Rightarrow> placePlan"
where
  "assemblePlan L st rdName fl candidates required gates =
     (let existing = Resources_ListByDefinition (im_resources st) rdName;
          disabled = disabledNodes L st;
          nodes = nodesByName L st;
          allPools = StoragePools_List (im_storagePools st);
          candidates1 = applyNotPlaceWith L st rdName fl candidates;
          candidates2 = filterSamePinned candidates1 nodes (ReplicasOnSame fl);
          state = newState fl existing nodes allPools (loadAllowPoolDriverMixing st);
          (candidates3, state3) =
            (if ps_sameTuple state = None \<and> ReplicasOnSame fl \<noteq> []
             then let (cs, tuple) = pickSameGroup candidates2 nodes (ReplicasOnSame fl) (PlaceCount fl)
                  in (cs, state\<lparr>ps_sameTuple := tuple\<rparr>)
             else (candidates2, state));
          (preferred, lastResort) = partitionByExclusion candidates3 nodes (ReplicasOnDifferent fl)
      in Plan state3 preferred lastResort existing disabled required gates)"

definition buildPlan :: "golib \<Rightarrow> InMemory \<Rightarrow> string \<Rightarrow> AutoSelectFilter \<Rightarrow> placePlan" where
  "buildPlan L st rdName fl =
     (let required = requiredKib st rdName;
          (candidates, gates) = candidatePools L st fl required
      in if 0 < required \<and> candidates = [] then ShortfallPlan required gates
         else assemblePlan L st rdName fl candidates required gates)"

section \<open>Restored resources\<close>

fun source_kind_loop :: "InMemory \<Rightarrow> Resource list \<Rightarrow> string" where
  "source_kind_loop st [] = []"
| "source_kind_loop st (res # rest) =
     (if ResourceFlagDiskless \<in> set (r_Flags res) then source_kind_loop st rest
      else let pool = gm_idx (r_Props res) storPoolNameProp in
        if pool = [] then source_kind_loop st rest
        else case StoragePools_Get (im_storagePools st) (r_NodeName res) pool of
               Inl _ \<Rightarrow> source_kind_loop st rest
             | Inr sp \<Rightarrow> if sp_ProviderKind sp = [] \<or> sp_ProviderKind sp = StoragePoolKindDiskless
                         then source_kind_loop st rest else sp_ProviderKind sp)"

definition SourceProviderKind :: "InMemory \<Rightarrow> string \<Rightarrow> string" where
  "SourceProviderKind st srcRDName =
     source_kind_loop st (Resources_ListByDefinition (im_resources st) srcRDName)"

definition constrainFilterToRestoreSource :: "InMemory \<Rightarrow> string \<Rightarrow> AutoSelectFilter \<Rightarrow> AutoSelectFilter" where
  "constrainFilterToRestoreSource st rdName fl =
     (case ResourceDefinitions_Get (im_resourceDefinitions st) rdName of
        Inl _ \<Rightarrow> fl
      | Inr rd \<Rightarrow>
          (let stamp = gm_idx (rd_Props rd) restoreFromSnapshotProp in
           if stamp = [] then fl
           else let (srcRD, _, ok) = Cut stamp CHR '':'' in
             if \<not> ok \<or> srcRD = [] then fl
             else let kind = SourceProviderKind st srcRD in
               if kind = [] then fl else fl\<lparr>ProviderList := [kind]\<rparr>))"

section \<open>Place\<close>

definition shortfall_err :: "int \<Rightarrow> candidateGates \<Rightarrow> place_err" where
  "shortfall_err required gates =
     (case (maxFreeBelow gates = 0, oversubBest gates) of
        (True, Some e) \<Rightarrow> OversubShortfall e
      | _ \<Rightarrow> CapacityShortfall required (maxFreeBelow gates))"

definition partial_err :: "int \<Rightarrow> int \<Rightarrow> int \<Rightarrow> candidateGates \<Rightarrow> place_err option" where
  "partial_err placed want required gates =
     (if placed < want \<and> 0 < required then
        (if 0 < maxFreeBelow gates then Some (CapacityShortfall required (maxFreeBelow gates))
         else case oversubBest gates of Some e \<Rightarrow> Some (OversubShortfall e) | None \<Rightarrow> None)
      else None)"

definition Place ::
  "golib \<Rightarrow> InMemory \<Rightarrow> string \<Rightarrow> AutoSelectFilter \<Rightarrow> InMemory \<times> int \<times> int \<times> place_err option"
where
  "Place L st rdName fl0 =
     (let fl = constrainFilterToRestoreSource st rdName fl0 in
      case buildPlan L st rdName fl of
        ShortfallPlan required gates \<Rightarrow> (st, 0, PlaceCount fl, Some (shortfall_err required gates))
      | Plan s preferred lastResort existing disabled required gates \<Rightarrow>
          (let want = PlaceCount fl in
           case placeDiskful st rdName s preferred (countDiskfulReplicas existing disabled) want of
             (st1, s1, placed1, Some e) \<Rightarrow> (st1, placed1, want, Some (StoreErr e))
           | (st1, s1, placed1, None) \<Rightarrow>
             (case placeDiskful st1 rdName s1 lastResort placed1 want of
                (st2, s2, placed2, Some e) \<Rightarrow> (st2, placed2, want, Some (StoreErr e))
              | (st2, s2, placed2, None) \<Rightarrow>
                (case (if DisklessOnRemaining fl \<and> want \<le> placed2
                       then placeDisklessOnRemaining st2 rdName s2 else (st2, s2, None)) of
                   (st3, s3, Some e) \<Rightarrow> (st3, placed2, want, Some (StoreErr e))
                 | (st3, s3, None) \<Rightarrow> (st3, placed2, want, partial_err placed2 want required gates)))))"

end
