(* ===== verification/Greedy.thy ===== *)
theory Greedy
  imports Prelude
begin

text \<open>
  Greedy selection under constraints that only tighten.

  The autoplacer walks a ranked list, takes a candidate when its bookkeeping accepts it and records
  the choice, until enough are taken.  \<open>greedy\<close> is that walk on its own; the locale \<open>greedy_gate\<close>
  states what the bookkeeping promises (recording a choice only adds constraints, and blocks the
  choice itself), and derives what every such walk guarantees.
\<close>

fun greedy :: "('s \<Rightarrow> 'c \<Rightarrow> bool) \<Rightarrow> ('s \<Rightarrow> 'c \<Rightarrow> 's) \<Rightarrow> 's \<Rightarrow> 'c list \<Rightarrow> int \<Rightarrow> int \<Rightarrow> 'c list" where
  "greedy accept mark s [] placed want = []"
| "greedy accept mark s (c # cs) placed want =
     (if want \<le> placed then []
      else if accept s c then c # greedy accept mark (mark s c) cs (placed + 1) want
      else greedy accept mark s cs placed want)"

abbreviation marked :: "('s \<Rightarrow> 'c \<Rightarrow> 's) \<Rightarrow> 's \<Rightarrow> 'c list \<Rightarrow> 's" where
  "marked mark s cs \<equiv> foldl mark s cs"

lemma greedy_done: "want \<le> placed \<Longrightarrow> greedy accept mark s cs placed want = []"
  by (cases cs) simp_all

lemma greedy_append:
  "greedy accept mark s (xs @ ys) placed want =
     (let zs = greedy accept mark s xs placed want
      in zs @ greedy accept mark (marked mark s zs) ys (placed + int (length zs)) want)"
  by (induction xs arbitrary: s placed) (simp_all add: Let_def greedy_done add_ac)

lemma greedy_subseq: "subseq (greedy accept mark s cs placed want) cs"
  by (induction cs arbitrary: s placed) auto

lemma greedy_subset: "set (greedy accept mark s cs placed want) \<subseteq> set cs"
  by (induction cs arbitrary: s placed) (auto split: if_splits)

lemma greedy_bound: "placed + int (length (greedy accept mark s cs placed want)) \<le> max placed want"
proof (induction cs arbitrary: s placed)
  case Nil
  then show ?case by simp
next
  case (Cons c cs)
  have "placed + 1 + int (length (greedy accept mark (mark s c) cs (placed + 1) want)) \<le> max (placed + 1) want"
    by (rule Cons.IH)
  then show ?case
    using Cons.IH [of placed s] by (auto simp: max_def split: if_splits)
qed

lemma sorted_wrt_sym_pair:
  assumes "sorted_wrt P xs" "\<And>a b. P a b \<Longrightarrow> P b a" "x \<in> set xs" "y \<in> set xs" "x \<noteq> y"
  shows "P x y"
  using assms by (induction xs) auto

lemma sorted_wrt_neq_distinct: "sorted_wrt (\<noteq>) xs \<Longrightarrow> distinct xs"
  by (induction xs) auto

locale greedy_gate =
  fixes accept :: "'s \<Rightarrow> 'c \<Rightarrow> bool"
    and mark :: "'s \<Rightarrow> 'c \<Rightarrow> 's"
    and ext :: "'s \<Rightarrow> 's \<Rightarrow> bool"
  assumes ext_refl: "ext s s"
    and ext_trans: "ext s t \<Longrightarrow> ext t u \<Longrightarrow> ext s u"
    and mark_ext: "ext s (mark s c)"
    and accept_antimono: "ext s t \<Longrightarrow> accept t c \<Longrightarrow> accept s c"
    and mark_blocks: "\<not> accept (mark s c) c"
begin

lemma marked_ext: "ext s (marked mark s cs)"
  by (induction cs arbitrary: s) (auto intro: ext_refl ext_trans mark_ext)

lemma chosen_accepted:
  assumes "c \<in> set (greedy accept mark s cs placed want)"
  shows "\<exists>t. ext s t \<and> accept t c"
  using assms
proof (induction cs arbitrary: s placed)
  case Nil
  then show ?case by simp
next
  case (Cons d cs)
  then show ?case
    by (auto split: if_splits intro: ext_refl ext_trans mark_ext dest!: Cons.IH)
      (meson ext_trans mark_ext)
qed

text \<open>A relation that every later choice satisfies towards a recorded one holds pairwise.\<close>

lemma chosen_pairwise_from:
  assumes "\<And>t u c d. ext s0 t \<Longrightarrow> accept t c \<Longrightarrow> ext (mark t c) u \<Longrightarrow> accept u d \<Longrightarrow> P c d"
    and "ext s0 s"
  shows "sorted_wrt P (greedy accept mark s cs placed want)"
  using assms(2)
proof (induction cs arbitrary: s placed)
  case Nil
  then show ?case by simp
next
  case (Cons c cs)
  have "P c d" if "accept s c" "d \<in> set (greedy accept mark (mark s c) cs (placed + 1) want)" for d
    using chosen_accepted [OF that(2)] assms(1) [OF Cons.prems that(1)] by blast
  moreover have "ext s0 (mark s c)"
    using Cons.prems ext_trans mark_ext by blast
  ultimately show ?case using Cons.IH Cons.prems by simp
qed

lemmas chosen_pairwise = chosen_pairwise_from [OF _ ext_refl]

lemma chosen_distinct: "distinct (greedy accept mark s cs placed want)"
proof -
  have "sorted_wrt (\<noteq>) (greedy accept mark s cs placed want)"
    using accept_antimono mark_blocks by (intro chosen_pairwise) blast
  then show ?thesis by (rule sorted_wrt_neq_distinct)
qed

text \<open>A walk whose bookkeeping counts the choices of a kind, and refuses them at a cap, stays within the cap.\<close>

lemma chosen_capped:
  assumes count: "\<And>t c. ext s0 t \<Longrightarrow> accept t c \<Longrightarrow> K c \<Longrightarrow> cnt t < (cap :: int)"
    and grow: "\<And>t c. ext s0 t \<Longrightarrow> cnt t + (if K c then 1 else 0) \<le> cnt (mark t c)"
    and "ext s0 s" "base \<le> cnt s"
  shows "base + int (length (filter K (greedy accept mark s cs placed want))) \<le> max cap base"
  using assms(3,4)
proof (induction cs arbitrary: s base placed)
  case Nil
  then show ?case by simp
next
  case (Cons c cs)
  show ?case
  proof (cases "\<not> want \<le> placed \<and> accept s c")
    case True
    let ?b = "base + (if K c then 1 else 0)"
    have e: "ext s0 (mark s c)" using Cons.prems(1) ext_trans mark_ext by blast
    have "?b \<le> cnt (mark s c)" using grow [OF Cons.prems(1), of c] Cons.prems(2) by linarith
    from Cons.IH [OF e this, of "placed + 1"] show ?thesis
      using True count [OF Cons.prems(1), of c] Cons.prems(2) by (auto simp: max_def split: if_splits)
  next
    case False
    then show ?thesis using Cons.IH [OF Cons.prems, of placed] by auto
  qed
qed

text \<open>A walk that ends short of its target has left nothing it could still take.\<close>

lemma chosen_maximal:
  assumes "placed + int (length (greedy accept mark s cs placed want)) < want" and "c \<in> set cs"
  shows "\<not> accept (marked mark s (greedy accept mark s cs placed want)) c"
  using assms
proof (induction cs arbitrary: s placed)
  case Nil
  then show ?case by simp
next
  case (Cons d cs)
  then have lt: "\<not> want \<le> placed" by (auto split: if_splits)
  show ?case
  proof (cases "accept s d")
    case True
    let ?zs = "greedy accept mark (mark s d) cs (placed + 1) want"
    have short: "placed + 1 + int (length ?zs) < want"
      using Cons.prems(1) True lt by simp
    have "\<not> accept (marked mark (mark s d) ?zs) d"
      using accept_antimono [OF marked_ext] mark_blocks by blast
    then show ?thesis
      using Cons.IH [OF short] Cons.prems(2) True lt by auto
  next
    case False
    let ?zs = "greedy accept mark s cs placed want"
    have short: "placed + int (length ?zs) < want"
      using Cons.prems(1) False lt by simp
    have "\<not> accept (marked mark s ?zs) d"
      using accept_antimono [OF marked_ext] False by blast
    then show ?thesis
      using Cons.IH [OF short] Cons.prems(2) False lt by auto
  qed
qed

end

end
