(* ===== verification/Placer_Props.thy ===== *)
theory Placer_Props
  imports Placer Greedy
begin

text \<open>
  What the autoplacer guarantees.

  \<open>Place\<close> is shown to be a greedy walk (theory \<open>Greedy\<close>) over the ranked candidate pools followed by
  one row update per chosen pool; the guarantees then follow from the laws of the walk, from the
  gates that made the candidate list, and from the contract of the resource table.
\<close>

section \<open>The bookkeeping only tightens\<close>

definition accepts :: "pstate \<Rightarrow> StoragePool \<Rightarrow> bool" where
  "accepts s pool = (candidateNodeProps s pool \<noteq> None)"

definition record_pool :: "pstate \<Rightarrow> StoragePool \<Rightarrow> pstate" where
  "record_pool s pool = note_placed s pool (props_at (ps_nodes s) (sp_NodeName pool))"

definition ps_ext :: "pstate \<Rightarrow> pstate \<Rightarrow> bool" where
  "ps_ext s t =
     (ps_nodes t = ps_nodes s \<and> ps_filter t = ps_filter s \<and>
      ps_allowPoolDriverMixing t = ps_allowPoolDriverMixing s \<and>
      set (ps_taken s) \<subseteq> set (ps_taken t) \<and> set (ps_diffSeen s) \<subseteq> set (ps_diffSeen t) \<and>
      set (ps_sharedSeen s) \<subseteq> set (ps_sharedSeen t) \<and>
      (\<forall>k. int_at (ps_xBuckets s) k \<le> int_at (ps_xBuckets t) k) \<and>
      (ps_sameTuple s \<noteq> None \<longrightarrow> ps_sameTuple t = ps_sameTuple s) \<and>
      (ps_firstKind s \<noteq> [] \<longrightarrow> ps_firstKind t = ps_firstKind s))"

lemma candidateNodeProps_Some:
  "candidateNodeProps s pool = Some np \<Longrightarrow> np = props_at (ps_nodes s) (sp_NodeName pool)"
  by (auto simp: candidateNodeProps_def Let_def split: if_splits)

lemma accepts_iff:
  "accepts s pool \<longleftrightarrow>
     (let np = props_at (ps_nodes s) (sp_NodeName pool) in
      sp_NodeName pool \<notin> set (ps_taken s) \<and>
      matchesTuple np (ReplicasOnSame (ps_filter s)) (ps_sameTuple s) \<and>
      \<not> collidesWithDiff np (ReplicasOnDifferent (ps_filter s)) (ps_diffSeen s) \<and>
      \<not> exceedsXBucket s np \<and>
      (sp_SharedSpaceID pool \<noteq> [] \<longrightarrow> sp_SharedSpaceID pool \<notin> set (ps_sharedSeen s)) \<and>
      allowsKindMix s (sp_ProviderKind pool))"
  by (auto simp: accepts_def candidateNodeProps_def Let_def)

lemma int_at_update: "int_at (AList.update k v m) j = (if j = k then v else int_at m j)"
  by (simp add: int_at_def gomap_simps)

lemma fold_bump:
  "int_at (fold (\<lambda>(key, _) b. AList.update (xBucketKey key np) (int_at b (xBucketKey key np) + 1) b) xs b) k =
   int_at b k + int (length (filter (\<lambda>(key, _). xBucketKey key np = k) xs))"
  by (induction xs arbitrary: b) (auto simp: int_at_update)

lemma int_at_bump_buckets:
  "int_at (bump_buckets fl np b) k =
   int_at b k + int (length (filter (\<lambda>(key, _). xBucketKey key np = k) (XReplicasOnDifferentMap fl)))"
  by (simp add: bump_buckets_def fold_bump)

lemma set_fold_insert_unless:
  "set (fold (\<lambda>k seen. if P k then seen else List.insert (f k) seen) ks seen) =
   set seen \<union> f ` {k \<in> set ks. \<not> P k}"
  by (induction ks arbitrary: seen) auto

lemma note_placed_fields [simp]:
  "ps_nodes (note_placed s p np) = ps_nodes s"
  "ps_filter (note_placed s p np) = ps_filter s"
  "ps_allowPoolDriverMixing (note_placed s p np) = ps_allowPoolDriverMixing s"
  "ps_pools (note_placed s p np) = ps_pools s"
  "ps_taken (note_placed s p np) = List.insert (sp_NodeName p) (ps_taken s)"
  "ps_upgradeable (note_placed s p np) = AList.delete (sp_NodeName p) (ps_upgradeable s)"
  "ps_xBuckets (note_placed s p np) = bump_buckets (ps_filter s) np (ps_xBuckets s)"
  "ps_sharedSeen (note_placed s p np) =
     (if sp_SharedSpaceID p \<noteq> [] then List.insert (sp_SharedSpaceID p) (ps_sharedSeen s) else ps_sharedSeen s)"
  "ps_firstKind (note_placed s p np) = (if ps_firstKind s = [] then sp_ProviderKind p else ps_firstKind s)"
  "ps_sameTuple (note_placed s p np) =
     (if ps_sameTuple s = None \<and> ReplicasOnSame (ps_filter s) \<noteq> []
      then Some (lookupKeys np (ReplicasOnSame (ps_filter s))) else ps_sameTuple s)"
  by (simp_all add: note_placed_def)

lemma set_ps_diffSeen_note_placed [simp]:
  "set (ps_diffSeen (note_placed s p np)) = set (ps_diffSeen s) \<union>
     (\<lambda>k. k @ ''='' @ gm_idx np (auxKey k)) `
       {k \<in> set (ReplicasOnDifferent (ps_filter s)). \<not> hasValue (parseDiffSpec k)}"
  by (simp add: note_placed_def set_fold_insert_unless)

lemma ps_ext_refl: "ps_ext s s"
  by (simp add: ps_ext_def)

lemma ps_extD:
  assumes "ps_ext s t"
  shows "ps_nodes t = ps_nodes s" "ps_filter t = ps_filter s"
    "ps_allowPoolDriverMixing t = ps_allowPoolDriverMixing s"
    "set (ps_taken s) \<subseteq> set (ps_taken t)" "set (ps_diffSeen s) \<subseteq> set (ps_diffSeen t)"
    "set (ps_sharedSeen s) \<subseteq> set (ps_sharedSeen t)"
    "int_at (ps_xBuckets s) k \<le> int_at (ps_xBuckets t) k"
    "ps_sameTuple s \<noteq> None \<Longrightarrow> ps_sameTuple t = ps_sameTuple s"
    "ps_firstKind s \<noteq> [] \<Longrightarrow> ps_firstKind t = ps_firstKind s"
  using assms by (simp_all only: ps_ext_def simp_thms)

lemma ps_ext_trans:
  assumes "ps_ext s t" "ps_ext t u"
  shows "ps_ext s u"
proof -
  note st = ps_extD [OF assms(1)] and tu = ps_extD [OF assms(2)]
  have "ps_sameTuple s \<noteq> None \<Longrightarrow> ps_sameTuple u = ps_sameTuple s"
    "ps_firstKind s \<noteq> [] \<Longrightarrow> ps_firstKind u = ps_firstKind s"
    using st(8,9) tu(8,9) by simp_all
  then show ?thesis
    unfolding ps_ext_def using st(1-6) tu(1-6) order_trans [OF st(7) tu(7)] by simp blast
qed

lemma ps_ext_record: "ps_ext s (record_pool s p)"
  by (auto simp: ps_ext_def record_pool_def int_at_bump_buckets)

lemma collidesWithDiff_mono:
  "collidesWithDiff np ks seen \<Longrightarrow> set seen \<subseteq> set seen' \<Longrightarrow> collidesWithDiff np ks seen'"
  by (auto simp: collidesWithDiff_def list_ex_iff)

lemma exceedsXBucket_iff:
  "exceedsXBucket s np \<longleftrightarrow>
     (\<exists>key n. (key, n) \<in> set (XReplicasOnDifferentMap (ps_filter s)) \<and> 0 < n \<and>
        n \<le> int_at (ps_xBuckets s) (xBucketKey key np))"
  by (auto simp: exceedsXBucket_def list_ex_iff not_le)

lemma exceedsXBucket_mono:
  assumes "exceedsXBucket s np" and e: "ps_ext s t"
  shows "exceedsXBucket t np"
  using assms(1) ps_extD(2) [OF e] order_trans [OF _ ps_extD(7) [OF e]]
  unfolding exceedsXBucket_iff by fastforce

lemma accepts_antimono:
  assumes e: "ps_ext s t" and a: "accepts t p"
  shows "accepts s p"
proof -
  let ?np = "props_at (ps_nodes s) (sp_NodeName p)"
  note d = ps_extD [OF e]
  have t: "sp_NodeName p \<notin> set (ps_taken t)"
    "matchesTuple ?np (ReplicasOnSame (ps_filter s)) (ps_sameTuple t)"
    "\<not> collidesWithDiff ?np (ReplicasOnDifferent (ps_filter s)) (ps_diffSeen t)"
    "\<not> exceedsXBucket t ?np"
    "sp_SharedSpaceID p \<noteq> [] \<longrightarrow> sp_SharedSpaceID p \<notin> set (ps_sharedSeen t)"
    "allowsKindMix t (sp_ProviderKind p)"
    using a unfolding accepts_iff Let_def d(1,2) by blast+
  have "matchesTuple ?np (ReplicasOnSame (ps_filter s)) (ps_sameTuple s)"
    using t(2) d(8) by (cases "ps_sameTuple s") (simp_all add: matchesTuple_def)
  moreover have "allowsKindMix s (sp_ProviderKind p)"
    using t(6) d(3,9) by (cases "ps_firstKind s = []") (simp_all add: allowsKindMix_def)
  moreover have "\<not> collidesWithDiff ?np (ReplicasOnDifferent (ps_filter s)) (ps_diffSeen s)"
    using t(3) d(5) collidesWithDiff_mono by blast
  moreover have "\<not> exceedsXBucket s ?np"
    using t(4) exceedsXBucket_mono [OF _ e] by blast
  ultimately show ?thesis
    unfolding accepts_iff Let_def using t(1,5) d(4,6) by blast
qed

interpretation gate: greedy_gate accepts record_pool ps_ext
proof
  show "\<not> accepts (record_pool s p) p" for s p
    by (simp add: accepts_iff Let_def record_pool_def)
qed (rule ps_ext_refl ps_ext_record, blast intro: ps_ext_trans accepts_antimono)+

abbreviation chosen :: "pstate \<Rightarrow> StoragePool list \<Rightarrow> int \<Rightarrow> int \<Rightarrow> StoragePool list" where
  "chosen \<equiv> greedy accepts record_pool"

section \<open>Placing is choosing, then writing rows\<close>

abbreviation rows :: "InMemory \<Rightarrow> string \<times> string \<Rightarrow> Resource option" where
  "rows st \<equiv> map_of (res_m (im_resources st))"

abbreviation rows_ok :: "InMemory \<Rightarrow> bool" where
  "rows_ok st \<equiv> rows_wf r_key (res_m (im_resources st))"

text \<open>\<open>only_rows st st'\<close>: the two stores differ in the rows of the resource table at most.\<close>

definition only_rows :: "InMemory \<Rightarrow> InMemory \<Rightarrow> bool" where
  "only_rows st st' =
     (st'\<lparr>im_resources := im_resources st\<rparr> = st \<and>
      res_volStates (im_resources st') = res_volStates (im_resources st))"

text \<open>The row a witness becomes, and the update of the table that placing a replica amounts to.\<close>

definition promoted :: "StoragePool \<Rightarrow> Resource \<Rightarrow> Resource" where
  "promoted pool r =
     r\<lparr>r_Flags := filter (\<lambda>f. f \<noteq> ResourceFlagTieBreaker \<and> f \<noteq> ResourceFlagDiskless) (r_Flags r),
       r_Props := AList.update storPoolNameProp (sp_StoragePoolName pool) (r_Props r)\<rparr>"

definition put_replica ::
  "string \<Rightarrow> StoragePool \<Rightarrow> (string \<times> string \<Rightarrow> Resource option) \<Rightarrow> (string \<times> string \<Rightarrow> Resource option)"
where
  "put_replica rd pool m =
     m((rd, sp_NodeName pool) \<mapsto>
        (case m (rd, sp_NodeName pool) of None \<Rightarrow> diskful_replica rd pool | Some r \<Rightarrow> promoted pool r))"

definition put_diskless ::
  "string \<Rightarrow> string \<Rightarrow> (string \<times> string \<Rightarrow> Resource option) \<Rightarrow> (string \<times> string \<Rightarrow> Resource option)"
where
  "put_diskless rd n m = (if m (rd, n) = None then m((rd, n) \<mapsto> diskless_replica rd n) else m)"

text \<open>The bookkeeping knows every row of the definition: its node is taken or can be upgraded.\<close>

definition tracks :: "InMemory \<Rightarrow> string \<Rightarrow> pstate \<Rightarrow> bool" where
  "tracks st rd s =
     (\<forall>n. rows st (rd, n) \<noteq> None \<longrightarrow> n \<in> set (ps_taken s) \<or> gm_has (ps_upgradeable s) n)"

lemma only_rows_refl [simp]: "only_rows st st"
  by (simp add: only_rows_def)

lemma only_rows_trans:
  assumes "only_rows st st1" "only_rows st1 st2"
  shows "only_rows st st2"
proof -
  have "st2\<lparr>im_resources := im_resources st\<rparr> = (st2\<lparr>im_resources := im_resources st1\<rparr>)\<lparr>im_resources := im_resources st\<rparr>"
    by simp
  also have "\<dots> = st" using assms by (simp only: only_rows_def)
  finally show ?thesis using assms by (simp add: only_rows_def)
qed

lemma only_rowsD:
  assumes "only_rows st st'"
  shows "im_nodes st' = im_nodes st" "im_storagePools st' = im_storagePools st"
    "im_resourceGroups st' = im_resourceGroups st"
    "im_resourceDefinitions st' = im_resourceDefinitions st"
    "im_volumeDefinitions st' = im_volumeDefinitions st" "im_snapshots st' = im_snapshots st"
    "im_physicalDevices st' = im_physicalDevices st" "im_controllerProps st' = im_controllerProps st"
    "im_storagePoolDefinitions st' = im_storagePoolDefinitions st"
proof -
  have st: "st = st'\<lparr>im_resources := im_resources st\<rparr>"
    using assms by (simp add: only_rows_def)
  show "im_nodes st' = im_nodes st" "im_storagePools st' = im_storagePools st"
    "im_resourceGroups st' = im_resourceGroups st"
    "im_resourceDefinitions st' = im_resourceDefinitions st"
    "im_volumeDefinitions st' = im_volumeDefinitions st" "im_snapshots st' = im_snapshots st"
    "im_physicalDevices st' = im_physicalDevices st" "im_controllerProps st' = im_controllerProps st"
    "im_storagePoolDefinitions st' = im_storagePoolDefinitions st"
    using arg_cong [OF st, of im_nodes]
      arg_cong [OF st, of im_storagePools]
      arg_cong [OF st, of im_resourceGroups]
      arg_cong [OF st, of im_resourceDefinitions]
      arg_cong [OF st, of im_volumeDefinitions]
      arg_cong [OF st, of im_snapshots]
      arg_cong [OF st, of im_physicalDevices]
      arg_cong [OF st, of im_controllerProps]
      arg_cong [OF st, of im_storagePoolDefinitions]
    by simp_all
qed

lemma create_tolerant_eq:
  "create_tolerant st r =
     Inr (if gm_has (res_m (im_resources st)) (r_key r) then st
          else st\<lparr>im_resources := (im_resources st)\<lparr>res_m := AList.update (r_key r) r (res_m (im_resources st))\<rparr>\<rparr>)"
  by (simp add: create_tolerant_def Resources_Create_def)

lemma diskful_replica_fields [simp]:
  "r_Name (diskful_replica rd p) = rd" "r_NodeName (diskful_replica rd p) = sp_NodeName p"
  "r_Flags (diskful_replica rd p) = []" "r_Props (diskful_replica rd p) = [(storPoolNameProp, sp_StoragePoolName p)]"
  by (simp_all add: diskful_replica_def zero_Resource_def)

lemma diskless_replica_fields [simp]:
  "r_Name (diskless_replica rd n) = rd" "r_NodeName (diskless_replica rd n) = n"
  "r_Flags (diskless_replica rd n) = [ResourceFlagDiskless]"
  by (simp_all add: diskless_replica_def zero_Resource_def ResourceFlagDiskless_def)

lemma promoted_fields [simp]:
  "r_Name (promoted p r) = r_Name r" "r_NodeName (promoted p r) = r_NodeName r"
  "r_Annotations (promoted p r) = r_Annotations r"
  by (simp_all add: promoted_def)

lemma promoted_annotations: "(promoted p r)\<lparr>r_Annotations := r_Annotations r\<rparr> = promoted p r"
  by (cases r) (simp add: promoted_def)

lemma promote_row_eq: "promote_row p r = Inr (promoted p r)"
  by (simp add: promote_row_def promoted_def PromoteWitnessFlags_spec)

lemma promoteWitness_eq:
  "promoteWitness st rd p =
     Inr (st\<lparr>im_resources := (im_resources st)\<lparr>res_m :=
            AList.update (rd, sp_NodeName p)
              (case rows st (rd, sp_NodeName p) of None \<Rightarrow> diskful_replica rd p | Some r \<Rightarrow> promoted p r)
              (res_m (im_resources st))\<rparr>\<rparr>)"
  by (cases "rows st (rd, sp_NodeName p)")
    (simp_all add: promoteWitness_def Resources_PatchResourceSpec_def promote_row_eq create_tolerant_eq
      carryAnnotationsOnNil_def gm_has_iff promoted_annotations)

lemma tryPlace_rejects: "\<not> accepts s p \<Longrightarrow> tryPlace st s rd p = Inr (st, s, False)"
  by (simp add: tryPlace_def accepts_def)

lemma tryPlace_places:
  assumes "accepts s p" "tracks st rd s" "rows_ok st"
  shows "\<exists>st'. tryPlace st s rd p = Inr (st', record_pool s p, True) \<and> only_rows st st' \<and>
           rows st' = put_replica rd p (rows st) \<and> rows_ok st' \<and> tracks st' rd (record_pool s p)"
proof -
  let ?n = "sp_NodeName p" and ?t = "im_resources st"
  let ?row = "case rows st (rd, ?n) of None \<Rightarrow> diskful_replica rd p | Some r \<Rightarrow> promoted p r"
  let ?st = "st\<lparr>im_resources := ?t\<lparr>res_m := AList.update (rd, ?n) ?row (res_m ?t)\<rparr>\<rparr>"
  obtain np where np: "candidateNodeProps s p = Some np"
    using assms(1) by (auto simp: accepts_def)
  have rec: "note_placed s p np = record_pool s p"
    using candidateNodeProps_Some [OF np] by (simp add: record_pool_def)
  have untaken: "?n \<notin> set (ps_taken s)"
    using assms(1) by (simp add: accepts_iff Let_def)
  have fresh: "rows st (rd, ?n) = None" if "\<not> gm_has (ps_upgradeable s) ?n"
    using assms(2) untaken that by (auto simp: tracks_def)
  have "tryPlace st s rd p = Inr (?st, record_pool s p, True)"
    using fresh by (auto simp: tryPlace_def np rec promoteWitness_eq create_tolerant_eq gm_has_iff)
  moreover have "only_rows st ?st"
    by (simp add: only_rows_def)
  moreover have "rows ?st = put_replica rd p (rows st)"
    by (simp add: put_replica_def gomap_simps)
  moreover have "r_key ?row = (rd, ?n)"
    using rows_wf_lookup [OF assms(3)] by (auto split: option.split)
  then have "rows_ok ?st"
    using assms(3) rows_wf_update [of r_key _ ?row "(rd, ?n)"] by simp
  moreover have "tracks ?st rd (record_pool s p)"
    using assms(2) by (auto simp: tracks_def record_pool_def gomap_simps)
  ultimately show ?thesis by blast
qed

lemma placeDiskful_eq:
  assumes "tracks st rd s" "rows_ok st"
  shows "\<exists>st'. placeDiskful st rd s cs placed want =
             (st', foldl record_pool s (chosen s cs placed want),
              placed + int (length (chosen s cs placed want)), None) \<and>
           only_rows st st' \<and> rows st' = fold (put_replica rd) (chosen s cs placed want) (rows st) \<and>
           rows_ok st' \<and> tracks st' rd (foldl record_pool s (chosen s cs placed want))"
  using assms
proof (induction cs arbitrary: st s placed)
  case Nil
  then show ?case by simp
next
  case (Cons p cs)
  show ?case
  proof (cases "want \<le> placed")
    case True
    then show ?thesis using Cons.prems by simp
  next
    case want: False
    show ?thesis
    proof (cases "accepts s p")
      case False
      then show ?thesis
        using want Cons.IH [OF Cons.prems] by (simp add: tryPlace_rejects)
    next
      case True
      obtain st1 where st1: "tryPlace st s rd p = Inr (st1, record_pool s p, True)" "only_rows st st1"
        "rows st1 = put_replica rd p (rows st)" "rows_ok st1" "tracks st1 rd (record_pool s p)"
        using tryPlace_places [OF True Cons.prems] by blast
      obtain st2 where st2: "placeDiskful st1 rd (record_pool s p) cs (placed + 1) want =
          (st2, foldl record_pool (record_pool s p) (chosen (record_pool s p) cs (placed + 1) want),
           placed + 1 + int (length (chosen (record_pool s p) cs (placed + 1) want)), None)"
        "only_rows st1 st2"
        "rows st2 = fold (put_replica rd) (chosen (record_pool s p) cs (placed + 1) want) (rows st1)"
        "rows_ok st2" "tracks st2 rd (foldl record_pool (record_pool s p) (chosen (record_pool s p) cs (placed + 1) want))"
        using Cons.IH [OF st1(5,4)] by blast
      then show ?thesis
        using want True st1 only_rows_trans [OF st1(2) st2(2)] by simp
    qed
  qed
qed

lemma create_tolerant_diskless:
  assumes "rows_ok st"
  shows "\<exists>st'. create_tolerant st (diskless_replica rd n) = Inr st' \<and> rows_ok st' \<and> only_rows st st' \<and>
           rows st' = put_diskless rd n (rows st)"
  using assms rows_wf_update [of r_key _ "diskless_replica rd n" "(rd, n)"]
  by (auto simp: create_tolerant_eq put_diskless_def gomap_simps only_rows_def)

lemma diskless_loop_eq:
  assumes "rows_ok st" "distinct ns"
  shows "\<exists>st' s'. diskless_loop st rd s ns = (st', s', None) \<and> only_rows st st' \<and>
           rows st' = fold (put_diskless rd) (filter (\<lambda>n. n \<notin> set (ps_taken s)) ns) (rows st) \<and> rows_ok st'"
  using assms
proof (induction ns arbitrary: st s)
  case Nil
  then show ?case by simp
next
  case (Cons n ns)
  show ?case
  proof (cases "n \<in> set (ps_taken s)")
    case True
    then show ?thesis using Cons by simp
  next
    case False
    let ?s = "s\<lparr>ps_taken := List.insert n (ps_taken s)\<rparr>"
    obtain st1 where st1: "create_tolerant st (diskless_replica rd n) = Inr st1" "rows_ok st1"
      "only_rows st st1" "rows st1 = put_diskless rd n (rows st)"
      using create_tolerant_diskless [OF Cons.prems(1)] by blast
    have untaken: "filter (\<lambda>m. m \<notin> set (ps_taken ?s)) ns = filter (\<lambda>m. m \<notin> set (ps_taken s)) ns"
      using Cons.prems(2) by (intro filter_cong) auto
    obtain st2 s2 where st2: "diskless_loop st1 rd ?s ns = (st2, s2, None)" "only_rows st1 st2"
      "rows st2 = fold (put_diskless rd) (filter (\<lambda>m. m \<notin> set (ps_taken s)) ns) (rows st1)" "rows_ok st2"
      using Cons.IH [OF st1(2), of ?s] Cons.prems(2) unfolding untaken by auto
    show ?thesis
      using False st1(1,4) st2 only_rows_trans [OF st1(3) st2(2)] by simp
  qed
qed

section \<open>The bookkeeping a call starts with\<close>

abbreviation diskless :: "Resource \<Rightarrow> bool" where
  "diskless r \<equiv> ResourceFlagDiskless \<in> set (r_Flags r)"

lemma seed_existing_fields [simp]:
  "ps_nodes (seed_existing r s) = ps_nodes s"
  "ps_filter (seed_existing r s) = ps_filter s"
  "ps_allowPoolDriverMixing (seed_existing r s) = ps_allowPoolDriverMixing s"
  "ps_pools (seed_existing r s) = ps_pools s"
  "ps_sameTuple (seed_existing r s) = ps_sameTuple s"
  "ps_diffSeen (seed_existing r s) = ps_diffSeen s"
  "ps_taken (seed_existing r s) = (if diskless r then ps_taken s else List.insert (r_NodeName r) (ps_taken s))"
  "ps_upgradeable (seed_existing r s) =
     (if diskless r then AList.update (r_NodeName r) (gm_idx (r_Props r) storPoolNameProp) (ps_upgradeable s)
      else ps_upgradeable s)"
  "ps_xBuckets (seed_existing r s) =
     (if diskless r then ps_xBuckets s
      else bump_buckets (ps_filter s) (props_at (ps_nodes s) (r_NodeName r)) (ps_xBuckets s))"
  by (simp_all add: seed_existing_def Let_def split: option.split)

text \<open>The pool behind a diskful replica, as the bookkeeping resolves it.\<close>

definition backing_pool :: "(string, StoragePool) gomap \<Rightarrow> Resource \<Rightarrow> StoragePool option" where
  "backing_pool pools r =
     (let stor = gm_idx (r_Props r) storPoolNameProp
      in if diskless r \<or> stor = [] then None else map_of pools (poolKey (r_NodeName r) stor))"

lemma seed_existing_backing [simp]:
  "ps_sharedSeen (seed_existing r s) =
     (case backing_pool (ps_pools s) r of
        None \<Rightarrow> ps_sharedSeen s
      | Some p \<Rightarrow> if sp_SharedSpaceID p \<noteq> [] then List.insert (sp_SharedSpaceID p) (ps_sharedSeen s)
                  else ps_sharedSeen s)"
  "ps_firstKind (seed_existing r s) =
     (case backing_pool (ps_pools s) r of
        None \<Rightarrow> ps_firstKind s
      | Some p \<Rightarrow> if ps_firstKind s = [] then sp_ProviderKind p else ps_firstKind s)"
  by (simp_all add: seed_existing_def backing_pool_def Let_def split: option.split)

lemma fold_seed_fields [simp]:
  "ps_nodes (fold seed_existing rs s) = ps_nodes s"
  "ps_filter (fold seed_existing rs s) = ps_filter s"
  "ps_allowPoolDriverMixing (fold seed_existing rs s) = ps_allowPoolDriverMixing s"
  "ps_pools (fold seed_existing rs s) = ps_pools s"
  "ps_sameTuple (fold seed_existing rs s) = ps_sameTuple s"
  "ps_diffSeen (fold seed_existing rs s) = ps_diffSeen s"
  by (induction rs arbitrary: s) simp_all

lemma fold_seed_taken:
  "set (ps_taken (fold seed_existing rs s)) = set (ps_taken s) \<union> r_NodeName ` {r \<in> set rs. \<not> diskless r}"
  by (induction rs arbitrary: s) auto

lemma fold_seed_upgradeable:
  "gm_has (ps_upgradeable (fold seed_existing rs s)) n \<longleftrightarrow>
     gm_has (ps_upgradeable s) n \<or> n \<in> r_NodeName ` {r \<in> set rs. diskless r}"
  by (induction rs arbitrary: s) (auto simp: gomap_simps)

lemma fold_seed_sharedSeen:
  "set (ps_sharedSeen (fold seed_existing rs s)) = set (ps_sharedSeen s) \<union>
     {sp_SharedSpaceID p | p r. r \<in> set rs \<and> backing_pool (ps_pools s) r = Some p \<and> sp_SharedSpaceID p \<noteq> []}"
  by (induction rs arbitrary: s) (auto split: option.split)

lemma newState_fields [simp]:
  "ps_nodes (newState fl ex nodes pools b) = nodes"
  "ps_filter (newState fl ex nodes pools b) = fl"
  "ps_allowPoolDriverMixing (newState fl ex nodes pools b) = b"
  "ps_pools (newState fl ex nodes pools b) = poolsByKey pools"
  "ps_sameTuple (newState fl ex nodes pools b) = topologyTuple ex nodes (ReplicasOnSame fl)"
  "ps_diffSeen (newState fl ex nodes pools b) = topologySeen ex nodes (ReplicasOnDifferent fl)"
  "set (ps_taken (newState fl ex nodes pools b)) = r_NodeName ` {r \<in> set ex. \<not> diskless r}"
  by (simp_all add: newState_def fold_seed_taken)

lemma newState_tracks:
  assumes "rows_ok st"
  shows "tracks st rd (newState fl (Resources_ListByDefinition (im_resources st) rd) nodes pools b)"
proof -
  let ?ex = "Resources_ListByDefinition (im_resources st) rd"
  have "n \<in> r_NodeName ` {r \<in> set ?ex. \<not> diskless r} \<or> n \<in> r_NodeName ` {r \<in> set ?ex. diskless r}"
    if r: "rows st (rd, n) = Some r" for n r
  proof -
    have "r \<in> set ?ex" and "r_NodeName r = n"
      using imageI [OF map_of_SomeD [OF r], of snd] rows_wf_lookup [OF assms r] by auto
    then show ?thesis by blast
  qed
  then show ?thesis
    unfolding tracks_def newState_fields newState_def fold_seed_upgradeable by (auto simp: fold_seed_taken)
qed

lemma tracks_sameTuple [simp]: "tracks st rd (s\<lparr>ps_sameTuple := t\<rparr>) = tracks st rd s"
  by (simp add: tracks_def)

lemma distinct_nodesByName: "distinct (map fst (nodesByName L st))"
proof -
  have "gm_wf m \<Longrightarrow> gm_wf (fold (\<lambda>n. AList.update (n_Name n) (n_Props n)) ns m)"
    for ns :: "Node list" and m
    by (induction ns arbitrary: m) (auto simp: distinct_update)
  then show ?thesis by (simp add: nodesByName_def)
qed

section \<open>What a plan contains\<close>

lemma set_applyNotPlaceWith: "set (applyNotPlaceWith L st rd fl cs) \<subseteq> set cs"
  by (auto simp: applyNotPlaceWith_def Let_def)

lemma set_filterSamePinned: "set (filterSamePinned cs nodes keys) \<subseteq> set cs"
  by (auto simp: filterSamePinned_def)

lemma partitionByExclusion_mset:
  assumes "partitionByExclusion cs nodes keys = (pref, rest)"
  shows "mset (pref @ rest) = mset cs"
  using assms multiset_partition [of "mset cs" "\<lambda>p. matchesAnyExcludedPair (props_at nodes (sp_NodeName p)) keys"]
  by (auto simp: partitionByExclusion_def add.commute split: if_splits)

text \<open>The groups of \<open>pickSameGroup\<close>: one per topology key, holding the candidates with that key in order.\<close>

abbreviation same_tuple :: "(string, props) gomap \<Rightarrow> string list \<Rightarrow> StoragePool \<Rightarrow> props" where
  "same_tuple nodes keys p \<equiv> lookupKeys (props_at nodes (sp_NodeName p)) keys"

definition group_of :: "(string, props) gomap \<Rightarrow> string list \<Rightarrow> StoragePool list \<Rightarrow> same_group" where
  "group_of nodes keys ps =
     \<lparr>g_tuple = same_tuple nodes keys (hd ps), g_key = tupleKey (same_tuple nodes keys (hd ps)),
      g_pools = ps, g_seen = fold (\<lambda>p. List.insert (sp_NodeName p)) ps [],
      g_free = fold (\<lambda>p a. wrap64 (a + sp_FreeCapacity p)) ps 0\<rparr>"

lemma group_of_snoc:
  "ps \<noteq> [] \<Longrightarrow> group_of nodes keys (ps @ [p]) = (group_of nodes keys ps)
     \<lparr>g_pools := ps @ [p], g_seen := List.insert (sp_NodeName p) (g_seen (group_of nodes keys ps)),
      g_free := wrap64 (g_free (group_of nodes keys ps) + sp_FreeCapacity p)\<rparr>"
  by (simp add: group_of_def)

lemma map_of_groups:
  "map_of (fold (group_add nodes keys) cs []) k =
     (let ps = filter (\<lambda>p. tupleKey (same_tuple nodes keys p) = k) cs
      in if ps = [] then None else Some (group_of nodes keys ps))"
proof (induction cs rule: rev_induct)
  case Nil
  then show ?case by simp
next
  case (snoc c cs)
  let ?m = "fold (group_add nodes keys) cs []"
  let ?ps = "filter (\<lambda>p. tupleKey (same_tuple nodes keys p) = k) cs"
  show ?case
  proof (cases "tupleKey (same_tuple nodes keys c) = k")
    case False
    then show ?thesis
      using snoc.IH by (simp add: group_add_def Let_def gomap_simps)
  next
    case True
    show ?thesis
    proof (cases "?ps = []")
      case none: True
      then show ?thesis
        using snoc.IH True by (simp add: group_add_def Let_def gomap_simps group_of_def)
    next
      case False
      then show ?thesis
        using snoc.IH True
        by (simp add: group_add_def Let_def gomap_simps group_of_snoc) (simp add: group_of_def)
    qed
  qed
qed

lemma gm_wf_groups: "gm_wf (fold (group_add nodes keys) cs [])"
proof -
  have "gm_wf m \<Longrightarrow> gm_wf (fold (group_add nodes keys) cs m)" for m
    by (induction cs arbitrary: m) (simp_all add: group_add_def Let_def distinct_update)
  then show ?thesis by simp
qed

text \<open>The groups that can hold the wanted number of replicas, ordered by free space.\<close>

definition fitting_groups ::
  "(string, props) gomap \<Rightarrow> string list \<Rightarrow> StoragePool list \<Rightarrow> int \<Rightarrow> same_group list"
where
  "fitting_groups nodes keys cs want =
     SliceStable group_before
       (filter (\<lambda>g. want \<le> int (length (g_seen g))) (map snd (fold (group_add nodes keys) cs [])))"

lemma pickSameGroup_eq:
  "pickSameGroup cs nodes keys want =
     (case fitting_groups nodes keys cs want of
        [] \<Rightarrow> (cs, None) | g # _ \<Rightarrow> (g_pools g, Some (g_tuple g)))"
  by (simp add: pickSameGroup_def fitting_groups_def Let_def)

lemma fitting_groups_set:
  "g \<in> set (fitting_groups nodes keys cs want) \<longleftrightarrow>
     (\<exists>k. let ps = filter (\<lambda>p. tupleKey (same_tuple nodes keys p) = k) cs
          in ps \<noteq> [] \<and> g = group_of nodes keys ps \<and> want \<le> int (length (g_seen g)))"
proof -
  have "g \<in> snd ` set (fold (group_add nodes keys) cs []) \<longleftrightarrow>
      (\<exists>k. map_of (fold (group_add nodes keys) cs []) k = Some g)"
    using gm_wf_groups [of nodes keys cs] by (force simp: image_iff)
  then show ?thesis
    by (auto simp: fitting_groups_def map_of_groups Let_def split: if_splits)
qed

lemma pickSameGroup_subset: "set (fst (pickSameGroup cs nodes keys want)) \<subseteq> set cs"
proof (cases "fitting_groups nodes keys cs want")
  case Nil
  then show ?thesis by (simp add: pickSameGroup_eq)
next
  case (Cons g gs)
  then have "g \<in> set (fitting_groups nodes keys cs want)" by simp
  then show ?thesis
    unfolding fitting_groups_set using Cons by (auto simp: pickSameGroup_eq group_of_def Let_def)
qed

lemma sameTuple_self: "s\<lparr>ps_sameTuple := ps_sameTuple s\<rparr> = s"
  by simp

lemma assemblePlan_Plan:
  assumes "assemblePlan L st rd fl cands req gates = Plan s pref rest ex dis r g"
  shows "ex = Resources_ListByDefinition (im_resources st) rd" "dis = disabledNodes L st" "r = req" "g = gates"
    "\<exists>t. s = (newState fl ex (nodesByName L st) (StoragePools_List (im_storagePools st))
                (loadAllowPoolDriverMixing st))\<lparr>ps_sameTuple := t\<rparr>"
    "set pref \<union> set rest \<subseteq> set cands"
    "set pref \<union> set rest \<subseteq> set (filterSamePinned (applyNotPlaceWith L st rd fl cands) (nodesByName L st)
       (ReplicasOnSame fl))"
proof -
  let ?nodes = "nodesByName L st"
  let ?ex = "Resources_ListByDefinition (im_resources st) rd"
  let ?c2 = "filterSamePinned (applyNotPlaceWith L st rd fl cands) ?nodes (ReplicasOnSame fl)"
  let ?s = "newState fl ?ex ?nodes (StoragePools_List (im_storagePools st)) (loadAllowPoolDriverMixing st)"
  let ?pick = "pickSameGroup ?c2 ?nodes (ReplicasOnSame fl) (PlaceCount fl)"
  define c3 where "c3 = (if ps_sameTuple ?s = None \<and> ReplicasOnSame fl \<noteq> [] then fst ?pick else ?c2)"
  define s3 where "s3 = (if ps_sameTuple ?s = None \<and> ReplicasOnSame fl \<noteq> []
    then ?s\<lparr>ps_sameTuple := snd ?pick\<rparr> else ?s)"
  obtain p1 p2 where part: "partitionByExclusion c3 ?nodes (ReplicasOnDifferent fl) = (p1, p2)"
    by force
  have "assemblePlan L st rd fl cands req gates = Plan s3 p1 p2 ?ex (disabledNodes L st) req gates"
  proof (cases "ps_sameTuple ?s = None \<and> ReplicasOnSame fl \<noteq> []")
    case True
    then show ?thesis
      using part unfolding c3_def s3_def
      by (simp only: assemblePlan_def Let_def if_True split_beta fst_conv snd_conv simp_thms)
  next
    case False
    then show ?thesis
      using part unfolding c3_def s3_def
      by (simp only: assemblePlan_def Let_def if_False split_beta fst_conv snd_conv)
  qed
  then have e: "s = s3" "pref = p1" "rest = p2" "ex = ?ex" "dis = disabledNodes L st" "r = req" "g = gates"
    using assms by simp_all
  show "ex = ?ex" "dis = disabledNodes L st" "r = req" "g = gates" by (fact e)+
  show "\<exists>t. s = (newState fl ex ?nodes (StoragePools_List (im_storagePools st))
      (loadAllowPoolDriverMixing st))\<lparr>ps_sameTuple := t\<rparr>"
  proof (cases "ps_sameTuple ?s = None \<and> ReplicasOnSame fl \<noteq> []")
    case True
    then show ?thesis unfolding e s3_def if_P [OF True] by blast
  next
    case False
    show ?thesis unfolding e s3_def if_not_P [OF False] using sameTuple_self [of ?s] by metis
  qed
  have c2: "set ?c2 \<subseteq> set cands"
    by (rule order_trans [OF set_filterSamePinned set_applyNotPlaceWith])
  have "set c3 \<subseteq> set ?c2"
    unfolding c3_def by (split if_split) (use pickSameGroup_subset in blast)
  then show "set pref \<union> set rest \<subseteq> set ?c2"
    using mset_eq_setD [OF partitionByExclusion_mset [OF part]] unfolding e by simp
  then show "set pref \<union> set rest \<subseteq> set cands" using c2 by blast
qed

section \<open>The gates\<close>

text \<open>The test a pool passes to become a candidate: eligible, and large enough on both counts.\<close>

definition passes :: "AutoSelectFilter \<Rightarrow> string list \<Rightarrow> props \<Rightarrow> int \<Rightarrow> StoragePool \<Rightarrow> bool" where
  "passes fl excluded cp req pool =
     (matchesPoolFilter pool fl excluded \<and>
      (0 < req \<longrightarrow> req \<le> sp_FreeCapacity pool \<and> req \<le> fst (effectiveOversubCaps pool cp)))"

definition below_floor :: "AutoSelectFilter \<Rightarrow> string list \<Rightarrow> int \<Rightarrow> StoragePool \<Rightarrow> bool" where
  "below_floor fl excluded req pool =
     (matchesPoolFilter pool fl excluded \<and> 0 < req \<and> sp_FreeCapacity pool < req)"

definition over_cap :: "AutoSelectFilter \<Rightarrow> string list \<Rightarrow> props \<Rightarrow> int \<Rightarrow> StoragePool \<Rightarrow> bool" where
  "over_cap fl excluded cp req pool =
     (matchesPoolFilter pool fl excluded \<and> 0 < req \<and> req \<le> sp_FreeCapacity pool \<and>
      fst (effectiveOversubCaps pool cp) < req)"

lemma oversubRejects_fst: "fst (oversubRejects pool cp req g) \<longleftrightarrow> fst (effectiveOversubCaps pool cp) < req"
  by (simp add: oversubRejects_def Let_def split_beta)

lemma oversubRejects_maxFreeBelow [simp]: "maxFreeBelow (snd (oversubRejects pool cp req g)) = maxFreeBelow g"
  by (simp add: oversubRejects_def Let_def split_beta)

lemma gates_loop_out:
  "fst (gates_loop fl ex cp req pools out g) = out @ filter (passes fl ex cp req) pools"
proof (induction pools arbitrary: out g)
  case Nil
  then show ?case by simp
next
  case (Cons p ps)
  then show ?case
    using oversubRejects_fst [of p cp req g]
    by (auto simp: Let_def split_beta passes_def)
qed

lemma gates_loop_maxFree:
  "maxFreeBelow (snd (gates_loop fl ex cp req pools out g)) =
     fold max (map sp_FreeCapacity (filter (below_floor fl ex req) pools)) (maxFreeBelow g)"
  by (induction pools arbitrary: out g) (auto simp: Let_def split_beta below_floor_def max_def)

lemma oversubRejects_None_iff:
  "oversubBest (snd (oversubRejects pool cp req g)) = None \<longleftrightarrow>
     oversubBest g = None \<and> req \<le> fst (effectiveOversubCaps pool cp)"
  by (auto simp: oversubRejects_def Let_def split_beta)

lemma gates_loop_oversub_None:
  "oversubBest (snd (gates_loop fl ex cp req pools out g)) = None \<longleftrightarrow>
     oversubBest g = None \<and> filter (over_cap fl ex cp req) pools = []"
  by (induction pools arbitrary: out g)
    (auto simp: Let_def split_beta over_cap_def oversubRejects_None_iff)

section \<open>Place\<close>

lemma buildPlan_cases:
  fixes L st rd fl
  defines "req \<equiv> requiredKib st rd"
  defines "c \<equiv> candidatePools L st fl req"
  shows "buildPlan L st rd fl = (if 0 < req \<and> fst c = [] then ShortfallPlan req (snd c)
           else assemblePlan L st rd fl (fst c) req (snd c))"
  by (simp add: buildPlan_def c_def req_def Let_def split_beta)

definition eligible_pools :: "golib \<Rightarrow> InMemory \<Rightarrow> string \<Rightarrow> AutoSelectFilter \<Rightarrow> StoragePool list" where
  "eligible_pools L st rd fl =
     filter (passes fl (autoplaceExcludedNodes L st (disabledNodes L st))
               (ControllerProps_Get (im_controllerProps st)) (requiredKib st rd))
       (StoragePools_List (im_storagePools st))"

lemma mset_rankCandidates [simp]: "mset (rankCandidates ps w rpn) = mset ps"
  by (simp add: rankCandidates_def Let_def)

lemma mset_candidatePools:
  "mset (fst (candidatePools L st fl (requiredKib st rd))) = mset (eligible_pools L st rd fl)"
  by (simp add: candidatePools_def eligible_pools_def applyCapacityAndOversubGates_def Let_def split_beta
      gates_loop_out)

definition diskless_fill ::
  "string \<Rightarrow> pstate \<Rightarrow> (string \<times> string \<Rightarrow> Resource option) \<Rightarrow> (string \<times> string \<Rightarrow> Resource option)"
where
  "diskless_fill rd s m =
     fold (put_diskless rd) (filter (\<lambda>n. n \<notin> set (ps_taken s)) (map fst (ps_nodes s))) m"

lemma ps_nodes_foldl [simp]: "ps_nodes (foldl record_pool s ps) = ps_nodes s"
  by (induction ps arbitrary: s) (simp_all add: record_pool_def)

lemma Place_Plan:
  fixes L st rd fl0
  defines "fl \<equiv> constrainFilterToRestoreSource st rd fl0"
  assumes ok: "rows_ok st"
    and plan: "buildPlan L st rd fl = Plan s pref rest ex dis req gates"
  defines "cs \<equiv> chosen s (pref @ rest) (countDiskfulReplicas ex dis) (PlaceCount fl)"
  defines "placed \<equiv> countDiskfulReplicas ex dis + int (length cs)"
  shows "\<exists>st'. Place L st rd fl0 = (st', placed, PlaceCount fl, partial_err placed (PlaceCount fl) req gates) \<and>
           only_rows st st' \<and> rows_ok st' \<and>
           rows st' = (if DisklessOnRemaining fl \<and> PlaceCount fl \<le> placed
                       then diskless_fill rd (foldl record_pool s cs) (fold (put_replica rd) cs (rows st))
                       else fold (put_replica rd) cs (rows st))"
proof -
  let ?n = "countDiskfulReplicas ex dis" and ?w = "PlaceCount fl"
  have asm: "assemblePlan L st rd fl (fst (candidatePools L st fl (requiredKib st rd))) (requiredKib st rd)
      (snd (candidatePools L st fl (requiredKib st rd))) = Plan s pref rest ex dis req gates"
    using plan unfolding buildPlan_cases by (simp split: if_splits)
  obtain t where s: "s = (newState fl ex (nodesByName L st) (StoragePools_List (im_storagePools st))
      (loadAllowPoolDriverMixing st))\<lparr>ps_sameTuple := t\<rparr>"
    and ex: "ex = Resources_ListByDefinition (im_resources st) rd"
    using assemblePlan_Plan(1,5) [OF asm] by blast
  have tr: "tracks st rd s"
    unfolding s ex tracks_sameTuple by (rule newState_tracks [OF ok])
  have nd: "distinct (map fst (ps_nodes s))"
    unfolding s by (simp add: distinct_nodesByName)
  define c1 where "c1 = chosen s pref ?n ?w"
  define s1 where "s1 = foldl record_pool s c1"
  define c2 where "c2 = chosen s1 rest (?n + int (length c1)) ?w"
  obtain st1 where st1: "placeDiskful st rd s pref ?n ?w = (st1, s1, ?n + int (length c1), None)"
    "only_rows st st1" "rows st1 = fold (put_replica rd) c1 (rows st)" "rows_ok st1" "tracks st1 rd s1"
    using placeDiskful_eq [OF tr ok, of pref ?n ?w] unfolding c1_def s1_def by blast
  obtain st2 where st2: "placeDiskful st1 rd s1 rest (?n + int (length c1)) ?w =
      (st2, foldl record_pool s1 c2, ?n + int (length c1) + int (length c2), None)"
    "only_rows st1 st2" "rows st2 = fold (put_replica rd) c2 (rows st1)" "rows_ok st2"
    using placeDiskful_eq [OF st1(5,4), of rest "?n + int (length c1)" ?w] unfolding c2_def by blast
  have cs: "cs = c1 @ c2"
    by (simp add: cs_def greedy_append Let_def c1_def c2_def s1_def)
  have p: "?n + int (length c1) + int (length c2) = placed"
    by (simp add: placed_def cs)
  have s2: "foldl record_pool s1 c2 = foldl record_pool s cs"
    by (simp add: cs s1_def)
  have r2: "rows st2 = fold (put_replica rd) cs (rows st)"
    by (simp add: st2(3) st1(3) cs)
  have only2: "only_rows st st2" by (rule only_rows_trans [OF st1(2) st2(2)])
  obtain st3 s3 where st3: "placeDisklessOnRemaining st2 rd (foldl record_pool s cs) = (st3, s3, None)"
    "only_rows st2 st3" "rows_ok st3"
    "rows st3 = diskless_fill rd (foldl record_pool s cs) (rows st2)"
    using diskless_loop_eq [OF st2(4), of "map fst (ps_nodes s)" rd "foldl record_pool s cs"] nd
    unfolding placeDisklessOnRemaining_def diskless_fill_def ps_nodes_foldl by blast
  have only3: "only_rows st st3" by (rule only_rows_trans [OF only2 st3(2)])
  have "Place L st rd fl0 =
      (if DisklessOnRemaining fl \<and> ?w \<le> placed then st3 else st2, placed, ?w, partial_err placed ?w req gates)"
    using plan st1(1) st2(1) st3(1) unfolding p s2 by (simp add: Place_def Let_def flip: fl_def)
  then show ?thesis
    using only2 only3 st2(4) st3(3,4) r2 by auto
qed

section \<open>Rows after a call\<close>

lemma chosen_nodes_distinct: "distinct (map sp_NodeName (chosen s cs placed want))"
proof -
  have "sorted_wrt (\<lambda>p q. sp_NodeName p \<noteq> sp_NodeName q) (chosen s cs placed want)"
    by (rule gate.chosen_pairwise) (auto simp: accepts_iff Let_def record_pool_def dest!: ps_extD(4))
  then show ?thesis
    by (intro sorted_wrt_neq_distinct) (simp add: sorted_wrt_map)
qed

lemma chosen_not_taken:
  assumes "p \<in> set (chosen s cs placed want)"
  shows "sp_NodeName p \<notin> set (ps_taken s)"
  using gate.chosen_accepted [OF assms] by (auto simp: accepts_iff Let_def dest!: ps_extD(4))

lemma put_replica_other: "k \<noteq> (rd, sp_NodeName p) \<Longrightarrow> put_replica rd p m k = m k"
  by (simp add: put_replica_def)

lemma put_replica_at: "put_replica rd p m (rd, sp_NodeName p) =
     Some (case m (rd, sp_NodeName p) of None \<Rightarrow> diskful_replica rd p | Some r \<Rightarrow> promoted p r)"
  by (simp add: put_replica_def)

lemma fold_put_replica_other:
  "fst k \<noteq> rd \<or> snd k \<notin> sp_NodeName ` set cs \<Longrightarrow> fold (put_replica rd) cs m k = m k"
  by (induction cs arbitrary: m) (auto simp: put_replica_def)

lemma fold_put_replica_chosen:
  assumes "distinct (map sp_NodeName cs)" "p \<in> set cs"
  shows "fold (put_replica rd) cs m (rd, sp_NodeName p) =
     Some (case m (rd, sp_NodeName p) of None \<Rightarrow> diskful_replica rd p | Some r \<Rightarrow> promoted p r)"
  using assms
proof (induction cs arbitrary: m)
  case Nil
  then show ?case by simp
next
  case (Cons q cs)
  show ?case
  proof (cases "sp_NodeName q = sp_NodeName p")
    case True
    then have "p \<notin> set cs" using Cons.prems(1) by force
    then have "p = q" using Cons.prems(2) by simp
    then show ?thesis
      using Cons.prems(1) by (auto simp: fold_put_replica_other put_replica_at)
  next
    case False
    then have "p \<in> set cs" using Cons.prems(2) by auto
    then show ?thesis
      using Cons.IH [of "put_replica rd q m"] Cons.prems(1) False by (simp add: put_replica_other)
  qed
qed

lemma put_diskless_eq:
  "put_diskless rd n m k = (if k = (rd, n) \<and> m k = None then Some (diskless_replica rd n) else m k)"
  by (auto simp: put_diskless_def)

lemma fold_put_diskless:
  "fold (put_diskless rd) ns m k =
     (if m k = None \<and> fst k = rd \<and> snd k \<in> set ns then Some (diskless_replica rd (snd k)) else m k)"
  by (induction ns arbitrary: m) (auto simp: put_diskless_eq prod_eq_iff)

text \<open>One statement about every call: either a shortfall that changes nothing, or a plan.\<close>

definition place_rows ::
  "string \<Rightarrow> AutoSelectFilter \<Rightarrow> pstate \<Rightarrow> StoragePool list \<Rightarrow> bool \<Rightarrow>
   (string \<times> string \<Rightarrow> Resource option) \<Rightarrow> (string \<times> string \<Rightarrow> Resource option)"
where
  "place_rows rd fl s cs full m =
     (if DisklessOnRemaining fl \<and> full then diskless_fill rd (foldl record_pool s cs) (fold (put_replica rd) cs m)
      else fold (put_replica rd) cs m)"

lemma place_rows_eq:
  assumes "distinct (map sp_NodeName cs)"
  shows "place_rows rd fl s cs full m k =
     (if fst k = rd \<and> snd k \<in> sp_NodeName ` set cs then fold (put_replica rd) cs m k
      else if m k = None \<and> fst k = rd \<and> DisklessOnRemaining fl \<and> full \<and>
              snd k \<in> fst ` set (ps_nodes s) \<and> snd k \<notin> set (ps_taken (foldl record_pool s cs))
      then Some (diskless_replica rd (snd k)) else m k)"
proof (cases "fst k = rd \<and> snd k \<in> sp_NodeName ` set cs")
  case True
  then obtain p where p: "p \<in> set cs" "k = (rd, sp_NodeName p)" by (cases k) auto
  then have "fold (put_replica rd) cs m k \<noteq> None"
    using fold_put_replica_chosen [OF assms p(1)] by simp
  then show ?thesis
    using True by (auto simp: place_rows_def diskless_fill_def fold_put_diskless)
next
  case False
  then have "fold (put_replica rd) cs m k = m k"
    by (auto intro!: fold_put_replica_other)
  then show ?thesis
    using False by (auto simp: place_rows_def diskless_fill_def fold_put_diskless)
qed

lemma Place_cases [consumes 2, case_names shortfall plan]:
  fixes L st rd fl0
  defines "fl \<equiv> constrainFilterToRestoreSource st rd fl0"
  assumes ok: "rows_ok st" and place: "Place L st rd fl0 = (st', placed, want, e)"
  obtains (shortfall) gates where "buildPlan L st rd fl = ShortfallPlan (requiredKib st rd) gates"
      "st' = st" "placed = 0" "e = Some (shortfall_err (requiredKib st rd) gates)"
      "0 < requiredKib st rd" "eligible_pools L st rd fl = []"
  | (plan) s pref rest gates cs dis where
      "buildPlan L st rd fl = Plan s pref rest (Resources_ListByDefinition (im_resources st) rd) dis (requiredKib st rd) gates"
      "dis = disabledNodes L st"
      "cs = chosen s (pref @ rest) (countDiskfulReplicas (Resources_ListByDefinition (im_resources st) rd) dis) want"
      "placed = countDiskfulReplicas (Resources_ListByDefinition (im_resources st) rd) dis + int (length cs)"
      "e = partial_err placed want (requiredKib st rd) gates" "want = PlaceCount fl"
      "only_rows st st'" "rows_ok st'" "rows st' = place_rows rd fl s cs (want \<le> placed) (rows st)"
      "\<exists>t. s = (newState fl (Resources_ListByDefinition (im_resources st) rd) (nodesByName L st)
                 (StoragePools_List (im_storagePools st)) (loadAllowPoolDriverMixing st))\<lparr>ps_sameTuple := t\<rparr>"
      "set pref \<union> set rest \<subseteq> set (eligible_pools L st rd fl)"
      "set pref \<union> set rest \<subseteq> set (filterSamePinned (applyNotPlaceWith L st rd fl
         (fst (candidatePools L st fl (requiredKib st rd)))) (nodesByName L st) (ReplicasOnSame fl))"
proof -
  let ?req = "requiredKib st rd" and ?ex = "Resources_ListByDefinition (im_resources st) rd"
  let ?c = "candidatePools L st fl ?req"
  note ms = mset_candidatePools [of L st fl rd]
  show thesis
  proof (cases "0 < ?req \<and> fst ?c = []")
    case True
    then have b: "buildPlan L st rd fl = ShortfallPlan ?req (snd ?c)"
      by (simp add: buildPlan_cases)
    show thesis
      using b True place ms by (intro shortfall [OF b]) (auto simp: Place_def Let_def simp flip: fl_def)
  next
    case False
    then have b: "buildPlan L st rd fl = assemblePlan L st rd fl (fst ?c) ?req (snd ?c)"
      unfolding buildPlan_cases by (rule if_not_P)
    obtain s pref rest ex dis r g where
      a: "assemblePlan L st rd fl (fst ?c) ?req (snd ?c) = Plan s pref rest ex dis r g"
      by (auto simp: assemblePlan_def Let_def split_beta)
    note f = assemblePlan_Plan [OF a]
    have b': "buildPlan L st rd fl = Plan s pref rest ?ex dis ?req g"
      using b a f(1,3) by simp
    let ?cs = "chosen s (pref @ rest) (countDiskfulReplicas ?ex dis) (PlaceCount fl)"
    let ?p = "countDiskfulReplicas ?ex dis + int (length ?cs)"
    have w: "want = PlaceCount fl" "placed = ?p" "e = partial_err ?p (PlaceCount fl) ?req g"
      "only_rows st st'" "rows_ok st'" "rows st' = place_rows rd fl s ?cs (PlaceCount fl \<le> ?p) (rows st)"
      using Place_Plan [OF ok, of L rd fl0 s pref rest ?ex dis ?req g] b' place
      by (auto simp: place_rows_def simp flip: fl_def)
    show thesis
      using plan [OF b' f(2) _ _ _ w(1,4,5), of ?cs] w f(5-7) mset_eq_setD [OF ms] f(1) by simp
  qed
qed

end
