(* ===== verification/Example_Cluster.thy ===== *)
theory Example_Cluster
  imports Placer
begin

text \<open>
  A small cluster on which the witnesses of the placement properties evaluate: three nodes with one
  storage pool each, one resource definition with a volume of 100 KiB, and a library whose
  name-based identifiers are concatenations and whose regular expressions never compile.
\<close>

definition ex_lib :: golib where
  "ex_lib = \<lparr>NewSHA1 = (\<lambda>ns x. ns @ x), NameSpaceURL = [], regexpCompile = (\<lambda>_. None)\<rparr>"

definition ex_node :: "string \<Rightarrow> string list \<Rightarrow> props \<Rightarrow> Node" where
  "ex_node name flags p =
     \<lparr>n_Name = name, n_Type = ''SATELLITE'', n_UUID = ''u'', n_Flags = flags, n_Props = p,
      n_NetInterfaces = [], n_ConnectionStatus = ''ONLINE'', n_ResourceLayers = [''STORAGE''],
      n_StorageProviders = [''LVM''], n_UnsupportedLayers = Some [], n_UnsupportedProviders = Some []\<rparr>"

definition ex_pool :: "string \<Rightarrow> string \<Rightarrow> string \<Rightarrow> int \<Rightarrow> string \<Rightarrow> StoragePool" where
  "ex_pool node name kind free shared =
     \<lparr>sp_StoragePoolName = name, sp_NodeName = node, sp_ProviderKind = kind, sp_Props = [],
      sp_StaticTraits = [], sp_FreeCapacity = free, sp_TotalCapacity = 1024, sp_FreeSpaceMgrName = ''f'',
      sp_SharedSpaceID = shared, sp_Reports = [], sp_SupportsSnapshot = False, sp_ExternalLocking = False,
      sp_UUID = [], sp_State = ''Ok'', sp_PoolMissing = False\<rparr>"

definition ex_filter :: "int \<Rightarrow> AutoSelectFilter" where
  "ex_filter n = \<lparr>PlaceCount = n, AdditionalPlaceCount = 0, NodeNameList = [], FilterStoragePool = [],
     StoragePoolList = [], StoragePoolDisklessList = [], NotPlaceWithRsc = [], NotPlaceWithRscRegex = [],
     ReplicasOnSame = [], ReplicasOnDifferent = [], XReplicasOnDifferentMap = [], FilterLayerStack = [],
     ProviderList = [], DisklessOnRemaining = False, OverrideVlmID = []\<rparr>"

definition ex_vd :: VolumeDefinition where
  "ex_vd = \<lparr>vd_VolumeNumber = 0, vd_SizeKib = 100, vd_Props = [], vd_Flags = [], vd_UUID = []\<rparr>"

definition ex_store :: "Node list \<Rightarrow> StoragePool list \<Rightarrow> Resource list \<Rightarrow> InMemory" where
  "ex_store ns ps rs = NewInMemory
     \<lparr>im_nodes := map (\<lambda>n. (n_Name n, n)) ns,
      im_storagePools := map (\<lambda>p. (sp_key p, p)) ps,
      im_resources := \<lparr>res_m = map (\<lambda>r. (r_key r, r)) rs, res_volStates = []\<rparr>,
      im_volumeDefinitions := [((''r'', 0), ex_vd)]\<rparr>"

definition ex_witness :: "string \<Rightarrow> Resource" where
  "ex_witness node = zero_Resource\<lparr>r_Name := ''r'', r_NodeName := node, r_Flags := [''DISKLESS'', ''TIE_BREAKER'']\<rparr>"

text \<open>A diskful replica on \<open>a\<close>, a tie-breaker on \<open>b\<close>, and nothing on \<open>c\<close>.\<close>

definition ex_cluster :: InMemory where
  "ex_cluster =
     (let pa = ex_pool ''a'' ''p'' ''LVM'' 512 []; pb = ex_pool ''b'' ''p'' ''LVM'' 512 [];
          pc = ex_pool ''c'' ''p'' ''LVM'' 512 []
      in ex_store [ex_node ''a'' [] [], ex_node ''b'' [] [], ex_node ''c'' [] []] [pa, pb, pc]
           [diskful_replica ''r'' pa, ex_witness ''b''])"

definition ex_run :: "InMemory \<times> int \<times> int \<times> place_err option" where
  "ex_run = Place ex_lib ex_cluster ''r'' (ex_filter 3)"

lemma ex_cluster_wf: "store_wf ex_cluster"
  by code_simp

lemma ex_run_counts: "snd ex_run = (3, 3, None)"
  by code_simp

lemma ex_run_Place: "Place ex_lib ex_cluster ''r'' (ex_filter 3) = (fst ex_run, 3, 3, None)"
  using ex_run_counts unfolding ex_run_def by (metis prod.collapse)

end
