(* ===== verification/Placer_Theorems.thy ===== *)
theory Placer_Theorems
  imports Placer_Props Example_Cluster
begin

text \<open>
  The guarantees of \<open>Place\<close> as its callers (REST autoplace, resource-group reconciliation, node
  replacement) rely on them, each with a concrete run.
\<close>

section \<open>Counting replicas\<close>

text \<open>A replica that counts towards \<open>place_count\<close>.\<close>

definition counts :: "string list \<Rightarrow> Resource \<Rightarrow> bool" where
  "counts dis r = (r_NodeName r \<notin> set dis \<and> \<not> diskless r \<and> ResourceFlagInactive \<notin> set (r_Flags r))"

definition counting_nodes :: "InMemory \<Rightarrow> string \<Rightarrow> string list \<Rightarrow> string set" where
  "counting_nodes st rd dis = {n. \<exists>r. rows st (rd, n) = Some r \<and> counts dis r}"

lemma countDiskfulReplicas_filter:
  "countDiskfulReplicas ex dis = int (length (filter (counts dis) ex))"
proof -
  have "fold (\<lambda>r count. if r_NodeName r \<in> set dis then count
                     else if ResourceFlagDiskless \<in> set (r_Flags r) then count
                     else if ResourceFlagInactive \<in> set (r_Flags r) then count
                     else count + 1) ex n = n + int (length (filter (counts dis) ex))" for n
    by (induction ex arbitrary: n) (simp_all add: counts_def)
  from this [of 0] show ?thesis by (simp add: countDiskfulReplicas_def)
qed

lemma rows_ListByDefinition:
  assumes "rows_ok st"
  shows "r \<in> set (Resources_ListByDefinition (im_resources st) rd) \<longleftrightarrow> rows st (rd, r_NodeName r) = Some r"
proof -
  have "(r_key r, r) \<in> set (res_m (im_resources st))" if "r \<in> snd ` set (res_m (im_resources st))"
    using that assms by (auto simp: rows_wf_def list_all_iff)
  then show ?thesis
    using assms by (auto simp: rows_wf_def image_iff) (use rows_wf_lookup [OF assms] in force)+
qed

lemma count_card:
  assumes "rows_ok st"
  shows "countDiskfulReplicas (Resources_ListByDefinition (im_resources st) rd) dis = int (card (counting_nodes st rd dis))"
    and "finite (counting_nodes st rd dis)"
proof -
  let ?xs = "filter (counts dis) (Resources_ListByDefinition (im_resources st) rd)"
  have "counting_nodes st rd dis = r_NodeName ` set ?xs"
    using rows_wf_lookup [OF assms]
    by (auto simp: counting_nodes_def rows_ListByDefinition [OF assms] simp del: set_Resources_ListByDefinition
        intro!: rev_image_eqI)
  moreover have "distinct (map r_NodeName ?xs)"
    by (rule distinct_map_filter [OF Resources_ListByDefinition_distinct [OF assms]])
  ultimately show "countDiskfulReplicas (Resources_ListByDefinition (im_resources st) rd) dis =
      int (card (counting_nodes st rd dis))" "finite (counting_nodes st rd dis)"
    using distinct_card [of "map r_NodeName ?xs"] by (simp_all add: countDiskfulReplicas_filter)
qed

lemma disabled_excluded: "set (disabledNodes L st) \<subseteq> set (autoplaceExcludedNodes L st (disabledNodes L st))"
proof -
  have "set dis \<subseteq> set (fold (\<lambda>n out. case map_of (n_Props n) PropAutoplaceTarget of
             None \<Rightarrow> out
           | Some raw \<Rightarrow> if ParseBool raw = Some False then List.insert (n_Name n) out else out) ns dis)"
    for ns :: "Node list" and dis
    by (induction ns arbitrary: dis) (auto split: option.split, force+)
  then show ?thesis by (simp add: autoplaceExcludedNodes_def)
qed

lemma eligible_not_disabled:
  "p \<in> set (eligible_pools L st rd fl) \<Longrightarrow> sp_NodeName p \<notin> set (disabledNodes L st)"
  using disabled_excluded [of L st]
  by (auto simp: eligible_pools_def passes_def matchesPoolFilter_def split: if_splits)

lemma disabledNodes_only_rows: "only_rows st st' \<Longrightarrow> disabledNodes L st' = disabledNodes L st"
  by (simp add: disabledNodes_def only_rowsD)

lemma store_wf_only_rows: "store_wf st \<Longrightarrow> only_rows st st' \<Longrightarrow> rows_ok st' \<Longrightarrow> store_wf st'"
  by (simp add: store_wf_def only_rowsD)

lemma store_wf_rows: "store_wf st \<Longrightarrow> rows_ok st"
  by (simp add: store_wf_def)

text \<open>What the bookkeeping of a plan says about the rows: a chosen node holds a witness or nothing.\<close>

lemma chosen_row_diskless:
  assumes "rows_ok st"
    and s: "s = (newState fl (Resources_ListByDefinition (im_resources st) rd) nodes pools b)\<lparr>ps_sameTuple := t\<rparr>"
    and p: "p \<in> set (chosen s cs placed want)" and r: "rows st (rd, sp_NodeName p) = Some r"
  shows "diskless r"
proof (rule ccontr)
  assume "\<not> diskless r"
  moreover have "r \<in> set (Resources_ListByDefinition (im_resources st) rd)" "r_NodeName r = sp_NodeName p"
    using r rows_wf_lookup [OF assms(1) r] unfolding rows_ListByDefinition [OF assms(1)] by simp_all
  ultimately have "sp_NodeName p \<in> set (ps_taken s)"
    unfolding s by (simp del: set_Resources_ListByDefinition) (metis (mono_tags, lifting) imageI mem_Collect_eq)
  then show False using chosen_not_taken [OF p] by simp
qed

lemma counts_put:
  assumes "sp_NodeName p \<notin> set dis" "r_NodeName r = sp_NodeName p" "ResourceFlagInactive \<notin> set (r_Flags r)"
  shows "counts dis (promoted p r)" "counts dis (diskful_replica rd p)"
  using assms by (simp_all add: counts_def promoted_def)

lemma Place_counting_nodes:
  assumes ok: "rows_ok st"
    and s: "\<exists>t. s = (newState fl (Resources_ListByDefinition (im_resources st) rd) (nodesByName L st)
             (StoragePools_List (im_storagePools st)) b)\<lparr>ps_sameTuple := t\<rparr>"
    and cs: "cs = chosen s ps placed want" "set ps \<subseteq> set (eligible_pools L st rd fl)"
    and rows': "rows st' = place_rows rd fl s cs full (rows st)"
    and act: "\<forall>r \<in> set (Resources_ListByDefinition (im_resources st) rd). diskless r \<longrightarrow> ResourceFlagInactive \<notin> set (r_Flags r)"
  shows "counting_nodes st' rd (disabledNodes L st) =
           counting_nodes st rd (disabledNodes L st) \<union> sp_NodeName ` set cs"
    and "counting_nodes st rd (disabledNodes L st) \<inter> sp_NodeName ` set cs = {}"
proof -
  let ?dis = "disabledNodes L st"
  have d: "distinct (map sp_NodeName cs)" unfolding cs(1) by (rule chosen_nodes_distinct)
  have dl: "diskless r" if "p \<in> set cs" "rows st (rd, sp_NodeName p) = Some r" for p r
    using s chosen_row_diskless [OF ok] that unfolding cs(1) by blast
  have el: "sp_NodeName p \<notin> set ?dis" if "p \<in> set cs" for p
    using that greedy_subset [of accepts record_pool s ps placed want] cs eligible_not_disabled by blast
  show disj: "counting_nodes st rd ?dis \<inter> sp_NodeName ` set cs = {}"
    using dl by (auto simp: counting_nodes_def counts_def)
  have chosen: "\<exists>r. rows st' (rd, n) = Some r \<and> counts ?dis r" if n: "n \<in> sp_NodeName ` set cs" for n
  proof -
    obtain p where p: "p \<in> set cs" "n = sp_NodeName p" using n by blast
    have row: "rows st' (rd, n) = Some (case rows st (rd, n) of None \<Rightarrow> diskful_replica rd p | Some r \<Rightarrow> promoted p r)"
      unfolding rows' place_rows_eq [OF d] using fold_put_replica_chosen [OF d p(1)] p by simp
    show ?thesis
    proof (cases "rows st (rd, n)")
      case None
      then show ?thesis using row el [OF p(1)] by (simp add: counts_def)
    next
      case (Some r)
      then have "r \<in> set (Resources_ListByDefinition (im_resources st) rd)" "r_NodeName r = n"
        using rows_wf_lookup [OF ok Some] unfolding rows_ListByDefinition [OF ok] by simp_all
      then have "ResourceFlagInactive \<notin> set (r_Flags r)"
        using act dl [OF p(1)] Some p(2) by simp
      then show ?thesis
        using row Some counts_put(1) [of p ?dis r] el [OF p(1)] \<open>r_NodeName r = n\<close> p(2) by simp
    qed
  qed
  have other: "(\<exists>r. rows st' (rd, n) = Some r \<and> counts ?dis r) \<longleftrightarrow> (\<exists>r. rows st (rd, n) = Some r \<and> counts ?dis r)"
    if "n \<notin> sp_NodeName ` set cs" for n
    unfolding rows' place_rows_eq [OF d] using that by (auto simp: counts_def)
  show "counting_nodes st' rd ?dis = counting_nodes st rd ?dis \<union> sp_NodeName ` set cs"
    unfolding counting_nodes_def using chosen other by blast
qed

lemma placed_counts:
  assumes "store_wf st" and "Place L st rd fl = (st', placed, want, None)"
    and "\<forall>r \<in> set (Resources_ListByDefinition (im_resources st) rd).
           diskless r \<longrightarrow> ResourceFlagInactive \<notin> set (r_Flags r)"
  shows "placed = countDiskfulReplicas (Resources_ListByDefinition (im_resources st') rd) (disabledNodes L st')"
proof -
  note ok = store_wf_rows [OF assms(1)]
  from ok assms(2) show ?thesis
  proof (cases rule: Place_cases)
    case (shortfall gates)
    then show ?thesis by simp
  next
    case (plan s pref rest gates cs dis)
    let ?dis = "disabledNodes L st"
    have "countDiskfulReplicas (Resources_ListByDefinition (im_resources st') rd) ?dis = int (card (counting_nodes st' rd ?dis))"
      by (rule count_card(1)) (fact plan)
    also have "counting_nodes st' rd ?dis = counting_nodes st rd ?dis \<union> sp_NodeName ` set cs"
      using plan(10,11) by (intro Place_counting_nodes(1) [OF ok plan(10) plan(3) _ plan(9) assms(3)]) simp
    also have "card \<dots> = card (counting_nodes st rd ?dis) + card (sp_NodeName ` set cs)"
      using plan(11) by (intro card_Un_disjoint count_card(2) [OF ok]
        Place_counting_nodes(2) [OF ok plan(10) plan(3) _ plan(9) assms(3)]) simp_all
    also have "card (sp_NodeName ` set cs) = length cs"
      using distinct_card [OF chosen_nodes_distinct] unfolding plan(3) by simp
    finally show ?thesis
      using plan(2,4,7) by (simp add: count_card(1) [OF ok] disabledNodes_only_rows)
  qed
qed

section \<open>Theorems about Place\<close>

text \<open>
  C1. The count \<open>Place\<close> reports when it returns without an error is the number of replicas that count
  in the store it leaves behind: diskful, not \<open>INACTIVE\<close>, and not on an evicted or lost node.  The
  one assumption besides a well-formed store is that no existing diskless witness is \<open>INACTIVE\<close>.
\<close>

theorem Place_count:
  assumes "store_wf st" and "Place L st rd fl = (st', placed, want, None)"
    and "\<forall>r \<in> set (Resources_ListByDefinition (im_resources st) rd).
           diskless r \<longrightarrow> ResourceFlagInactive \<notin> set (r_Flags r)"
  shows "placed = countDiskfulReplicas (Resources_ListByDefinition (im_resources st') rd) (disabledNodes L st')"
  using assms by (rule placed_counts)

theorem Place_count_witness:
  "3 = countDiskfulReplicas (Resources_ListByDefinition (im_resources (fst ex_run)) ''r'') (disabledNodes ex_lib (fst ex_run))"
proof (rule Place_count [OF ex_cluster_wf ex_run_Place])
  show "\<forall>r \<in> set (Resources_ListByDefinition (im_resources ex_cluster) ''r'').
          diskless r \<longrightarrow> ResourceFlagInactive \<notin> set (r_Flags r)"
    by code_simp
qed

text \<open>
  C2. \<open>Place\<close> keeps the store well-formed and touches nothing but the definition it places: other
  tables and the rows of other definitions are unchanged, a diskful replica stays as it is, and no
  replica disappears.
\<close>

theorem Place_frame:
  assumes "store_wf st" and "Place L st rd fl = (st', placed, want, e)"
  shows "store_wf st' \<and> only_rows st st' \<and>
    (\<forall>k. fst k \<noteq> rd \<longrightarrow> rows st' k = rows st k) \<and>
    (\<forall>k r. rows st k = Some r \<and> \<not> diskless r \<longrightarrow> rows st' k = Some r) \<and>
    (\<forall>k. rows st k \<noteq> None \<longrightarrow> rows st' k \<noteq> None)"
proof -
  note ok = store_wf_rows [OF assms(1)]
  from ok assms(2) show ?thesis
  proof (cases rule: Place_cases)
    case (shortfall gates)
    then show ?thesis using assms(1) by simp
  next
    case (plan s pref rest gates cs dis)
    have d: "distinct (map sp_NodeName cs)" unfolding plan(3) by (rule chosen_nodes_distinct)
    have dl: "diskless r" if "p \<in> set cs" "rows st (rd, sp_NodeName p) = Some r" for p r
      using plan(10) chosen_row_diskless [OF ok] that unfolding plan(3) by blast
    have "rows st' k = Some r" if "rows st k = Some r" "\<not> diskless r" for k r
    proof -
      have "fst k \<noteq> rd \<or> snd k \<notin> sp_NodeName ` set cs"
        using dl that by (cases k) auto
      then show ?thesis
        unfolding plan(9) place_rows_eq [OF d] using that(1) by auto
    qed
    moreover have "rows st' k \<noteq> None" if "rows st k \<noteq> None" for k
      using fold_put_replica_chosen [OF d] that unfolding plan(9) place_rows_eq [OF d] by (cases k) auto
    moreover have "rows st' k = rows st k" if "fst k \<noteq> rd" for k
      unfolding plan(9) place_rows_eq [OF d] using that by simp
    ultimately show ?thesis
      using store_wf_only_rows [OF assms(1) plan(7,8)] plan(7) by blast
  qed
qed

theorem Place_frame_witness:
  "store_wf (fst ex_run) \<and> only_rows ex_cluster (fst ex_run) \<and>
   rows (fst ex_run) (''r'', ''a'') = rows ex_cluster (''r'', ''a'') \<and> rows (fst ex_run) (''r'', ''b'') \<noteq> None"
proof -
  note frame = Place_frame [OF ex_cluster_wf ex_run_Place]
  have "map_option r_Flags (rows ex_cluster (''r'', ''a'')) = Some []" by code_simp
  then obtain r where "rows ex_cluster (''r'', ''a'') = Some r" "r_Flags r = []" by auto
  moreover have "rows ex_cluster (''r'', ''b'') \<noteq> None" by code_simp
  ultimately show ?thesis using frame by simp
qed

text \<open>
  C3. Every diskful replica \<open>Place\<close> adds or promotes sits on a pool that passes all gates: it matches
  the filter (kind, name, node and provider lists, not missing), its node is neither evicted, lost
  nor opted out of autoplacement, and both its free capacity and its over-subscription cap hold the
  largest volume of the definition.  The replica's \<open>StorPoolName\<close> names that pool.
\<close>

theorem Place_eligible:
  assumes "store_wf st" and "Place L st rd fl = (st', placed, want, e)"
    and "rows st' (rd, n) = Some r" "\<not> diskless r" "rows st (rd, n) \<noteq> Some r"
  shows "\<exists>p \<in> set (StoragePools_List (im_storagePools st)).
    sp_NodeName p = n \<and> gm_idx (r_Props r) storPoolNameProp = sp_StoragePoolName p \<and>
    matchesPoolFilter p (constrainFilterToRestoreSource st rd fl)
      (autoplaceExcludedNodes L st (disabledNodes L st)) \<and>
    (0 < requiredKib st rd \<longrightarrow> requiredKib st rd \<le> sp_FreeCapacity p \<and>
       requiredKib st rd \<le> fst (effectiveOversubCaps p (ControllerProps_Get (im_controllerProps st))))"
proof -
  note ok = store_wf_rows [OF assms(1)]
  from ok assms(2) show ?thesis
  proof (cases rule: Place_cases)
    case (shortfall gates)
    then show ?thesis using assms(3,5) by simp
  next
    case (plan s pref rest gates cs dis)
    have d: "distinct (map sp_NodeName cs)" unfolding plan(3) by (rule chosen_nodes_distinct)
    have "n \<in> sp_NodeName ` set cs"
      using assms(3-5) unfolding plan(9) place_rows_eq [OF d] by (auto split: if_splits)
    then obtain p where p: "p \<in> set cs" "n = sp_NodeName p" by blast
    have "r = (case rows st (rd, n) of None \<Rightarrow> diskful_replica rd p | Some r \<Rightarrow> promoted p r)"
      using assms(3) fold_put_replica_chosen [OF d p(1)] p
      unfolding plan(9) place_rows_eq [OF d] by simp
    then have "gm_idx (r_Props r) storPoolNameProp = sp_StoragePoolName p"
      by (simp add: promoted_def gm_idx_update split: option.splits) (simp add: gm_idx_def)
    moreover have "p \<in> set (eligible_pools L st rd (constrainFilterToRestoreSource st rd fl))"
      using p(1) plan(3,11) greedy_subset [of accepts record_pool s "pref @ rest"] by fastforce
    ultimately show ?thesis
      using p(2) unfolding eligible_pools_def set_filter passes_def by blast
  qed
qed

theorem Place_eligible_witness:
  "\<exists>p \<in> set (StoragePools_List (im_storagePools ex_cluster)).
    sp_NodeName p = ''b'' \<and> gm_idx (r_Props (the (rows (fst ex_run) (''r'', ''b'')))) storPoolNameProp = sp_StoragePoolName p \<and>
    matchesPoolFilter p (constrainFilterToRestoreSource ex_cluster ''r'' (ex_filter 3))
      (autoplaceExcludedNodes ex_lib ex_cluster (disabledNodes ex_lib ex_cluster)) \<and>
    100 \<le> sp_FreeCapacity p"
proof -
  have req: "requiredKib ex_cluster ''r'' = 100" by code_simp
  have "rows (fst ex_run) (''r'', ''b'') \<noteq> None" by code_simp
  then have row: "rows (fst ex_run) (''r'', ''b'') = Some (the (rows (fst ex_run) (''r'', ''b'')))" by simp
  have df: "\<not> diskless (the (rows (fst ex_run) (''r'', ''b'')))" by code_simp
  have "map_option r_Flags (rows ex_cluster (''r'', ''b'')) \<noteq>
      Some (r_Flags (the (rows (fst ex_run) (''r'', ''b''))))"
    by code_simp
  then have "rows ex_cluster (''r'', ''b'') \<noteq> Some (the (rows (fst ex_run) (''r'', ''b'')))" by auto
  from Place_eligible [OF ex_cluster_wf ex_run_Place row df this] show ?thesis
    unfolding req by fastforce
qed

section \<open>Completeness of an unconstrained placement\<close>

lemma constrainFilter_fields [simp]:
  "ReplicasOnSame (constrainFilterToRestoreSource st rd fl) = ReplicasOnSame fl"
  "ReplicasOnDifferent (constrainFilterToRestoreSource st rd fl) = ReplicasOnDifferent fl"
  "XReplicasOnDifferentMap (constrainFilterToRestoreSource st rd fl) = XReplicasOnDifferentMap fl"
  "NotPlaceWithRsc (constrainFilterToRestoreSource st rd fl) = NotPlaceWithRsc fl"
  "NotPlaceWithRscRegex (constrainFilterToRestoreSource st rd fl) = NotPlaceWithRscRegex fl"
  "PlaceCount (constrainFilterToRestoreSource st rd fl) = PlaceCount fl"
  "DisklessOnRemaining (constrainFilterToRestoreSource st rd fl) = DisklessOnRemaining fl"
  by (simp_all add: constrainFilterToRestoreSource_def Let_def split: sum.split prod.split)

definition free_filter :: "AutoSelectFilter \<Rightarrow> bool" where
  "free_filter fl = (ReplicasOnSame fl = [] \<and> ReplicasOnDifferent fl = [] \<and> XReplicasOnDifferentMap fl = [] \<and>
     NotPlaceWithRsc fl = [] \<and> NotPlaceWithRscRegex fl = [])"

lemma assemblePlan_free:
  assumes "free_filter fl" "assemblePlan L st rd fl cands req gates = Plan s pref rest ex dis r g"
  shows "pref = cands" "rest = []"
  using assms
  by (simp_all add: free_filter_def assemblePlan_def Let_def applyNotPlaceWith_def filterSamePinned_def
      partitionByExclusion_def)

lemma buildPlan_free:
  assumes "free_filter fl" "buildPlan L st rd fl = Plan s pref rest ex dis req gates"
  shows "set pref \<union> set rest = set (eligible_pools L st rd fl)"
proof -
  let ?c = "candidatePools L st fl (requiredKib st rd)"
  have "assemblePlan L st rd fl (fst ?c) (requiredKib st rd) (snd ?c) = Plan s pref rest ex dis req gates"
    using assms(2) unfolding buildPlan_cases by (simp split: if_splits)
  from assemblePlan_free [OF assms(1) this] show ?thesis
    using mset_eq_setD [OF mset_candidatePools [of L st fl rd]] by simp
qed

lemma taken_foldl: "set (ps_taken (foldl record_pool s cs)) = set (ps_taken s) \<union> sp_NodeName ` set cs"
  by (induction cs arbitrary: s) (auto simp: record_pool_def)

lemma fields_foldl [simp]:
  "ps_filter (foldl record_pool s cs) = ps_filter s"
  "ps_allowPoolDriverMixing (foldl record_pool s cs) = ps_allowPoolDriverMixing s"
  by (induction cs arbitrary: s) (simp_all add: record_pool_def)

lemma firstKind_foldl:
  "ps_firstKind (foldl record_pool s cs) = [] \<or> ps_firstKind (foldl record_pool s cs) = ps_firstKind s \<or>
   ps_firstKind (foldl record_pool s cs) \<in> sp_ProviderKind ` set cs"
proof (induction cs arbitrary: s)
  case Nil
  then show ?case by simp
next
  case (Cons c cs)
  have "ps_firstKind (record_pool s c) = (if ps_firstKind s = [] then sp_ProviderKind c else ps_firstKind s)"
    by (simp add: record_pool_def)
  then show ?case
    using Cons.IH [of "record_pool s c"] by (cases "ps_firstKind s = []") auto
qed

lemma set_poolsByKey: "map_of (poolsByKey pools) k = Some p \<Longrightarrow> p \<in> set pools"
proof -
  have "map_of (fold (\<lambda>p. AList.update (poolKey (sp_NodeName p) (sp_StoragePoolName p)) p) ps m) k = Some p \<Longrightarrow>
      p \<in> set ps \<or> map_of m k = Some p" for ps m
    by (induction ps arbitrary: m) (force simp: gomap_simps split: if_splits)+
  then show "map_of (poolsByKey pools) k = Some p \<Longrightarrow> p \<in> set pools"
    by (fastforce simp: poolsByKey_def)
qed

lemma backing_pool_in: "backing_pool (poolsByKey pools) r = Some p \<Longrightarrow> p \<in> set pools"
  by (auto simp: backing_pool_def Let_def split: if_splits dest: set_poolsByKey)

lemma firstKind_fold_seed:
  "ps_firstKind (fold seed_existing rs s) = ps_firstKind s \<or>
   (\<exists>r p. r \<in> set rs \<and> backing_pool (ps_pools s) r = Some p \<and>
      ps_firstKind (fold seed_existing rs s) = sp_ProviderKind p)"
proof (induction rs arbitrary: s)
  case Nil
  then show ?case by simp
next
  case (Cons r rs)
  show ?case
    using Cons.IH [of "seed_existing r s"] by (auto split: option.splits if_splits)
qed

lemma newState_firstKind:
  "ps_firstKind (newState fl ex nodes pools b) = [] \<or>
   ps_firstKind (newState fl ex nodes pools b) \<in> sp_ProviderKind ` set pools"
proof -
  have "\<exists>s0. newState fl ex nodes pools b = fold seed_existing ex s0 \<and> ps_firstKind s0 = [] \<and> ps_pools s0 = poolsByKey pools"
    unfolding newState_def by (rule exI, rule conjI, rule refl) simp
  then obtain s0 where s0: "newState fl ex nodes pools b = fold seed_existing ex s0" "ps_firstKind s0 = []"
    "ps_pools s0 = poolsByKey pools" by blast
  show ?thesis
    using firstKind_fold_seed [of ex s0] backing_pool_in [of pools] unfolding s0 by (metis imageI)
qed

text \<open>
  C4. Without topology constraints, shared storage or incompatible drivers, \<open>Place\<close> gives up only when
  nothing is left: if it reports fewer replicas than wanted, every node that has an eligible pool
  holds a diskful replica.
\<close>

theorem Place_complete:
  assumes "store_wf st" and "Place L st rd fl = (st', placed, want, e)" and "placed < want"
    and "free_filter fl"
    and "\<forall>p \<in> set (StoragePools_List (im_storagePools st)). sp_SharedSpaceID p = []"
    and "\<forall>p \<in> set (StoragePools_List (im_storagePools st)). \<forall>q \<in> set (StoragePools_List (im_storagePools st)).
           IsProviderKindMixingAllowed (sp_ProviderKind p) (sp_ProviderKind q) (loadAllowPoolDriverMixing st)"
    and "q \<in> set (eligible_pools L st rd (constrainFilterToRestoreSource st rd fl))"
  shows "\<exists>r. rows st' (rd, sp_NodeName q) = Some r \<and> \<not> diskless r"
proof -
  note ok = store_wf_rows [OF assms(1)]
  let ?fl = "constrainFilterToRestoreSource st rd fl" and ?pools = "StoragePools_List (im_storagePools st)"
  let ?ex = "Resources_ListByDefinition (im_resources st) rd"
  have free: "free_filter ?fl" using assms(4) by (simp add: free_filter_def)
  have pool: "p \<in> set ?pools" if "p \<in> set (eligible_pools L st rd ?fl)" for p
    using that unfolding eligible_pools_def by simp
  from ok assms(2) show ?thesis
  proof (cases rule: Place_cases)
    case (shortfall gates)
    then show ?thesis using assms(7) by simp
  next
    case (plan s pref rest gates cs dis)
    obtain t where s: "s = (newState ?fl ?ex (nodesByName L st) ?pools (loadAllowPoolDriverMixing st))\<lparr>ps_sameTuple := t\<rparr>"
      using plan(10) by blast
    have d: "distinct (map sp_NodeName cs)" unfolding plan(3) by (rule chosen_nodes_distinct)
    have q: "q \<in> set (pref @ rest)"
      using buildPlan_free [OF free plan(1)] assms(7) by simp
    let ?s = "foldl record_pool s cs"
    have "\<not> accepts ?s q"
      using gate.chosen_maximal [OF _ q] assms(3) plan(3,4) by simp
    moreover have "ps_firstKind ?s = [] \<or> ps_firstKind ?s \<in> sp_ProviderKind ` set ?pools"
    proof -
      have "set cs \<subseteq> set pref \<union> set rest"
        using greedy_subset [of accepts record_pool s "pref @ rest"] unfolding plan(3) by simp
      then have "set cs \<subseteq> set ?pools"
        using plan(11) pool by blast
      moreover have "ps_firstKind s = [] \<or> ps_firstKind s \<in> sp_ProviderKind ` set ?pools"
        using newState_firstKind [of ?fl ?ex "nodesByName L st" ?pools] unfolding s
        by (simp del: set_StoragePools_List)
      ultimately show ?thesis
        using firstKind_foldl [of s cs] by (metis image_mono subsetD)
    qed
    then have "allowsKindMix ?s (sp_ProviderKind q)"
      using assms(6) pool [OF assms(7)] unfolding allowsKindMix_def by (auto simp: s simp del: set_StoragePools_List)
    ultimately have "sp_NodeName q \<in> set (ps_taken ?s)"
      using assms(4,5) pool [OF assms(7)]
      by (simp add: accepts_iff Let_def s free_filter_def matchesTuple_def collidesWithDiff_def
          exceedsXBucket_iff del: set_StoragePools_List split: option.splits)
    then consider (old) r where "r \<in> set ?ex" "\<not> diskless r" "r_NodeName r = sp_NodeName q"
      | (new) p where "p \<in> set cs" "sp_NodeName p = sp_NodeName q"
      unfolding taken_foldl by (auto simp: s simp del: set_Resources_ListByDefinition)
    then show ?thesis
    proof cases
      case old
      then have row: "rows st (rd, sp_NodeName q) = Some r"
        unfolding rows_ListByDefinition [OF ok] by simp
      have "sp_NodeName q \<notin> sp_NodeName ` set cs"
        using chosen_row_diskless [OF ok s] row old(2) plan(3) by (metis imageE)
      then show ?thesis
        unfolding plan(9) place_rows_eq [OF d] using row old(2) by simp
    next
      case new
      then have "sp_NodeName q \<in> sp_NodeName ` set cs" by (metis imageI)
      then show ?thesis
        unfolding plan(9) place_rows_eq [OF d] using fold_put_replica_chosen [OF d new(1)] new(2)
        by (simp add: promoted_def split: option.split)
    qed
  qed
qed

definition ex_run4 :: "InMemory \<times> int \<times> int \<times> place_err option" where
  "ex_run4 = Place ex_lib ex_cluster ''r'' (ex_filter 4)"

lemma ex_run4_Place: "Place ex_lib ex_cluster ''r'' (ex_filter 4) = (fst ex_run4, 3, 4, None)"
proof -
  have "snd ex_run4 = (3, 4, None)" by code_simp
  then show ?thesis unfolding ex_run4_def by (metis prod.collapse)
qed

theorem Place_complete_witness:
  "\<exists>r. rows (fst ex_run4) (''r'', ''b'') = Some r \<and> \<not> diskless r"
proof -
  let ?q = "ex_pool ''b'' ''p'' ''LVM'' 512 []"
  have q: "?q \<in> set (eligible_pools ex_lib ex_cluster ''r'' (constrainFilterToRestoreSource ex_cluster ''r'' (ex_filter 4)))"
    by code_simp
  have "\<exists>r. rows (fst ex_run4) (''r'', sp_NodeName ?q) = Some r \<and> \<not> diskless r"
    by (rule Place_complete [OF ex_cluster_wf ex_run4_Place _ _ _ _ q]) (simp, code_simp+)
  then show ?thesis by (simp add: ex_pool_def)
qed

end
