(* ===== verification/Example_Zones.thy ===== *)
theory Example_Zones
  imports Example_Cluster
begin

text \<open>
  Clusters with topology labels for the witnesses of the spreading properties: nodes \<open>a\<close> and \<open>b\<close> are in
  zone \<open>x\<close>, node \<open>c\<close> in zone \<open>y\<close>.
\<close>

definition ex_zone_nodes :: "Node list" where
  "ex_zone_nodes = [ex_node ''a'' [] [(''Aux/zone'', ''x'')], ex_node ''b'' [] [(''Aux/zone'', ''x'')],
     ex_node ''c'' [] [(''Aux/zone'', ''y'')]]"

text \<open>Pools \<open>a\<close> and \<open>b\<close> share a backend; \<open>r\<close> has a replica on \<open>a\<close>, and two other resources are on \<open>b\<close> and \<open>c\<close>.\<close>

definition ex_zone_pool :: "string \<Rightarrow> StoragePool" where
  "ex_zone_pool n = ex_pool n ''p'' ''LVM'' 512 (if n = ''c'' then ''T'' else ''S'')"

definition ex_zoned :: InMemory where
  "ex_zoned = ex_store ex_zone_nodes (map ex_zone_pool [''a'', ''b'', ''c''])
     [diskful_replica ''r'' (ex_zone_pool ''a''), diskful_replica ''o'' (ex_zone_pool ''b''),
      diskful_replica ''z'' (ex_zone_pool ''c'')]"

definition ex_zone_filter :: AutoSelectFilter where
  "ex_zone_filter = (ex_filter 2)\<lparr>ReplicasOnDifferent := [''zone''], XReplicasOnDifferentMap := [(''zone'', 1)],
     NotPlaceWithRsc := [''o'']\<rparr>"

definition ex_zoned_run :: "InMemory \<times> int \<times> int \<times> place_err option" where
  "ex_zoned_run = Place ex_lib ex_zoned ''r'' ex_zone_filter"

lemma ex_zoned_wf: "store_wf ex_zoned"
  by code_simp

lemma ex_zoned_Place: "Place ex_lib ex_zoned ''r'' ex_zone_filter = (fst ex_zoned_run, 2, 2, None)"
proof -
  have "snd ex_zoned_run = (2, 2, None)" by code_simp
  then show ?thesis unfolding ex_zoned_run_def by (metis prod.collapse)
qed

lemma ex_zoned_rows:
  "map_of (res_m (im_resources (fst ex_zoned_run))) (''r'', ''a'') = Some (diskful_replica ''r'' (ex_zone_pool ''a''))"
  "map_of (res_m (im_resources (fst ex_zoned_run))) (''r'', ''c'') = Some (diskful_replica ''r'' (ex_zone_pool ''c''))"
  "map_of (res_m (im_resources ex_zoned)) (''r'', ''c'') = None"
  "map_of (res_m (im_resources ex_zoned)) (''z'', ''c'') = Some (diskful_replica ''z'' (ex_zone_pool ''c''))"
  by code_simp+

definition ex_same :: InMemory where
  "ex_same = ex_store ex_zone_nodes (map (\<lambda>n. ex_pool n ''p'' ''LVM'' 512 []) [''a'', ''b'', ''c'']) []"

definition ex_same_run :: "InMemory \<times> int \<times> int \<times> place_err option" where
  "ex_same_run = Place ex_lib ex_same ''r'' ((ex_filter 2)\<lparr>ReplicasOnSame := [''zone'']\<rparr>)"

lemma ex_same_wf: "store_wf ex_same"
  by code_simp

lemma ex_same_Place:
  "Place ex_lib ex_same ''r'' ((ex_filter 2)\<lparr>ReplicasOnSame := [''zone'']\<rparr>) = (fst ex_same_run, 2, 2, None)"
proof -
  have "snd ex_same_run = (2, 2, None)" by code_simp
  then show ?thesis unfolding ex_same_run_def by (metis prod.collapse)
qed

lemma ex_same_rows:
  "map_of (res_m (im_resources (fst ex_same_run))) (''r'', ''a'') = Some (diskful_replica ''r'' (ex_pool ''a'' ''p'' ''LVM'' 512 []))"
  "map_of (res_m (im_resources (fst ex_same_run))) (''r'', ''b'') = Some (diskful_replica ''r'' (ex_pool ''b'' ''p'' ''LVM'' 512 []))"
  "map_of (res_m (im_resources ex_same)) (''r'', ''a'') = None"
  "map_of (res_m (im_resources ex_same)) (''r'', ''b'') = None"
  by code_simp+

end
