(* ===== verification/Placer_Spread.thy ===== *)
theory Placer_Spread
  imports Placer_Theorems Example_Zones
begin

text \<open>
  How the replicas that \<open>Place\<close> adds relate to each other and to the replicas it found: topology
  constraints, shared storage, mixed drivers and resources kept apart.

  \<open>Place_pair\<close> reduces each of these statements to the bookkeeping: of two diskful replicas, one of
  them new, either the other one was already there and seeded the bookkeeping, or both were chosen in
  this call, one after the other.
\<close>

section \<open>Two diskful replicas\<close>

lemma plan_replica_cases:
  assumes d: "distinct (map sp_NodeName cs)"
    and rows': "rows st' = place_rows rd fl s cs full (rows st)"
    and r: "rows st' (rd, n) = Some r" "\<not> diskless r"
  obtains (old) "n \<notin> sp_NodeName ` set cs" "rows st (rd, n) = Some r"
  | (new) p where "p \<in> set cs" "sp_NodeName p = n" "gm_idx (r_Props r) storPoolNameProp = sp_StoragePoolName p"
proof (cases "n \<in> sp_NodeName ` set cs")
  case False
  then have "rows st (rd, n) = Some r"
    using r unfolding rows' place_rows_eq [OF d] by (auto split: if_splits)
  with False show thesis by (rule old)
next
  case True
  then obtain p where p: "p \<in> set cs" "n = sp_NodeName p" by blast
  have "r = (case rows st (rd, n) of None \<Rightarrow> diskful_replica rd p | Some r \<Rightarrow> promoted p r)"
    using r(1) fold_put_replica_chosen [OF d p(1)] p unfolding rows' place_rows_eq [OF d] by simp
  then have "gm_idx (r_Props r) storPoolNameProp = sp_StoragePoolName p"
    by (simp add: promoted_def gm_idx_update split: option.splits) (simp add: gm_idx_def)
  then show thesis using new p by blast
qed


definition start_state :: "golib \<Rightarrow> InMemory \<Rightarrow> string \<Rightarrow> AutoSelectFilter \<Rightarrow> props option \<Rightarrow> pstate" where
  "start_state L st rd fl t =
     (newState fl (Resources_ListByDefinition (im_resources st) rd) (nodesByName L st)
        (StoragePools_List (im_storagePools st)) (loadAllowPoolDriverMixing st))\<lparr>ps_sameTuple := t\<rparr>"

lemma newState_fold:
  obtains s0 where "newState fl ex nodes pools b = fold seed_existing ex s0" "ps_pools s0 = poolsByKey pools"
    "ps_firstKind s0 = []" "ps_xBuckets s0 = []" "ps_nodes s0 = nodes" "ps_filter s0 = fl"
  by (rule that [OF newState_def]) simp_all

lemma ps_sharedSeen_sameTuple: "ps_sharedSeen (s\<lparr>ps_sameTuple := t\<rparr>) = ps_sharedSeen s"
  by simp

lemma start_state_fields [simp]:
  "ps_nodes (start_state L st rd fl t) = nodesByName L st"
  "ps_filter (start_state L st rd fl t) = fl"
  "ps_allowPoolDriverMixing (start_state L st rd fl t) = loadAllowPoolDriverMixing st"
  "ps_pools (start_state L st rd fl t) = poolsByKey (StoragePools_List (im_storagePools st))"
  "ps_diffSeen (start_state L st rd fl t) =
     topologySeen (Resources_ListByDefinition (im_resources st) rd) (nodesByName L st) (ReplicasOnDifferent fl)"
  by (simp_all add: start_state_def)

text \<open>Two pools that one walk takes, the second some time after the first.\<close>

definition taken_after :: "pstate \<Rightarrow> StoragePool \<Rightarrow> StoragePool \<Rightarrow> bool" where
  "taken_after s a b = (\<exists>t u. ps_ext s t \<and> accepts t a \<and> ps_ext (record_pool t a) u \<and> accepts u b)"

lemma chosen_taken_after: "sorted_wrt (taken_after s) (chosen s cs placed want)"
  by (rule gate.chosen_pairwise) (auto simp: taken_after_def)

lemma sorted_wrt_pair:
  "sorted_wrt P xs \<Longrightarrow> x \<in> set xs \<Longrightarrow> y \<in> set xs \<Longrightarrow> x \<noteq> y \<Longrightarrow> P x y \<or> P y x"
  by (induction xs) auto

text \<open>What a pool went through to become a candidate of the walk.\<close>

definition walk_candidate :: "golib \<Rightarrow> InMemory \<Rightarrow> string \<Rightarrow> AutoSelectFilter \<Rightarrow> StoragePool \<Rightarrow> bool" where
  "walk_candidate L st rd fl p =
     (p \<in> set (eligible_pools L st rd fl) \<and>
      p \<in> set (filterSamePinned (applyNotPlaceWith L st rd fl
            (fst (candidatePools L st fl (requiredKib st rd)))) (nodesByName L st) (ReplicasOnSame fl)))"

lemma Place_new [consumes 5]:
  assumes "store_wf st" "Place L st rd fl = (st', placed, want, e)"
    and "rows st' (rd, n) = Some r" "\<not> diskless r" "rows st (rd, n) \<noteq> Some r"
  defines "fl' \<equiv> constrainFilterToRestoreSource st rd fl"
  obtains t s cs p pools where "s = start_state L st rd fl' t" "cs = chosen s pools
      (countDiskfulReplicas (Resources_ListByDefinition (im_resources st) rd) (disabledNodes L st)) want"
    "want = PlaceCount fl'" "distinct (map sp_NodeName cs)" "p \<in> set cs" "sp_NodeName p = n"
    "gm_idx (r_Props r) storPoolNameProp = sp_StoragePoolName p"
    "rows st' = place_rows rd fl' s cs (want \<le> placed) (rows st)"
    "\<forall>c \<in> set cs. walk_candidate L st rd fl' c"
proof -
  note ok = store_wf_rows [OF assms(1)]
  from ok assms(2) show thesis
  proof (cases rule: Place_cases)
    case (shortfall gates)
    then show thesis using assms(3,5) by simp
  next
    case (plan s pref rest gates cs dis)
    have d: "distinct (map sp_NodeName cs)" unfolding plan(3) by (rule chosen_nodes_distinct)
    obtain p where p: "p \<in> set cs" "sp_NodeName p = n" "gm_idx (r_Props r) storPoolNameProp = sp_StoragePoolName p"
      using plan_replica_cases [OF d plan(9) assms(3,4)] assms(5) by metis
    have sub: "set cs \<subseteq> set pref \<union> set rest"
      unfolding plan(3) using greedy_subset [of accepts record_pool s "pref @ rest"] by simp
    obtain t where t: "s = start_state L st rd fl' t" using plan(10) unfolding start_state_def fl'_def by blast
    show thesis
      by (rule that [OF t plan(3) [unfolded plan(2)] plan(6) [folded fl'_def] d p plan(9) [folded fl'_def]])
        (use sub plan(11,12) in \<open>auto simp: walk_candidate_def fl'_def simp del: set_StoragePools_List\<close>)
  qed
qed

lemma Place_rows_ok:
  assumes "store_wf st" "Place L st rd fl = (st', placed, want, e)"
  shows "rows_ok st'"
  using store_wf_rows [OF assms(1)] assms(2) by (cases rule: Place_cases) (use store_wf_rows [OF assms(1)] in simp_all)

lemma Place_pair [consumes 8, case_names old after before]:
  assumes "store_wf st" "Place L st rd fl = (st', placed, want, e)"
    and "rows st' (rd, n) = Some r" "\<not> diskless r" "rows st (rd, n) \<noteq> Some r"
    and "rows st' (rd, m) = Some q" "\<not> diskless q" "m \<noteq> n"
  defines "fl' \<equiv> constrainFilterToRestoreSource st rd fl"
  obtains
    (old) t u p where "ps_ext (start_state L st rd fl' t) u" "accepts u p" "sp_NodeName p = n"
      "gm_idx (r_Props r) storPoolNameProp = sp_StoragePoolName p" "walk_candidate L st rd fl' p"
      "rows st (rd, m) = Some q"
  | (after) t p p' where "taken_after (start_state L st rd fl' t) p' p" "sp_NodeName p = n" "sp_NodeName p' = m"
      "gm_idx (r_Props r) storPoolNameProp = sp_StoragePoolName p"
      "gm_idx (r_Props q) storPoolNameProp = sp_StoragePoolName p'"
      "walk_candidate L st rd fl' p" "walk_candidate L st rd fl' p'"
  | (before) t p p' where "taken_after (start_state L st rd fl' t) p p'" "sp_NodeName p = n" "sp_NodeName p' = m"
      "gm_idx (r_Props r) storPoolNameProp = sp_StoragePoolName p"
      "gm_idx (r_Props q) storPoolNameProp = sp_StoragePoolName p'"
      "walk_candidate L st rd fl' p" "walk_candidate L st rd fl' p'"
proof -
  obtain t s cs p pools where w: "s = start_state L st rd fl' t" "cs = chosen s pools
      (countDiskfulReplicas (Resources_ListByDefinition (im_resources st) rd) (disabledNodes L st)) want"
    "distinct (map sp_NodeName cs)" "p \<in> set cs" "sp_NodeName p = n"
    "gm_idx (r_Props r) storPoolNameProp = sp_StoragePoolName p"
    "rows st' = place_rows rd fl' s cs (want \<le> placed) (rows st)"
    "\<forall>c \<in> set cs. walk_candidate L st rd fl' c"
    using Place_new [OF assms(1-5)] unfolding fl'_def by metis
  from w(3,7) assms(6,7) show thesis
  proof (cases rule: plan_replica_cases)
    case old: old
    obtain u where "ps_ext s u" "accepts u p"
      using gate.chosen_accepted w(4) unfolding w(2) by blast
    then show thesis using that(1) w(1,4-6,8) old(2) by metis
  next
    case (new p')
    have "p \<noteq> p'" using w(5) new(2) assms(8) by auto
    then have "taken_after s p p' \<or> taken_after s p' p"
      using sorted_wrt_pair [OF chosen_taken_after] w(4) new(1) unfolding w(2) by blast
    then show thesis using that(2,3) w(1,4-6,8) new by metis
  qed
qed

section \<open>Replicas on different values\<close>

text \<open>The value a node has for a topology key.\<close>

definition node_value :: "golib \<Rightarrow> InMemory \<Rightarrow> string \<Rightarrow> string \<Rightarrow> string" where
  "node_value L st key n = gm_idx (props_at (nodesByName L st) n) (auxKey key)"








section \<open>Shared storage\<close>

text \<open>The pool a replica's row names, and the shape of names under which the bookkeeping finds it.\<close>

definition row_pool :: "InMemory \<Rightarrow> Resource \<Rightarrow> StoragePool option" where
  "row_pool st r =
     (case StoragePools_Get (im_storagePools st) (r_NodeName r) (gm_idx (r_Props r) storPoolNameProp) of
        Inl _ \<Rightarrow> None | Inr p \<Rightarrow> Some p)"

definition clean_pool_names :: "InMemory \<Rightarrow> bool" where
  "clean_pool_names st = list_all (\<lambda>p. CHR 0x1F \<notin> set (sp_NodeName p) \<and> sp_StoragePoolName p \<noteq> [])
     (map snd (im_storagePools st))"

lemma append_sep_inject:
  assumes "c \<notin> set a" "c \<notin> set b" "a @ c # x = b @ c # y"
  shows "a = b \<and> x = y"
  using assms
proof (induction a arbitrary: b)
  case Nil
  then show ?case by (cases b) simp_all
next
  case (Cons d a)
  then show ?case by (cases b) auto
qed

lemma poolKey_inject:
  "CHR 0x1F \<notin> set a \<Longrightarrow> CHR 0x1F \<notin> set b \<Longrightarrow> poolKey a x = poolKey b y \<Longrightarrow> a = b \<and> x = y"
  unfolding poolKey_def using append_sep_inject [of "CHR 0x1F" a b x y] by simp

lemma map_of_poolsByKey:
  assumes "p \<in> set pools"
    and "\<And>q. q \<in> set pools \<Longrightarrow> poolKey (sp_NodeName q) (sp_StoragePoolName q) = poolKey (sp_NodeName p) (sp_StoragePoolName p) \<Longrightarrow> q = p"
  shows "map_of (poolsByKey pools) (poolKey (sp_NodeName p) (sp_StoragePoolName p)) = Some p"
proof -
  let ?k = "\<lambda>q. poolKey (sp_NodeName q) (sp_StoragePoolName q)"
  have "map_of (fold (\<lambda>p. AList.update (?k p) p) ps m) (?k p) = Some p"
    if "set ps \<subseteq> set pools" "p \<in> set ps \<or> map_of m (?k p) = Some p" for ps m
    using that
  proof (induction ps arbitrary: m)
    case Nil
    then show ?case by simp
  next
    case (Cons a ps)
    show ?case
      using Cons.prems by (simp, intro Cons.IH) (auto simp: gomap_simps dest: assms(2))
  qed
  from this [of pools "[]"] show ?thesis using assms(1) by (simp add: poolsByKey_def)
qed

lemma pool_row:
  assumes "store_wf st" "p \<in> set (StoragePools_List (im_storagePools st))"
  shows "StoragePools_Get (im_storagePools st) (sp_NodeName p) (sp_StoragePoolName p) = Inr p"
proof -
  obtain k p0 where p: "(k, p0) \<in> set (im_storagePools st)" "p = withDerivedState p0"
    using assms(2) by auto
  have w: "rows_wf sp_key (im_storagePools st)" using assms(1) by (simp add: store_wf_def)
  then have "k = sp_key p0" "map_of (im_storagePools st) k = Some p0"
    using p(1) by (auto simp: rows_wf_def list_all_iff)
  then show ?thesis using p(2) by (simp add: StoragePools_Get_def)
qed

lemma row_pool_backing:
  assumes "store_wf st" "clean_pool_names st" "row_pool st r = Some p" "\<not> diskless r"
  shows "backing_pool (poolsByKey (StoragePools_List (im_storagePools st))) r = Some p"
    "sp_NodeName p = r_NodeName r" "gm_idx (r_Props r) storPoolNameProp = sp_StoragePoolName p"
proof -
  let ?ps = "StoragePools_List (im_storagePools st)"
  obtain p0 where p0: "map_of (im_storagePools st) (r_NodeName r, gm_idx (r_Props r) storPoolNameProp) = Some p0"
    "p = withDerivedState p0"
    using assms(3) by (auto simp: row_pool_def StoragePools_Get_def split: option.splits sum.splits)
  have w: "rows_wf sp_key (im_storagePools st)" using assms(1) by (simp add: store_wf_def)
  have k: "sp_NodeName p = r_NodeName r" "gm_idx (r_Props r) storPoolNameProp = sp_StoragePoolName p"
    using rows_wf_lookup [OF w p0(1)] p0(2) by simp_all
  then show "sp_NodeName p = r_NodeName r" "gm_idx (r_Props r) storPoolNameProp = sp_StoragePoolName p" .
  have mem: "p \<in> set ?ps" using map_of_SomeD [OF p0(1)] p0(2) by force
  have clean: "CHR 0x1F \<notin> set (sp_NodeName q)" "sp_StoragePoolName q \<noteq> []" if "q \<in> set ?ps" for q
    using assms(2) that by (auto simp: clean_pool_names_def list_all_iff)
  have "map_of (poolsByKey ?ps) (poolKey (sp_NodeName p) (sp_StoragePoolName p)) = Some p"
  proof (rule map_of_poolsByKey [OF mem])
    fix q
    assume q: "q \<in> set ?ps" "poolKey (sp_NodeName q) (sp_StoragePoolName q) = poolKey (sp_NodeName p) (sp_StoragePoolName p)"
    then have "sp_NodeName q = sp_NodeName p \<and> sp_StoragePoolName q = sp_StoragePoolName p"
      using poolKey_inject clean(1) mem by blast
    then have "Inr q = (Inr p :: err + StoragePool)"
      using pool_row [OF assms(1) q(1)] pool_row [OF assms(1) mem] by metis
    then show "q = p" by (rule Inr_inject)
  qed
  then show "backing_pool (poolsByKey ?ps) r = Some p"
    using k clean(2) [OF mem] assms(4) by (simp add: backing_pool_def Let_def)
qed

lemma start_state_shared:
  assumes "q \<in> set (Resources_ListByDefinition (im_resources st) rd)"
    and "backing_pool (poolsByKey (StoragePools_List (im_storagePools st))) q = Some p" "sp_SharedSpaceID p \<noteq> []"
  shows "sp_SharedSpaceID p \<in> set (ps_sharedSeen (start_state L st rd fl t))"
proof -
  obtain s0 where s0: "newState fl (Resources_ListByDefinition (im_resources st) rd) (nodesByName L st)
      (StoragePools_List (im_storagePools st)) (loadAllowPoolDriverMixing st) =
      fold seed_existing (Resources_ListByDefinition (im_resources st) rd) s0"
    "ps_pools s0 = poolsByKey (StoragePools_List (im_storagePools st))"
    by (rule newState_fold)
  show ?thesis
    unfolding start_state_def s0(1) ps_sharedSeen_sameTuple fold_seed_sharedSeen s0(2) using assms by blast
qed

lemma walk_candidate_row_pool:
  assumes "store_wf st" "walk_candidate L st rd fl p" "row_pool st r = Some p'"
    "sp_NodeName p = r_NodeName r" "gm_idx (r_Props r) storPoolNameProp = sp_StoragePoolName p"
  shows "p' = p"
proof -
  have "p \<in> set (StoragePools_List (im_storagePools st))"
    using assms(2) unfolding walk_candidate_def eligible_pools_def set_filter by blast
  from pool_row [OF assms(1) this] show ?thesis
    using assms(3-5) by (simp add: row_pool_def)
qed

lemma taken_after_shared:
  assumes "taken_after s a b" "sp_SharedSpaceID b \<noteq> []"
  shows "sp_SharedSpaceID a \<noteq> sp_SharedSpaceID b"
proof -
  obtain t u where a: "ps_ext (record_pool t a) u" "accepts u b"
    using assms(1) by (auto simp: taken_after_def)
  have "sp_SharedSpaceID b \<notin> set (ps_sharedSeen u)" using a(2) assms(2) by (simp add: accepts_iff Let_def)
  then have "sp_SharedSpaceID b \<notin> set (ps_sharedSeen (record_pool t a))" using ps_extD(6) [OF a(1)] by blast
  then show ?thesis using assms(2) by (auto simp: record_pool_def split: if_splits)
qed

text \<open>
  C6. Shared storage holds one replica: a replica that \<open>Place\<close> adds on a pool with a shared-space
  identifier never shares that identifier with the pool of another diskful replica.
\<close>

theorem Place_shared_space:
  assumes "store_wf st" and "Place L st rd fl = (st', placed, want, e)"
    and "rows st' (rd, n) = Some r" "\<not> diskless r" "rows st (rd, n) \<noteq> Some r"
    and "rows st' (rd, m) = Some q" "\<not> diskless q" "m \<noteq> n"
    and "clean_pool_names st" "row_pool st r = Some p" "row_pool st q = Some p'" "sp_SharedSpaceID p \<noteq> []"
  shows "sp_SharedSpaceID p \<noteq> sp_SharedSpaceID p'"
proof -
  note ok = store_wf_rows [OF assms(1)]
  have st': "rows_ok st'" using Place_rows_ok [OF assms(1,2)] .
  have nm: "r_NodeName r = n" "r_NodeName q = m"
    using rows_wf_lookup [OF st' assms(3)] rows_wf_lookup [OF st' assms(6)] by simp_all
  from assms(1-8) show ?thesis
  proof (cases rule: Place_pair)
    case (old t u p1)
    have p1: "p1 = p" using walk_candidate_row_pool [OF assms(1) old(5) assms(10)] old(3,4) nm by simp
    have "q \<in> set (Resources_ListByDefinition (im_resources st) rd)"
      using old(6) nm unfolding rows_ListByDefinition [OF ok] by simp
    from start_state_shared [OF this row_pool_backing(1) [OF assms(1,9,11,7)]]
    show ?thesis
      using old(2) assms(12) ps_extD(6) [OF old(1)] unfolding p1 accepts_iff Let_def by force
  next
    case (after t p1 p2)
    have "p1 = p" "p2 = p'"
      using walk_candidate_row_pool [OF assms(1) after(6) assms(10)]
        walk_candidate_row_pool [OF assms(1) after(7) assms(11)] after(2-5) nm by simp_all
    then show ?thesis using taken_after_shared [OF after(1)] assms(12) by auto
  next
    case (before t p1 p2)
    have "p1 = p" "p2 = p'"
      using walk_candidate_row_pool [OF assms(1) before(6) assms(10)]
        walk_candidate_row_pool [OF assms(1) before(7) assms(11)] before(2-5) nm by simp_all
    then show ?thesis using taken_after_shared [OF before(1)] assms(12) by auto
  qed
qed

theorem Place_shared_space_witness:
  "sp_SharedSpaceID (ex_zone_pool ''c'') \<noteq> sp_SharedSpaceID (ex_zone_pool ''a'')"
proof (rule Place_shared_space [OF ex_zoned_wf ex_zoned_Place ex_zoned_rows(2) _ _ ex_zoned_rows(1)])
  show "clean_pool_names ex_zoned" by code_simp
  show "row_pool ex_zoned (diskful_replica ''r'' (ex_zone_pool ''c'')) = Some (ex_zone_pool ''c'')" by code_simp
  show "row_pool ex_zoned (diskful_replica ''r'' (ex_zone_pool ''a'')) = Some (ex_zone_pool ''a'')" by code_simp
qed (simp_all add: ex_zoned_rows(3) ex_zone_pool_def ex_pool_def)

section \<open>At most x replicas per value\<close>

definition bucket_nodes :: "golib \<Rightarrow> InMemory \<Rightarrow> InMemory \<Rightarrow> string \<Rightarrow> string \<Rightarrow> string \<Rightarrow> string set" where
  "bucket_nodes L st st' rd key v =
     {n. \<exists>r. rows st' (rd, n) = Some r \<and> \<not> diskless r \<and> node_value L st key n = v}"

lemma xBucketKey_value: "xBucketKey key np = xBucketKey key np' \<longleftrightarrow> gm_idx np (auxKey key) = gm_idx np' (auxKey key)"
  by (simp add: xBucketKey_def)

lemma int_at_Nil [simp]: "int_at [] k = 0"
  by (simp add: int_at_def)

lemma bump_buckets_ge:
  assumes "(key, cap) \<in> set (XReplicasOnDifferentMap fl)"
  shows "int_at b k + (if xBucketKey key np = k then 1 else 0) \<le> int_at (bump_buckets fl np b) k"
proof -
  have "0 < length (filter (\<lambda>(key, _). xBucketKey key np = k) (XReplicasOnDifferentMap fl))" if "xBucketKey key np = k"
    using assms that by (auto simp: filter_empty_conv)
  then show ?thesis by (auto simp: int_at_bump_buckets Suc_le_eq)
qed

lemma fold_seed_buckets:
  assumes "(key, cap) \<in> set (XReplicasOnDifferentMap (ps_filter s))"
  shows "int_at (ps_xBuckets s) k +
      int (length (filter (\<lambda>r. \<not> diskless r \<and> xBucketKey key (props_at (ps_nodes s) (r_NodeName r)) = k) rs))
    \<le> int_at (ps_xBuckets (fold seed_existing rs s)) k"
  using assms
proof (induction rs arbitrary: s)
  case Nil
  then show ?case by simp
next
  case (Cons r rs)
  have "int_at (ps_xBuckets s) k +
      (if \<not> diskless r \<and> xBucketKey key (props_at (ps_nodes s) (r_NodeName r)) = k then 1 else 0)
      \<le> int_at (ps_xBuckets (seed_existing r s)) k"
    using bump_buckets_ge [OF Cons.prems, of "ps_xBuckets s" k "props_at (ps_nodes s) (r_NodeName r)"] by simp
  with Cons.IH [of "seed_existing r s"] Cons.prems show ?case by (simp split: if_splits)
qed

lemma chosen_bucket:
  assumes "(key, cap) \<in> set (XReplicasOnDifferentMap (ps_filter s))" "0 < cap"
    and "base \<le> int_at (ps_xBuckets s) k"
  shows "base + int (length (filter (\<lambda>p. xBucketKey key (props_at (ps_nodes s) (sp_NodeName p)) = k)
      (chosen s cs placed want))) \<le> max cap base"
proof (rule gate.chosen_capped [where ?s0.0 = s and cnt = "\<lambda>t. int_at (ps_xBuckets t) k"])
  fix t c
  assume e: "ps_ext s t"
  note eq = ps_extD(1,2) [OF e]
  show "int_at (ps_xBuckets t) k < cap"
    if "accepts t c" "xBucketKey key (props_at (ps_nodes s) (sp_NodeName c)) = k"
    using that assms(1,2) unfolding accepts_iff Let_def exceedsXBucket_iff eq by fastforce
  show "int_at (ps_xBuckets t) k + (if xBucketKey key (props_at (ps_nodes s) (sp_NodeName c)) = k then 1 else 0)
      \<le> int_at (ps_xBuckets (record_pool t c)) k"
    using bump_buckets_ge [OF assms(1)] unfolding record_pool_def note_placed_fields eq .
qed (use assms(3) ps_ext_refl in auto)

lemma rows_card:
  assumes "rows_ok st"
  shows "card {n. \<exists>r. rows st (rd, n) = Some r \<and> P r} =
      length (filter P (Resources_ListByDefinition (im_resources st) rd))"
    and "finite {n. \<exists>r. rows st (rd, n) = Some r \<and> P r}"
proof -
  let ?xs = "filter P (Resources_ListByDefinition (im_resources st) rd)"
  have "{n. \<exists>r. rows st (rd, n) = Some r \<and> P r} = r_NodeName ` set ?xs"
    using rows_wf_lookup [OF assms]
    by (auto simp: rows_ListByDefinition [OF assms] simp del: set_Resources_ListByDefinition intro!: rev_image_eqI)
  moreover have "distinct (map r_NodeName ?xs)"
    by (rule distinct_map_filter [OF Resources_ListByDefinition_distinct [OF assms]])
  ultimately show "card {n. \<exists>r. rows st (rd, n) = Some r \<and> P r} = length ?xs"
    "finite {n. \<exists>r. rows st (rd, n) = Some r \<and> P r}"
    using distinct_card [of "map r_NodeName ?xs"] by simp_all
qed

lemma bucket_nodes_rows:
  assumes "rows_ok st"
  shows "bucket_nodes L st st rd key v =
    {n. \<exists>r. rows st (rd, n) = Some r \<and> (\<not> diskless r \<and> node_value L st key (r_NodeName r) = v)}"
  using rows_wf_lookup [OF assms] by (fastforce simp: bucket_nodes_def)

text \<open>
  C7. \<open>x_replicas_on_different\<close>: \<open>Place\<close> never brings the diskful replicas whose nodes share a value of
  the key above the configured number; a value that was above it already gets none.
\<close>

theorem Place_x_replicas:
  assumes "store_wf st" and "Place L st rd fl = (st', placed, want, e)"
    and "(key, cap) \<in> set (XReplicasOnDifferentMap fl)" "0 < cap"
  shows "int (card (bucket_nodes L st st' rd key v)) \<le> max cap (int (card (bucket_nodes L st st rd key v)))"
proof -
  note ok = store_wf_rows [OF assms(1)]
  let ?ex = "Resources_ListByDefinition (im_resources st) rd"
  let ?fl = "constrainFilterToRestoreSource st rd fl"
  note old = rows_card [OF ok, of rd "\<lambda>r. \<not> diskless r \<and> node_value L st key (r_NodeName r) = v",
      folded bucket_nodes_rows [OF ok]]
  from ok assms(2) show ?thesis
  proof (cases rule: Place_cases)
    case (shortfall gates)
    then show ?thesis by simp
  next
    case (plan s pref rest gates cs dis)
    define k where "k = key @ ''='' @ v"
    obtain t where s: "s = start_state L st rd ?fl t" using plan(10) unfolding start_state_def by blast
    obtain s0 where s0: "newState ?fl ?ex (nodesByName L st) (StoragePools_List (im_storagePools st))
        (loadAllowPoolDriverMixing st) = fold seed_existing ?ex s0" "ps_xBuckets s0 = []" "ps_nodes s0 = nodesByName L st"
        "ps_filter s0 = ?fl"
      by (rule newState_fold)
    have val: "xBucketKey key (props_at (nodesByName L st) n) = k \<longleftrightarrow> node_value L st key n = v" for n
      by (simp add: xBucketKey_def node_value_def k_def)
    have mem: "(key, cap) \<in> set (XReplicasOnDifferentMap (ps_filter s))" using assms(3) by (simp add: s)
    have "int (card (bucket_nodes L st st rd key v)) \<le> int_at (ps_xBuckets s) k"
      using fold_seed_buckets [of key cap s0 k ?ex] assms(3) old(1)
      by (simp add: s start_state_def s0 val)
    from chosen_bucket [OF mem assms(4) this, where cs = "pref @ rest" and placed = "countDiskfulReplicas ?ex dis" and want = want]
    have cap: "int (card (bucket_nodes L st st rd key v)) +
        int (length (filter (\<lambda>p. node_value L st key (sp_NodeName p) = v) cs))
        \<le> max cap (int (card (bucket_nodes L st st rd key v)))"
      unfolding plan(3) by (simp only: s start_state_fields val)
    have d: "distinct (map sp_NodeName cs)" unfolding plan(3) by (rule chosen_nodes_distinct)
    have "bucket_nodes L st st' rd key v \<subseteq> bucket_nodes L st st rd key v \<union>
        sp_NodeName ` set (filter (\<lambda>p. node_value L st key (sp_NodeName p) = v) cs)"
    proof
      fix n
      assume "n \<in> bucket_nodes L st st' rd key v"
      then obtain r where r: "rows st' (rd, n) = Some r" "\<not> diskless r" "node_value L st key n = v"
        by (auto simp: bucket_nodes_def)
      from d plan(9) r(1,2) show "n \<in> bucket_nodes L st st rd key v \<union>
          sp_NodeName ` set (filter (\<lambda>p. node_value L st key (sp_NodeName p) = v) cs)"
        by (cases rule: plan_replica_cases) (use r(2,3) in \<open>auto simp: bucket_nodes_def\<close>)
    qed
    from card_mono [OF _ this] have "card (bucket_nodes L st st' rd key v) \<le>
        card (bucket_nodes L st st rd key v \<union> sp_NodeName ` set (filter (\<lambda>p. node_value L st key (sp_NodeName p) = v) cs))"
      using old(2) by simp
    also have "\<dots> \<le> card (bucket_nodes L st st rd key v) +
        length (filter (\<lambda>p. node_value L st key (sp_NodeName p) = v) cs)"
      by (intro order_trans [OF card_Un_le] add_left_mono order_trans [OF card_image_le] card_length) simp
    finally show ?thesis using cap by linarith
  qed
qed

theorem Place_x_replicas_witness:
  "int (card (bucket_nodes ex_lib ex_zoned (fst ex_zoned_run) ''r'' ''zone'' ''y'')) \<le>
   max 1 (int (card (bucket_nodes ex_lib ex_zoned ex_zoned ''r'' ''zone'' ''y'')))"
  by (rule Place_x_replicas [OF ex_zoned_wf ex_zoned_Place]) (simp_all add: ex_zone_filter_def)

section \<open>Replicas on the same values\<close>







section \<open>Resources kept apart\<close>





section \<open>Storage drivers\<close>
















end
