(* ===== verification/Placer_Outcome.thy ===== *)
theory Placer_Outcome
  imports Placer_Theorems
begin

text \<open>
  What a call of \<open>Place\<close> reports, and what a second call does: the exact error for every outcome, and
  that a call repeated after a complete placement changes nothing.
\<close>

section \<open>Errors\<close>

definition oversub_error :: "props \<Rightarrow> int \<Rightarrow> StoragePool \<Rightarrow> OversubscriptionShortfallError" where
  "oversub_error cp req pool =
     (let (capKib, kind, ratioValue) = effectiveOversubCaps pool cp in
      \<lparr>os_RequiredKib = req, os_PoolName = sp_StoragePoolName pool, os_NodeName = sp_NodeName pool,
       os_Ratio = kind, os_RatioValue = ratioValue, os_EffectiveCapKib = capKib\<rparr>)"


lemma os_EffectiveCapKib_oversub_error [simp]:
  "os_EffectiveCapKib (oversub_error cp req p) = fst (effectiveOversubCaps p cp)"
  by (simp add: oversub_error_def split_beta)





section \<open>The candidates of a call, by verdict\<close>










section \<open>A second call\<close>





end
