(* ===== verification/Placer_Rank.thy ===== *)
theory Placer_Rank
  imports Placer_Props Example_Cluster
begin

text \<open>
  The order in which candidates are tried, against the order the documentation of \<open>rankCandidates\<close>
  describes, and two placements in which the bookkeeping lets something through that the comments
  of the code exclude.
\<close>

section \<open>Ranking\<close>

text \<open>The documented order: descending composite score, ties by node name.\<close>

definition ranks_before :: "weights \<Rightarrow> (string, int) gomap \<Rightarrow> float64 \<Rightarrow> StoragePool \<Rightarrow> StoragePool \<Rightarrow> bool" where
  "ranks_before w rpn mx p q =
     (let a = composite p w rpn mx; b = composite q w rpn mx in
      if \<not> f64_eq a b then f64_lt b a else sp_NodeName p < sp_NodeName q)"

fun insert_ranked :: "('a \<Rightarrow> 'a \<Rightarrow> bool) \<Rightarrow> 'a \<Rightarrow> 'a list \<Rightarrow> 'a list" where
  "insert_ranked bef x [] = [x]"
| "insert_ranked bef x (y # ys) = (if bef x y then x # y # ys else y # insert_ranked bef x ys)"

definition documented_ranking :: "StoragePool list \<Rightarrow> weights \<Rightarrow> (string, int) gomap \<Rightarrow> StoragePool list" where
  "documented_ranking pools w rpn = fold (insert_ranked (ranks_before w rpn (maxThroughputOf pools))) pools []"




text \<open>
  With three candidates the order can be wrong: the comparison reads \<open>scores[i]\<close> for a position of the
  slice that the sort has already moved.  Three pools with 256, 1024 and 512 KiB free come out as
  \<open>b, a, c\<close>: the pool with the least free space before one with twice as much.
\<close>

theorem rankCandidates_misorders:
  "map sp_NodeName (rankCandidates [ex_pool ''a'' ''p'' ''LVM'' 256 [], ex_pool ''b'' ''p'' ''LVM'' 1024 [],
       ex_pool ''c'' ''p'' ''LVM'' 512 []] (loadWeights NewInMemory) []) = [''b'', ''a'', ''c''] \<and>
   map sp_NodeName (documented_ranking [ex_pool ''a'' ''p'' ''LVM'' 256 [], ex_pool ''b'' ''p'' ''LVM'' 1024 [],
       ex_pool ''c'' ''p'' ''LVM'' 512 []] (loadWeights NewInMemory) []) = [''b'', ''c'', ''a'']"
  by code_simp

section \<open>Mixed drivers\<close>

text \<open>
  With \<open>AllowMixingStoragePoolDriver\<close> the only mixed pair allowed is \<open>LVM_THIN\<close> with \<open>ZFS_THIN\<close>.  The
  bookkeeping compares a candidate with the first driver only, so an existing \<open>ZFS_THIN\<close> replica lets
  one call place replicas on \<open>LVM_THIN\<close> and on \<open>ZFS\<close>, a pair that is not allowed.
\<close>

definition ex_mixed :: InMemory where
  "ex_mixed =
     (let pa = ex_pool ''a'' ''p'' ''ZFS_THIN'' 512 []
      in (ex_store [ex_node ''a'' [] [], ex_node ''b'' [] [], ex_node ''c'' [] []]
           [pa, ex_pool ''b'' ''p'' ''LVM_THIN'' 512 [], ex_pool ''c'' ''p'' ''ZFS'' 512 []]
           [diskful_replica ''r'' pa])
         \<lparr>im_controllerProps := [(''AllowMixingStoragePoolDriver'', ''true'')]\<rparr>)"

theorem Place_mixes_forbidden_pair:
  "\<not> IsProviderKindMixingAllowed ''LVM_THIN'' ''ZFS'' True \<and>
   (let (st', placed, want, e) = Place ex_lib ex_mixed ''r'' (ex_filter 3) in
    placed = 3 \<and> e = None \<and>
    list_all (\<lambda>n. map_option r_Flags (rows st' (''r'', n)) = Some []) [''b'', ''c''])"
  by code_simp

section \<open>Diskless fill\<close>

text \<open>
  \<open>placeDisklessOnRemaining\<close> is documented to cover every healthy node; it covers evicted and lost
  nodes too.
\<close>

definition ex_evicted :: InMemory where
  "ex_evicted = ex_store [ex_node ''a'' [] [], ex_node ''b'' [''EVICTED''] []] [ex_pool ''a'' ''p'' ''LVM'' 512 []] []"

theorem Place_diskless_on_evicted:
  "disabledNodes ex_lib ex_evicted = [''b''] \<and>
   map_option r_Flags
     (rows (fst (Place ex_lib ex_evicted ''r'' ((ex_filter 1)\<lparr>DisklessOnRemaining := True\<rparr>))) (''r'', ''b'')) =
   Some [''DISKLESS'']"
  by code_simp

section \<open>Witnesses and topology\<close>

text \<open>
  A node that holds only a diskless witness is kept a candidate so that the witness can be promoted.
  Under a bare \<open>replicas_on_different\<close> key it never is: the witness itself has seeded the values seen.
\<close>

definition ex_witness_zone :: InMemory where
  "ex_witness_zone =
     (let pa = ex_pool ''a'' ''p'' ''LVM'' 512 []
      in ex_store [ex_node ''a'' [] [(''Aux/zone'', ''x'')], ex_node ''b'' [] [(''Aux/zone'', ''y'')]]
           [pa, ex_pool ''b'' ''p'' ''LVM'' 512 []] [diskful_replica ''r'' pa, ex_witness ''b''])"

theorem Place_witness_blocks_itself:
  "fst (snd (Place ex_lib ex_witness_zone ''r'' ((ex_filter 2)\<lparr>ReplicasOnDifferent := [''zone'']\<rparr>))) = 1 \<and>
   fst (snd (Place ex_lib ex_witness_zone ''r'' (ex_filter 2))) = 2"
  by code_simp

text \<open>
  Promoting an \<open>INACTIVE\<close> witness is counted as a placed replica, although a replica with that flag does
  not count: the call reports two replicas where one counts.
\<close>

definition ex_inactive :: InMemory where
  "ex_inactive =
     (let pa = ex_pool ''a'' ''p'' ''LVM'' 512 []
      in ex_store [ex_node ''a'' [] [], ex_node ''b'' [] []] [pa, ex_pool ''b'' ''p'' ''LVM'' 512 []]
           [diskful_replica ''r'' pa, (ex_witness ''b'')\<lparr>r_Flags := [''DISKLESS'', ''INACTIVE'']\<rparr>])"

theorem Place_counts_inactive:
  "(let (st', placed, want, e) = Place ex_lib ex_inactive ''r'' (ex_filter 2) in
    placed = 2 \<and> e = None \<and>
    countDiskfulReplicas (Resources_ListByDefinition (im_resources st') ''r'') (disabledNodes ex_lib st') = 1)"
  by code_simp

end
