(* ===== verification/Go_Strings.thy ===== *)
theory Go_Strings
  imports Float64
begin

text \<open>
  The functions of Go's \<open>strings\<close> and \<open>strconv\<close> packages that the DRBD and validation code uses, on
  byte strings, with the facts that turn printed values back into parsed ones.
\<close>

section \<open>Cutting and splitting\<close>

definition TrimPrefix :: "string \<Rightarrow> string \<Rightarrow> string" where
  "TrimPrefix s p = (if HasPrefix s p then drop (length p) s else s)"

definition HasSuffix :: "string \<Rightarrow> string \<Rightarrow> bool" where
  "HasSuffix s p = HasPrefix (rev s) (rev p)"

definition Contains :: "string \<Rightarrow> string \<Rightarrow> bool" where
  "Contains s t = list_ex (\<lambda>i. HasPrefix (drop i s) t) [0..<Suc (length s)]"

text \<open>\<open>strings.Trim\<close> with a set of bytes.\<close>

definition Trim :: "string \<Rightarrow> string \<Rightarrow> string" where
  "Trim s cutset = rev (dropWhile (\<lambda>c. c \<in> set cutset) (rev (dropWhile (\<lambda>c. c \<in> set cutset) s)))"

text \<open>\<open>strings.Split\<close> with a separator of one byte: one part more than separators.\<close>

fun Split :: "char \<Rightarrow> string \<Rightarrow> string list" where
  "Split c [] = [[]]"
| "Split c (x # xs) = (if x = c then [] # Split c xs else (case Split c xs of p # ps \<Rightarrow> (x # p) # ps | [] \<Rightarrow> [[x]]))"

text \<open>\<open>strings.SplitN(s, sep, 2)\<close> with a separator of one byte.\<close>

definition SplitN2 :: "char \<Rightarrow> string \<Rightarrow> string list" where
  "SplitN2 c s = (case Cut s c of (a, b, ok) \<Rightarrow> if ok then [a, b] else [s])"

text \<open>\<open>strings.Fields\<close>: the maximal runs of bytes that are not white space.\<close>

function Fields :: "string \<Rightarrow> string list" where
  "Fields s = (let t = dropWhile is_space s in
     if t = [] then []
     else takeWhile (\<lambda>c. \<not> is_space c) t # Fields (dropWhile (\<lambda>c. \<not> is_space c) t))"
  by pat_completeness auto
termination
proof (relation "measure length", simp)
  fix s t :: string
  assume t: "t = dropWhile is_space s" "t \<noteq> []"
  then have "\<not> is_space (hd t)" using hd_dropWhile by blast
  then have "length (dropWhile (\<lambda>c. \<not> is_space c) t) < length t"
    using t(2) by (cases t) (simp_all add: le_imp_less_Suc length_dropWhile_le)
  also have "\<dots> \<le> length s" unfolding t(1) by (rule length_dropWhile_le)
  finally show "(dropWhile (\<lambda>c. \<not> is_space c) t, s) \<in> measure length" by simp
qed

declare Fields.simps [simp del]

section \<open>Decimal numbers\<close>

definition digit_char :: "nat \<Rightarrow> char" where
  "digit_char n = char_of (48 + n)"

fun digits_of :: "nat \<Rightarrow> string" where
  "digits_of n = (if n < 10 then [digit_char n] else digits_of (n div 10) @ [digit_char (n mod 10)])"

declare digits_of.simps [simp del]

text \<open>\<open>strconv.Itoa\<close>, and what \<open>%d\<close> prints.\<close>

definition Itoa :: "int \<Rightarrow> string" where
  "Itoa i = (if i < 0 then CHR ''-'' # digits_of (nat (- i)) else digits_of (nat i))"

lemma digit_char_cases: "n < 10 \<Longrightarrow> digit_char n \<in> set ''0123456789''"
proof -
  have "list_all (\<lambda>n. digit_char n \<in> set ''0123456789'') [0..<10]" by code_simp
  then show "n < 10 \<Longrightarrow> digit_char n \<in> set ''0123456789''" by (simp only: list_all_iff set_upt) auto
qed

lemma is_digit_digit_char [simp]: "n < 10 \<Longrightarrow> is_digit (digit_char n)"
  by (simp add: less_Suc_eq numeral_eq_Suc) (elim disjE; simp; code_simp)

lemma digit_val_digit_char [simp]: "n < 10 \<Longrightarrow> digit_val (digit_char n) = int n"
  by (simp add: less_Suc_eq numeral_eq_Suc) (elim disjE; simp; code_simp)

lemma digits_of_digits: "list_all is_digit (digits_of n) \<and> digits_of n \<noteq> []"
  by (induction n rule: digits_of.induct) (subst (1 2) digits_of.simps, simp)

lemma digits_of_value: "foldl (\<lambda>a c. 10 * a + digit_val c) 0 (digits_of n) = int n"
proof (induction n rule: digits_of.induct)
  case (1 n)
  have "10 * int (n div 10) + int (n mod 10) = int n" by presburger
  then show ?case using 1 by (subst digits_of.simps) simp
qed

lemma digit_not_sign: "is_digit c \<Longrightarrow> c \<noteq> CHR ''-'' \<and> c \<noteq> CHR ''+'' \<and> \<not> is_space c"
  by (auto simp: is_digit_def is_space_def less_eq_char_def)

lemma cut_sign_digits: "cut_sign (digits_of n) = (False, digits_of n)"
  using digits_of_digits [of n] digit_not_sign by (cases "digits_of n") auto

lemma ParseInt_digits:
  "int n < 2 ^ (bits - 1) \<Longrightarrow> ParseInt bits (digits_of n) = Some (int n)"
proof -
  assume "int n < 2 ^ (bits - 1)"
  moreover have "- (2 ^ (bits - 1)) \<le> int n"
    by (rule order_trans [of _ 0]) simp_all
  ultimately show ?thesis
    using digits_of_digits [of n] by (simp add: ParseInt_def cut_sign_digits digits_of_value)
qed

theorem ParseInt_Itoa:
  assumes "- (2 ^ (bits - 1)) \<le> i" "i < 2 ^ (bits - 1)"
  shows "ParseInt bits (Itoa i) = Some i"
proof (cases "i < 0")
  case True
  then show ?thesis
    using assms digits_of_digits [of "nat (- i)"]
    by (simp add: ParseInt_def Itoa_def digits_of_value)
next
  case False
  then show ?thesis
    using assms ParseInt_digits [of "nat i" bits] by (simp add: Itoa_def)
qed

lemma ParseInt_nonneg:
  assumes "ParseInt bits s = Some i" "CHR ''-'' \<notin> set s"
  shows "0 \<le> i"
proof -
  have dv: "0 \<le> digit_val c" if "is_digit c" for c
  proof -
    have "(48 :: nat) \<le> of_char c" using that by (simp add: is_digit_def less_eq_char_def)
    then have "48 \<le> (of_char c :: int)" by (metis of_nat_mono of_nat_numeral of_nat_of_char)
    then show ?thesis using that by (simp add: digit_val_def)
  qed
  have "0 \<le> foldl (\<lambda>a c. 10 * a + digit_val c) a ds" if "list_all is_digit ds" "0 \<le> a" for ds a
    using that dv by (induction ds arbitrary: a) simp_all
  moreover have "\<not> fst (cut_sign s)" using assms(2) by (cases s) auto
  ultimately show ?thesis
    using assms(1) by (auto simp: ParseInt_def Let_def split: prod.splits if_splits)
qed

lemma Itoa_no_minus: "0 \<le> i \<Longrightarrow> CHR ''-'' \<notin> set (Itoa i)"
  using digits_of_digits [of "nat i"] digit_not_sign by (auto simp: Itoa_def list_all_iff)

lemma TrimSpace_id: "(\<And>c. c \<in> set s \<Longrightarrow> \<not> is_space c) \<Longrightarrow> TrimSpace s = s"
proof -
  assume a: "\<And>c. c \<in> set s \<Longrightarrow> \<not> is_space c"
  have id: "dropWhile is_space xs = xs" if "\<And>c. c \<in> set xs \<Longrightarrow> \<not> is_space c" for xs
    using that by (cases xs) auto
  show "TrimSpace s = s" unfolding TrimSpace_def using id [of s] id [of "rev s"] a by simp
qed

lemma is_space_minus [simp]: "\<not> is_space (CHR ''-'')"
  by (simp add: is_space_def)

lemma TrimSpace_Itoa: "TrimSpace (Itoa i) = Itoa i"
  by (rule TrimSpace_id)
    (use digits_of_digits digit_not_sign in \<open>auto simp: Itoa_def list_all_iff split: if_splits\<close>)

lemma set_Split: "p \<in> set (Split c s) \<Longrightarrow> c \<notin> set p \<and> set p \<subseteq> set s"
  by (induction s arbitrary: p) (fastforce split: list.splits if_splits)+

lemma Split_nonempty [simp]: "Split c s \<noteq> []"
  by (induction s) (auto split: list.split)

lemma Split_no_sep: "c \<notin> set s \<Longrightarrow> Split c s = [s]"
  by (induction s) auto

lemma Split_sep: "c \<notin> set a \<Longrightarrow> Split c (a @ c # b) = a # Split c b"
  by (induction a) auto

lemma join_Split: "join_with [c] (Split c s) = s"
proof (induction s)
  case (Cons x s)
  then show ?case by (cases "Split c s" rule: remdups_adj.cases) auto
qed simp

lemma Split_join: "ls \<noteq> [] \<Longrightarrow> list_all (\<lambda>l. c \<notin> set l) ls \<Longrightarrow> Split c (join_with [c] ls) = ls"
proof (induction ls)
  case (Cons l ls)
  then show ?case by (cases ls) (simp_all add: Split_no_sep Split_sep)
qed simp

lemma TrimSpace_inner:
  assumes "\<not> is_space a" "\<not> is_space b" "list_all is_space pre"
  shows "TrimSpace (pre @ a # xs @ [b]) = a # xs @ [b]"
proof -
  have "dropWhile is_space (pre @ a # xs @ [b]) = a # xs @ [b]"
    using assms(1,3) by (induction pre) auto
  with assms(2) show ?thesis by (simp add: TrimSpace_def)
qed

lemma length_join: "l \<in> set ls \<Longrightarrow> length l \<le> length (join_with sep ls)"
  by (induction ls rule: induct_list012) auto

text \<open>Evaluation of \<open>Itoa\<close> on binary integers.\<close>

function int_digits :: "int \<Rightarrow> string" where
  "int_digits i = (if i < 10 then [digit_char (nat i)] else int_digits (i div 10) @ [digit_char (nat (i mod 10))])"
  by pat_completeness auto
termination by (relation "measure nat") auto

declare int_digits.simps [simp del]

lemma digits_of_int: "0 \<le> i \<Longrightarrow> digits_of (nat i) = int_digits i"
proof (induction i rule: int_digits.induct)
  case (1 i)
  show ?case
  proof (cases "i < 10")
    case True
    then show ?thesis using 1(2) by (subst int_digits.simps, subst digits_of.simps) simp
  next
    case False
    then have "digits_of (nat i) = digits_of (nat i div 10) @ [digit_char (nat i mod 10)]" by (subst digits_of.simps) simp
    also have "\<dots> = int_digits (i div 10) @ [digit_char (nat (i mod 10))]"
      using 1 False by (simp add: nat_div_distrib nat_mod_distrib)
    finally show ?thesis using False by (subst int_digits.simps) simp
  qed
qed

lemma Itoa_code [code]: "Itoa i = (if i < 0 then CHR ''-'' # int_digits (- i) else int_digits i)"
  by (simp add: Itoa_def digits_of_int)

end
