(* ===== verification/Drbd_Alloc.thy ===== *)
theory Drbd_Alloc
  imports Go_Strings
begin

text \<open>
  Allocation of DRBD resources: \<open>pkg/drbd/portpool.go\<close> (TCP ports and device minors out of a
  configured range) and \<open>pkg/drbd/allocator.go\<close> (node-ids of the replicas of a definition).

  The scan over a range increments a 32-bit counter, which wraps when the range ends at the largest
  value; the loop is a partial function for that reason.
\<close>

section \<open>Ranges\<close>

datatype range_err = NotMinMax string | ParseLow string | ParseHigh string | LowAboveHigh string int int

definition ParseRange :: "string \<Rightarrow> range_err + int \<times> int" where
  "ParseRange s =
     (let parts = SplitN2 CHR ''-'' s in
      if length parts \<noteq> 2 then Inl (NotMinMax s)
      else case ParseInt 32 (TrimSpace (parts ! 0)) of
        None \<Rightarrow> Inl (ParseLow s)
      | Some low \<Rightarrow>
          (case ParseInt 32 (TrimSpace (parts ! 1)) of
             None \<Rightarrow> Inl (ParseHigh s)
           | Some high \<Rightarrow> if high < low then Inl (LowAboveHigh s low high) else Inr (low, high)))"

definition DefaultPortMin :: int where "DefaultPortMin = 20000"
definition DefaultPortMax :: int where "DefaultPortMax = 20999"
definition DefaultMinorMin :: int where "DefaultMinorMin = 20000"
definition DefaultMinorMax :: int where "DefaultMinorMax = 65535"

datatype alloc_err = ErrPortPoolExhausted | ErrMinorPoolExhausted | ErrNodeIDExhausted

section \<open>Ports and minors\<close>

partial_function (option) free_from :: "alloc_err \<Rightarrow> int list \<Rightarrow> int \<Rightarrow> int \<Rightarrow> (alloc_err + int) option" where
  "free_from e used i high =
     (if i \<le> high then (if i \<notin> set used then Some (Inr i) else free_from e used (wrap32 (i + 1)) high)
      else Some (Inl e))"

declare free_from.simps [code]

definition LowestFreePort :: "int list \<Rightarrow> int \<Rightarrow> int \<Rightarrow> (alloc_err + int) option" where
  "LowestFreePort taken low high =
     free_from ErrPortPoolExhausted (filter (\<lambda>p. low \<le> p \<and> p \<le> high) taken) low high"

definition LowestFreeMinor :: "int list \<Rightarrow> int \<Rightarrow> int \<Rightarrow> (alloc_err + int) option" where
  "LowestFreeMinor taken low high =
     free_from ErrMinorPoolExhausted (filter (\<lambda>m. low \<le> m \<and> m \<le> high) taken) low high"

section \<open>Node-ids\<close>

definition MaxPeers :: int where "MaxPeers = 16"
definition NodeIDMax :: int where "NodeIDMax = 31"

definition LowestFreeNodeID :: "int list \<Rightarrow> alloc_err + int" where
  "LowestFreeNodeID taken =
     (case find (\<lambda>i. i \<notin> set taken) [0..MaxPeers - 1] of
        Some i \<Rightarrow> Inr i
      | None \<Rightarrow> Inl ErrNodeIDExhausted)"

section \<open>The scan finds the lowest free value\<close>

text \<open>What the scan promises, as a search over the values of the range.\<close>

definition lowest_free :: "alloc_err \<Rightarrow> int list \<Rightarrow> int \<Rightarrow> int \<Rightarrow> alloc_err + int" where
  "lowest_free e taken low high =
     (case find (\<lambda>i. i \<notin> set taken) [low..high] of Some i \<Rightarrow> Inr i | None \<Rightarrow> Inl e)"

lemma free_from_find:
  assumes "MinInt32 \<le> i" "high < MaxInt32"
  shows "free_from e used i high = Some (lowest_free e used i high)"
  using assms(1)
proof (induction "nat (high + 1 - i)" arbitrary: i rule: less_induct)
  case less
  show ?case
  proof (cases "i \<le> high")
    case True
    have "in_int32 (i + 1)"
      using True less.prems assms(2) by (simp add: in_int32_def)
    then have "free_from e used (wrap32 (i + 1)) high = Some (lowest_free e used (i + 1) high)"
      using less.hyps [of "i + 1"] True less.prems by simp
    then show ?thesis
      using True by (subst free_from.simps) (simp add: lowest_free_def upto_rec1)
  next
    case False
    then show ?thesis by (subst free_from.simps) (simp add: lowest_free_def)
  qed
qed

lemma lowest_free_filter:
  "lowest_free e (filter (\<lambda>p. low \<le> p \<and> p \<le> high) taken) low high = lowest_free e taken low high"
proof -
  have "find (\<lambda>i. i \<notin> set (filter (\<lambda>p. low \<le> p \<and> p \<le> high) taken)) [low..high] =
      find (\<lambda>i. i \<notin> set taken) [low..high]"
    by (rule find_cong) auto
  then show ?thesis by (simp only: lowest_free_def)
qed

lemma lowest_free_Inr:
  "lowest_free e taken low high = Inr i \<longleftrightarrow>
     low \<le> i \<and> i \<le> high \<and> i \<notin> set taken \<and> (\<forall>j. low \<le> j \<and> j < i \<longrightarrow> j \<in> set taken)"
proof (induction "nat (high + 1 - low)" arbitrary: low rule: less_induct)
  case less
  show ?case
  proof (cases "low \<le> high")
    case True
    note ih = less.hyps [of "low + 1"]
    have rec: "lowest_free e taken low high =
        (if low \<notin> set taken then Inr low else lowest_free e taken (low + 1) high)"
      using True by (simp add: lowest_free_def upto_rec1)
    show ?thesis
    proof (cases "low \<in> set taken")
      case True
      then have "lowest_free e taken low high = lowest_free e taken (low + 1) high" using rec by simp
      moreover have "(\<forall>j. low \<le> j \<and> j < i \<longrightarrow> j \<in> set taken) \<longleftrightarrow>
          (\<forall>j. low + 1 \<le> j \<and> j < i \<longrightarrow> j \<in> set taken)"
        using True by (metis add1_zle_eq order_le_less)
      ultimately show ?thesis
        using ih \<open>low \<le> high\<close> True by (auto simp: order_le_less)
    next
      case False
      then show ?thesis using rec \<open>low \<le> high\<close> by (auto simp: order_le_less)
    qed
  next
    case False
    then show ?thesis by (simp add: lowest_free_def)
  qed
qed

lemma lowest_free_Inl:
  "lowest_free e taken low high = Inl x \<longleftrightarrow> x = e \<and> {low..high} \<subseteq> set taken"
proof (cases "find (\<lambda>i. i \<notin> set taken) [low..high]")
  case None
  then have "{low..high} \<subseteq> set taken" by (auto simp: find_None_iff)
  then show ?thesis using None by (auto simp: lowest_free_def)
next
  case (Some i)
  then have "i \<in> {low..high}" "i \<notin> set taken" by (auto simp: find_Some_iff in_set_conv_nth)
  then show ?thesis using Some by (auto simp: lowest_free_def)
qed

text \<open>
  C14. On every range that ends below the largest 32-bit value the port scan returns: the lowest port of
  the range that is not taken, or the exhaustion error exactly when the whole range is taken.  Values
  taken outside the range play no part.
\<close>

theorem LowestFreePort_lowest:
  assumes "MinInt32 \<le> low" "high < MaxInt32"
  shows "\<exists>r. LowestFreePort taken low high = Some r \<and>
    (\<forall>i. r = Inr i \<longleftrightarrow>
       low \<le> i \<and> i \<le> high \<and> i \<notin> set taken \<and> (\<forall>j. low \<le> j \<and> j < i \<longrightarrow> j \<in> set taken)) \<and>
    (r = Inl ErrPortPoolExhausted \<longleftrightarrow> {low..high} \<subseteq> set taken)"
  using free_from_find [OF assms]
  by (simp add: LowestFreePort_def lowest_free_filter lowest_free_Inr lowest_free_Inl)

theorem LowestFreePort_lowest_witness:
  "LowestFreePort [20000, 7042, 20001] DefaultPortMin DefaultPortMax = Some (Inr 20002)"
proof -
  obtain r where r: "LowestFreePort [20000, 7042, 20001] DefaultPortMin DefaultPortMax = Some r"
    "\<And>i. r = Inr i \<longleftrightarrow> DefaultPortMin \<le> i \<and> i \<le> DefaultPortMax \<and> i \<notin> set [20000, 7042, 20001] \<and>
       (\<forall>j. DefaultPortMin \<le> j \<and> j < i \<longrightarrow> j \<in> set [20000, 7042, 20001])"
    using LowestFreePort_lowest [of DefaultPortMin DefaultPortMax "[20000, 7042, 20001]"]
    by (auto simp: DefaultPortMin_def DefaultPortMax_def MinInt32_def MaxInt32_def)
  moreover have "r = Inr 20002"
    unfolding r(2) by (auto simp: DefaultPortMin_def DefaultPortMax_def)
  ultimately show ?thesis by simp
qed

lemma LowestFreeMinor_find:
  "MinInt32 \<le> low \<Longrightarrow> high < MaxInt32 \<Longrightarrow>
   LowestFreeMinor taken low high = Some (lowest_free ErrMinorPoolExhausted taken low high)"
  by (simp add: LowestFreeMinor_def free_from_find lowest_free_filter)

text \<open>
  A range that ends at the largest 32-bit value is never exhausted: with all of it taken the counter
  wraps around and the scan hands out the smallest 32-bit value, far outside the range.
\<close>

lemma free_from_full:
  assumes "low \<le> i" "i \<le> MaxInt32" "{i..MaxInt32} \<subseteq> set used" "MinInt32 \<notin> set used" "MinInt32 \<le> low"
  shows "free_from e used i MaxInt32 = Some (Inr MinInt32)"
  using assms(1-3)
proof (induction "nat (MaxInt32 - i)" arbitrary: i rule: less_induct)
  case less
  have rec: "free_from e used i MaxInt32 = free_from e used (wrap32 (i + 1)) MaxInt32"
    using less.prems by (subst free_from.simps) auto
  show ?case
  proof (cases "i = MaxInt32")
    case True
    then have "wrap32 (i + 1) = MinInt32"
      by (simp add: wrap32_def MaxInt32_def MinInt32_def)
    then show ?thesis
      using rec assms(4) by (simp, subst free_from.simps) (simp add: MaxInt32_def MinInt32_def)
  next
    case False
    then have "wrap32 (i + 1) = i + 1"
      using less.prems assms(5) by (intro wrap32_id) (simp add: in_int32_def)
    moreover have "{i + 1..MaxInt32} \<subseteq> set used" using less.prems(3) by auto
    ultimately show ?thesis
      using rec less.hyps [of "i + 1"] less.prems(1,2) False by auto
  qed
qed

theorem LowestFreePort_wraps:
  assumes "MinInt32 < low" "low \<le> MaxInt32" "{low..MaxInt32} \<subseteq> set taken"
  shows "LowestFreePort taken low MaxInt32 = Some (Inr MinInt32)"
  unfolding LowestFreePort_def
  by (rule free_from_full [of low low]) (use assms in auto)

section \<open>Node-ids of one definition\<close>

text \<open>
  C15. A definition has room for sixteen replicas: while fewer than sixteen node-ids are taken the
  allocator returns the lowest id in 0 to 15 that is free, and it fails only when all sixteen are taken.
\<close>

theorem LowestFreeNodeID_room:
  "(case LowestFreeNodeID taken of
      Inr i \<Rightarrow> 0 \<le> i \<and> i < MaxPeers \<and> i \<notin> set taken \<and> (\<forall>j. 0 \<le> j \<and> j < i \<longrightarrow> j \<in> set taken)
    | Inl e \<Rightarrow> e = ErrNodeIDExhausted \<and> {0..<MaxPeers} \<subseteq> set taken \<and> 16 \<le> card (set taken))"
proof -
  have eq: "LowestFreeNodeID taken = lowest_free ErrNodeIDExhausted taken 0 (MaxPeers - 1)"
    by (simp add: LowestFreeNodeID_def lowest_free_def)
  show ?thesis
  proof (cases "LowestFreeNodeID taken")
    case (Inl e)
    then have i: "e = ErrNodeIDExhausted" "{0..MaxPeers - 1} \<subseteq> set taken"
      using eq by (simp_all add: lowest_free_Inl)
    then have "card {0..MaxPeers - 1} \<le> card (set taken)" by (intro card_mono) simp_all
    moreover have "{0..<MaxPeers} = {0..MaxPeers - 1}" by auto
    ultimately show ?thesis using Inl i by (simp add: MaxPeers_def)
  next
    case (Inr i)
    then show ?thesis using eq lowest_free_Inr [of ErrNodeIDExhausted taken 0 "MaxPeers - 1" i] by simp
  qed
qed

theorem LowestFreeNodeID_room_witness:
  "0 \<le> (2 :: int) \<and> 2 < MaxPeers \<and> (2 :: int) \<notin> set [0, 1, 3]"
proof -
  have "LowestFreeNodeID [0, 1, 3] = Inr 2" by code_simp
  then show ?thesis using LowestFreeNodeID_room [of "[0, 1, 3]"] by simp
qed

section \<open>Reading a range\<close>

lemma ParseRange_Itoa:
  assumes "0 \<le> low" "low \<le> high" "high \<le> MaxInt32"
  shows "ParseRange (Itoa low @ ''-'' @ Itoa high) = Inr (low, high)"
proof -
  have "Cut (Itoa low @ CHR ''-'' # Itoa high) CHR ''-'' = (Itoa low, Itoa high, True)"
    by (rule Cut_sep [OF Itoa_no_minus [OF assms(1)]])
  moreover have "ParseInt 32 (Itoa low) = Some low" "ParseInt 32 (Itoa high) = Some high"
    using assms by (auto intro!: ParseInt_Itoa simp: MaxInt32_def)
  ultimately show ?thesis
    using assms(2) by (simp add: ParseRange_def SplitN2_def TrimSpace_Itoa)
qed

text \<open>
  C16. Port and minor ranges survive printing: \<open>min-max\<close> reads back as the same pair, and whatever text
  is accepted gives bounds in order, non-negative and within 32 bits.
\<close>

theorem ParseRange_roundtrip:
  "(\<forall>low high. 0 \<le> low \<and> low \<le> high \<and> high \<le> MaxInt32 \<longrightarrow>
      ParseRange (Itoa low @ ''-'' @ Itoa high) = Inr (low, high)) \<and>
   (\<forall>s low high. ParseRange s = Inr (low, high) \<longrightarrow> 0 \<le> low \<and> low \<le> high \<and> high \<le> MaxInt32)"
proof -
  have "0 \<le> low \<and> low \<le> high \<and> high \<le> MaxInt32" if p: "ParseRange s = Inr (low, high)" for s low high
  proof -
    obtain a b where c: "Cut s CHR ''-'' = (a, b, True)" and
      i: "ParseInt 32 (TrimSpace a) = Some low" "ParseInt 32 (TrimSpace b) = Some high" "low \<le> high"
      using p by (auto simp: ParseRange_def SplitN2_def Let_def split: prod.splits if_splits option.splits)
    have "CHR ''-'' \<notin> set a" by (rule Cut_True(2) [OF c])
    then have "CHR ''-'' \<notin> set (TrimSpace a)"
      unfolding TrimSpace_def by (auto dest!: set_dropWhileD)
    then have "0 \<le> low" by (rule ParseInt_nonneg [OF i(1)])
    moreover have "high \<le> MaxInt32" using ParseInt_range [OF i(2)] by (simp add: MaxInt32_def)
    ultimately show ?thesis using i(3) by simp
  qed
  then show ?thesis using ParseRange_Itoa by blast
qed

theorem ParseRange_roundtrip_witness:
  "ParseRange (Itoa 20000 @ ''-'' @ Itoa 20999) = Inr (20000, 20999)"
  using ParseRange_roundtrip by (simp add: MaxInt32_def)

end
