(* ===== verification/Drbd_Options.thy ===== *)
theory Drbd_Options
  imports Go_Strings Api_Types
begin

text \<open>
  DRBD options: the catalogue of \<open>pkg/drbd/options.go\<close>, the flag names of \<open>pkg/drbd/flagkeys.go\<close>, and
  the two resolvers over the scopes controller, resource group, resource definition and resource,
  the flat one of \<open>pkg/drbd/resolver.go\<close> and the typed one of \<open>pkg/drbd/typed_resolver.go\<close>, with the
  typed options of \<open>api/v1alpha1/drbd_options.go\<close> and their emission by \<open>pkg/drbd/typed_emit.go\<close>.

  The descriptions of the catalogue entries are left out.  A Go map that is \<open>nil\<close> is the empty map.
\<close>

section \<open>Catalogue\<close>

record drbd_option =
  Opt_Name :: string
  Opt_Section :: string
  Opt_LinstorKey :: string
  Opt_Default :: string

definition SectionNet :: string where "SectionNet = ''net''"
definition SectionDisk :: string where "SectionDisk = ''disk''"
definition SectionPeerDevice :: string where "SectionPeerDevice = ''peer-device''"
definition SectionOptions :: string where "SectionOptions = ''options''"
definition SectionHandlers :: string where "SectionHandlers = ''handlers''"

definition netOptions :: "drbd_option list" where
  "netOptions = [
     \<lparr>Opt_Name = ''protocol'', Opt_Section = SectionNet, Opt_LinstorKey = ''DrbdOptions/Net/protocol'', Opt_Default = ''C''\<rparr>,
     \<lparr>Opt_Name = ''shared-secret'', Opt_Section = SectionNet, Opt_LinstorKey = ''DrbdOptions/Net/shared-secret'', Opt_Default = ''''\<rparr>,
     \<lparr>Opt_Name = ''max-buffers'', Opt_Section = SectionNet, Opt_LinstorKey = ''DrbdOptions/Net/max-buffers'', Opt_Default = ''8000''\<rparr>,
     \<lparr>Opt_Name = ''after-sb-0pri'', Opt_Section = SectionNet, Opt_LinstorKey = ''DrbdOptions/Net/after-sb-0pri'', Opt_Default = ''discard-zero-changes''\<rparr>,
     \<lparr>Opt_Name = ''after-sb-1pri'', Opt_Section = SectionNet, Opt_LinstorKey = ''DrbdOptions/Net/after-sb-1pri'', Opt_Default = ''discard-secondary''\<rparr>]"

definition diskOptions :: "drbd_option list" where
  "diskOptions = [
     \<lparr>Opt_Name = ''on-io-error'', Opt_Section = SectionDisk, Opt_LinstorKey = ''DrbdOptions/Disk/on-io-error'', Opt_Default = ''detach''\<rparr>,
     \<lparr>Opt_Name = ''al-extents'', Opt_Section = SectionDisk, Opt_LinstorKey = ''DrbdOptions/Disk/al-extents'', Opt_Default = ''1237''\<rparr>]"

definition peerDeviceOptions :: "drbd_option list" where
  "peerDeviceOptions = [
     \<lparr>Opt_Name = ''c-max-rate'', Opt_Section = SectionPeerDevice, Opt_LinstorKey = ''DrbdOptions/PeerDevice/c-max-rate'', Opt_Default = ''100M''\<rparr>]"

definition resourceOptions :: "drbd_option list" where
  "resourceOptions = [
     \<lparr>Opt_Name = ''auto-promote'', Opt_Section = SectionOptions, Opt_LinstorKey = ''DrbdOptions/Resource/auto-promote'', Opt_Default = ''yes''\<rparr>,
     \<lparr>Opt_Name = ''quorum'', Opt_Section = SectionOptions, Opt_LinstorKey = ''DrbdOptions/Resource/quorum'', Opt_Default = ''majority''\<rparr>,
     \<lparr>Opt_Name = ''on-no-quorum'', Opt_Section = SectionOptions, Opt_LinstorKey = ''DrbdOptions/Resource/on-no-quorum'', Opt_Default = ''io-error''\<rparr>]"

definition Options :: "drbd_option list" where
  "Options = netOptions @ diskOptions @ peerDeviceOptions @ resourceOptions"

section \<open>Flags\<close>

definition PropPrefix :: string where "PropPrefix = ''DrbdOptions/''"

definition nsNet :: string where "nsNet = PropPrefix @ ''Net/''"
definition nsDisk :: string where "nsDisk = PropPrefix @ ''Disk/''"
definition nsPeerDevice :: string where "nsPeerDevice = PropPrefix @ ''PeerDevice/''"
definition nsResource :: string where "nsResource = PropPrefix @ ''Resource/''"
definition nsHandlers :: string where "nsHandlers = PropPrefix @ ''Handlers/''"

definition flagNamespaces :: "(string, string) gomap" where
  "flagNamespaces = [
      (''cram-hmac-alg'', nsNet),
      (''after-sb-2pri'', nsNet),
      (''rr-conflict'', nsNet),
      (''ping-timeout'', nsNet),
      (''ping-int'', nsNet),
      (''connect-int'', nsNet),
      (''timeout'', nsNet),
      (''max-epoch-size'', nsNet),
      (''sndbuf-size'', nsNet),
      (''rcvbuf-size'', nsNet),
      (''ko-count'', nsNet),
      (''allow-two-primaries'', nsNet),
      (''data-integrity-alg'', nsNet),
      (''verify-alg'', nsNet),
      (''csums-alg'', nsNet),
      (''use-rle'', nsNet),
      (''socket-check-timeout'', nsNet),
      (''tcp-cork'', nsNet),
      (''on-congestion'', nsNet),
      (''congestion-fill'', nsNet),
      (''congestion-extents'', nsNet),
      (''transport'', nsNet),
      (''load-balance-paths'', nsNet),
      (''tls'', nsNet),
      (''al-updates'', nsDisk),
      (''md-flushes'', nsDisk),
      (''disk-barrier'', nsDisk),
      (''disk-flushes'', nsDisk),
      (''disk-drain'', nsDisk),
      (''discard-zeroes-if-aligned'', nsDisk),
      (''rs-discard-granularity'', nsDisk),
      (''disable-write-same'', nsDisk),
      (''read-balancing'', nsDisk),
      (''resync-after'', nsDisk),
      (''block-size'', nsDisk),
      (''resync-rate'', nsPeerDevice),
      (''c-plan-ahead'', nsPeerDevice),
      (''c-delay-target'', nsPeerDevice),
      (''c-fill-target'', nsPeerDevice),
      (''c-min-rate'', nsPeerDevice),
      (''bitmap'', nsPeerDevice),
      (''cpu-mask'', nsResource),
      (''on-no-data-accessible'', nsResource),
      (''auto-promote-timeout'', nsResource),
      (''peer-ack-window'', nsResource),
      (''peer-ack-delay'', nsResource),
      (''twopc-timeout'', nsResource),
      (''twopc-retry-timeout'', nsResource),
      (''quorum-minimum-redundancy'', nsResource),
      (''on-suspended-primary-outdated'', nsResource),
      (''max-io-depth'', nsResource),
      (''fence-peer'', nsHandlers),
      (''unfence-peer'', nsHandlers),
      (''before-resync-target'', nsHandlers),
      (''after-resync-target'', nsHandlers),
      (''before-resync-source'', nsHandlers),
      (''after-resync-source'', nsHandlers),
      (''pri-on-incon-degr'', nsHandlers),
      (''pri-lost-after-sb'', nsHandlers),
      (''local-io-error'', nsHandlers),
      (''initial-split-brain'', nsHandlers),
      (''split-brain'', nsHandlers),
      (''out-of-sync'', nsHandlers),
      (''quorum-lost'', nsHandlers),
      (''disconnected'', nsHandlers)]"

definition FlagKey :: "string \<Rightarrow> string \<times> bool" where
  "FlagKey name =
     (case find (\<lambda>opt. Opt_Name opt = name) Options of
        Some opt \<Rightarrow> (Opt_LinstorKey opt, True)
      | None \<Rightarrow>
          (case map_of flagNamespaces name of
             None \<Rightarrow> ([], False)
           | Some namespace \<Rightarrow> (namespace @ name, True)))"

definition FlagNames :: "string list" where
  "FlagNames =
     (let seen = fold (\<lambda>opt seen. List.insert (Opt_Name opt) seen) Options
                   (fold (\<lambda>(name, _) seen. List.insert name seen) flagNamespaces [])
      in sort seen)"

section \<open>Resolving flat properties\<close>

definition copy_drbd :: "props \<Rightarrow> props \<Rightarrow> props" where
  "copy_drbd level out =
     fold (\<lambda>(key, value) out. if \<not> HasPrefix key PropPrefix then out else AList.update key value out) level out"

definition ResolveOptions :: "props \<Rightarrow> props \<Rightarrow> props \<Rightarrow> props \<Rightarrow> props" where
  "ResolveOptions controller resourceGroup resourceDef resource =
     (let out = fold copy_drbd [controller, resourceGroup, resourceDef, resource] []
      in fold (\<lambda>(key, value) out. if \<not> HasPrefix key PropPrefix then AList.update key value out else out)
           resource out)"

definition FilterDRBD :: "props \<Rightarrow> props" where
  "FilterDRBD p =
     fold (\<lambda>(key, value) out. if HasPrefix key PropPrefix then AList.update key value out else out) p []"

definition SectionFor :: "string \<Rightarrow> string" where
  "SectionFor linstorKey =
     (let (rest, ok) = CutPrefix linstorKey PropPrefix in
      if \<not> ok then SectionOptions
      else let (sect, _, ok2) = Cut rest CHR ''/'' in
        if \<not> ok2 then SectionOptions
        else let l = ToLower sect in
          if l = ''net'' then SectionNet
          else if l = ''disk'' then SectionDisk
          else if l = ''peerdevice'' \<or> l = ''peer-device'' then SectionPeerDevice
          else if l = ''handlers'' then SectionHandlers
          else SectionOptions)"

section \<open>Typed options\<close>

record DRBDNetOptions =
  Protocol :: string
  SharedSecretRef :: "string option"
  AllowTwoPrimaries :: "bool option"
  MaxBuffers :: "int option"
  AfterSb0Pri :: string
  AfterSb1Pri :: string
  AfterSb2Pri :: string

record DRBDDiskOptions =
  OnIOError :: string
  ALExtents :: "int option"

record DRBDPeerDeviceOptions =
  CMaxRate :: string

record DRBDResourceOptions =
  AutoPromote :: "bool option"
  Quorum :: string
  OnNoQuorum :: string
  AutoTieBreaker :: "bool option"

record DRBDOptions =
  Do_Net :: "DRBDNetOptions option"
  Do_Disk :: "DRBDDiskOptions option"
  Do_PeerDevice :: "DRBDPeerDeviceOptions option"
  Do_Resource :: "DRBDResourceOptions option"
  Do_Handlers :: props

definition zero_Net :: DRBDNetOptions where
  "zero_Net = \<lparr>Protocol = [], SharedSecretRef = None, AllowTwoPrimaries = None, MaxBuffers = None,
     AfterSb0Pri = [], AfterSb1Pri = [], AfterSb2Pri = []\<rparr>"
definition zero_Disk :: DRBDDiskOptions where "zero_Disk = \<lparr>OnIOError = [], ALExtents = None\<rparr>"
definition zero_PeerDevice :: DRBDPeerDeviceOptions where "zero_PeerDevice = \<lparr>CMaxRate = []\<rparr>"
definition zero_Res :: DRBDResourceOptions where
  "zero_Res = \<lparr>AutoPromote = None, Quorum = [], OnNoQuorum = [], AutoTieBreaker = None\<rparr>"
definition zero_DRBDOptions :: DRBDOptions where
  "zero_DRBDOptions = \<lparr>Do_Net = None, Do_Disk = None, Do_PeerDevice = None, Do_Resource = None, Do_Handlers = []\<rparr>"

text \<open>A pointer that is allocated on first use.\<close>

definition or_new :: "'a \<Rightarrow> 'a option \<Rightarrow> 'a" where
  "or_new z x = (case x of None \<Rightarrow> z | Some y \<Rightarrow> y)"

definition keep_str :: "string \<Rightarrow> string \<Rightarrow> string" where
  "keep_str src out = (if src \<noteq> [] then src else out)"

definition keep_opt :: "'a option \<Rightarrow> 'a option \<Rightarrow> 'a option" where
  "keep_opt src out = (if src \<noteq> None then src else out)"

definition mergeNet :: "DRBDNetOptions option \<Rightarrow> DRBDOptions \<Rightarrow> DRBDOptions" where
  "mergeNet src out = (case src of None \<Rightarrow> out | Some s \<Rightarrow>
     (let n = or_new zero_Net (Do_Net out) in
      out\<lparr>Do_Net := Some \<lparr>Protocol = keep_str (Protocol s) (Protocol n),
        SharedSecretRef = keep_opt (SharedSecretRef s) (SharedSecretRef n),
        AllowTwoPrimaries = keep_opt (AllowTwoPrimaries s) (AllowTwoPrimaries n),
        MaxBuffers = keep_opt (MaxBuffers s) (MaxBuffers n),
        AfterSb0Pri = keep_str (AfterSb0Pri s) (AfterSb0Pri n),
        AfterSb1Pri = keep_str (AfterSb1Pri s) (AfterSb1Pri n),
        AfterSb2Pri = keep_str (AfterSb2Pri s) (AfterSb2Pri n)\<rparr>\<rparr>))"

definition mergeDisk :: "DRBDDiskOptions option \<Rightarrow> DRBDOptions \<Rightarrow> DRBDOptions" where
  "mergeDisk src out = (case src of None \<Rightarrow> out | Some s \<Rightarrow>
     (let n = or_new zero_Disk (Do_Disk out) in
      out\<lparr>Do_Disk := Some \<lparr>OnIOError = keep_str (OnIOError s) (OnIOError n),
        ALExtents = keep_opt (ALExtents s) (ALExtents n)\<rparr>\<rparr>))"

definition mergePeerDevice :: "DRBDPeerDeviceOptions option \<Rightarrow> DRBDOptions \<Rightarrow> DRBDOptions" where
  "mergePeerDevice src out = (case src of None \<Rightarrow> out | Some s \<Rightarrow>
     (let n = or_new zero_PeerDevice (Do_PeerDevice out) in
      out\<lparr>Do_PeerDevice := Some \<lparr>CMaxRate = keep_str (CMaxRate s) (CMaxRate n)\<rparr>\<rparr>))"

definition mergeResource :: "DRBDResourceOptions option \<Rightarrow> DRBDOptions \<Rightarrow> DRBDOptions" where
  "mergeResource src out = (case src of None \<Rightarrow> out | Some s \<Rightarrow>
     (let n = or_new zero_Res (Do_Resource out) in
      out\<lparr>Do_Resource := Some (n\<lparr>AutoPromote := keep_opt (AutoPromote s) (AutoPromote n),
        Quorum := keep_str (Quorum s) (Quorum n), OnNoQuorum := keep_str (OnNoQuorum s) (OnNoQuorum n)\<rparr>)\<rparr>))"

definition mergeHandlers :: "props \<Rightarrow> DRBDOptions \<Rightarrow> DRBDOptions" where
  "mergeHandlers src out =
     (if src = [] then out
      else out\<lparr>Do_Handlers := fold (\<lambda>(handler, script) h. if script = [] then AList.delete handler h
                               else AList.update handler script h) src (Do_Handlers out)\<rparr>)"

definition merge_scope :: "DRBDOptions option \<Rightarrow> DRBDOptions \<Rightarrow> DRBDOptions" where
  "merge_scope src out = (case src of None \<Rightarrow> out | Some s \<Rightarrow>
     mergeHandlers (Do_Handlers s) (mergeResource (Do_Resource s) (mergePeerDevice (Do_PeerDevice s)
       (mergeDisk (Do_Disk s) (mergeNet (Do_Net s) out)))))"

definition anyNonNil :: "'a option list \<Rightarrow> bool" where
  "anyNonNil scopes = list_ex (\<lambda>s. s \<noteq> None) scopes"

definition ResolveDRBDOptions ::
  "DRBDOptions option \<Rightarrow> DRBDOptions option \<Rightarrow> DRBDOptions option \<Rightarrow> DRBDOptions option \<Rightarrow> DRBDOptions option"
where
  "ResolveDRBDOptions controller rg rd resource =
     (let scopes = [controller, rg, rd, resource] in
      if \<not> anyNonNil scopes then None
      else Some (fold merge_scope scopes zero_DRBDOptions))"

section \<open>Emitting typed options\<close>

definition boolToWire :: "bool \<Rightarrow> string" where
  "boolToWire b = (if b then ''yes'' else ''no'')"

definition emit_str :: "string \<Rightarrow> string \<Rightarrow> props \<Rightarrow> props" where
  "emit_str key v out = (if v \<noteq> [] then AList.update key v out else out)"

definition emit_opt :: "string \<Rightarrow> ('a \<Rightarrow> string) \<Rightarrow> 'a option \<Rightarrow> props \<Rightarrow> props" where
  "emit_opt key f v out = (case v of None \<Rightarrow> out | Some x \<Rightarrow> AList.update key (f x) out)"

definition emitTypedNet :: "DRBDNetOptions option \<Rightarrow> props \<Rightarrow> props" where
  "emitTypedNet net out = (case net of None \<Rightarrow> out | Some n \<Rightarrow>
     emit_str ''DrbdOptions/Net/after-sb-2pri'' (AfterSb2Pri n)
     (emit_str ''DrbdOptions/Net/after-sb-1pri'' (AfterSb1Pri n)
     (emit_str ''DrbdOptions/Net/after-sb-0pri'' (AfterSb0Pri n)
     (emit_opt ''DrbdOptions/Net/allow-two-primaries'' boolToWire (AllowTwoPrimaries n)
     (emit_opt ''DrbdOptions/Net/max-buffers'' Itoa (MaxBuffers n)
     (emit_str ''DrbdOptions/Net/protocol'' (Protocol n) out))))))"

definition emitTypedDisk :: "DRBDDiskOptions option \<Rightarrow> props \<Rightarrow> props" where
  "emitTypedDisk disk out = (case disk of None \<Rightarrow> out | Some d \<Rightarrow>
     emit_opt ''DrbdOptions/Disk/al-extents'' Itoa (ALExtents d)
     (emit_str ''DrbdOptions/Disk/on-io-error'' (OnIOError d) out))"

definition emitTypedPeerDevice :: "DRBDPeerDeviceOptions option \<Rightarrow> props \<Rightarrow> props" where
  "emitTypedPeerDevice pd out = (case pd of None \<Rightarrow> out | Some p \<Rightarrow>
     emit_str ''DrbdOptions/PeerDevice/c-max-rate'' (CMaxRate p) out)"

definition emitTypedResource :: "DRBDResourceOptions option \<Rightarrow> props \<Rightarrow> props" where
  "emitTypedResource res out = (case res of None \<Rightarrow> out | Some r \<Rightarrow>
     emit_str ''DrbdOptions/Resource/on-no-quorum'' (OnNoQuorum r)
     (emit_str ''DrbdOptions/Resource/quorum'' (Quorum r)
     (emit_opt ''DrbdOptions/Resource/auto-promote'' boolToWire (AutoPromote r) out)))"

definition emitTypedHandlers :: "props \<Rightarrow> props \<Rightarrow> props" where
  "emitTypedHandlers handlers out =
     fold (\<lambda>(name, script) out. AList.update (''DrbdOptions/Handlers/'' @ name) script out) handlers out"

definition TypedDRBDOptionsToProps :: "DRBDOptions option \<Rightarrow> props" where
  "TypedDRBDOptionsToProps opts = (case opts of None \<Rightarrow> [] | Some s \<Rightarrow>
     emitTypedHandlers (Do_Handlers s) (emitTypedResource (Do_Resource s) (emitTypedPeerDevice (Do_PeerDevice s)
       (emitTypedDisk (Do_Disk s) (emitTypedNet (Do_Net s) [])))))"

section \<open>Flags and sections agree\<close>

definition namespace_section :: "(string \<times> string) list" where
  "namespace_section = [(nsNet, SectionNet), (nsDisk, SectionDisk), (nsPeerDevice, SectionPeerDevice),
     (nsResource, SectionOptions), (nsHandlers, SectionHandlers)]"

lemma SectionFor_cut:
  "CHR ''/'' \<notin> set sect \<Longrightarrow> SectionFor (PropPrefix @ sect @ CHR ''/'' # name) =
     (let l = ToLower sect in
      if l = ''net'' then SectionNet else if l = ''disk'' then SectionDisk
      else if l = ''peerdevice'' \<or> l = ''peer-device'' then SectionPeerDevice
      else if l = ''handlers'' then SectionHandlers else SectionOptions)"
  by (simp add: SectionFor_def CutPrefix_def Cut_sep)

lemma SectionFor_namespace:
  assumes "(ns, sect) \<in> set namespace_section"
  shows "SectionFor (ns @ name) = sect"
proof -
  have l: "ToLower ''Net'' = ''net''" "ToLower ''Disk'' = ''disk''" "ToLower ''PeerDevice'' = ''peerdevice''"
    "ToLower ''Resource'' = ''resource''" "ToLower ''Handlers'' = ''handlers''" by code_simp+
  show ?thesis
    using assms SectionFor_cut [of "''Net''" name] SectionFor_cut [of "''Disk''" name]
      SectionFor_cut [of "''PeerDevice''" name] SectionFor_cut [of "''Resource''" name]
      SectionFor_cut [of "''Handlers''" name]
    by (auto simp: namespace_section_def nsNet_def nsDisk_def nsPeerDevice_def nsResource_def nsHandlers_def l)
qed

lemma Options_namespaced:
  "list_all (\<lambda>opt. list_ex (\<lambda>(ns, sect). Opt_LinstorKey opt = ns @ Opt_Name opt \<and> Opt_Section opt = sect)
     namespace_section) Options"
  by code_simp

lemma flagNamespaces_known: "list_all (\<lambda>(_, ns). ns \<in> fst ` set namespace_section) flagNamespaces"
  by code_simp

lemma flagNamespaces_disjoint: "list_all (\<lambda>opt. \<not> gm_has flagNamespaces (Opt_Name opt)) Options"
  by code_simp

lemma set_fold_insert_fst: "set (fold (\<lambda>(name, _) seen. List.insert name seen) xs seen) = fst ` set xs \<union> set seen"
  by (induction xs arbitrary: seen) auto

lemma distinct_fold_insert: "distinct seen \<Longrightarrow> distinct (fold (\<lambda>x seen. List.insert (f x) seen) xs seen)"
  by (induction xs arbitrary: seen) auto

lemma set_fold_insert_map: "set (fold (\<lambda>x seen. List.insert (f x) seen) xs seen) = f ` set xs \<union> set seen"
  by (induction xs arbitrary: seen) auto

lemma FlagKey_cases:
  "snd (FlagKey name) \<longleftrightarrow> name \<in> Opt_Name ` set Options \<or> name \<in> fst ` set flagNamespaces"
proof (cases "find (\<lambda>opt. Opt_Name opt = name) Options")
  case None
  then have "name \<notin> Opt_Name ` set Options" by (auto simp: find_None_iff)
  then show ?thesis
    using None gm_has_dom [of flagNamespaces name]
    by (cases "map_of flagNamespaces name") (simp_all add: FlagKey_def gm_has_def)
next
  case (Some opt)
  then have "opt \<in> set Options" "Opt_Name opt = name" by (auto simp: find_Some_iff)
  then show ?thesis using Some by (auto simp: FlagKey_def)
qed

text \<open>
  C17. A \<open>drbd-options\<close> flag is stored under a key that renders into the block its namespace stands for:
  the key is the namespace followed by the flag's name, and \<open>SectionFor\<close> maps it to the namespace's
  block.  The names offered to the operator are exactly those that resolve, sorted and without
  duplicates.
\<close>

theorem FlagKey_section:
  "(\<forall>name key. FlagKey name = (key, True) \<longrightarrow>
      (\<exists>ns sect. (ns, sect) \<in> set namespace_section \<and> key = ns @ name \<and> SectionFor key = sect)) \<and>
   set FlagNames = {name. snd (FlagKey name)} \<and> sorted FlagNames \<and> distinct FlagNames"
proof (intro conjI allI impI)
  fix name key
  assume k: "FlagKey name = (key, True)"
  have "\<exists>ns \<in> fst ` set namespace_section. key = ns @ name"
  proof (cases "find (\<lambda>opt. Opt_Name opt = name) Options")
    case None
    then obtain ns where "map_of flagNamespaces name = Some ns" "key = ns @ name"
      using k by (auto simp: FlagKey_def split: option.splits)
    then show ?thesis
      using flagNamespaces_known by (auto simp: list_all_iff dest!: map_of_SomeD)
  next
    case (Some opt)
    then have "key = Opt_LinstorKey opt" using k by (simp add: FlagKey_def)
    moreover have "opt \<in> set Options" "Opt_Name opt = name" using Some by (auto simp: find_Some_iff)
    ultimately show ?thesis
      using Options_namespaced by (force simp: list_all_iff list_ex_iff)
  qed
  then show "\<exists>ns sect. (ns, sect) \<in> set namespace_section \<and> key = ns @ name \<and> SectionFor key = sect"
    using SectionFor_namespace by fastforce
next
  show "set FlagNames = {name. snd (FlagKey name)}"
    unfolding FlagKey_cases by (auto simp: FlagNames_def set_fold_insert_fst set_fold_insert_map)
  show "sorted FlagNames" by (simp add: FlagNames_def)
  show "distinct FlagNames"
  proof -
    have "distinct (fold (\<lambda>(name, _) seen. List.insert name seen) flagNamespaces [])"
      using distinct_fold_insert [of "[]" fst flagNamespaces] by (simp add: case_prod_unfold)
    then show ?thesis
      unfolding FlagNames_def Let_def distinct_sort by (rule distinct_fold_insert)
  qed
qed

theorem FlagKey_section_witness:
  "\<exists>ns sect. (ns, sect) \<in> set namespace_section \<and> nsNet @ ''ping-int'' = ns @ ''ping-int'' \<and>
     SectionFor (nsNet @ ''ping-int'') = sect"
proof -
  have "FlagKey ''ping-int'' = (nsNet @ ''ping-int'', True)" by code_simp
  then show ?thesis using FlagKey_section by blast
qed

section \<open>The closest scope wins\<close>

definition or_else :: "'a option \<Rightarrow> 'a option \<Rightarrow> 'a option" where
  "or_else a b = (case a of None \<Rightarrow> b | Some x \<Rightarrow> Some x)"

lemma or_else_simps [simp]:
  "or_else None b = b" "or_else (Some x) b = Some x" "or_else a None = a"
  "or_else (or_else a b) c = or_else a (or_else b c)"
  by (simp_all add: or_else_def split: option.split)

lemma or_else_None_iff [simp]: "or_else a b = None \<longleftrightarrow> a = None \<and> b = None"
  by (simp add: or_else_def split: option.split)

lemma fold_copy_lookup:
  assumes "gm_wf level"
  shows "map_of (fold (\<lambda>(key, value) out. if P key then AList.update key value out else out) level out) k =
    or_else (if P k then map_of level k else None) (map_of out k)"
  using assms
proof (induction level arbitrary: out)
  case Nil
  then show ?case by simp
next
  case (Cons e level)
  have "map_of level (fst e) = None" using Cons.prems by (simp add: map_of_eq_None_iff)
  then show ?case using Cons by (cases e) (auto simp: gomap_simps or_else_def split: option.split)
qed

lemma copy_drbd_lookup:
  "gm_wf level \<Longrightarrow> map_of (copy_drbd level out) k =
     or_else (if HasPrefix k PropPrefix then map_of level k else None) (map_of out k)"
proof -
  assume w: "gm_wf level"
  have "(\<lambda>(key, value) out. if \<not> HasPrefix key PropPrefix then out else AList.update key value out) =
      (\<lambda>(key, value) out. if HasPrefix key PropPrefix then AList.update key (value :: string) out else out)"
    by (simp add: fun_eq_iff)
  then show ?thesis
    unfolding copy_drbd_def using fold_copy_lookup [OF w, of "\<lambda>k. HasPrefix k PropPrefix" out k] by (simp only:)
qed

lemma resolve_lookup:
  assumes "gm_wf c" "gm_wf g" "gm_wf d" "gm_wf r"
  shows "map_of (ResolveOptions c g d r) k =
    (if HasPrefix k PropPrefix
     then or_else (map_of r k) (or_else (map_of d k) (or_else (map_of g k) (map_of c k)))
     else map_of r k)"
  using fold_copy_lookup [OF assms(4), of "\<lambda>k. \<not> HasPrefix k PropPrefix"] assms
  by (simp add: ResolveOptions_def copy_drbd_lookup)

text \<open>
  C18. Resolution of flat properties: for a DRBD option the closest scope that sets it wins, in the order
  resource, definition, group, controller; any other property comes from the resource alone.
\<close>

theorem ResolveOptions_closest:
  assumes "gm_wf c" "gm_wf g" "gm_wf d" "gm_wf r"
  shows "map_of (ResolveOptions c g d r) k =
    (if HasPrefix k PropPrefix
     then or_else (map_of r k) (or_else (map_of d k) (or_else (map_of g k) (map_of c k)))
     else map_of r k)"
  using assms by (rule resolve_lookup)

theorem ResolveOptions_closest_witness:
  "map_of (ResolveOptions [(''DrbdOptions/Net/protocol'', ''A'')] [] [(''DrbdOptions/Net/protocol'', ''B'')]
     [(''StorPoolName'', ''p'')]) ''DrbdOptions/Net/protocol'' = Some ''B''"
  using ResolveOptions_closest [of "[(''DrbdOptions/Net/protocol'', ''A'')]" "[]"
      "[(''DrbdOptions/Net/protocol'', ''B'')]" "[(''StorPoolName'', ''p'')]" "''DrbdOptions/Net/protocol''"]
  by (simp add: HasPrefix_def PropPrefix_def)

section \<open>What typed options emit\<close>

definition nonempty :: "string \<Rightarrow> string option" where
  "nonempty v = (if v = [] then None else Some v)"

lemma nonempty_Nil [simp]: "nonempty [] = None"
  by (simp add: nonempty_def)

lemma nonempty_keep [simp]: "nonempty (keep_str a b) = or_else (nonempty a) (nonempty b)"
  by (simp add: nonempty_def keep_str_def)

lemma map_option_keep [simp]: "map_option f (keep_opt a b) = or_else (map_option f a) (map_option f b)"
  by (cases a) (simp_all add: keep_opt_def)

lemma map_of_emit_str: "map_of (emit_str key v out) k = (if k = key then or_else (nonempty v) (map_of out k) else map_of out k)"
  by (simp add: emit_str_def nonempty_def gomap_simps)

lemma map_of_emit_opt:
  "map_of (emit_opt key f v out) k = (if k = key then or_else (map_option f v) (map_of out k) else map_of out k)"
  by (cases v) (simp_all add: emit_opt_def gomap_simps)

definition net_view :: "DRBDNetOptions option \<Rightarrow> string \<Rightarrow> string option" where
  "net_view net k = (case net of None \<Rightarrow> None | Some n \<Rightarrow>
     if k = ''DrbdOptions/Net/protocol'' then nonempty (Protocol n)
     else if k = ''DrbdOptions/Net/max-buffers'' then map_option Itoa (MaxBuffers n)
     else if k = ''DrbdOptions/Net/allow-two-primaries'' then map_option boolToWire (AllowTwoPrimaries n)
     else if k = ''DrbdOptions/Net/after-sb-0pri'' then nonempty (AfterSb0Pri n)
     else if k = ''DrbdOptions/Net/after-sb-1pri'' then nonempty (AfterSb1Pri n)
     else if k = ''DrbdOptions/Net/after-sb-2pri'' then nonempty (AfterSb2Pri n)
     else None)"

definition disk_view :: "DRBDDiskOptions option \<Rightarrow> string \<Rightarrow> string option" where
  "disk_view disk k = (case disk of None \<Rightarrow> None | Some d \<Rightarrow>
     if k = ''DrbdOptions/Disk/on-io-error'' then nonempty (OnIOError d)
     else if k = ''DrbdOptions/Disk/al-extents'' then map_option Itoa (ALExtents d)
     else None)"

definition peer_view :: "DRBDPeerDeviceOptions option \<Rightarrow> string \<Rightarrow> string option" where
  "peer_view pd k = (case pd of None \<Rightarrow> None | Some p \<Rightarrow>
     if k = ''DrbdOptions/PeerDevice/c-max-rate'' then nonempty (CMaxRate p) else None)"

definition res_view :: "DRBDResourceOptions option \<Rightarrow> string \<Rightarrow> string option" where
  "res_view res k = (case res of None \<Rightarrow> None | Some r \<Rightarrow>
     if k = ''DrbdOptions/Resource/auto-promote'' then map_option boolToWire (AutoPromote r)
     else if k = ''DrbdOptions/Resource/quorum'' then nonempty (Quorum r)
     else if k = ''DrbdOptions/Resource/on-no-quorum'' then nonempty (OnNoQuorum r)
     else None)"

definition handler_view :: "props \<Rightarrow> string \<Rightarrow> string option" where
  "handler_view h k = (if HasPrefix k nsHandlers then map_of h (drop (length nsHandlers) k) else None)"

lemma emitTypedNet_lookup: "map_of (emitTypedNet net out) k = or_else (net_view net k) (map_of out k)"
  by (cases net) (simp_all add: emitTypedNet_def net_view_def map_of_emit_str map_of_emit_opt)

lemma emitTypedDisk_lookup: "map_of (emitTypedDisk disk out) k = or_else (disk_view disk k) (map_of out k)"
  by (cases disk) (simp_all add: emitTypedDisk_def disk_view_def map_of_emit_str map_of_emit_opt)

lemma emitTypedPeerDevice_lookup: "map_of (emitTypedPeerDevice pd out) k = or_else (peer_view pd k) (map_of out k)"
  by (cases pd) (simp_all add: emitTypedPeerDevice_def peer_view_def map_of_emit_str)

lemma emitTypedResource_lookup: "map_of (emitTypedResource res out) k = or_else (res_view res k) (map_of out k)"
  by (cases res) (simp_all add: emitTypedResource_def res_view_def map_of_emit_str map_of_emit_opt)

lemma nsHandlers_literal: "nsHandlers = ''DrbdOptions/Handlers/''"
  by (simp add: nsHandlers_def PropPrefix_def)

lemma fold_prefixed_lookup:
  assumes "gm_wf h"
  shows "map_of (fold (\<lambda>(name, script) out. AList.update (p @ name) script out) h out) k =
    or_else (if HasPrefix k p then map_of h (drop (length p) k) else None) (map_of out k)"
  using assms
proof (induction h arbitrary: out)
  case Nil
  then show ?case by simp
next
  case (Cons e h)
  have "map_of h (fst e) = None" using Cons.prems by (simp add: map_of_eq_None_iff)
  moreover have "k = p @ fst e \<longleftrightarrow> HasPrefix k p \<and> drop (length p) k = fst e"
    by (auto simp: HasPrefix_def) (metis append_take_drop_id)
  ultimately show ?case using Cons by (cases e) (auto simp: gomap_simps or_else_def split: option.split)
qed

lemma emitTypedHandlers_lookup:
  "gm_wf h \<Longrightarrow> map_of (emitTypedHandlers h out) k = or_else (handler_view h k) (map_of out k)"
  unfolding emitTypedHandlers_def nsHandlers_literal [symmetric] handler_view_def
  by (rule fold_prefixed_lookup)

definition typed_view :: "DRBDOptions option \<Rightarrow> string \<Rightarrow> string option" where
  "typed_view opts k = (case opts of None \<Rightarrow> None | Some s \<Rightarrow>
     or_else (handler_view (Do_Handlers s) k) (or_else (res_view (Do_Resource s) k)
       (or_else (peer_view (Do_PeerDevice s) k) (or_else (disk_view (Do_Disk s) k) (net_view (Do_Net s) k)))))"

definition handlers_wf :: "DRBDOptions option \<Rightarrow> bool" where
  "handlers_wf opts = (case opts of None \<Rightarrow> True | Some s \<Rightarrow> gm_wf (Do_Handlers s))"

lemma TypedDRBDOptionsToProps_lookup:
  "handlers_wf opts \<Longrightarrow> map_of (TypedDRBDOptionsToProps opts) k = typed_view opts k"
  by (cases opts) (simp_all add: TypedDRBDOptionsToProps_def typed_view_def handlers_wf_def
      emitTypedHandlers_lookup emitTypedResource_lookup emitTypedPeerDevice_lookup emitTypedDisk_lookup
      emitTypedNet_lookup)

text \<open>Each key belongs to one section.\<close>

lemma namespaces_exclusive:
  "list_all (\<lambda>(a, _). list_all (\<lambda>(b, _). a = b \<or> \<not> HasPrefix b a \<and> \<not> HasPrefix a b) namespace_section) namespace_section"
  by code_simp

lemma HasPrefix_exclusive:
  assumes "HasPrefix k a" "a \<in> fst ` set namespace_section" "b \<in> fst ` set namespace_section" "a \<noteq> b"
  shows "\<not> HasPrefix k b"
  using assms namespaces_exclusive prefix_same_cases [of a k b]
  by (fastforce simp: list_all_iff HasPrefix_iff)

lemma ns_members [simp]:
  "nsNet \<in> fst ` set namespace_section" "nsDisk \<in> fst ` set namespace_section"
  "nsPeerDevice \<in> fst ` set namespace_section" "nsResource \<in> fst ` set namespace_section"
  "nsHandlers \<in> fst ` set namespace_section"
  by (simp_all add: namespace_section_def)

lemma ns_distinct [simp]:
  "nsNet \<noteq> nsDisk" "nsNet \<noteq> nsPeerDevice" "nsNet \<noteq> nsResource" "nsNet \<noteq> nsHandlers"
  "nsDisk \<noteq> nsPeerDevice" "nsDisk \<noteq> nsResource" "nsDisk \<noteq> nsHandlers"
  "nsPeerDevice \<noteq> nsResource" "nsPeerDevice \<noteq> nsHandlers" "nsResource \<noteq> nsHandlers"
  by (simp_all add: nsNet_def nsDisk_def nsPeerDevice_def nsResource_def nsHandlers_def)

lemma view_prefix:
  "net_view n k \<noteq> None \<Longrightarrow> HasPrefix k nsNet"
  "disk_view d k \<noteq> None \<Longrightarrow> HasPrefix k nsDisk"
  "peer_view p k \<noteq> None \<Longrightarrow> HasPrefix k nsPeerDevice"
  "res_view r k \<noteq> None \<Longrightarrow> HasPrefix k nsResource"
  "handler_view h k \<noteq> None \<Longrightarrow> HasPrefix k nsHandlers"
  by (auto simp: net_view_def disk_view_def peer_view_def res_view_def handler_view_def nsNet_def nsDisk_def
      nsPeerDevice_def nsResource_def PropPrefix_def HasPrefix_def split: option.splits if_splits)

lemma view_other:
  assumes "HasPrefix k ns" "ns \<in> fst ` set namespace_section"
  shows "ns \<noteq> nsNet \<Longrightarrow> net_view n k = None" "ns \<noteq> nsDisk \<Longrightarrow> disk_view d k = None"
    "ns \<noteq> nsPeerDevice \<Longrightarrow> peer_view p k = None" "ns \<noteq> nsResource \<Longrightarrow> res_view r k = None"
    "ns \<noteq> nsHandlers \<Longrightarrow> handler_view h k = None"
  using view_prefix HasPrefix_exclusive [OF assms] ns_members by blast+

lemma views_none:
  assumes "\<And>ns. ns \<in> fst ` set namespace_section \<Longrightarrow> \<not> HasPrefix k ns"
  shows "net_view n k = None" "disk_view d k = None" "peer_view p k = None" "res_view r k = None"
    "handler_view h k = None"
  using view_prefix ns_members assms by blast+

lemma typed_view_PropPrefix: "typed_view opts k \<noteq> None \<Longrightarrow> HasPrefix k PropPrefix"
proof (rule ccontr)
  assume v: "typed_view opts k \<noteq> None" and n: "\<not> HasPrefix k PropPrefix"
  have "\<not> HasPrefix k ns" if "ns \<in> fst ` set namespace_section" for ns
    using that n
    by (auto simp: namespace_section_def nsNet_def nsDisk_def nsPeerDevice_def nsResource_def nsHandlers_def
        HasPrefix_iff dest: append_prefixD)
  then show False using v by (cases opts) (simp_all add: typed_view_def views_none)
qed

text \<open>A scope is merged field by field.\<close>

lemma merge_net_view:
  "net_view (Do_Net (mergeNet src out)) k = or_else (net_view src k) (net_view (Do_Net out) k)"
  by (cases src; cases "Do_Net out") (simp_all add: mergeNet_def net_view_def or_new_def zero_Net_def Let_def)

lemma merge_disk_view:
  "disk_view (Do_Disk (mergeDisk src out)) k = or_else (disk_view src k) (disk_view (Do_Disk out) k)"
  by (cases src; cases "Do_Disk out") (simp_all add: mergeDisk_def disk_view_def or_new_def zero_Disk_def Let_def)

lemma merge_peer_view:
  "peer_view (Do_PeerDevice (mergePeerDevice src out)) k = or_else (peer_view src k) (peer_view (Do_PeerDevice out) k)"
  by (cases src; cases "Do_PeerDevice out")
    (simp_all add: mergePeerDevice_def peer_view_def or_new_def zero_PeerDevice_def Let_def)

lemma merge_res_view:
  "res_view (Do_Resource (mergeResource src out)) k = or_else (res_view src k) (res_view (Do_Resource out) k)"
  by (cases src; cases "Do_Resource out")
    (simp_all add: mergeResource_def res_view_def or_new_def zero_Res_def Let_def)

lemmas merge_views = merge_net_view merge_disk_view merge_peer_view merge_res_view

definition scripts_set :: "DRBDOptions option \<Rightarrow> bool" where
  "scripts_set opts = (case opts of None \<Rightarrow> True | Some s \<Rightarrow>
     gm_wf (Do_Handlers s) \<and> list_all (\<lambda>(_, script). script \<noteq> []) (Do_Handlers s))"

lemma fold_handlers:
  assumes "gm_wf src" "list_all (\<lambda>(_, script). script \<noteq> []) src"
  shows "map_of (fold (\<lambda>(handler, script) h. if script = [] then AList.delete handler h
                               else AList.update handler script h) src h) k = or_else (map_of src k) (map_of h k)"
  using assms
proof (induction src arbitrary: h)
  case Nil
  then show ?case by simp
next
  case (Cons e src)
  have "map_of src (fst e) = None" using Cons.prems by (simp add: map_of_eq_None_iff)
  then show ?case using Cons by (cases e) (auto simp: gomap_simps or_else_def split: option.split)
qed

lemma merge_handler_view:
  assumes "gm_wf src" "list_all (\<lambda>(_, script). script \<noteq> []) src"
  shows "handler_view (Do_Handlers (mergeHandlers src out)) k = or_else (handler_view src k) (handler_view (Do_Handlers out) k)"
  using fold_handlers [OF assms] by (auto simp: mergeHandlers_def handler_view_def)

lemma merge_fields [simp]:
  "Do_Disk (mergeNet a out) = Do_Disk out" "Do_PeerDevice (mergeNet a out) = Do_PeerDevice out"
  "Do_Resource (mergeNet a out) = Do_Resource out" "Do_Handlers (mergeNet a out) = Do_Handlers out"
  "Do_Net (mergeDisk b out) = Do_Net out" "Do_PeerDevice (mergeDisk b out) = Do_PeerDevice out"
  "Do_Resource (mergeDisk b out) = Do_Resource out" "Do_Handlers (mergeDisk b out) = Do_Handlers out"
  "Do_Net (mergePeerDevice c out) = Do_Net out" "Do_Disk (mergePeerDevice c out) = Do_Disk out"
  "Do_Resource (mergePeerDevice c out) = Do_Resource out" "Do_Handlers (mergePeerDevice c out) = Do_Handlers out"
  "Do_Net (mergeResource d out) = Do_Net out" "Do_Disk (mergeResource d out) = Do_Disk out"
  "Do_PeerDevice (mergeResource d out) = Do_PeerDevice out" "Do_Handlers (mergeResource d out) = Do_Handlers out"
  "Do_Net (mergeHandlers h out) = Do_Net out" "Do_Disk (mergeHandlers h out) = Do_Disk out"
  "Do_PeerDevice (mergeHandlers h out) = Do_PeerDevice out" "Do_Resource (mergeHandlers h out) = Do_Resource out"
  by (simp_all add: mergeNet_def mergeDisk_def mergePeerDevice_def mergeResource_def mergeHandlers_def Let_def
      split: option.split)

lemma merge_scope_view:
  assumes "scripts_set src"
  shows "typed_view (Some (merge_scope src out)) k = or_else (typed_view src k) (typed_view (Some out) k)"
proof (cases src)
  case None
  then show ?thesis by (simp add: merge_scope_def typed_view_def)
next
  case (Some s)
  have h: "handler_view (Do_Handlers (mergeHandlers (Do_Handlers s) o')) k =
      or_else (handler_view (Do_Handlers s) k) (handler_view (Do_Handlers o') k)" for o'
    using assms Some by (intro merge_handler_view) (simp_all add: scripts_set_def)
  note eq = Some merge_scope_def typed_view_def merge_views h
  consider ns where "ns \<in> fst ` set namespace_section" "HasPrefix k ns" | "\<not> (\<exists>ns \<in> fst ` set namespace_section. HasPrefix k ns)"
    by blast
  then show ?thesis
  proof cases
    case (1 ns)
    then have "ns \<in> {nsNet, nsDisk, nsPeerDevice, nsResource, nsHandlers}" by (auto simp: namespace_section_def)
    then show ?thesis
      using view_other [OF 1(2,1)] by (elim insertE emptyE) (simp_all add: eq ns_distinct [symmetric])
  next
    case 2
    then have "\<And>ns. ns \<in> fst ` set namespace_section \<Longrightarrow> \<not> HasPrefix k ns" by blast
    note views_none [OF this]
    then show ?thesis by (simp add: eq)
  qed
qed

lemma gm_wf_fold:
  assumes "\<And>x out. gm_wf out \<Longrightarrow> gm_wf (f x out)" "gm_wf out"
  shows "gm_wf (fold f xs out)"
  using assms(2) by (induction xs arbitrary: out) (simp_all add: assms(1))

lemma gm_wf_emit [simp]:
  "gm_wf out \<Longrightarrow> gm_wf (emit_str key v out)" "gm_wf out \<Longrightarrow> gm_wf (emit_opt key f x out)"
  by (simp_all add: emit_str_def emit_opt_def distinct_update split: option.split)

lemma gm_wf_TypedDRBDOptionsToProps: "gm_wf (TypedDRBDOptionsToProps opts)"
  by (auto simp: TypedDRBDOptionsToProps_def emitTypedHandlers_def emitTypedResource_def emitTypedPeerDevice_def
      emitTypedDisk_def emitTypedNet_def distinct_update split: option.split intro!: gm_wf_fold)

lemma handlers_wf_merge:
  "scripts_set src \<Longrightarrow> gm_wf (Do_Handlers out) \<Longrightarrow> gm_wf (Do_Handlers (merge_scope src out))"
  by (auto simp: merge_scope_def mergeHandlers_def distinct_update distinct_delete split: option.splits
      intro!: gm_wf_fold)

text \<open>
  C19. The typed resolver is the flat resolver: emitting the options it resolves gives, for every key, what
  resolving the emitted scopes gives.  The one exception is a handler set to the empty script, which
  the typed resolver deletes; the statement is for scopes without one.
\<close>

theorem ResolveDRBDOptions_flat:
  assumes "scripts_set c" "scripts_set g" "scripts_set d" "scripts_set r"
  shows "map_of (TypedDRBDOptionsToProps (ResolveDRBDOptions c g d r)) k =
    map_of (ResolveOptions (TypedDRBDOptionsToProps c) (TypedDRBDOptionsToProps g)
      (TypedDRBDOptionsToProps d) (TypedDRBDOptionsToProps r)) k"
proof -
  have wf: "handlers_wf x" if "scripts_set x" for x
    using that by (simp add: scripts_set_def handlers_wf_def split: option.splits)
  let ?out = "fold merge_scope [c, g, d, r] zero_DRBDOptions"
  have "gm_wf (Do_Handlers ?out)"
    using assms by (simp add: handlers_wf_merge zero_DRBDOptions_def)
  then have out: "handlers_wf (Some ?out)" by (simp add: handlers_wf_def)
  have zero: "typed_view (Some zero_DRBDOptions) k = None"
    by (simp add: typed_view_def zero_DRBDOptions_def handler_view_def res_view_def peer_view_def disk_view_def net_view_def)
  have view: "typed_view (Some ?out) k =
      or_else (typed_view r k) (or_else (typed_view d k) (or_else (typed_view g k) (typed_view c k)))"
    using assms by (simp add: merge_scope_view zero)
  have "map_of (ResolveOptions (TypedDRBDOptionsToProps c) (TypedDRBDOptionsToProps g)
      (TypedDRBDOptionsToProps d) (TypedDRBDOptionsToProps r)) k =
    or_else (typed_view r k) (or_else (typed_view d k) (or_else (typed_view g k) (typed_view c k)))"
  proof (cases "HasPrefix k PropPrefix")
    case False
    then have "typed_view x k = None" for x using typed_view_PropPrefix by blast
    then show ?thesis
      by (simp add: resolve_lookup gm_wf_TypedDRBDOptionsToProps TypedDRBDOptionsToProps_lookup wf assms)
  qed (simp add: resolve_lookup gm_wf_TypedDRBDOptionsToProps TypedDRBDOptionsToProps_lookup wf assms)
  moreover have "map_of (TypedDRBDOptionsToProps (ResolveDRBDOptions c g d r)) k =
    or_else (typed_view r k) (or_else (typed_view d k) (or_else (typed_view g k) (typed_view c k)))"
  proof (cases "anyNonNil [c, g, d, r]")
    case True
    then show ?thesis
      unfolding ResolveDRBDOptions_def Let_def using TypedDRBDOptionsToProps_lookup [OF out] view by simp
  next
    case False
    then show ?thesis
      by (simp add: ResolveDRBDOptions_def anyNonNil_def TypedDRBDOptionsToProps_def typed_view_def)
  qed
  ultimately show ?thesis by simp
qed

theorem ResolveDRBDOptions_flat_witness:
  "map_of (TypedDRBDOptionsToProps (ResolveDRBDOptions None
       (Some (zero_DRBDOptions\<lparr>Do_Net := Some (zero_Net\<lparr>Protocol := ''A''\<rparr>)\<rparr>)) None
       (Some (zero_DRBDOptions\<lparr>Do_Handlers := [(''fence-peer'', ''x'')]\<rparr>)))) ''DrbdOptions/Net/protocol'' =
   map_of (ResolveOptions [] (TypedDRBDOptionsToProps (Some (zero_DRBDOptions\<lparr>Do_Net := Some (zero_Net\<lparr>Protocol := ''A''\<rparr>)\<rparr>))) []
       (TypedDRBDOptionsToProps (Some (zero_DRBDOptions\<lparr>Do_Handlers := [(''fence-peer'', ''x'')]\<rparr>)))) ''DrbdOptions/Net/protocol''"
  using ResolveDRBDOptions_flat [of None "Some (zero_DRBDOptions\<lparr>Do_Net := Some (zero_Net\<lparr>Protocol := ''A''\<rparr>)\<rparr>)" None
      "Some (zero_DRBDOptions\<lparr>Do_Handlers := [(''fence-peer'', ''x'')]\<rparr>)" "''DrbdOptions/Net/protocol''"]
  by (simp add: scripts_set_def zero_DRBDOptions_def TypedDRBDOptionsToProps_def)

text \<open>The toggle for automatic tie-breakers is not among the fields the typed resolver merges.\<close>

theorem ResolveDRBDOptions_drops_tiebreaker:
  "map_option (\<lambda>s. map_option AutoTieBreaker (Do_Resource s)) (ResolveDRBDOptions None None
     (Some (zero_DRBDOptions\<lparr>Do_Resource := Some (zero_Res\<lparr>AutoTieBreaker := Some False\<rparr>)\<rparr>)) None) =
   Some (Some None)"
  by code_simp

end
