(* ===== verification/K8s_Names.thy ===== *)
theory K8s_Names
  imports Go_Strings
begin

text \<open>
  Names of Kubernetes objects, \<open>pkg/store/k8s/crdname.go\<close>.

  A LINSTOR name is folded to lower case and kept when the result is a DNS-1123 name; otherwise its
  bytes outside \<open>a-z0-9\<close> become dashes and a digest of the original is put in front.  The digest
  function (\<open>crypto/sha256\<close>) is an argument.  Names are byte strings of ASCII characters.
\<close>

section \<open>Definitions\<close>

definition is_lower_alnum :: "char \<Rightarrow> bool" where
  "is_lower_alnum c = (CHR ''a'' \<le> c \<and> c \<le> CHR ''z'' \<or> CHR ''0'' \<le> c \<and> c \<le> CHR ''9'')"

text \<open>One label of the regular expression: \<open>[a-z0-9]([-a-z0-9]*[a-z0-9])?\<close>.\<close>

definition rfc1123_label :: "string \<Rightarrow> bool" where
  "rfc1123_label l = (l \<noteq> [] \<and> is_lower_alnum (hd l) \<and> is_lower_alnum (last l) \<and>
     list_all (\<lambda>c. is_lower_alnum c \<or> c = CHR ''-'') l)"

definition rfc1123 :: "string \<Rightarrow> bool" where
  "rfc1123 s = list_all rfc1123_label (Split CHR ''.'' s)"

definition maxK8sName :: nat where "maxK8sName = 253"
definition hashPrefixBytes :: nat where "hashPrefixBytes = 4"

fun slug_loop :: "bool \<Rightarrow> string \<Rightarrow> string" where
  "slug_loop prevDash [] = []"
| "slug_loop prevDash (r # rs) =
     (if is_lower_alnum r then r # slug_loop False rs
      else if \<not> prevDash then CHR ''-'' # slug_loop True rs
      else slug_loop prevDash rs)"

definition hex_digit :: "nat \<Rightarrow> char" where
  "hex_digit n = (if n < 10 then char_of (48 + n) else char_of (87 + n))"

definition EncodeToString :: "string \<Rightarrow> string" where
  "EncodeToString bs = concat (map (\<lambda>b. [hex_digit (of_char b div 16), hex_digit (of_char b mod 16)]) bs)"

definition k8s_Name :: "(string \<Rightarrow> string) \<Rightarrow> string \<Rightarrow> string" where
  "k8s_Name sha256 inp =
     (let lower = ToLower inp in
      if lower \<noteq> [] \<and> length lower \<le> maxK8sName \<and> rfc1123 lower then lower
      else
        let slug = Trim (slug_loop True lower) ''-'';
            pre = EncodeToString (take hashPrefixBytes (sha256 inp));
            out = pre @ ''-'' @ slug
        in if maxK8sName < length out then take maxK8sName out else out)"

record object_meta =
  om_Name :: string
  om_Annotations :: "(string, string) gomap"

definition AnnotationLinstorName :: string where "AnnotationLinstorName = ''blockstor.io/linstor-name''"

definition SetOriginalName :: "object_meta \<Rightarrow> string \<Rightarrow> object_meta" where
  "SetOriginalName meta original =
     (if om_Name meta = original then meta
      else meta\<lparr>om_Annotations := AList.update AnnotationLinstorName original (om_Annotations meta)\<rparr>)"

definition OriginalName :: "object_meta \<Rightarrow> string" where
  "OriginalName meta =
     (case map_of (om_Annotations meta) AnnotationLinstorName of Some v \<Rightarrow> v | None \<Rightarrow> om_Name meta)"

section \<open>Shape of a name\<close>

lemma slug_loop_chars: "c \<in> set (slug_loop d s) \<Longrightarrow> is_lower_alnum c \<or> c = CHR ''-''"
  by (induction d s rule: slug_loop.induct) (auto split: if_splits)

lemma set_Trim: "set (Trim s cs) \<subseteq> set s"
  unfolding Trim_def using set_dropWhileD by (metis set_rev subsetI)

lemma Trim_ends:
  assumes "Trim s cs \<noteq> []"
  shows "hd (Trim s cs) \<notin> set cs \<and> last (Trim s cs) \<notin> set cs"
proof -
  let ?P = "\<lambda>c. c \<in> set cs"
  let ?a = "dropWhile ?P s"
  have r: "dropWhile ?P (rev ?a) \<noteq> []" using assms by (simp add: Trim_def)
  have l: "last (Trim s cs) = hd (dropWhile ?P (rev ?a))" unfolding Trim_def using r by (simp add: last_rev)
  have "\<exists>t. rev ?a = t @ dropWhile ?P (rev ?a)" by (metis takeWhile_dropWhile_id)
  then obtain t where t: "rev ?a = t @ dropWhile ?P (rev ?a)" by blast
  have a: "?a = Trim s cs @ rev t" unfolding Trim_def using arg_cong [OF t, of rev] by simp
  then have "?a \<noteq> []" using assms by simp
  then have "hd ?a \<notin> set cs" using hd_dropWhile [of ?P s] by blast
  moreover have "hd ?a = hd (Trim s cs)" using a assms by (metis hd_append2)
  moreover have "hd (dropWhile ?P (rev ?a)) \<notin> set cs" using hd_dropWhile [of ?P "rev ?a"] r by blast
  ultimately show ?thesis using l by simp
qed

lemma hex_digit_alnum: "n < 16 \<Longrightarrow> is_lower_alnum (hex_digit n)"
  by (simp add: less_Suc_eq numeral_eq_Suc) (elim disjE; simp; code_simp)

lemma of_char_bound: "of_char (c :: char) < (256 :: nat)"
  by (metis mod_less_divisor of_char_mod_256 zero_less_numeral)

lemma of_char_nibble: "of_char (c :: char) div 16 < (16 :: nat)"
  using of_char_bound [of c] by (intro less_mult_imp_div_less) simp

lemma EncodeToString_chars: "list_all is_lower_alnum (EncodeToString bs)"
  by (simp add: EncodeToString_def list_all_iff hex_digit_alnum of_char_nibble)

lemma EncodeToString_length: "length (EncodeToString bs) = 2 * length bs"
  by (induction bs) (simp_all add: EncodeToString_def)

lemma of_char_hex_digit: "n < 16 \<Longrightarrow> of_char (hex_digit n) = (if n < 10 then 48 + n else 87 + n)"
  by (simp add: hex_digit_def)

lemma hex_digit_inj:
  assumes "m < 16" "n < 16" "hex_digit m = hex_digit n"
  shows "m = n"
proof -
  have "of_char (hex_digit m) = (of_char (hex_digit n) :: nat)" by (simp only: assms(3))
  then show ?thesis
    unfolding of_char_hex_digit [OF assms(1)] of_char_hex_digit [OF assms(2)] by (simp split: if_splits)
qed

lemma EncodeToString_inj: "EncodeToString xs = EncodeToString ys \<Longrightarrow> xs = ys"
proof (induction xs arbitrary: ys)
  case Nil
  then show ?case by (cases ys) (simp_all add: EncodeToString_def)
next
  case (Cons x xs)
  then obtain y ys' where ys: "ys = y # ys'" by (cases ys) (simp_all add: EncodeToString_def)
  have e: "hex_digit (of_char x div 16) = hex_digit (of_char y div 16)"
    "hex_digit (of_char x mod 16) = hex_digit (of_char y mod 16)" "EncodeToString xs = EncodeToString ys'"
    using Cons.prems by (simp_all add: ys EncodeToString_def)
  have "of_char x div 16 = (of_char y div 16 :: nat)"
    by (rule hex_digit_inj [OF of_char_nibble of_char_nibble e(1)])
  moreover have "of_char x mod 16 = (of_char y mod 16 :: nat)"
    using hex_digit_inj [OF _ _ e(2)] by simp
  ultimately have "of_char x = (of_char y :: nat)" by (metis mult_div_mod_eq)
  then show ?case using Cons.IH [OF e(3)] by (simp add: ys)
qed



lemma slug_keeps: "c \<in> set s \<Longrightarrow> is_lower_alnum c \<Longrightarrow> c \<in> set (slug_loop d s)"
  by (induction d s rule: slug_loop.induct) auto

lemma Trim_keeps: "c \<in> set s \<Longrightarrow> c \<notin> set cs \<Longrightarrow> c \<in> set (Trim s cs)"
proof -
  have dw: "c \<in> set (dropWhile P xs)" if "c \<in> set xs" "\<not> P c" for P and xs :: string
    using that by (induction xs) auto
  show "c \<in> set s \<Longrightarrow> c \<notin> set cs \<Longrightarrow> c \<in> set (Trim s cs)"
    unfolding Trim_def by (simp add: dw)
qed

lemma not_alnum_sep [simp]: "\<not> is_lower_alnum (CHR ''-'')" "\<not> is_lower_alnum (CHR ''.'')"
  by code_simp+

lemma to_lower_alnum [simp]: "is_lower_alnum c \<or> c = CHR ''-'' \<Longrightarrow> to_lower c = c"
proof -
  assume "is_lower_alnum c \<or> c = CHR ''-''"
  then have "\<not> (CHR ''A'' \<le> c \<and> c \<le> CHR ''Z'')"
    by (auto simp: is_lower_alnum_def less_eq_char_def)
  then show ?thesis unfolding to_lower_def by (rule if_not_P)
qed

text \<open>The name a slug makes, and that folding leaves it alone.\<close>

lemma slug_name:
  fixes inp
  defines "slug \<equiv> Trim (slug_loop True (ToLower inp)) ''-''"
  assumes "length bs = 4" "list_ex is_lower_alnum (ToLower inp)"
  shows "rfc1123 (EncodeToString bs @ ''-'' @ slug)" "ToLower (EncodeToString bs @ ''-'' @ slug) = EncodeToString bs @ ''-'' @ slug"
proof -
  let ?n = "EncodeToString bs @ ''-'' @ slug"
  obtain c where c: "c \<in> set (ToLower inp)" "is_lower_alnum c" using assms(3) by (auto simp: list_ex_iff)
  then have "c \<in> set slug" unfolding slug_def by (intro Trim_keeps slug_keeps) auto
  then have ne: "slug \<noteq> []" by auto
  have chars: "list_all (\<lambda>c. is_lower_alnum c \<or> c = CHR ''-'') slug"
    unfolding slug_def list_all_iff using set_Trim slug_loop_chars by blast
  have hex: "list_all is_lower_alnum (EncodeToString bs)" "EncodeToString bs \<noteq> []"
    using EncodeToString_chars EncodeToString_length [of bs] assms(2) by auto
  have "last slug \<noteq> CHR ''-''" using Trim_ends [of "slug_loop True (ToLower inp)" "''-''"] ne by (simp add: slug_def)
  then have last: "is_lower_alnum (last slug)"
    using chars ne last_in_set unfolding list_all_iff by blast
  have all: "list_all (\<lambda>c. is_lower_alnum c \<or> c = CHR ''-'') ?n"
    using chars hex(1) by (auto simp: list_all_iff)
  moreover have "\<not> (is_lower_alnum (CHR ''.'') \<or> CHR ''.'' = CHR ''-'')" by simp
  ultimately have "CHR ''.'' \<notin> set ?n" unfolding list_all_iff by blast
  moreover have "rfc1123_label ?n"
    using all hex ne last by (auto simp: rfc1123_label_def list_all_iff)
  ultimately show "rfc1123 ?n" by (simp add: rfc1123_def Split_no_sep)
  show "ToLower ?n = ?n" unfolding ToLower_def using all by (intro map_idI) (auto simp: list_all_iff)
qed

lemma to_lower_idem [simp]: "to_lower (to_lower c) = to_lower c"
proof (cases "CHR ''A'' \<le> c \<and> c \<le> CHR ''Z''")
  case True
  then have "of_char c \<in> {65..(90 :: nat)}" by (simp add: less_eq_char_def)
  then have "of_char (to_lower c) = of_char c + (32 :: nat)" "of_char c + 32 < (256 :: nat)"
    using True by (simp_all add: to_lower_def)
  then have "\<not> to_lower c \<le> CHR ''Z''"
    using \<open>of_char c \<in> {65..90}\<close> by (simp add: less_eq_char_def)
  then show ?thesis by (simp add: to_lower_def [of "to_lower c"])
next
  case False
  then have "to_lower c = c" unfolding to_lower_def by (rule if_not_P)
  then show ?thesis by simp
qed

lemma ToLower_idem [simp]: "ToLower (ToLower s) = ToLower s"
  by (simp add: ToLower_def)



text \<open>The spelling the operator gave is kept on the object.\<close>

text \<open>
  C21. The original name survives the folding: an object created under the folded name, without the
  annotation before, reports the name the operator gave.
\<close>

theorem OriginalName_roundtrip:
  assumes "map_of ann AnnotationLinstorName = None"
  shows "OriginalName (SetOriginalName \<lparr>om_Name = k8s_Name sha256 inp, om_Annotations = ann\<rparr> inp) = inp"
  using assms by (simp add: SetOriginalName_def OriginalName_def gomap_simps)

theorem OriginalName_roundtrip_witness:
  "OriginalName (SetOriginalName \<lparr>om_Name = k8s_Name (\<lambda>s. replicate 32 CHR ''k'') ''DfltRscGrp'', om_Annotations = []\<rparr>
     ''DfltRscGrp'') = ''DfltRscGrp''"
  by (rule OriginalName_roundtrip) simp

section \<open>Where the documented promises end\<close>

text \<open>
  Names that need a slug are not case-insensitive: the digest is taken of the name as spelled, so two
  spellings of one LINSTOR name are two objects.
\<close>

theorem k8s_Name_case_sensitive:
  assumes "length (sha256 ''Foo_Bar'') = 32" "length (sha256 ''foo_bar'') = 32"
    and "take 4 (sha256 ''Foo_Bar'') \<noteq> take 4 (sha256 ''foo_bar'')"
  shows "ToLower ''Foo_Bar'' = ToLower ''foo_bar'' \<and> k8s_Name sha256 ''Foo_Bar'' \<noteq> k8s_Name sha256 ''foo_bar''"
proof -
  have l: "ToLower ''Foo_Bar'' = ''foo_bar''" "ToLower ''foo_bar'' = ''foo_bar''" by code_simp+
  have r: "\<not> rfc1123 ''foo_bar''" "Trim (slug_loop True ''foo_bar'') ''-'' = ''foo-bar''" by code_simp+
  have n: "k8s_Name sha256 s = EncodeToString (take 4 (sha256 s)) @ ''-foo-bar''"
    if "ToLower s = ''foo_bar''" "length (sha256 s) = 32" for s
    using that r by (simp add: k8s_Name_def Let_def hashPrefixBytes_def EncodeToString_length maxK8sName_def)
  have "EncodeToString (take 4 (sha256 ''Foo_Bar'')) \<noteq> EncodeToString (take 4 (sha256 ''foo_bar''))"
    using EncodeToString_inj assms(3) by blast
  then show ?thesis using l by (simp add: n assms)
qed

text \<open>
  A slug's name is also the name of the LINSTOR name spelled like it: two distinct LINSTOR names share
  one object.
\<close>

theorem k8s_Name_collides:
  assumes "length (sha256 ''foo_bar'') = 32"
  shows "\<exists>other. other \<noteq> ''foo_bar'' \<and> k8s_Name sha256 other = k8s_Name sha256 ''foo_bar''"
proof -
  have r: "ToLower ''foo_bar'' = ''foo_bar''" "\<not> rfc1123 ''foo_bar''"
    "Trim (slug_loop True ''foo_bar'') ''-'' = ''foo-bar''" "list_ex is_lower_alnum ''foo_bar''" by code_simp+
  have n: "k8s_Name sha256 ''foo_bar'' = EncodeToString (take 4 (sha256 ''foo_bar'')) @ ''-foo-bar''"
    using assms r by (simp add: k8s_Name_def Let_def hashPrefixBytes_def EncodeToString_length maxK8sName_def)
  have "length (k8s_Name sha256 ''foo_bar'') \<noteq> length ''foo_bar''"
    using assms by (simp add: n EncodeToString_length)
  moreover have "k8s_Name sha256 (k8s_Name sha256 ''foo_bar'') = k8s_Name sha256 ''foo_bar''"
  proof -
    have four: "length (take 4 (sha256 ''foo_bar'')) = 4" using assms by simp
    define out where "out = EncodeToString (take 4 (sha256 ''foo_bar'')) @ ''-'' @ ''foo-bar''"
    have out: "rfc1123 out" "ToLower out = out"
      using slug_name [OF four, of "''foo_bar''", unfolded r(1,3), OF r(4)] by (simp_all only: out_def)
    have "out \<noteq> [] \<and> length out \<le> maxK8sName \<and> rfc1123 out"
      using out(1) assms by (simp add: out_def EncodeToString_length maxK8sName_def)
    then have "k8s_Name sha256 out = out" unfolding k8s_Name_def Let_def out(2) by (rule if_P)
    moreover have "k8s_Name sha256 ''foo_bar'' = out" by (simp add: n out_def)
    ultimately show ?thesis by simp
  qed
  ultimately show ?thesis by metis
qed

text \<open>A name without a letter or digit ends in a dash, which the API server rejects.\<close>

theorem k8s_Name_dash:
  assumes "length (sha256 ''_'') = 32"
  shows "\<not> rfc1123 (k8s_Name sha256 ''_'')"
proof -
  have r: "ToLower ''_'' = ''_''" "\<not> rfc1123 ''_''" "Trim (slug_loop True ''_'') ''-'' = []" by code_simp+
  let ?n = "EncodeToString (take 4 (sha256 ''_'')) @ ''-''"
  have n: "k8s_Name sha256 ''_'' = ?n"
    using assms r by (simp add: k8s_Name_def Let_def hashPrefixBytes_def EncodeToString_length maxK8sName_def)
  have "CHR ''.'' \<notin> set ?n"
    using EncodeToString_chars [of "take 4 (sha256 ''_'')"] by (auto simp: list_all_iff)
  then show ?thesis
    unfolding n rfc1123_def by (simp add: Split_no_sep rfc1123_label_def)
qed

end
