(* ===== verification/Drbd_Transcode.thy ===== *)
theory Drbd_Transcode
  imports Drbd_Options K8s_Names
begin

text \<open>
  Storing DRBD properties: \<open>pkg/store/k8s/drbd_transcode.go\<close> splits the flat property map of the REST
  interface into typed options and leftovers and puts it together again;
  \<open>pkg/effectiveprops/effective.go\<close> resolves what is stored at the four scopes into the properties of
  one resource.

  A Go map that is \<open>nil\<close> is the empty map.  The reads of the API server in \<open>Resolve\<close> are arguments: what
  \<open>Get\<close> answers for the controller configuration and for a resource group.
\<close>

section \<open>Splitting a property map\<close>

definition parseBool :: "string \<Rightarrow> bool option" where
  "parseBool val = (let l = ToLower val in
     if l = ''yes'' \<or> l = ''true'' \<or> l = ''1'' then Some True
     else if l = ''no'' \<or> l = ''false'' \<or> l = ''0'' then Some False
     else None)"


definition applySectionlessKey :: "DRBDOptions \<Rightarrow> string \<Rightarrow> string \<Rightarrow> DRBDOptions \<times> bool" where
  "applySectionlessKey opts name val =
     (if name = ''AutoAddQuorumTiebreaker'' then
        (case parseBool val of
           None \<Rightarrow> (opts, False)
         | Some b \<Rightarrow> (opts\<lparr>Do_Resource := Some ((or_new zero_Res (Do_Resource opts))\<lparr>AutoTieBreaker := Some b\<rparr>)\<rparr>, True))
      else (opts, False))"

definition applyNetKey :: "DRBDOptions \<Rightarrow> string \<Rightarrow> string \<Rightarrow> DRBDOptions \<times> bool" where
  "applyNetKey opts name val =
     (let n = or_new zero_Net (Do_Net opts); opts1 = opts\<lparr>Do_Net := Some n\<rparr> in
      if name = ''protocol'' then (opts\<lparr>Do_Net := Some (n\<lparr>Protocol := val\<rparr>)\<rparr>, True)
      else if name = ''max-buffers'' then
        (case ParseInt 32 val of
           None \<Rightarrow> (opts1, False) | Some i \<Rightarrow> (opts\<lparr>Do_Net := Some (n\<lparr>MaxBuffers := Some i\<rparr>)\<rparr>, True))
      else if name = ''allow-two-primaries'' then
        (case parseBool val of
           Some b \<Rightarrow> (opts\<lparr>Do_Net := Some (n\<lparr>AllowTwoPrimaries := Some b\<rparr>)\<rparr>, True) | None \<Rightarrow> (opts1, False))
      else if name = ''after-sb-0pri'' then (opts\<lparr>Do_Net := Some (n\<lparr>AfterSb0Pri := val\<rparr>)\<rparr>, True)
      else if name = ''after-sb-1pri'' then (opts\<lparr>Do_Net := Some (n\<lparr>AfterSb1Pri := val\<rparr>)\<rparr>, True)
      else if name = ''after-sb-2pri'' then (opts\<lparr>Do_Net := Some (n\<lparr>AfterSb2Pri := val\<rparr>)\<rparr>, True)
      else (opts1, False))"

definition applyDiskKey :: "DRBDOptions \<Rightarrow> string \<Rightarrow> string \<Rightarrow> DRBDOptions \<times> bool" where
  "applyDiskKey opts name val =
     (let d = or_new zero_Disk (Do_Disk opts); opts1 = opts\<lparr>Do_Disk := Some d\<rparr> in
      if name = ''on-io-error'' then (opts\<lparr>Do_Disk := Some (d\<lparr>OnIOError := val\<rparr>)\<rparr>, True)
      else if name = ''al-extents'' then
        (case ParseInt 32 val of
           None \<Rightarrow> (opts1, False) | Some i \<Rightarrow> (opts\<lparr>Do_Disk := Some (d\<lparr>ALExtents := Some i\<rparr>)\<rparr>, True))
      else (opts1, False))"

definition applyPeerDeviceKey :: "DRBDOptions \<Rightarrow> string \<Rightarrow> string \<Rightarrow> DRBDOptions \<times> bool" where
  "applyPeerDeviceKey opts name val =
     (let p = or_new zero_PeerDevice (Do_PeerDevice opts) in
      if name = ''c-max-rate'' then (opts\<lparr>Do_PeerDevice := Some (p\<lparr>CMaxRate := val\<rparr>)\<rparr>, True)
      else (opts\<lparr>Do_PeerDevice := Some p\<rparr>, False))"

definition applyResourceKey :: "DRBDOptions \<Rightarrow> string \<Rightarrow> string \<Rightarrow> DRBDOptions \<times> bool" where
  "applyResourceKey opts name val =
     (let r = or_new zero_Res (Do_Resource opts); opts1 = opts\<lparr>Do_Resource := Some r\<rparr> in
      if name = ''auto-promote'' then
        (case parseBool val of
           Some b \<Rightarrow> (opts\<lparr>Do_Resource := Some (r\<lparr>AutoPromote := Some b\<rparr>)\<rparr>, True) | None \<Rightarrow> (opts1, False))
      else if name = ''quorum'' then (opts\<lparr>Do_Resource := Some (r\<lparr>Quorum := val\<rparr>)\<rparr>, True)
      else if name = ''on-no-quorum'' then (opts\<lparr>Do_Resource := Some (r\<lparr>OnNoQuorum := val\<rparr>)\<rparr>, True)
      else (opts1, False))"

definition applyHandlerKey :: "DRBDOptions \<Rightarrow> string \<Rightarrow> string \<Rightarrow> DRBDOptions \<times> bool" where
  "applyHandlerKey opts name val = (opts\<lparr>Do_Handlers := AList.update name val (Do_Handlers opts)\<rparr>, True)"





section \<open>Putting it together again\<close>







definition stripDRBDProps :: "props \<Rightarrow> props" where
  "stripDRBDProps p =
     (if p = [] then []
      else fold (\<lambda>(k, v) out. if HasPrefix k PropPrefix then out else AList.update k v out) p [])"

definition mergeProps :: "props \<Rightarrow> props \<Rightarrow> props" where
  "mergeProps residual drbd =
     (if residual = [] \<and> drbd = [] then [] else gm_copy (gm_copy [] residual) drbd)"

section \<open>Lookup in what is stored\<close>





























lemma apply_fields:
  "applyNetKey opts name val = (opts', ok) \<Longrightarrow> Do_Disk opts' = Do_Disk opts \<and> Do_PeerDevice opts' = Do_PeerDevice opts \<and>
     Do_Resource opts' = Do_Resource opts \<and> Do_Handlers opts' = Do_Handlers opts"
  "applyDiskKey opts name val = (opts', ok) \<Longrightarrow> Do_Net opts' = Do_Net opts \<and> Do_PeerDevice opts' = Do_PeerDevice opts \<and>
     Do_Resource opts' = Do_Resource opts \<and> Do_Handlers opts' = Do_Handlers opts"
  "applyPeerDeviceKey opts name val = (opts', ok) \<Longrightarrow> Do_Net opts' = Do_Net opts \<and> Do_Disk opts' = Do_Disk opts \<and>
     Do_Resource opts' = Do_Resource opts \<and> Do_Handlers opts' = Do_Handlers opts"
  "applyResourceKey opts name val = (opts', ok) \<Longrightarrow> Do_Net opts' = Do_Net opts \<and> Do_Disk opts' = Do_Disk opts \<and>
     Do_PeerDevice opts' = Do_PeerDevice opts \<and> Do_Handlers opts' = Do_Handlers opts"
  "applyHandlerKey opts name val = (opts', ok) \<Longrightarrow> Do_Net opts' = Do_Net opts \<and> Do_Disk opts' = Do_Disk opts \<and>
     Do_PeerDevice opts' = Do_PeerDevice opts \<and> Do_Resource opts' = Do_Resource opts"
  by (auto simp: applyNetKey_def applyDiskKey_def applyPeerDeviceKey_def applyResourceKey_def applyHandlerKey_def Let_def
      split: if_splits option.splits)




lemma TrimPrefix_append [simp]: "TrimPrefix (p @ s) p = s"
  by (simp add: TrimPrefix_def)





lemma apply_handlers [simp]:
  "Do_Handlers (fst (applyNetKey opts name val)) = Do_Handlers opts"
  "Do_Handlers (fst (applyDiskKey opts name val)) = Do_Handlers opts"
  "Do_Handlers (fst (applyPeerDeviceKey opts name val)) = Do_Handlers opts"
  "Do_Handlers (fst (applyResourceKey opts name val)) = Do_Handlers opts"
  "Do_Handlers (fst (applySectionlessKey opts name val)) = Do_Handlers opts"
  "Do_Handlers (fst (applyHandlerKey opts name val)) = AList.update name val (Do_Handlers opts)"
  subgoal by (cases "applyNetKey opts name val") (simp add: apply_fields(1))
  subgoal by (cases "applyDiskKey opts name val") (simp add: apply_fields(2))
  subgoal by (cases "applyPeerDeviceKey opts name val") (simp add: apply_fields(3))
  subgoal by (cases "applyResourceKey opts name val") (simp add: apply_fields(4))
  subgoal by (cases "parseBool val") (simp_all add: applySectionlessKey_def)
  subgoal by (simp add: applyHandlerKey_def)
  done







end
