(* ===== verification/Effective_Props.thy ===== *)
theory Effective_Props
  imports Drbd_Transcode
begin

text \<open>
  The effective properties of one resource, \<open>pkg/effectiveprops/effective.go\<close>.

  \<open>Resolve\<close> reads the controller configuration and the resource group from the API server; what those
  reads answer is an argument, with "not found" apart from other errors as the code treats them.
\<close>

datatype kerr = KNotFound | KErr string

record scopeInfo =
  si_Props :: props
  si_Typed :: "DRBDOptions option"
  si_Extras :: props

record rd_spec =
  rs_Props :: props
  rs_DRBDOptions :: "DRBDOptions option"
  rs_ExtraProps :: props
  rs_ResourceGroupName :: string

definition zero_scope :: scopeInfo where
  "zero_scope = \<lparr>si_Props = [], si_Typed = None, si_Extras = []\<rparr>"

definition overlayNonDRBDExtras :: "props \<Rightarrow> props \<Rightarrow> props" where
  "overlayNonDRBDExtras out src =
     fold (\<lambda>(key, value) out. if HasPrefix key PropPrefix then out else AList.update key value out) src out"

definition emitScopeProps :: "DRBDOptions option \<Rightarrow> props \<Rightarrow> props" where
  "emitScopeProps typed extras = gm_copy (gm_copy [] extras) (TypedDRBDOptionsToProps typed)"

definition mergeScopeProps :: "props \<Rightarrow> props \<Rightarrow> props" where
  "mergeScopeProps drbdProps rawProps = gm_copy (gm_copy [] rawProps) drbdProps"

definition controllerConfig :: "kerr + scopeInfo \<Rightarrow> kerr + scopeInfo option" where
  "controllerConfig answer =
     (case answer of
        Inl e \<Rightarrow> if e = KNotFound then Inr None else Inl e
      | Inr cfg \<Rightarrow> Inr (Some cfg))"

definition scopeInputs ::
  "(string \<Rightarrow> string) \<Rightarrow> (string \<Rightarrow> kerr + scopeInfo) \<Rightarrow> rd_spec option \<Rightarrow> kerr + scopeInfo \<times> scopeInfo"
where
  "scopeInputs sha256 getRG rd =
     (case rd of
        None \<Rightarrow> Inr (zero_scope, zero_scope)
      | Some d \<Rightarrow>
          (let rdInfo = \<lparr>si_Props = rs_Props d, si_Typed = rs_DRBDOptions d, si_Extras = rs_ExtraProps d\<rparr> in
           if rs_ResourceGroupName d = [] then Inr (zero_scope, rdInfo)
           else case getRG (k8s_Name sha256 (rs_ResourceGroupName d)) of
                  Inr rg \<Rightarrow> Inr (rg, rdInfo)
                | Inl e \<Rightarrow> if e = KNotFound then Inr (zero_scope, rdInfo) else Inl e))"

definition effective_Resolve ::
  "(string \<Rightarrow> string) \<Rightarrow> kerr + scopeInfo \<Rightarrow> (string \<Rightarrow> kerr + scopeInfo) \<Rightarrow> scopeInfo option \<Rightarrow> rd_spec option \<Rightarrow>
   kerr + props"
where
  "effective_Resolve sha256 cfgAnswer getRG target rd =
     (case target of
        None \<Rightarrow> Inr []
      | Some t \<Rightarrow>
          (case controllerConfig cfgAnswer of
             Inl e \<Rightarrow> Inl e
           | Inr ctrlCfg \<Rightarrow>
               (let (ctrlTyped, ctrlExtras) = (case ctrlCfg of None \<Rightarrow> (None, []) | Some c \<Rightarrow> (si_Typed c, si_Extras c)) in
                case scopeInputs sha256 getRG rd of
                  Inl e \<Rightarrow> Inl e
                | Inr (rgInfo, rdInfo) \<Rightarrow>
                    (let ctrlProps = emitScopeProps ctrlTyped ctrlExtras;
                         rgProps = emitScopeProps (si_Typed rgInfo) (si_Extras rgInfo);
                         rdProps = emitScopeProps (si_Typed rdInfo) (si_Extras rdInfo);
                         resProps = emitScopeProps (si_Typed t) (si_Extras t);
                         ctrlMerged = mergeScopeProps ctrlProps [];
                         rgMerged = mergeScopeProps rgProps (si_Props rgInfo);
                         rdMerged = mergeScopeProps rdProps (si_Props rdInfo);
                         resMerged = mergeScopeProps resProps (si_Props t);
                         out = ResolveOptions ctrlMerged rgMerged rdMerged resMerged
                     in Inr (overlayNonDRBDExtras (overlayNonDRBDExtras out (si_Extras rgInfo)) (si_Extras rdInfo))))))"

section \<open>What a scope contributes\<close>











definition ex_rd :: rd_spec where
  "ex_rd = \<lparr>rs_Props = [], rs_DRBDOptions = Some (zero_DRBDOptions\<lparr>Do_Net := Some (zero_Net\<lparr>Protocol := ''A''\<rparr>)\<rparr>),
     rs_ExtraProps = [(''FileSystem/Type'', ''ext4'')], rs_ResourceGroupName = []\<rparr>"

definition ex_target :: scopeInfo where
  "ex_target = \<lparr>si_Props = [(''StorPoolName'', ''p'')], si_Typed = None, si_Extras = [(''FileSystem/Type'', ''xfs'')]\<rparr>"


text \<open>
  A resource's own leftover property does not win: the comment on the overlay says the resource scope has
  already won, and the overlay then replaces its value by the definition's.
\<close>

theorem Resolve_overrides_resource:
  "map_of (si_Extras ex_target) ''FileSystem/Type'' = Some ''xfs'' \<and>
   (case effective_Resolve (\<lambda>s. []) (Inl KNotFound) (\<lambda>n. Inl KNotFound) (Some ex_target) (Some ex_rd) of
      Inr out \<Rightarrow> map_of out ''FileSystem/Type'' = Some ''ext4'' | Inl _ \<Rightarrow> False)"
  by code_simp

end
