(* ===== verification/Drbd_States.thy ===== *)
theory Drbd_States
  imports Go_Strings
begin

text \<open>
  The protocol states of DRBD (\<open>pkg/drbd/states.go\<close>).  The code keeps a state as the string the
  kernel prints and converts without checking, so that a value outside the table is possible; here
  every table is a datatype with one constructor per constant and one more for any other string.
  The conversions are inverse to each other, and the predicates are the switches of the source.
\<close>

text \<open>The error of a parse names the table and the rejected string.\<close>

datatype state_err = UnknownState string string

section \<open>Roles\<close>

datatype Role = RoleUnknown | RolePrimary | RoleSecondary | RoleOther string

fun Role_String :: "Role \<Rightarrow> string" where
  "Role_String RoleUnknown = ''Unknown''"
| "Role_String RolePrimary = ''Primary''"
| "Role_String RoleSecondary = ''Secondary''"
| "Role_String (RoleOther s) = s"

text \<open>The conversion \<open>Role(s)\<close>.\<close>

definition Role_of :: "string \<Rightarrow> Role" where
  "Role_of s =
     (case map_of (map (\<lambda>d. (Role_String d, d))
        [RoleUnknown, RolePrimary, RoleSecondary]) s of
        Some d \<Rightarrow> d | None \<Rightarrow> RoleOther s)"

definition Role_IsPrimary :: "Role \<Rightarrow> bool" where
  "Role_IsPrimary r = (r = RolePrimary)"

definition Role_IsSecondary :: "Role \<Rightarrow> bool" where
  "Role_IsSecondary r = (r = RoleSecondary)"

definition Role_IsKnown :: "Role \<Rightarrow> bool" where
  "Role_IsKnown r = (r \<in> {RolePrimary, RoleSecondary})"

definition ParseRole :: "string \<Rightarrow> state_err + Role" where
  "ParseRole s = (case Role_of s of RoleOther _ \<Rightarrow> Inl (UnknownState ''role'' s) | d \<Rightarrow> Inr d)"

section \<open>Disk states\<close>

datatype DiskState = DiskStateDiskless | DiskStateAttaching | DiskStateDetaching
  | DiskStateFailed | DiskStateNegotiating | DiskStateInconsistent | DiskStateOutdated
  | DiskStateDUnknown | DiskStateConsistent | DiskStateUpToDate | DiskStateOther string

fun DiskState_String :: "DiskState \<Rightarrow> string" where
  "DiskState_String DiskStateDiskless = ''Diskless''"
| "DiskState_String DiskStateAttaching = ''Attaching''"
| "DiskState_String DiskStateDetaching = ''Detaching''"
| "DiskState_String DiskStateFailed = ''Failed''"
| "DiskState_String DiskStateNegotiating = ''Negotiating''"
| "DiskState_String DiskStateInconsistent = ''Inconsistent''"
| "DiskState_String DiskStateOutdated = ''Outdated''"
| "DiskState_String DiskStateDUnknown = ''DUnknown''"
| "DiskState_String DiskStateConsistent = ''Consistent''"
| "DiskState_String DiskStateUpToDate = ''UpToDate''"
| "DiskState_String (DiskStateOther s) = s"

text \<open>The conversion \<open>DiskState(s)\<close>.\<close>

definition DiskState_of :: "string \<Rightarrow> DiskState" where
  "DiskState_of s =
     (case map_of (map (\<lambda>d. (DiskState_String d, d))
        [DiskStateDiskless, DiskStateAttaching, DiskStateDetaching, DiskStateFailed,
         DiskStateNegotiating, DiskStateInconsistent, DiskStateOutdated, DiskStateDUnknown,
         DiskStateConsistent, DiskStateUpToDate]) s of
        Some d \<Rightarrow> d | None \<Rightarrow> DiskStateOther s)"

definition DiskState_IsTerminalGood :: "DiskState \<Rightarrow> bool" where
  "DiskState_IsTerminalGood d = (d = DiskStateUpToDate)"

definition DiskState_IsTransient :: "DiskState \<Rightarrow> bool" where
  "DiskState_IsTransient d = (d \<in> {DiskStateAttaching, DiskStateDetaching, DiskStateNegotiating})"

definition DiskState_RequiresIntervention :: "DiskState \<Rightarrow> bool" where
  "DiskState_RequiresIntervention d = (d = DiskStateFailed)"

definition DiskState_IsDiskless :: "DiskState \<Rightarrow> bool" where
  "DiskState_IsDiskless d = (d = DiskStateDiskless)"

definition ParseDiskState :: "string \<Rightarrow> state_err + DiskState" where
  "ParseDiskState s = (case DiskState_of s of DiskStateOther _ \<Rightarrow> Inl (UnknownState ''disk state'' s) | d \<Rightarrow> Inr d)"

section \<open>Connection states\<close>

datatype ConnectionState = ConnectionStateStandAlone | ConnectionStateDisconnecting
  | ConnectionStateUnconnected | ConnectionStateTimeout | ConnectionStateBrokenPipe
  | ConnectionStateNetworkFailure | ConnectionStateProtocolError | ConnectionStateTearDown
  | ConnectionStateConnecting | ConnectionStateConnected | ConnectionStateOther string

fun ConnectionState_String :: "ConnectionState \<Rightarrow> string" where
  "ConnectionState_String ConnectionStateStandAlone = ''StandAlone''"
| "ConnectionState_String ConnectionStateDisconnecting = ''Disconnecting''"
| "ConnectionState_String ConnectionStateUnconnected = ''Unconnected''"
| "ConnectionState_String ConnectionStateTimeout = ''Timeout''"
| "ConnectionState_String ConnectionStateBrokenPipe = ''BrokenPipe''"
| "ConnectionState_String ConnectionStateNetworkFailure = ''NetworkFailure''"
| "ConnectionState_String ConnectionStateProtocolError = ''ProtocolError''"
| "ConnectionState_String ConnectionStateTearDown = ''TearDown''"
| "ConnectionState_String ConnectionStateConnecting = ''Connecting''"
| "ConnectionState_String ConnectionStateConnected = ''Connected''"
| "ConnectionState_String (ConnectionStateOther s) = s"

text \<open>The conversion \<open>ConnectionState(s)\<close>.\<close>

definition ConnectionState_of :: "string \<Rightarrow> ConnectionState" where
  "ConnectionState_of s =
     (case map_of (map (\<lambda>d. (ConnectionState_String d, d))
        [ConnectionStateStandAlone, ConnectionStateDisconnecting,
         ConnectionStateUnconnected, ConnectionStateTimeout, ConnectionStateBrokenPipe,
         ConnectionStateNetworkFailure, ConnectionStateProtocolError,
         ConnectionStateTearDown, ConnectionStateConnecting, ConnectionStateConnected]) s of
        Some d \<Rightarrow> d | None \<Rightarrow> ConnectionStateOther s)"

definition ConnectionState_IsTerminalGood :: "ConnectionState \<Rightarrow> bool" where
  "ConnectionState_IsTerminalGood c = (c = ConnectionStateConnected)"

definition ConnectionState_IsTransient :: "ConnectionState \<Rightarrow> bool" where
  "ConnectionState_IsTransient c = (c \<in> {ConnectionStateUnconnected, ConnectionStateConnecting,
     ConnectionStateDisconnecting, ConnectionStateTearDown})"

definition ConnectionState_RequiresIntervention :: "ConnectionState \<Rightarrow> bool" where
  "ConnectionState_RequiresIntervention c = (c \<in> {ConnectionStateStandAlone, ConnectionStateProtocolError})"

definition ConnectionState_IsTransportError :: "ConnectionState \<Rightarrow> bool" where
  "ConnectionState_IsTransportError c = (c \<in> {ConnectionStateTimeout, ConnectionStateBrokenPipe, ConnectionStateNetworkFailure})"

definition ParseConnectionState :: "string \<Rightarrow> state_err + ConnectionState" where
  "ParseConnectionState s = (case ConnectionState_of s of ConnectionStateOther _ \<Rightarrow> Inl (UnknownState ''connection state'' s) | d \<Rightarrow> Inr d)"

section \<open>Replication states\<close>

datatype ReplState = ReplStateOff | ReplStateEstablished | ReplStateStartingSyncS
  | ReplStateStartingSyncT | ReplStateWFBitMapS | ReplStateWFBitMapT | ReplStateWFSyncUUID
  | ReplStateSyncSource | ReplStateSyncTarget | ReplStateVerifyS | ReplStateVerifyT
  | ReplStatePausedSyncS | ReplStatePausedSyncT | ReplStateAhead | ReplStateBehind
  | ReplStateOther string

fun ReplState_String :: "ReplState \<Rightarrow> string" where
  "ReplState_String ReplStateOff = ''Off''"
| "ReplState_String ReplStateEstablished = ''Established''"
| "ReplState_String ReplStateStartingSyncS = ''StartingSyncS''"
| "ReplState_String ReplStateStartingSyncT = ''StartingSyncT''"
| "ReplState_String ReplStateWFBitMapS = ''WFBitMapS''"
| "ReplState_String ReplStateWFBitMapT = ''WFBitMapT''"
| "ReplState_String ReplStateWFSyncUUID = ''WFSyncUUID''"
| "ReplState_String ReplStateSyncSource = ''SyncSource''"
| "ReplState_String ReplStateSyncTarget = ''SyncTarget''"
| "ReplState_String ReplStateVerifyS = ''VerifyS''"
| "ReplState_String ReplStateVerifyT = ''VerifyT''"
| "ReplState_String ReplStatePausedSyncS = ''PausedSyncS''"
| "ReplState_String ReplStatePausedSyncT = ''PausedSyncT''"
| "ReplState_String ReplStateAhead = ''Ahead''"
| "ReplState_String ReplStateBehind = ''Behind''"
| "ReplState_String (ReplStateOther s) = s"

text \<open>The conversion \<open>ReplState(s)\<close>.\<close>

definition ReplState_of :: "string \<Rightarrow> ReplState" where
  "ReplState_of s =
     (case map_of (map (\<lambda>d. (ReplState_String d, d))
        [ReplStateOff, ReplStateEstablished, ReplStateStartingSyncS, ReplStateStartingSyncT,
         ReplStateWFBitMapS, ReplStateWFBitMapT, ReplStateWFSyncUUID, ReplStateSyncSource,
         ReplStateSyncTarget, ReplStateVerifyS, ReplStateVerifyT, ReplStatePausedSyncS,
         ReplStatePausedSyncT, ReplStateAhead, ReplStateBehind]) s of
        Some d \<Rightarrow> d | None \<Rightarrow> ReplStateOther s)"

definition ReplState_IsTerminalGood :: "ReplState \<Rightarrow> bool" where
  "ReplState_IsTerminalGood r = (r = ReplStateEstablished)"

definition ReplState_IsSyncing :: "ReplState \<Rightarrow> bool" where
  "ReplState_IsSyncing r = (r \<in> {ReplStateSyncSource, ReplStateSyncTarget})"

definition ReplState_IsSyncSource :: "ReplState \<Rightarrow> bool" where
  "ReplState_IsSyncSource r = (r \<in> {ReplStateSyncSource, ReplStateStartingSyncS, ReplStatePausedSyncS})"

definition ReplState_IsSyncTarget :: "ReplState \<Rightarrow> bool" where
  "ReplState_IsSyncTarget r = (r \<in> {ReplStateSyncTarget, ReplStateStartingSyncT, ReplStatePausedSyncT})"

definition ReplState_IsPaused :: "ReplState \<Rightarrow> bool" where
  "ReplState_IsPaused r = (r \<in> {ReplStatePausedSyncS, ReplStatePausedSyncT})"

definition ReplState_IsVerifying :: "ReplState \<Rightarrow> bool" where
  "ReplState_IsVerifying r = (r \<in> {ReplStateVerifyS, ReplStateVerifyT})"

definition ReplState_IsTransient :: "ReplState \<Rightarrow> bool" where
  "ReplState_IsTransient r = (r \<in> {ReplStateStartingSyncS, ReplStateStartingSyncT, ReplStateWFBitMapS,
     ReplStateWFBitMapT, ReplStateWFSyncUUID, ReplStateSyncSource, ReplStateSyncTarget,
     ReplStateVerifyS, ReplStateVerifyT, ReplStatePausedSyncS, ReplStatePausedSyncT,
     ReplStateAhead, ReplStateBehind})"

definition ReplState_RequiresIntervention :: "ReplState \<Rightarrow> bool" where
  "ReplState_RequiresIntervention r = (r = ReplStateOff)"

definition ParseReplState :: "string \<Rightarrow> state_err + ReplState" where
  "ParseReplState s = (case ReplState_of s of ReplStateOther _ \<Rightarrow> Inl (UnknownState ''replication state'' s) | d \<Rightarrow> Inr d)"

section \<open>The conversions\<close>

lemma Role_String_of [simp]: "Role_String (Role_of s) = s"
  by (auto simp: Role_of_def split: option.split dest: map_of_SomeD)

lemma DiskState_String_of [simp]: "DiskState_String (DiskState_of s) = s"
  by (auto simp: DiskState_of_def split: option.split dest: map_of_SomeD)

lemma ConnectionState_String_of [simp]: "ConnectionState_String (ConnectionState_of s) = s"
  by (auto simp: ConnectionState_of_def split: option.split dest: map_of_SomeD)

lemma ReplState_String_of [simp]: "ReplState_String (ReplState_of s) = s"
  by (auto simp: ReplState_of_def split: option.split dest: map_of_SomeD)

end
