(* ===== verification/Drbd_Status.thy ===== *)
theory Drbd_Status
  imports Drbd_States
begin

text \<open>
  What the satellite reads off \<open>drbdsetup status --json\<close> before it promotes, invalidates or takes down
  a replica (\<open>pkg/drbd/drbdadm.go\<close>, \<open>pkg/drbd/drbdsetup_show.go\<close>).

  The process run is the environment: an answer is a value of \<open>status_probe\<close>, which is a failed run with
  the error and the output, output that does not decode, or the decoded list of resources.  Every predicate
  is a function of that answer.
\<close>

section \<open>The decoded status\<close>

record drbdsetupStatusPeerDevice =
  pd_VolumeNumber :: int
  pd_PeerDiskState :: string
  pd_ReplicationState :: string
  pd_ResyncSuspended :: string

record drbdsetupStatusConnection =
  sc_PeerNodeID :: int
  sc_PeerName :: string
  sc_ConnectionStr :: string
  sc_PeerRole :: string
  sc_PeerDevices :: "drbdsetupStatusPeerDevice list"

record drbdsetupStatusDevice =
  sd_VolumeNumber :: int
  sd_DiskState :: string
  sd_Minor :: int

record drbdsetupStatusResource =
  sr_NodeID :: "int option"
  sr_Role :: string
  sr_Devices :: "drbdsetupStatusDevice list"
  sr_Connections :: "drbdsetupStatusConnection list"

datatype status_probe = RunFailed string string | Undecodable | Decoded "drbdsetupStatusResource list"

text \<open>The resource of a probe: the first of the decoded list.\<close>

definition probed :: "status_probe \<Rightarrow> drbdsetupStatusResource option" where
  "probed p = (case p of Decoded (r # _) \<Rightarrow> Some r | _ \<Rightarrow> None)"

text \<open>The same with a node-id, which the promoting predicates require.\<close>

definition probed_id :: "status_probe \<Rightarrow> (drbdsetupStatusResource \<times> int) option" where
  "probed_id p =
     (case probed p of
        None \<Rightarrow> None
      | Some r \<Rightarrow> (case sr_NodeID r of None \<Rightarrow> None | Some i \<Rightarrow> Some (r, i)))"

section \<open>Probes\<close>

definition KernelMyNodeID :: "status_probe \<Rightarrow> int \<times> bool" where
  "KernelMyNodeID p = (case probed_id p of None \<Rightarrow> (-1, False) | Some (_, i) \<Rightarrow> (i, True))"

definition peer_has_data :: "drbdsetupStatusPeerDevice \<Rightarrow> bool" where
  "peer_has_data pd =
     (DiskState_of (pd_PeerDiskState pd) \<in> {DiskStateUpToDate, DiskStateConsistent, DiskStateOutdated})"

definition AnyConnectedPeerHasData :: "status_probe \<Rightarrow> bool" where
  "AnyConnectedPeerHasData p =
     (case probed p of
        None \<Rightarrow> False
      | Some r \<Rightarrow> list_ex (\<lambda>c. list_ex peer_has_data (sc_PeerDevices c)) (sr_Connections r))"

definition AnyConnectedPeerHasDataForVolume :: "status_probe \<Rightarrow> int \<Rightarrow> bool" where
  "AnyConnectedPeerHasDataForVolume p v =
     (case probed p of
        None \<Rightarrow> False
      | Some r \<Rightarrow>
          list_ex (\<lambda>c. list_ex (\<lambda>pd. pd_VolumeNumber pd = v \<and> peer_has_data pd) (sc_PeerDevices c))
            (sr_Connections r))"

definition localIsUpToDate :: "drbdsetupStatusDevice list \<Rightarrow> bool" where
  "localIsUpToDate ds =
     (ds \<noteq> [] \<and> list_all (\<lambda>d. DiskState_of (sd_DiskState d) = DiskStateUpToDate) ds)"

definition localIsDiskfulBelowUpToDate :: "drbdsetupStatusDevice list \<Rightarrow> bool" where
  "localIsDiskfulBelowUpToDate ds =
     (ds \<noteq> [] \<and>
      list_all (\<lambda>d. DiskState_of (sd_DiskState d)
         \<in> {DiskStateInconsistent, DiskStateConsistent, DiskStateOutdated}) ds)"

definition primary_string :: "string \<Rightarrow> bool" where
  "primary_string s = Role_IsPrimary (Role_of s)"

definition SafeForMkfsRetryPromote :: "status_probe \<Rightarrow> bool" where
  "SafeForMkfsRetryPromote p =
     (case probed p of
        None \<Rightarrow> False
      | Some r \<Rightarrow>
          \<not> primary_string (sr_Role r) \<and> localIsUpToDate (sr_Devices r) \<and>
          list_all
            (\<lambda>c. \<not> primary_string (sc_PeerRole c) \<and>
              list_all (\<lambda>pd. DiskState_of (pd_PeerDiskState pd) \<in> {DiskStateUpToDate, DiskStateDiskless})
                (sc_PeerDevices c))
            (sr_Connections r))"

text \<open>The set of intentionally diskless peers is the list of names mapped to \<open>true\<close>.\<close>

definition Day0SiblingSetConnected :: "status_probe \<Rightarrow> string list \<Rightarrow> bool" where
  "Day0SiblingSetConnected p disklessPeers =
     (case probed p of
        None \<Rightarrow> False
      | Some r \<Rightarrow>
          \<not> (primary_string (sr_Role r) \<or> \<not> localIsUpToDate (sr_Devices r)) \<and>
          list_all
            (\<lambda>c. \<not> primary_string (sc_PeerRole c) \<and>
              list_all
                (\<lambda>pd. case DiskState_of (pd_PeerDiskState pd) of
                    DiskStateUpToDate \<Rightarrow> True
                  | DiskStateDiskless \<Rightarrow> True
                  | DiskStateDUnknown \<Rightarrow> sc_PeerName c \<in> set disklessPeers
                  | _ \<Rightarrow> False)
                (sc_PeerDevices c))
            (sr_Connections r))"

definition peerDeviceActivelySyncing :: "drbdsetupStatusPeerDevice \<Rightarrow> bool" where
  "peerDeviceActivelySyncing pd =
     (pd_ReplicationState pd \<in> {''SyncSource'', ''WFBitMapS''} \<and>
      (pd_ResyncSuspended pd = ''no'' \<or> pd_ResyncSuspended pd = ''''))"

section \<open>Recovery promote\<close>

text \<open>The scan keeps three flags: a wedged peer seen, this node still lowest, a primary peer seen.\<close>

definition scan_device ::
  "int \<Rightarrow> drbdsetupStatusConnection \<Rightarrow> drbdsetupStatusPeerDevice \<Rightarrow> bool \<times> bool \<Rightarrow> bool \<times> bool" where
  "scan_device myID c pd st = (case st of (wedge, lowest) \<Rightarrow>
     (case DiskState_of (pd_PeerDiskState pd) of
        DiskStateInconsistent \<Rightarrow> (if \<not> peerDeviceActivelySyncing pd then True else wedge, lowest)
      | DiskStateUpToDate \<Rightarrow> (wedge, if sc_PeerNodeID c < myID then False else lowest)
      | _ \<Rightarrow> (wedge, lowest)))"

definition scan_connection ::
  "int \<Rightarrow> drbdsetupStatusConnection \<Rightarrow> bool \<times> bool \<times> bool \<Rightarrow> bool \<times> bool \<times> bool" where
  "scan_connection myID c st = (case st of (wedge, lowest, prim) \<Rightarrow>
     (let prim' = (if primary_string (sc_PeerRole c) then True else prim);
          (wedge', lowest') = fold (scan_device myID c) (sc_PeerDevices c) (wedge, lowest)
      in (wedge', lowest', prim')))"

definition scanRecoveryPromotePeers ::
  "drbdsetupStatusConnection list \<Rightarrow> int \<Rightarrow> bool \<times> bool \<times> bool" where
  "scanRecoveryPromotePeers conns myID = fold (scan_connection myID) conns (False, True, False)"

definition NeedsRecoveryPromote :: "status_probe \<Rightarrow> bool" where
  "NeedsRecoveryPromote p =
     (case probed_id p of
        None \<Rightarrow> False
      | Some (r, myID) \<Rightarrow>
          if \<not> localIsUpToDate (sr_Devices r) then False
          else if primary_string (sr_Role r) then False
          else (case scanRecoveryPromotePeers (sr_Connections r) myID of
                  (anyPeerInconsistent, weAreLowestUpToDate, peerPrimary) \<Rightarrow>
                    if peerPrimary then False else anyPeerInconsistent \<and> weAreLowestUpToDate))"

definition NeedsSoloPromote :: "status_probe \<Rightarrow> bool" where
  "NeedsSoloPromote p =
     (case probed_id p of
        None \<Rightarrow> False
      | Some (r, _) \<Rightarrow>
          if sr_Connections r \<noteq> [] then False
          else if primary_string (sr_Role r) then False
          else localIsDiskfulBelowUpToDate (sr_Devices r))"

section \<open>Late-added volumes\<close>

definition localHasUpToDateVolume :: "drbdsetupStatusDevice list \<Rightarrow> bool" where
  "localHasUpToDateVolume ds = list_ex (\<lambda>d. DiskState_of (sd_DiskState d) = DiskStateUpToDate) ds"

definition allPeersConnected :: "drbdsetupStatusConnection list \<Rightarrow> bool" where
  "allPeersConnected conns =
     (conns \<noteq> [] \<and> list_all (\<lambda>c. sc_ConnectionStr c = ''Connected'') conns)"

definition localInconsistentVolumes :: "drbdsetupStatusDevice list \<Rightarrow> int list" where
  "localInconsistentVolumes ds =
     fold (\<lambda>d out. if DiskState_of (sd_DiskState d) = DiskStateInconsistent
                   then List.insert (sd_VolumeNumber d) out else out) ds []"

text \<open>One peer-device of the volume: \<open>None\<close> for the early \<open>return false\<close>, otherwise whether this node is
  still the lowest.\<close>

definition late_add_device ::
  "int \<Rightarrow> int \<Rightarrow> drbdsetupStatusConnection \<Rightarrow> drbdsetupStatusPeerDevice \<Rightarrow> bool option \<Rightarrow> bool option" where
  "late_add_device vol myID c pd st = (case st of
     None \<Rightarrow> None
   | Some lowest \<Rightarrow>
       if pd_VolumeNumber pd \<noteq> vol then Some lowest
       else
         (case DiskState_of (pd_PeerDiskState pd) of
            DiskStateUpToDate \<Rightarrow> None
          | DiskStateConsistent \<Rightarrow> None
          | DiskStateOutdated \<Rightarrow> None
          | DiskStateInconsistent \<Rightarrow>
              (let lowest' = (if sc_PeerNodeID c < myID then False else lowest)
               in if peerDeviceActivelySyncing pd then None else Some lowest')
          | DiskStateAttaching \<Rightarrow> Some (if sc_PeerNodeID c < myID then False else lowest)
          | DiskStateNegotiating \<Rightarrow> Some (if sc_PeerNodeID c < myID then False else lowest)
          | DiskStateDUnknown \<Rightarrow> Some (if sc_PeerNodeID c < myID then False else lowest)
          | _ \<Rightarrow> Some lowest))"

definition lateAddVolumeNeedsLocalPromote :: "drbdsetupStatusConnection list \<Rightarrow> int \<Rightarrow> int \<Rightarrow> bool" where
  "lateAddVolumeNeedsLocalPromote conns vol myID =
     (case fold (\<lambda>c. fold (late_add_device vol myID c) (sc_PeerDevices c)) conns (Some True) of
        None \<Rightarrow> False | Some lowest \<Rightarrow> lowest)"

definition NeedsLateAddPromote :: "status_probe \<Rightarrow> bool" where
  "NeedsLateAddPromote p =
     (case probed_id p of
        None \<Rightarrow> False
      | Some (r, myID) \<Rightarrow>
          if primary_string (sr_Role r) then False
          else if list_ex (\<lambda>c. primary_string (sc_PeerRole c)) (sr_Connections r) then False
          else if \<not> localHasUpToDateVolume (sr_Devices r) then False
          else if \<not> allPeersConnected (sr_Connections r) then False
          else
            (let wedged = localInconsistentVolumes (sr_Devices r)
             in if wedged = [] then False
                else list_all (\<lambda>vol. lateAddVolumeNeedsLocalPromote (sr_Connections r) vol myID) wedged))"

definition peerDeviceResyncInProgress :: "drbdsetupStatusPeerDevice \<Rightarrow> bool" where
  "peerDeviceResyncInProgress pd =
     (case ReplState_of (pd_ReplicationState pd) of
        ReplStateSyncSource \<Rightarrow> True
      | ReplStateSyncTarget \<Rightarrow> True
      | ReplStateStartingSyncS \<Rightarrow> True
      | ReplStateStartingSyncT \<Rightarrow> True
      | ReplStateWFBitMapS \<Rightarrow> pd_ResyncSuspended pd = '''' \<or> pd_ResyncSuspended pd = ''no''
      | ReplStateWFBitMapT \<Rightarrow> pd_ResyncSuspended pd = '''' \<or> pd_ResyncSuspended pd = ''no''
      | ReplStateWFSyncUUID \<Rightarrow> pd_ResyncSuspended pd = '''' \<or> pd_ResyncSuspended pd = ''no''
      | _ \<Rightarrow> False)"

definition lateAddVolumeNeedsInvalidate ::
  "drbdsetupStatusConnection list \<Rightarrow> drbdsetupStatusDevice \<Rightarrow> bool" where
  "lateAddVolumeNeedsInvalidate conns dev =
     (if DiskState_of (sd_DiskState dev) \<noteq> DiskStateInconsistent then False
      else
        (let pds = filter (\<lambda>pd. pd_VolumeNumber pd = sd_VolumeNumber dev) (concat (map sc_PeerDevices conns))
         in list_ex (\<lambda>pd. DiskState_of (pd_PeerDiskState pd) = DiskStateUpToDate) pds \<and>
            \<not> list_ex peerDeviceResyncInProgress pds))"

definition LateAddResyncKickVolumes :: "status_probe \<Rightarrow> int list" where
  "LateAddResyncKickVolumes p =
     (case probed_id p of
        None \<Rightarrow> []
      | Some (r, _) \<Rightarrow>
          if primary_string (sr_Role r) then []
          else if list_ex (\<lambda>c. primary_string (sc_PeerRole c)) (sr_Connections r) then []
          else if \<not> localHasUpToDateVolume (sr_Devices r) then []
          else if \<not> allPeersConnected (sr_Connections r) then []
          else map sd_VolumeNumber (filter (lateAddVolumeNeedsInvalidate (sr_Connections r)) (sr_Devices r)))"

section \<open>Taking a resource down\<close>

datatype DownVeto = DownAllowed | DownVetoResync | DownVetoInconclusive

definition isResourceNotLoadedErr :: "string \<Rightarrow> string \<Rightarrow> bool" where
  "isResourceNotLoadedErr e out =
     (let t = e @ '' '' @ out
      in Contains t ''No currently configured DRBD'' \<or> Contains t ''Unknown resource'' \<or>
         Contains t ''no resources defined'' \<or> Contains t ''No such resource'')"

definition EvaluateDownVeto :: "status_probe \<Rightarrow> DownVeto" where
  "EvaluateDownVeto p = (case p of
     RunFailed e out \<Rightarrow> if isResourceNotLoadedErr e out then DownAllowed else DownVetoInconclusive
   | Undecodable \<Rightarrow> DownVetoInconclusive
   | Decoded [] \<Rightarrow> DownVetoInconclusive
   | Decoded (r # _) \<Rightarrow>
       if list_ex (\<lambda>c. list_ex (\<lambda>pd. ReplState_IsSyncing (ReplState_of (pd_ReplicationState pd)))
                         (sc_PeerDevices c)) (sr_Connections r)
       then DownVetoResync else DownAllowed)"

section \<open>Attached volumes and connection slots\<close>

definition attachedVolumeSet :: "drbdsetupStatusDevice list \<Rightarrow> int list" where
  "attachedVolumeSet ds =
     fold (\<lambda>d out. if DiskState_of (sd_DiskState d)
                       \<in> {DiskStateUpToDate, DiskStateInconsistent, DiskStateConsistent, DiskStateOutdated}
                   then List.insert (sd_VolumeNumber d) out else out) ds []"

definition AttachedVolumes :: "status_probe \<Rightarrow> int list" where
  "AttachedVolumes p = (case probed p of None \<Rightarrow> [] | Some r \<Rightarrow> attachedVolumeSet (sr_Devices r))"

record KernelSlot =
  ks_Name :: string
  ks_NodeID :: int
  ks_ConnectionState :: string
  ks_PeerDevicesByVolNum :: "int list"

definition kernel_slot :: "drbdsetupStatusConnection \<Rightarrow> KernelSlot" where
  "kernel_slot c =
     \<lparr>ks_Name = sc_PeerName c, ks_NodeID = sc_PeerNodeID c, ks_ConnectionState = sc_ConnectionStr c,
      ks_PeerDevicesByVolNum = remdups (map pd_VolumeNumber (sc_PeerDevices c))\<rparr>"

text \<open>\<open>parseShowJSON\<close>, on a status whose output is not blank: nameless slots are skipped and a later slot
  of the same name replaces an earlier one.\<close>

definition parseShowJSON :: "status_probe \<Rightarrow> (string, KernelSlot) gomap" where
  "parseShowJSON p = (case probed p of
     None \<Rightarrow> []
   | Some r \<Rightarrow> fold (\<lambda>c m. if sc_PeerName c = '''' then m else AList.update (sc_PeerName c) (kernel_slot c) m)
       (sr_Connections r) [])"

text \<open>\<open>Show\<close>: \<open>Inl\<close> for the error that is surfaced.\<close>

definition Show :: "status_probe \<Rightarrow> string + (string, KernelSlot) gomap" where
  "Show p = (case p of
     RunFailed e out \<Rightarrow> if isResourceNotLoadedErr e out then Inr [] else Inl e
   | _ \<Rightarrow> Inr (parseShowJSON p))"

definition IsConnectingOrStandalone :: "KernelSlot option \<Rightarrow> bool" where
  "IsConnectingOrStandalone s =
     (case s of None \<Rightarrow> False | Some k \<Rightarrow> ks_ConnectionState k \<in> {''Connecting'', ''StandAlone''})"

definition HasAnyPeerDeviceConfigured :: "KernelSlot option \<Rightarrow> int list \<Rightarrow> bool" where
  "HasAnyPeerDeviceConfigured s volumes =
     (case s of None \<Rightarrow> False
      | Some k \<Rightarrow>
          if volumes = [] \<or> ks_PeerDevicesByVolNum k = [] then False
          else list_ex (\<lambda>v. v \<in> set (ks_PeerDevicesByVolNum k)) volumes)"

section \<open>The scans in closed form\<close>

lemma scan_device_fold:
  "fold (scan_device myID c) pds (w, l) =
     (w \<or> (\<exists>pd \<in> set pds. DiskState_of (pd_PeerDiskState pd) = DiskStateInconsistent \<and>
                            \<not> peerDeviceActivelySyncing pd),
      l \<and> (\<forall>pd \<in> set pds. DiskState_of (pd_PeerDiskState pd) = DiskStateUpToDate \<longrightarrow> myID \<le> sc_PeerNodeID c))"
  by (induction pds arbitrary: w l) (auto simp: scan_device_def split: DiskState.split)

text \<open>A peer-device of the resource, with the connection it belongs to.\<close>

definition peer_devices ::
  "drbdsetupStatusConnection list \<Rightarrow> (drbdsetupStatusConnection \<times> drbdsetupStatusPeerDevice) list" where
  "peer_devices conns = concat (map (\<lambda>c. map (Pair c) (sc_PeerDevices c)) conns)"

lemma set_peer_devices:
  "set (peer_devices conns) = {(c, pd). c \<in> set conns \<and> pd \<in> set (sc_PeerDevices c)}"
  by (auto simp: peer_devices_def)

lemma scan_connection_fold:
  "fold (scan_connection myID) conns (w, l, q) =
     (w \<or> (\<exists>(c, pd) \<in> set (peer_devices conns).
              DiskState_of (pd_PeerDiskState pd) = DiskStateInconsistent \<and> \<not> peerDeviceActivelySyncing pd),
      l \<and> (\<forall>(c, pd) \<in> set (peer_devices conns).
              DiskState_of (pd_PeerDiskState pd) = DiskStateUpToDate \<longrightarrow> myID \<le> sc_PeerNodeID c),
      q \<or> (\<exists>c \<in> set conns. primary_string (sc_PeerRole c)))"
  unfolding set_peer_devices
  by (induction conns arbitrary: w l q) (auto simp: scan_connection_def scan_device_fold)

lemma probed_id_Some: "probed_id p = Some (r, i) \<longleftrightarrow> probed p = Some r \<and> sr_NodeID r = Some i"
  by (auto simp: probed_id_def split: option.splits)

definition no_primary :: "drbdsetupStatusResource \<Rightarrow> bool" where
  "no_primary r =
     (\<not> primary_string (sr_Role r) \<and> list_all (\<lambda>c. \<not> primary_string (sc_PeerRole c)) (sr_Connections r))"

lemma NeedsRecoveryPromote_iff:
  "NeedsRecoveryPromote p \<longleftrightarrow>
     (\<exists>r myID. probed_id p = Some (r, myID) \<and> localIsUpToDate (sr_Devices r) \<and> no_primary r \<and>
       (\<exists>(c, pd) \<in> set (peer_devices (sr_Connections r)).
          DiskState_of (pd_PeerDiskState pd) = DiskStateInconsistent \<and> \<not> peerDeviceActivelySyncing pd) \<and>
       (\<forall>(c, pd) \<in> set (peer_devices (sr_Connections r)).
          DiskState_of (pd_PeerDiskState pd) = DiskStateUpToDate \<longrightarrow> myID \<le> sc_PeerNodeID c))"
  unfolding NeedsRecoveryPromote_def scanRecoveryPromotePeers_def scan_connection_fold no_primary_def
  by (auto simp: list_all_iff split: option.split)

text \<open>The same for one late-added volume.\<close>

definition brought_up :: "DiskState \<Rightarrow> bool" where
  "brought_up d = (d \<in> {DiskStateInconsistent, DiskStateAttaching, DiskStateNegotiating, DiskStateDUnknown})"

lemma late_add_device_eq:
  "late_add_device vol myID c pd (Some l) =
     (if pd_VolumeNumber pd = vol \<and>
         (peer_has_data pd \<or>
          DiskState_of (pd_PeerDiskState pd) = DiskStateInconsistent \<and> peerDeviceActivelySyncing pd) then None
      else Some (l \<and> \<not> (pd_VolumeNumber pd = vol \<and> brought_up (DiskState_of (pd_PeerDiskState pd)) \<and>
                        sc_PeerNodeID c < myID)))"
  by (cases "DiskState_of (pd_PeerDiskState pd)")
    (auto simp: late_add_device_def peer_has_data_def brought_up_def Let_def)

lemma late_add_None [simp]: "fold (late_add_device vol myID c) pds None = None"
  by (induction pds) (simp_all add: late_add_device_def)

lemma late_add_fold_None [simp]:
  "fold (\<lambda>c. fold (late_add_device vol myID c) (sc_PeerDevices c)) conns None = None"
  by (induction conns) simp_all

lemma late_add_device_fold:
  "fold (late_add_device vol myID c) pds (Some l) =
     (if \<exists>pd \<in> set pds. pd_VolumeNumber pd = vol \<and>
           (peer_has_data pd \<or>
            DiskState_of (pd_PeerDiskState pd) = DiskStateInconsistent \<and> peerDeviceActivelySyncing pd) then None
      else Some (l \<and> (\<forall>pd \<in> set pds. pd_VolumeNumber pd = vol \<and> brought_up (DiskState_of (pd_PeerDiskState pd))
                        \<longrightarrow> myID \<le> sc_PeerNodeID c)))"
  by (induction pds arbitrary: l) (auto simp: late_add_device_eq)

lemma late_add_fold:
  "fold (\<lambda>c. fold (late_add_device vol myID c) (sc_PeerDevices c)) conns (Some l) =
     (if \<exists>(c, pd) \<in> set (peer_devices conns). pd_VolumeNumber pd = vol \<and>
           (peer_has_data pd \<or>
            DiskState_of (pd_PeerDiskState pd) = DiskStateInconsistent \<and> peerDeviceActivelySyncing pd) then None
      else Some (l \<and> (\<forall>(c, pd) \<in> set (peer_devices conns).
                        pd_VolumeNumber pd = vol \<and> brought_up (DiskState_of (pd_PeerDiskState pd))
                        \<longrightarrow> myID \<le> sc_PeerNodeID c)))"
  unfolding set_peer_devices
  by (induction conns arbitrary: l) (auto simp: late_add_device_fold)

lemma lateAdd_iff:
  "lateAddVolumeNeedsLocalPromote conns vol myID \<longleftrightarrow>
     (\<forall>(c, pd) \<in> set (peer_devices conns). pd_VolumeNumber pd = vol \<longrightarrow>
        \<not> peer_has_data pd \<and>
        \<not> (DiskState_of (pd_PeerDiskState pd) = DiskStateInconsistent \<and> peerDeviceActivelySyncing pd) \<and>
        (brought_up (DiskState_of (pd_PeerDiskState pd)) \<longrightarrow> myID \<le> sc_PeerNodeID c))"
  unfolding lateAddVolumeNeedsLocalPromote_def late_add_fold by (auto split: if_splits)

lemma set_localInconsistentVolumes:
  "set (localInconsistentVolumes ds) =
     {sd_VolumeNumber d | d. d \<in> set ds \<and> DiskState_of (sd_DiskState d) = DiskStateInconsistent}"
proof -
  have "set (fold (\<lambda>d out. if DiskState_of (sd_DiskState d) = DiskStateInconsistent
              then List.insert (sd_VolumeNumber d) out else out) ds acc) =
        set acc \<union> {sd_VolumeNumber d | d. d \<in> set ds \<and> DiskState_of (sd_DiskState d) = DiskStateInconsistent}" for acc
    by (induction ds arbitrary: acc) auto
  then show ?thesis unfolding localInconsistentVolumes_def by simp
qed

lemma NeedsLateAddPromote_iff:
  "NeedsLateAddPromote p \<longleftrightarrow>
     (\<exists>r myID. probed_id p = Some (r, myID) \<and> no_primary r \<and> localHasUpToDateVolume (sr_Devices r) \<and>
       allPeersConnected (sr_Connections r) \<and> localInconsistentVolumes (sr_Devices r) \<noteq> [] \<and>
       (\<forall>vol \<in> set (localInconsistentVolumes (sr_Devices r)).
          lateAddVolumeNeedsLocalPromote (sr_Connections r) vol myID))"
proof (cases "probed_id p")
  case (Some x)
  then show ?thesis
    by (cases x) (simp add: NeedsLateAddPromote_def no_primary_def Let_def list_all_iff list_ex_iff)
qed (simp add: NeedsLateAddPromote_def)

section \<open>Elections over accurate views\<close>

text \<open>
  A node's view of a peer is accurate when it has a connection with the peer's node-id that reports, for
  every volume of the peer, the disk state the peer itself reports.
\<close>

definition observes :: "drbdsetupStatusResource \<Rightarrow> drbdsetupStatusResource \<Rightarrow> bool" where
  "observes r s =
     list_ex (\<lambda>c. sr_NodeID s = Some (sc_PeerNodeID c) \<and>
        list_all (\<lambda>d. list_ex (\<lambda>pd. pd_VolumeNumber pd = sd_VolumeNumber d \<and>
                                    pd_PeerDiskState pd = sd_DiskState d) (sc_PeerDevices c)) (sr_Devices s))
       (sr_Connections r)"

lemma observes_device:
  assumes "observes r s" "d \<in> set (sr_Devices s)" "sr_NodeID s = Some i"
  obtains c pd where "(c, pd) \<in> set (peer_devices (sr_Connections r))" "sc_PeerNodeID c = i"
    "pd_VolumeNumber pd = sd_VolumeNumber d" "pd_PeerDiskState pd = sd_DiskState d"
  using assms unfolding observes_def list_ex_iff list_all_iff set_peer_devices by fastforce

lemma recovery_not_above:
  assumes "NeedsRecoveryPromote p" "probed p = Some r" "sr_NodeID r = Some i" "observes r s"
    and "sr_NodeID s = Some j" "localIsUpToDate (sr_Devices s)"
  shows "i \<le> j"
proof -
  from assms(6) obtain d where d: "d \<in> set (sr_Devices s)" "DiskState_of (sd_DiskState d) = DiskStateUpToDate"
    by (cases "sr_Devices s") (auto simp: localIsUpToDate_def)
  from observes_device [OF assms(4) d(1) assms(5)] obtain c pd where
    "(c, pd) \<in> set (peer_devices (sr_Connections r))" "sc_PeerNodeID c = j" "pd_PeerDiskState pd = sd_DiskState d"
    by blast
  then show ?thesis
    using assms(1-3) d(2) unfolding NeedsRecoveryPromote_iff by (auto simp: probed_id_Some)
qed

lemma late_add_not_above:
  assumes "NeedsLateAddPromote p" "probed p = Some r" "sr_NodeID r = Some i" "observes r s"
    and "sr_NodeID s = Some j" "v \<in> set (localInconsistentVolumes (sr_Devices r))"
    and "v \<in> set (localInconsistentVolumes (sr_Devices s))"
  shows "i \<le> j"
proof -
  from assms(7) obtain d where d: "d \<in> set (sr_Devices s)" "sd_VolumeNumber d = v"
    "DiskState_of (sd_DiskState d) = DiskStateInconsistent"
    unfolding set_localInconsistentVolumes by blast
  from observes_device [OF assms(4) d(1) assms(5)] obtain c pd where pd:
    "(c, pd) \<in> set (peer_devices (sr_Connections r))" "sc_PeerNodeID c = j" "pd_VolumeNumber pd = v"
    "pd_PeerDiskState pd = sd_DiskState d"
    using d(2) by metis
  have "lateAddVolumeNeedsLocalPromote (sr_Connections r) v i"
    using assms(1-3,6) unfolding NeedsLateAddPromote_iff by (auto simp: probed_id_Some)
  then show ?thesis using pd d(3) unfolding lateAdd_iff brought_up_def by fastforce
qed

end
