(* ===== verification/Drbd_Election.thy ===== *)
theory Drbd_Election
  imports Drbd_Status
begin

text \<open>
  Which node acts.  The self-heals of the satellite decide on every node alone, from the status of its own
  kernel; the theorems here put the statuses of two nodes side by side.
\<close>

section \<open>Example statuses\<close>

text \<open>A resource of three diskful replicas, seen from the node \<open>i\<close>: \<open>own\<close> are its disk states by volume,
  \<open>peers\<close> the node-ids it is connected to with their disk states.\<close>

definition ex_status :: "int \<Rightarrow> string list \<Rightarrow> (int \<times> string list) list \<Rightarrow> status_probe" where
  "ex_status i own peers = Decoded
     [\<lparr>sr_NodeID = Some i, sr_Role = ''Secondary'',
       sr_Devices = map (\<lambda>(v, s). \<lparr>sd_VolumeNumber = int v, sd_DiskState = s, sd_Minor = 20000 + int v\<rparr>)
         (enumerate 0 own),
       sr_Connections = map (\<lambda>(j, ds).
         \<lparr>sc_PeerNodeID = j, sc_PeerName = ''n'', sc_ConnectionStr = ''Connected'', sc_PeerRole = ''Secondary'',
          sc_PeerDevices = map (\<lambda>(v, s).
            \<lparr>pd_VolumeNumber = int v, pd_PeerDiskState = s, pd_ReplicationState = ''Established'',
             pd_ResyncSuspended = ''peer''\<rparr>) (enumerate 0 ds)\<rparr>) peers\<rparr>]"

definition ex_view :: "status_probe \<Rightarrow> drbdsetupStatusResource" where
  "ex_view p = (case probed p of Some r \<Rightarrow> r | None \<Rightarrow> \<lparr>sr_NodeID = None, sr_Role = [], sr_Devices = [], sr_Connections = []\<rparr>)"

section \<open>Single promoters\<close>

text \<open>
  C24. The recovery promote elects one node: when a node asks for it, no other node does whose disk states it
  sees and that sees its own.
\<close>

theorem recovery_promote_single:
  assumes "probed p = Some r" "probed q = Some s" "observes r s" "observes s r"
    and "sr_NodeID r \<noteq> sr_NodeID s" "NeedsRecoveryPromote p"
  shows "\<not> NeedsRecoveryPromote q"
proof
  assume q: "NeedsRecoveryPromote q"
  from assms(1,2,6) q obtain i j where id: "sr_NodeID r = Some i" "sr_NodeID s = Some j"
    and up: "localIsUpToDate (sr_Devices r)" "localIsUpToDate (sr_Devices s)"
    unfolding NeedsRecoveryPromote_iff by (auto simp: probed_id_Some)
  have "i \<le> j" by (rule recovery_not_above [OF assms(6,1) id(1) assms(3) id(2) up(2)])
  moreover have "j \<le> i" by (rule recovery_not_above [OF q assms(2) id(2) assms(4) id(1) up(1)])
  ultimately show False using id assms(5) by simp
qed

definition ex_low :: status_probe where
  "ex_low = ex_status 0 [''UpToDate''] [(1, [''UpToDate'']), (2, [''Inconsistent''])]"

definition ex_high :: status_probe where
  "ex_high = ex_status 1 [''UpToDate''] [(0, [''UpToDate'']), (2, [''Inconsistent''])]"

theorem recovery_promote_single_witness:
  "NeedsRecoveryPromote ex_low \<and> \<not> NeedsRecoveryPromote ex_high"
proof -
  have p: "probed ex_low = Some (ex_view ex_low)" and q: "probed ex_high = Some (ex_view ex_high)"
    by code_simp+
  have "observes (ex_view ex_low) (ex_view ex_high)" "observes (ex_view ex_high) (ex_view ex_low)"
    "sr_NodeID (ex_view ex_low) \<noteq> sr_NodeID (ex_view ex_high)" "NeedsRecoveryPromote ex_low"
    by code_simp+
  from recovery_promote_single [OF p q this] show ?thesis
    using \<open>NeedsRecoveryPromote ex_low\<close> by blast
qed

text \<open>
  C25. A late-added volume gets one source: of two nodes that see each other's disk states and both hold the
  volume \<open>Inconsistent\<close>, at most one mints it.
\<close>

theorem late_add_single:
  assumes "probed p = Some r" "probed q = Some s" "observes r s" "observes s r"
    and "sr_NodeID r \<noteq> sr_NodeID s" "NeedsLateAddPromote p"
    and "v \<in> set (localInconsistentVolumes (sr_Devices r))"
    and "v \<in> set (localInconsistentVolumes (sr_Devices s))"
  shows "\<not> NeedsLateAddPromote q"
proof
  assume q: "NeedsLateAddPromote q"
  from assms(1,2,6) q obtain i j where id: "sr_NodeID r = Some i" "sr_NodeID s = Some j"
    unfolding NeedsLateAddPromote_iff by (auto simp: probed_id_Some)
  have "i \<le> j" by (rule late_add_not_above [OF assms(6,1) id(1) assms(3) id(2) assms(7,8)])
  moreover have "j \<le> i" by (rule late_add_not_above [OF q assms(2) id(2) assms(4) id(1) assms(8,7)])
  ultimately show False using id assms(5) by simp
qed

definition ex_late_low :: status_probe where
  "ex_late_low = ex_status 0 [''UpToDate'', ''Inconsistent''] [(1, [''UpToDate'', ''Inconsistent''])]"

definition ex_late_high :: status_probe where
  "ex_late_high = ex_status 1 [''UpToDate'', ''Inconsistent''] [(0, [''UpToDate'', ''Inconsistent''])]"

theorem late_add_single_witness:
  "NeedsLateAddPromote ex_late_low \<and> \<not> NeedsLateAddPromote ex_late_high"
proof -
  have p: "probed ex_late_low = Some (ex_view ex_late_low)" and q: "probed ex_late_high = Some (ex_view ex_late_high)"
    by code_simp+
  have "observes (ex_view ex_late_low) (ex_view ex_late_high)" "observes (ex_view ex_late_high) (ex_view ex_late_low)"
    "sr_NodeID (ex_view ex_late_low) \<noteq> sr_NodeID (ex_view ex_late_high)" "NeedsLateAddPromote ex_late_low"
    "1 \<in> set (localInconsistentVolumes (sr_Devices (ex_view ex_late_low)))"
    "1 \<in> set (localInconsistentVolumes (sr_Devices (ex_view ex_late_high)))"
    by code_simp+
  from late_add_single [OF p q this] show ?thesis
    using \<open>NeedsLateAddPromote ex_late_low\<close> by blast
qed

section \<open>The gates\<close>

text \<open>Of the three promotes at most one applies to a status: a replica is wholly up to date, wholly below, or
  mixed.\<close>

lemma recovery_not_solo: "NeedsRecoveryPromote p \<Longrightarrow> \<not> NeedsSoloPromote p"
  unfolding NeedsRecoveryPromote_iff NeedsSoloPromote_def
  by (auto simp: set_peer_devices probed_id_Some split: option.splits)

lemma recovery_not_late: "NeedsRecoveryPromote p \<Longrightarrow> \<not> NeedsLateAddPromote p"
proof
  assume "NeedsRecoveryPromote p" "NeedsLateAddPromote p"
  then obtain r :: drbdsetupStatusResource where up: "localIsUpToDate (sr_Devices r)" and
    "localInconsistentVolumes (sr_Devices r) \<noteq> []"
    unfolding NeedsRecoveryPromote_iff NeedsLateAddPromote_iff by auto
  then obtain v where "v \<in> set (localInconsistentVolumes (sr_Devices r))" by (meson hd_in_set)
  then obtain d where "d \<in> set (sr_Devices r)" "DiskState_of (sd_DiskState d) = DiskStateInconsistent"
    unfolding set_localInconsistentVolumes by blast
  with up show False by (auto simp: localIsUpToDate_def list_all_iff)
qed

lemma solo_not_late: "NeedsSoloPromote p \<Longrightarrow> \<not> NeedsLateAddPromote p"
  unfolding NeedsSoloPromote_def NeedsLateAddPromote_iff
  by (auto simp: allPeersConnected_def probed_id_Some split: option.splits if_splits)

text \<open>
  C26. What opens a promote gate. A promote is asked for only on a status without a primary, by at most one of
  the three self-heals; alone only on a node without connections; for a late volume only when every peer is
  connected and none holds data of any volume it would mint.
\<close>

theorem promote_gates:
  assumes "NeedsRecoveryPromote p \<or> NeedsSoloPromote p \<or> NeedsLateAddPromote p"
  shows "\<exists>r. probed p = Some r \<and> no_primary r \<and>
    length (filter id [NeedsRecoveryPromote p, NeedsSoloPromote p, NeedsLateAddPromote p]) = 1 \<and>
    (NeedsSoloPromote p \<longrightarrow> sr_Connections r = []) \<and>
    (NeedsLateAddPromote p \<longrightarrow> allPeersConnected (sr_Connections r) \<and>
      (\<forall>v \<in> set (localInconsistentVolumes (sr_Devices r)). \<not> AnyConnectedPeerHasDataForVolume p v))"
proof -
  have solo: "\<exists>r. probed p = Some r \<and> no_primary r \<and> sr_Connections r = []" if "NeedsSoloPromote p"
    using that by (auto simp: NeedsSoloPromote_def no_primary_def probed_id_Some split: option.splits if_splits)
  have late: "\<exists>r. probed p = Some r \<and> no_primary r \<and> allPeersConnected (sr_Connections r) \<and>
      (\<forall>v \<in> set (localInconsistentVolumes (sr_Devices r)). \<not> AnyConnectedPeerHasDataForVolume p v)"
    if n: "NeedsLateAddPromote p"
  proof -
    from n obtain r i where r: "probed p = Some r" "no_primary r" "allPeersConnected (sr_Connections r)" and
      v: "\<forall>v \<in> set (localInconsistentVolumes (sr_Devices r)). lateAddVolumeNeedsLocalPromote (sr_Connections r) v i"
      unfolding NeedsLateAddPromote_iff by (auto simp: probed_id_Some)
    have "\<not> AnyConnectedPeerHasDataForVolume p v" if "v \<in> set (localInconsistentVolumes (sr_Devices r))" for v
      using v that r(1) unfolding lateAdd_iff set_peer_devices AnyConnectedPeerHasDataForVolume_def
      by (fastforce simp: list_ex_iff)
    with r show ?thesis by blast
  qed
  have rec: "\<exists>r. probed p = Some r \<and> no_primary r" if "NeedsRecoveryPromote p"
    using that unfolding NeedsRecoveryPromote_iff by (auto simp: probed_id_Some)
  show ?thesis
    using assms rec solo late recovery_not_solo [of p] recovery_not_late [of p] solo_not_late [of p] by auto
qed

theorem promote_gates_witness:
  "NeedsLateAddPromote ex_late_low \<and> \<not> NeedsRecoveryPromote ex_late_low \<and> \<not> NeedsSoloPromote ex_late_low"
proof -
  have "NeedsLateAddPromote ex_late_low" by code_simp
  with promote_gates [of ex_late_low] show ?thesis by (auto split: if_splits)
qed

section \<open>Finding: a split pair promotes twice\<close>

text \<open>
  The comment of \<open>NeedsRecoveryPromote\<close> says that exactly one node acts.  Unlike the late-add gate it does
  not ask for all peers to be connected: two up-to-date replicas that have lost each other and are both
  connected to a third, inconsistent one both ask for the promote.
\<close>

theorem recovery_promote_split:
  "NeedsRecoveryPromote (ex_status 0 [''UpToDate''] [(1, [''DUnknown'']), (2, [''Inconsistent''])]) \<and>
   NeedsRecoveryPromote (ex_status 1 [''UpToDate''] [(0, [''DUnknown'']), (2, [''Inconsistent''])])"
  by code_simp

end
