(* ===== verification/Drbd_GI.thy ===== *)
theory Drbd_GI
  imports K8s_Names
begin

text \<open>
  Generation identifiers of DRBD: the seed that is stamped into fresh metadata (\<open>pkg/drbd/gi.go\<close>) and the
  identifiers read back out of a metadata dump (\<open>pkg/drbd/dumpmd.go\<close>).  The digest function is an argument.
\<close>

section \<open>Seeds\<close>

record GISeed =
  gs_Current :: string
  gs_BitmapBase :: string
  gs_Consistent :: bool
  gs_UpToDate :: bool
  gs_WasUpToDate :: bool

definition zero_GISeed :: GISeed where
  "zero_GISeed = \<lparr>gs_Current = [], gs_BitmapBase = [], gs_Consistent = False, gs_UpToDate = False,
     gs_WasUpToDate = False\<rparr>"

datatype gi_err = ErrGIUpToDateNoCurrent | ErrGIUpToDateNotConsistent

definition GISeed_Validate :: "GISeed \<Rightarrow> gi_err option" where
  "GISeed_Validate s =
     (if gs_UpToDate s \<and> gs_Current s = [] then Some ErrGIUpToDateNoCurrent
      else if gs_UpToDate s \<and> \<not> gs_Consistent s then Some ErrGIUpToDateNotConsistent
      else if gs_WasUpToDate s \<and> gs_Current s = [] then Some ErrGIUpToDateNoCurrent
      else None)"

definition GISeed_String :: "GISeed \<Rightarrow> string" where
  "GISeed_String s =
     (let current = (if gs_Current s = [] then ''0'' else gs_Current s);
          base = (if gs_BitmapBase s = [] then ''0'' else gs_BitmapBase s);
          giStr = current @ '':'' @ base @ '':0:0''
      in if gs_UpToDate s then giStr @ '':1:1''
         else if gs_Consistent s then giStr @ '':1''
         else if gs_WasUpToDate s then giStr @ '':0:1''
         else giStr)"

text \<open>\<open>b &^= 0x01\<close> on a byte.\<close>

definition clear_low_bit :: "char \<Rightarrow> char" where
  "clear_low_bit b = char_of (of_char b div 2 * 2 :: nat)"

definition Day0GIFor :: "(string \<Rightarrow> string) \<Rightarrow> string \<Rightarrow> int \<Rightarrow> string" where
  "Day0GIFor sha256 resourceName volumeNumber =
     (let h = sha256 (''blockstor-day0:'' @ resourceName @ ''/'' @ Itoa volumeNumber);
          h' = h[7 := clear_low_bit (h ! 7)]
      in ToUpper (EncodeToString (take 8 h')))"

section \<open>Metadata dumps\<close>

definition generationUUIDDigits :: nat where "generationUUIDDigits = 16"

definition hex_lower :: string where "hex_lower = ''0123456789abcdef''"

definition isHex :: "string \<Rightarrow> bool" where
  "isHex digits = (digits \<noteq> [] \<and> list_all (\<lambda>c. c \<in> set hex_lower) (ToLower digits))"

definition IsGenerationUUID :: "string \<Rightarrow> bool" where
  "IsGenerationUUID s = (length s = generationUUIDDigits \<and> isHex s \<and> Trim s ''0'' \<noteq> [])"

definition hex_upper :: string where "hex_upper = ''0123456789ABCDEF''"

definition clearPrimaryBit :: "string \<Rightarrow> string" where
  "clearPrimaryBit u =
     (let uuid = ToUpper (TrimPrefix (TrimPrefix u ''0x'') ''0X'')
      in if uuid = [] then uuid
         else if last uuid \<notin> set hex_upper then uuid
         else butlast uuid @ [hex_upper ! (length (takeWhile (\<lambda>c. c \<noteq> last uuid) hex_upper) div 2 * 2)])"

definition SameGeneration :: "string \<Rightarrow> string \<Rightarrow> bool" where
  "SameGeneration a b = EqualFold (clearPrimaryBit a) (clearPrimaryBit b)"

definition dumpKeyCurrent :: string where "dumpKeyCurrent = ''current-uuid''"
definition dumpKeyV08 :: string where "dumpKeyV08 = ''uuid''"

definition uuidStatement :: "string \<Rightarrow> string option" where
  "uuidStatement statement =
     (case CutPrefix (TrimSpace statement) ''0x'' of
        (digits, ok) \<Rightarrow> if \<not> ok \<or> \<not> IsGenerationUUID digits then None else Some (ToUpper digits))"

definition appendUUIDStatements :: "string list \<Rightarrow> string \<Rightarrow> string list" where
  "appendUUIDStatements out text = out @ List.map_filter uuidStatement (Split CHR '';'' text)"

definition firstStatement :: "string \<Rightarrow> string option" where
  "firstStatement text = List.find (\<lambda>t. t \<noteq> []) (map TrimSpace (Split CHR '';'' text))"

record uuidDump =
  ud_out :: "string list"
  ud_block :: bool
  ud_current :: bool
  ud_v08Lead :: bool

definition blockText :: "string \<Rightarrow> bool \<Rightarrow> uuidDump \<Rightarrow> uuidDump" where
  "blockText text ends d =
     (let d1 = (case firstStatement text of
                  Some first \<Rightarrow>
                    if ud_v08Lead d
                    then d\<lparr>ud_current := ud_current d \<or> uuidStatement first \<noteq> None, ud_v08Lead := False\<rparr>
                    else d
                | None \<Rightarrow> d)
      in d1\<lparr>ud_out := appendUUIDStatements (ud_out d1) text, ud_block := \<not> ends,
            ud_v08Lead := ud_v08Lead d1 \<and> \<not> ends\<rparr>)"

definition uuid_line :: "string \<Rightarrow> uuidDump \<Rightarrow> uuidDump" where
  "uuid_line line d =
     (if ud_block d then
        (case Cut line CHR ''}'' of (body, _, ends) \<Rightarrow> blockText body ends d)
      else
        (case Cut line CHR '' '' of (key, rest, _) \<Rightarrow>
           if key = dumpKeyCurrent \<or> key = ''bitmap-uuid'' then
             (let out = appendUUIDStatements (ud_out d) rest
              in d\<lparr>ud_out := out,
                   ud_current := ud_current d \<or> key = dumpKeyCurrent \<and> length (ud_out d) < length out\<rparr>)
           else if key = ''history-uuids'' \<or> key = dumpKeyV08 then
             (let d1 = d\<lparr>ud_v08Lead := (key = dumpKeyV08)\<rparr>
              in (case CutPrefix (TrimSpace rest) ''{'' of (body, opens) \<Rightarrow>
                    if \<not> opens then blockText rest True d1
                    else (case Cut body CHR ''}'' of (body', _, ends) \<Rightarrow> blockText body' ends d1)))
           else d))"

definition dumpLineMax :: int where "dumpLineMax = 16777216"

datatype dump_err = DumpLineTooLong | ErrUnreadableMetadataDump

text \<open>\<open>bufio.Scanner\<close> hands out the lines; it stops with an error at one that does not fit the buffer.\<close>

definition ParseMetadataUUIDs :: "string \<Rightarrow> dump_err + string list" where
  "ParseMetadataUUIDs dump =
     (let lines = Split CHR 0x0A dump;
          zero = \<lparr>ud_out = [], ud_block = False, ud_current = False, ud_v08Lead = False\<rparr>;
          parsed = fold (\<lambda>l. uuid_line (TrimSpace l)) lines zero
      in if list_ex (\<lambda>l. dumpLineMax \<le> int (length l)) lines then Inl DumpLineTooLong
         else if \<not> ud_current parsed \<or> ud_out parsed = [] then Inl ErrUnreadableMetadataDump
         else Inr (ud_out parsed))"

definition anySameGeneration :: "string list \<Rightarrow> string list \<Rightarrow> bool" where
  "anySameGeneration onDisk known = list_ex (\<lambda>a. list_ex (SameGeneration a) known) onDisk"

section \<open>Identifiers\<close>

lemma upper_hex_digit: "n < 16 \<Longrightarrow> to_upper (hex_digit n) = hex_upper ! n"
  by (simp add: less_Suc_eq numeral_eq_Suc) (elim disjE; simp; code_simp)

lemma length_EncodeToString: "length (EncodeToString bs) = 2 * length bs"
  by (induction bs) (simp_all add: EncodeToString_def)

text \<open>Upper-case hexadecimal, two digits a byte.\<close>

lemma ToUpper_EncodeToString:
  "ToUpper (EncodeToString bs) =
     concat (map (\<lambda>b. [hex_upper ! (of_char b div 16), hex_upper ! (of_char b mod 16)]) bs)"
proof -
  have "of_char b div 16 < (16 :: nat)" for b
    using nat_of_char_less_256 [of b] by (simp add: less_mult_imp_div_less)
  then show ?thesis
    by (induction bs) (simp_all add: EncodeToString_def ToUpper_def upper_hex_digit)
qed

lemma hex_upper_low:
  "n < 16 \<Longrightarrow> length (takeWhile (\<lambda>c. c \<noteq> hex_upper ! n) hex_upper) = n"
  by (simp add: less_Suc_eq numeral_eq_Suc) (elim disjE; simp; code_simp)

lemma lower_hex_upper: "n < 16 \<Longrightarrow> to_lower (hex_upper ! n) \<in> set hex_lower"
  by (simp add: less_Suc_eq numeral_eq_Suc) (elim disjE; simp; code_simp)

lemma even_part_div: "n div 2 * 2 div 16 = (n div 16 :: nat)"
  using div_mult2_eq [of n 2 8] div_mult2_eq [of "n div 2 * 2" 2 8] by simp

lemma even_part_mod: "n div 2 * 2 mod 16 = (n mod 16 div 2 * 2 :: nat)"
  using mod_mult2_eq [of n 2 8] mod_mult2_eq [of "n div 2 * 2" 2 8] by simp

text \<open>A day-0 identifier is sixteen hexadecimal digits, the last of them even.\<close>

lemma Day0GIFor_shape:
  assumes "length (sha256 (''blockstor-day0:'' @ rd @ ''/'' @ Itoa vol)) = 32"
  obtains bs b where "Day0GIFor sha256 rd vol =
     ToUpper (EncodeToString bs) @ [hex_upper ! (of_char b div 16), hex_upper ! (of_char b mod 16 div 2 * 2)]"
    "length bs = 7"
proof -
  define h where "h = sha256 (''blockstor-day0:'' @ rd @ ''/'' @ Itoa vol)"
  define h' where "h' = h[7 := clear_low_bit (h ! 7)]"
  have len: "length h = 32" using assms by (simp add: h_def)
  then have t: "take 8 h' = take 7 h @ [clear_low_bit (h ! 7)]"
    by (simp add: h'_def take_Suc_conv_app_nth numeral_eq_Suc)
  have n: "(of_char (h ! 7) div 2 * 2 :: nat) < 256"
    by (rule le_less_trans [OF div_times_less_eq_dividend]) simp
  then have "of_char (clear_low_bit (h ! 7)) = (of_char (h ! 7) div 2 * 2 :: nat)"
    by (simp add: clear_low_bit_def)
  moreover have "(of_char (h ! 7) div 2 * 2) div 16 = (of_char (h ! 7) div 16 :: nat)"
    "(of_char (h ! 7) div 2 * 2) mod 16 = (of_char (h ! 7) mod 16 div 2 * 2 :: nat)"
    by (rule even_part_div even_part_mod)+
  ultimately have "Day0GIFor sha256 rd vol = ToUpper (EncodeToString (take 7 h)) @
      [hex_upper ! (of_char (h ! 7) div 16), hex_upper ! (of_char (h ! 7) mod 16 div 2 * 2)]"
    unfolding Day0GIFor_def h_def [symmetric] h'_def [symmetric] Let_def t
    by (simp add: ToUpper_EncodeToString)
  with len show ?thesis using that [of "take 7 h" "h ! 7"] by simp
qed

lemma isHex_ToUpper_EncodeToString:
  "list_all (\<lambda>c. c \<in> set hex_lower) (ToLower (ToUpper (EncodeToString bs)))"
proof -
  have "of_char b div 16 < (16 :: nat)" for b
    using nat_of_char_less_256 [of b] by (simp add: less_mult_imp_div_less)
  then show ?thesis
    unfolding ToUpper_EncodeToString ToLower_def
    by (induction bs) (simp_all add: lower_hex_upper)
qed

lemma Day0GIFor_digits:
  assumes "length (sha256 (''blockstor-day0:'' @ rd @ ''/'' @ Itoa vol)) = 32"
  shows "length (Day0GIFor sha256 rd vol) = generationUUIDDigits \<and> isHex (Day0GIFor sha256 rd vol)"
proof -
  obtain bs b where d: "Day0GIFor sha256 rd vol = ToUpper (EncodeToString bs) @
      [hex_upper ! (of_char b div 16), hex_upper ! (of_char b mod 16 div 2 * 2)]" and l: "length bs = 7"
    using Day0GIFor_shape [of sha256, OF assms] by blast
  have n: "of_char b div 16 < (16 :: nat)"
    using nat_of_char_less_256 [of b] by (simp add: less_mult_imp_div_less)
  have m: "of_char b mod 16 div 2 * 2 < (16 :: nat)"
    by (rule le_less_trans [OF div_times_less_eq_dividend]) simp
  have "list_all (\<lambda>c. c \<in> set hex_lower) (ToLower (Day0GIFor sha256 rd vol))"
    unfolding d ToLower_def map_append list_all_append
    using isHex_ToUpper_EncodeToString [of bs] lower_hex_upper [OF n] lower_hex_upper [OF m]
    unfolding ToLower_def by simp
  moreover have "length (Day0GIFor sha256 rd vol) = generationUUIDDigits"
    unfolding d by (simp add: l generationUUIDDigits_def length_EncodeToString ToUpper_def)
  ultimately show ?thesis by (auto simp: isHex_def generationUUIDDigits_def)
qed

section \<open>The primary bit\<close>

lemma SameGeneration_refl: "SameGeneration u u"
  by (simp add: SameGeneration_def EqualFold_def)

lemma SameGeneration_sym: "SameGeneration u v \<Longrightarrow> SameGeneration v u"
  by (simp add: SameGeneration_def EqualFold_def)

lemma SameGeneration_trans: "SameGeneration u v \<Longrightarrow> SameGeneration v w \<Longrightarrow> SameGeneration u w"
  by (simp add: SameGeneration_def EqualFold_def)

section \<open>Reading a dump\<close>

text \<open>An identifier as \<open>drbdmeta\<close> prints it: sixteen upper-case digits, all zero for none.\<close>

definition printed_uuid :: "string \<Rightarrow> bool" where
  "printed_uuid u = (length u = generationUUIDDigits \<and> list_all (\<lambda>c. c \<in> set hex_upper) u)"

text \<open>The v09 listing of \<open>print_dump_gi\<close>: the current identifier, one block per peer slot, the history.\<close>

definition dump_uuid :: "string \<Rightarrow> string" where "dump_uuid u = ''0x'' @ u @ '';''"

definition dump_current :: "string \<Rightarrow> string" where "dump_current u = ''current-uuid '' @ dump_uuid u"
definition dump_open :: "int \<Rightarrow> string" where "dump_open i = ''peer['' @ Itoa i @ ''] {''"
definition dump_bitmap :: "string \<Rightarrow> string" where "dump_bitmap u = ''    bitmap-uuid '' @ dump_uuid u"

definition dump_history :: "string list \<Rightarrow> string" where
  "dump_history us = ''        '' @ join_with '' '' (map dump_uuid us)"

definition dump_peer :: "int \<times> string \<Rightarrow> string list" where
  "dump_peer p = [dump_open (fst p), dump_bitmap (snd p), ''}'']"

definition dump_v09 :: "string \<Rightarrow> (int \<times> string) list \<Rightarrow> string list list \<Rightarrow> string" where
  "dump_v09 current peers history = join_with [CHR 0x0A]
     ([dump_current current] @ concat (map dump_peer peers) @ [''history-uuids {''] @ map dump_history history @ [''}''])"

definition nonzero_uuids :: "string list \<Rightarrow> string list" where
  "nonzero_uuids us = filter (\<lambda>u. Trim u ''0'' \<noteq> []) us"

lemma hex_upper_char:
  assumes "c \<in> set hex_upper"
  shows "\<not> is_space c" "c \<noteq> CHR '';''" "c \<noteq> CHR ''}''" "c \<noteq> CHR 0x0A" "to_upper c = c"
    "to_lower c \<in> set hex_lower"
proof -
  have "list_all (\<lambda>c. \<not> is_space c \<and> c \<noteq> CHR '';'' \<and> c \<noteq> CHR ''}'' \<and> c \<noteq> CHR 0x0A \<and> to_upper c = c \<and>
      to_lower c \<in> set hex_lower) hex_upper" by code_simp
  with assms show "\<not> is_space c" "c \<noteq> CHR '';''" "c \<noteq> CHR ''}''" "c \<noteq> CHR 0x0A" "to_upper c = c"
    "to_lower c \<in> set hex_lower" unfolding list_all_iff by blast+
qed

lemma printed_uuid_facts:
  assumes "printed_uuid u"
  shows "u \<noteq> []" "list_all (\<lambda>c. \<not> is_space c) u" "CHR '';'' \<notin> set u" "CHR ''}'' \<notin> set u" "CHR 0x0A \<notin> set u"
    "ToUpper u = u" "IsGenerationUUID u \<longleftrightarrow> Trim u ''0'' \<noteq> []"
proof -
  have u: "length u = generationUUIDDigits" "\<And>c. c \<in> set u \<Longrightarrow> c \<in> set hex_upper"
    using assms by (simp_all add: printed_uuid_def list_all_iff)
  then show ne: "u \<noteq> []" by (auto simp: generationUUIDDigits_def)
  show "list_all (\<lambda>c. \<not> is_space c) u" "CHR '';'' \<notin> set u" "CHR ''}'' \<notin> set u" "CHR 0x0A \<notin> set u"
    using u(2) hex_upper_char by (metis list_all_iff)+
  show "ToUpper u = u" using u(2) hex_upper_char(5) by (simp add: ToUpper_def map_idI)
  have "isHex u" using u(2) hex_upper_char(6) ne by (auto simp: isHex_def ToLower_def list_all_iff)
  then show "IsGenerationUUID u \<longleftrightarrow> Trim u ''0'' \<noteq> []" by (simp add: IsGenerationUUID_def u(1))
qed

lemma TrimSpace_spaces: "TrimSpace (CHR '' '' # s) = TrimSpace s"
  by (simp add: TrimSpace_def is_space_def)

lemma uuidStatement_space: "uuidStatement (CHR '' '' # s) = uuidStatement s"
  by (simp add: uuidStatement_def TrimSpace_spaces)

lemma uuidStatement_Nil: "uuidStatement [] = None"
  by (simp add: uuidStatement_def TrimSpace_def CutPrefix_def HasPrefix_def)

lemma uuidStatement_printed:
  assumes "printed_uuid u"
  shows "uuidStatement (CHR ''0'' # CHR ''x'' # u) = (if Trim u ''0'' \<noteq> [] then Some u else None)"
proof -
  have "TrimSpace (''0x'' @ u) = ''0x'' @ u"
    by (rule TrimSpace_id) (use printed_uuid_facts(2) [OF assms] in \<open>auto simp: list_all_iff is_space_def\<close>)
  then show ?thesis
    using printed_uuid_facts(6,7) [OF assms] by (simp add: uuidStatement_def CutPrefix_def HasPrefix_def)
qed

lemma map_filter_Split_space:
  "List.map_filter uuidStatement (Split CHR '';'' (CHR '' '' # s)) = List.map_filter uuidStatement (Split CHR '';'' s)"
  by (cases "Split CHR '';'' s") (simp_all add: List.map_filter_def uuidStatement_space)

lemma map_filter_dump_uuid:
  assumes "printed_uuid u"
  shows "List.map_filter uuidStatement (Split CHR '';'' (dump_uuid u @ s)) =
    nonzero_uuids [u] @ List.map_filter uuidStatement (Split CHR '';'' s)"
proof -
  have "Split CHR '';'' (dump_uuid u @ s) = (''0x'' @ u) # Split CHR '';'' s"
    using printed_uuid_facts(3) [OF assms] Split_sep [of "CHR '';''" "''0x'' @ u" s] by (simp add: dump_uuid_def)
  then show ?thesis
    by (simp add: map_filter_simps uuidStatement_printed [OF assms] nonzero_uuids_def)
qed

lemma append_dump_uuids:
  assumes "list_all printed_uuid us"
  shows "appendUUIDStatements out (join_with '' '' (map dump_uuid us)) = out @ nonzero_uuids us"
proof -
  have "List.map_filter uuidStatement (Split CHR '';'' (join_with '' '' (map dump_uuid us))) = nonzero_uuids us"
    using assms
  proof (induction us)
    case Nil
    then show ?case by (simp add: map_filter_simps uuidStatement_Nil nonzero_uuids_def)
  next
    case (Cons u us)
    note IH = Cons.IH
    have e: "List.map_filter uuidStatement (Split CHR '';'' []) = []"
      by (simp add: map_filter_simps uuidStatement_Nil)
    show ?case
    proof (cases us)
      case Nil
      then show ?thesis
        using Cons.prems map_filter_dump_uuid [of u "[]"] e by simp
    next
      case (Cons v vs)
      have "join_with '' '' (map dump_uuid (u # us)) = dump_uuid u @ CHR '' '' # join_with '' '' (map dump_uuid us)"
        by (simp add: Cons)
      moreover have "nonzero_uuids (u # us) = nonzero_uuids [u] @ nonzero_uuids us" by (simp add: nonzero_uuids_def)
      ultimately show ?thesis
        using \<open>list_all printed_uuid (u # us)\<close> IH
        by (simp only: map_filter_dump_uuid map_filter_Split_space list.pred_inject)
    qed
  qed
  then show ?thesis by (simp add: appendUUIDStatements_def)
qed

lemma append_dump_uuid: "printed_uuid u \<Longrightarrow> appendUUIDStatements out (dump_uuid u) = out @ nonzero_uuids [u]"
  using append_dump_uuids [of "[u]" out] by simp

lemma blockText_plain:
  "\<not> ud_v08Lead d \<Longrightarrow> blockText s e d = d\<lparr>ud_out := appendUUIDStatements (ud_out d) s, ud_block := \<not> e, ud_v08Lead := False\<rparr>"
  by (simp add: blockText_def Let_def split: option.split)

lemma dump_uuid_chars:
  assumes "printed_uuid u" "c \<in> {CHR ''}'', CHR 0x0A}"
  shows "c \<notin> set (dump_uuid u)"
  using printed_uuid_facts(4,5) [OF assms(1)] assms(2) by (auto simp: dump_uuid_def)

lemma join_uuid_chars:
  assumes "list_all printed_uuid us" "c \<in> {CHR ''}'', CHR 0x0A}"
  shows "c \<notin> set (join_with '' '' (map dump_uuid us))"
  using assms
proof (induction us)
  case (Cons u us)
  then show ?case using dump_uuid_chars [of u c] by (cases us) auto
qed simp

lemma uuid_line_current:
  assumes "printed_uuid u" "\<not> ud_block d"
  shows "uuid_line (TrimSpace (dump_current u)) d =
    d\<lparr>ud_out := ud_out d @ nonzero_uuids [u], ud_current := ud_current d \<or> nonzero_uuids [u] \<noteq> []\<rparr>"
proof -
  have "TrimSpace (''current-uuid '' @ dump_uuid u) = ''current-uuid '' @ dump_uuid u"
    using TrimSpace_inner [of "CHR ''c''" "CHR '';''" "[]" "''urrent-uuid 0x'' @ u"] by (simp add: dump_uuid_def is_space_def)
  moreover have "Cut (''current-uuid '' @ dump_uuid u) CHR '' '' = (''current-uuid'', dump_uuid u, True)"
    using Cut_sep [of "CHR '' ''" "''current-uuid''" "dump_uuid u"] by simp
  ultimately show ?thesis
    unfolding dump_current_def using assms by (simp add: uuid_line_def dumpKeyCurrent_def append_dump_uuid Let_def)
qed

lemma uuid_line_bitmap:
  assumes "printed_uuid u" "\<not> ud_block d"
  shows "uuid_line (TrimSpace (dump_bitmap u)) d = d\<lparr>ud_out := ud_out d @ nonzero_uuids [u]\<rparr>"
proof -
  have "TrimSpace (''    bitmap-uuid '' @ dump_uuid u) = ''bitmap-uuid '' @ dump_uuid u"
    using TrimSpace_inner [of "CHR ''b''" "CHR '';''" "''    ''" "''itmap-uuid 0x'' @ u"]
    by (simp add: dump_uuid_def is_space_def)
  moreover have "Cut (''bitmap-uuid '' @ dump_uuid u) CHR '' '' = (''bitmap-uuid'', dump_uuid u, True)"
    using Cut_sep [of "CHR '' ''" "''bitmap-uuid''" "dump_uuid u"] by simp
  ultimately show ?thesis
    unfolding dump_bitmap_def using assms by (simp add: uuid_line_def dumpKeyCurrent_def append_dump_uuid Let_def)
qed

lemma Itoa_no_space: "CHR '' '' \<notin> set (Itoa i)"
  using digits_of_digits digit_not_sign by (auto simp: Itoa_def list_all_iff is_space_def split: if_splits)

lemma uuid_line_peer:
  assumes "\<not> ud_block d"
  shows "uuid_line (TrimSpace (dump_open i)) d = d"
proof -
  have "TrimSpace (''peer['' @ Itoa i @ ''] {'') = ''peer['' @ Itoa i @ ''] {''"
    using TrimSpace_inner [of "CHR ''p''" "CHR ''{''" "[]" "''eer['' @ Itoa i @ ''] ''"] by (simp add: is_space_def)
  moreover have "Cut (''peer['' @ Itoa i @ ''] {'') CHR '' '' = (''peer['' @ Itoa i @ '']'', ''{'', True)"
    using Cut_sep [of "CHR '' ''" "''peer['' @ Itoa i @ '']''" "''{''"] Itoa_no_space [of i] by simp
  ultimately show ?thesis unfolding dump_open_def using assms by (simp add: uuid_line_def dumpKeyCurrent_def dumpKeyV08_def)
qed

lemma uuid_line_close: "\<not> ud_block d \<Longrightarrow> uuid_line (TrimSpace ''}'') d = d"
  by (simp add: uuid_line_def TrimSpace_def is_space_def Cut_def dumpKeyCurrent_def dumpKeyV08_def)

lemma uuid_line_history:
  assumes "\<not> ud_block d"
  shows "uuid_line (TrimSpace ''history-uuids {'') d = d\<lparr>ud_block := True, ud_v08Lead := False\<rparr>"
proof -
  have "TrimSpace ''history-uuids {'' = ''history-uuids {''" "TrimSpace ''{'' = ''{''"
    "Cut ''history-uuids {'' CHR '' '' = (''history-uuids'', ''{'', True)" by code_simp+
  then show ?thesis
    using assms append_dump_uuids [of "[]"]
    by (simp add: uuid_line_def dumpKeyCurrent_def dumpKeyV08_def CutPrefix_def HasPrefix_def Cut_def
        blockText_plain nonzero_uuids_def)
qed

lemma uuid_line_inside:
  assumes "list_all printed_uuid us" "ud_block d" "\<not> ud_v08Lead d"
  shows "uuid_line (TrimSpace (dump_history us)) d =
    d\<lparr>ud_out := ud_out d @ nonzero_uuids us\<rparr>"
proof -
  let ?j = "join_with '' '' (map dump_uuid us)"
  have trim: "TrimSpace (''        '' @ ?j) = ?j"
  proof (cases us rule: rev_cases)
    case Nil
    then show ?thesis by (simp add: TrimSpace_def is_space_def)
  next
    case (snoc vs v)
    have "\<exists>xs. join_with '' '' (map dump_uuid (vs @ [v])) = xs @ [CHR '';'']"
      by (induction vs rule: induct_list012) (auto simp: dump_uuid_def)
    then obtain xs where xs: "?j = xs @ [CHR '';'']" unfolding snoc by blast
    have "hd ?j = CHR ''0''" "length ?j \<ge> 2"
      unfolding snoc by (cases vs rule: remdups_adj.cases; simp add: dump_uuid_def)+
    then obtain ys where "?j = CHR ''0'' # ys @ [CHR '';'']"
      using xs by (cases xs) auto
    then show ?thesis
      using TrimSpace_inner [of "CHR ''0''" "CHR '';''" "''        ''" ys] by (simp add: is_space_def)
  qed
  have "Cut ?j CHR ''}'' = (?j, [], False)"
    by (rule Cut_no_sep) (rule join_uuid_chars [OF assms(1)], simp)
  then show ?thesis
    unfolding dump_history_def trim using assms(2,3)
    by (cases d) (simp add: uuid_line_def blockText_plain append_dump_uuids [OF assms(1)])
qed

lemma uuid_line_end:
  assumes "ud_block d" "\<not> ud_v08Lead d"
  shows "uuid_line (TrimSpace ''}'') d = d\<lparr>ud_block := False\<rparr>"
  using assms append_dump_uuids [of "[]"]
  by (cases d) (simp add: uuid_line_def TrimSpace_def is_space_def Cut_def blockText_plain nonzero_uuids_def)

lemma fold_peers:
  assumes "list_all (printed_uuid \<circ> snd) peers" "\<not> ud_block d"
  shows "fold (\<lambda>l. uuid_line (TrimSpace l)) (concat (map dump_peer peers)) d =
    d\<lparr>ud_out := ud_out d @ nonzero_uuids (map snd peers)\<rparr>"
  using assms
proof (induction peers arbitrary: d)
  case Nil
  then show ?case by (cases d) (simp add: nonzero_uuids_def)
next
  case (Cons p peers)
  have "fold (\<lambda>l. uuid_line (TrimSpace l)) (dump_peer p) d = d\<lparr>ud_out := ud_out d @ nonzero_uuids [snd p]\<rparr>"
    using Cons.prems by (simp add: dump_peer_def uuid_line_peer uuid_line_bitmap uuid_line_close)
  with Cons show ?case by (simp add: nonzero_uuids_def)
qed

lemma fold_history:
  assumes "list_all (list_all printed_uuid) history" "ud_block d" "\<not> ud_v08Lead d"
  shows "fold (\<lambda>l. uuid_line (TrimSpace l)) (map dump_history history) d =
    d\<lparr>ud_out := ud_out d @ nonzero_uuids (concat history)\<rparr>"
  using assms
proof (induction history arbitrary: d)
  case Nil
  then show ?case by (cases d) (simp add: nonzero_uuids_def)
next
  case (Cons us history)
  then show ?case by (simp add: uuid_line_inside) (simp add: nonzero_uuids_def)
qed

definition dump_lines :: "string \<Rightarrow> (int \<times> string) list \<Rightarrow> string list list \<Rightarrow> string list" where
  "dump_lines current peers history =
     [dump_current current] @ concat (map dump_peer peers) @ [''history-uuids {''] @ map dump_history history @ [''}'']"

lemma Itoa_no_newline: "CHR 0x0A \<notin> set (Itoa i)"
  using digits_of_digits digit_not_sign by (fastforce simp: Itoa_def list_all_iff is_space_def split: if_splits)

lemma dump_lines_clean:
  assumes "printed_uuid current" "list_all (printed_uuid \<circ> snd) peers" "list_all (list_all printed_uuid) history"
  shows "list_all (\<lambda>l. CHR 0x0A \<notin> set l) (dump_lines current peers history)"
proof -
  have "CHR 0x0A \<notin> set (dump_current current)"
    using dump_uuid_chars [OF assms(1), of "CHR 0x0A"] by (simp add: dump_current_def)
  moreover have "list_all (\<lambda>l. CHR 0x0A \<notin> set l) (concat (map dump_peer peers))"
    using assms(2) dump_uuid_chars [of _ "CHR 0x0A"] Itoa_no_newline
    by (induction peers) (simp_all add: dump_peer_def dump_open_def dump_bitmap_def)
  moreover have "list_all (\<lambda>l. CHR 0x0A \<notin> set l) (map dump_history history)"
    using assms(3) join_uuid_chars [of _ "CHR 0x0A"]
    by (induction history) (simp_all add: dump_history_def)
  ultimately show ?thesis by (simp add: dump_lines_def)
qed

lemma fold_dump_lines:
  assumes "printed_uuid current" "list_all (printed_uuid \<circ> snd) peers" "list_all (list_all printed_uuid) history"
  shows "fold (\<lambda>l. uuid_line (TrimSpace l)) (dump_lines current peers history)
      \<lparr>ud_out = [], ud_block = False, ud_current = False, ud_v08Lead = False\<rparr> =
    \<lparr>ud_out = nonzero_uuids (current # map snd peers @ concat history), ud_block = False,
     ud_current = (nonzero_uuids [current] \<noteq> []), ud_v08Lead = False\<rparr>"
proof -
  have "nonzero_uuids (current # map snd peers @ concat history) =
      nonzero_uuids [current] @ nonzero_uuids (map snd peers) @ nonzero_uuids (concat history)"
    by (simp add: nonzero_uuids_def)
  then show ?thesis
    using assms
    by (simp add: dump_lines_def uuid_line_current fold_peers uuid_line_history fold_history uuid_line_end)
qed

text \<open>
  C27. A metadata listing in the v09 layout is read completely: with a current identifier, the parser returns
  it, the bitmap identifier of every peer slot and the history, in order and without the zero ones. A listing
  whose current identifier is zero is an error, never an empty answer.
\<close>

theorem ParseMetadataUUIDs_dump:
  assumes "printed_uuid current" "list_all (printed_uuid \<circ> snd) peers" "list_all (list_all printed_uuid) history"
    and "int (length (dump_v09 current peers history)) < dumpLineMax"
  shows "ParseMetadataUUIDs (dump_v09 current peers history) =
    (if nonzero_uuids [current] = [] then Inl ErrUnreadableMetadataDump
     else Inr (nonzero_uuids (current # map snd peers @ concat history)))"
proof -
  let ?ls = "dump_lines current peers history"
  have d: "dump_v09 current peers history = join_with [CHR 0x0A] ?ls"
    by (simp add: dump_v09_def dump_lines_def)
  have "?ls \<noteq> []" by (simp add: dump_lines_def)
  then have s: "Split CHR 0x0A (dump_v09 current peers history) = ?ls"
    unfolding d by (rule Split_join) (rule dump_lines_clean [OF assms(1-3)])
  have "int (length l) < dumpLineMax" if "l \<in> set ?ls" for l
    using length_join [OF that, of "[CHR 0x0A]"] assms(4) unfolding d by linarith
  then have "\<not> list_ex (\<lambda>l. dumpLineMax \<le> int (length l)) ?ls" by (force simp: list_ex_iff)
  moreover have "nonzero_uuids (current # map snd peers @ concat history) =
      nonzero_uuids [current] @ nonzero_uuids (map snd peers @ concat history)"
    by (simp add: nonzero_uuids_def)
  ultimately show ?thesis
    unfolding ParseMetadataUUIDs_def s Let_def fold_dump_lines [OF assms(1-3)] by auto
qed

theorem ParseMetadataUUIDs_dump_witness:
  "ParseMetadataUUIDs (dump_v09 ''9F00AA11BB22CC33'' [(1, ''6E3A5D0B2C1F4A96''), (2, ''0000000000000000'')]
     [[''1234567890ABCDEF'', ''0000000000000000'']]) =
   Inr [''9F00AA11BB22CC33'', ''6E3A5D0B2C1F4A96'', ''1234567890ABCDEF'']"
proof -
  let ?c = "''9F00AA11BB22CC33''" and ?p = "[(1, ''6E3A5D0B2C1F4A96''), (2, ''0000000000000000'')] :: (int \<times> string) list"
    and ?h = "[[''1234567890ABCDEF'', ''0000000000000000'']]"
  have a: "printed_uuid ?c" "list_all (printed_uuid \<circ> snd) ?p" "list_all (list_all printed_uuid) ?h"
    "int (length (dump_v09 ?c ?p ?h)) < dumpLineMax" by code_simp+
  have "nonzero_uuids [?c] \<noteq> []" "nonzero_uuids (?c # map snd ?p @ concat ?h) =
      [''9F00AA11BB22CC33'', ''6E3A5D0B2C1F4A96'', ''1234567890ABCDEF'']" by code_simp+
  with ParseMetadataUUIDs_dump [OF a] show ?thesis by simp
qed

end
