(* ===== verification/Drbd_Conf.thy ===== *)
theory Drbd_Conf
  imports Drbd_Options
begin

text \<open>
  The resource file of a replica (\<open>pkg/drbd/conffile.go\<close>): its sections, hosts and connections as the
  renderer writes them, and the check of option values that precedes it.  Every writer of the source ends its
  output with a newline; here a writer returns its lines and \<open>conf_text\<close> joins them.
\<close>

section \<open>Data\<close>

record ResourcePath =
  rp_Name :: string
  rp_AddressA :: string
  rp_AddressB :: string

record ResourceConnection =
  rc_NodeA :: string
  rc_NodeB :: string
  rc_Paths :: "ResourcePath list"

record conf_Net =
  cn_ProtocolC :: bool
  cn_SharedSecret :: string
  cn_Options :: props

record conf_Host =
  ch_NodeName :: string
  ch_Address :: string
  ch_Port :: int
  ch_NodeID :: int
  ch_IsLocal :: bool
  ch_Diskless :: bool

record conf_Volume =
  cv_Number :: int
  cv_Device :: string
  cv_Disk :: string
  cv_Minor :: int
  cv_MetaDisk :: string

record conf_Resource =
  cr_Name :: string
  cr_Net :: conf_Net
  cr_Hosts :: "conf_Host list"
  cr_Volumes :: "conf_Volume list"
  cr_Options :: props
  cr_Disk :: props
  cr_Handlers :: props
  cr_PeerDevice :: props
  cr_Connections :: "ResourceConnection list"

datatype conf_err = ErrNameRequired | ErrUnrepresentableValue string string char

section \<open>Values\<close>

definition sortedKeys :: "props \<Rightarrow> string list" where
  "sortedKeys m = sort (map fst m)"

definition quoteValue :: "string \<Rightarrow> string" where
  "quoteValue v =
     ''\"'' @ concat (map (\<lambda>c. if c = CHR ''\"'' \<or> c = CHR 0x5C then [CHR 0x5C, c] else [c]) v) @ ''\"''"

definition isBareTokenByte :: "char \<Rightarrow> bool" where
  "isBareTokenByte c =
     (CHR ''a'' \<le> c \<and> c \<le> CHR ''z'' \<or> CHR ''A'' \<le> c \<and> c \<le> CHR ''Z'' \<or> CHR ''0'' \<le> c \<and> c \<le> CHR ''9'' \<or>
      c = CHR ''/'' \<or> c = CHR ''.'' \<or> c = CHR ''_'' \<or> c = CHR ''-'')"

definition bareTokenMaxLen :: nat where "bareTokenMaxLen = 80"

definition needsQuoting :: "string \<Rightarrow> bool" where
  "needsQuoting v = (v = [] \<or> bareTokenMaxLen < length v \<or> list_ex (\<lambda>c. \<not> isBareTokenByte c) v)"

definition ValidateOptionValue :: "string \<Rightarrow> string \<Rightarrow> string \<Rightarrow> conf_err option" where
  "ValidateOptionValue block key v =
     map_option (ErrUnrepresentableValue block key) (List.find (\<lambda>c. c \<in> {CHR 0x0A, CHR 0x0D, CHR 0x00}) v)"

definition sharedSecretOption :: string where "sharedSecretOption = ''shared-secret''"

text \<open>The first complaint of a list of checks.\<close>

fun first_err :: "'e option list \<Rightarrow> 'e option" where
  "first_err [] = None"
| "first_err (Some e # _) = Some e"
| "first_err (None # es) = first_err es"

definition checkValues :: "conf_Resource \<Rightarrow> conf_err option" where
  "checkValues r =
     (let blocks = [(SectionNet, cn_Options (cr_Net r)), (SectionOptions, cr_Options r), (SectionDisk, cr_Disk r),
                    (SectionHandlers, cr_Handlers r), (SectionPeerDevice, cr_PeerDevice r)]
      in first_err (ValidateOptionValue SectionNet sharedSecretOption (cn_SharedSecret (cr_Net r)) #
           concat (map (\<lambda>(name, opts). map (\<lambda>k. ValidateOptionValue name k (gm_idx opts k)) (sortedKeys opts)) blocks)))"

section \<open>Writers\<close>

definition writeOption :: "string \<Rightarrow> string \<Rightarrow> string \<Rightarrow> string" where
  "writeOption indent key v = indent @ key @ '' '' @ (if needsQuoting v then quoteValue v else v) @ '';''"

definition writeNet :: "conf_Net \<Rightarrow> string list" where
  "writeNet n =
     (if cn_SharedSecret n = [] \<and> cn_Options n = [] then []
      else [''  net {''] @
        (if cn_SharedSecret n \<noteq> [] then [''    '' @ sharedSecretOption @ '' '' @ quoteValue (cn_SharedSecret n) @ '';''] else []) @
        concat (map (\<lambda>opt.
          if EqualFold opt sharedSecretOption
          then (if cn_SharedSecret n = [] then [''    '' @ opt @ '' '' @ quoteValue (gm_idx (cn_Options n) opt) @ '';''] else [])
          else [writeOption ''    '' opt (gm_idx (cn_Options n) opt)]) (sortedKeys (cn_Options n))) @
        [''  }''])"

definition writeNamedBlock :: "string \<Rightarrow> props \<Rightarrow> string list" where
  "writeNamedBlock name opts =
     (if opts = [] then []
      else [''  '' @ name @ '' {''] @ map (\<lambda>k. writeOption ''    '' k (gm_idx opts k)) (sortedKeys opts) @ [''  }''])"

definition writeOptions :: "props \<Rightarrow> string list" where
  "writeOptions opts =
     (if opts = [] then []
      else [''  options {''] @ map (\<lambda>k. writeOption ''    '' k (gm_idx opts k)) (sortedKeys opts) @ [''  }''])"

definition peerDiskPlaceholder :: string where "peerDiskPlaceholder = ''/dev/drbd/this/is/not/used''"

definition diskField :: "conf_Host \<Rightarrow> conf_Volume \<Rightarrow> string" where
  "diskField h v = (if ch_Diskless h then ''none'' else if ch_IsLocal h then cv_Disk v else peerDiskPlaceholder)"

definition metaField :: "conf_Host \<Rightarrow> conf_Volume \<Rightarrow> string" where
  "metaField h v = (if ch_IsLocal h \<and> \<not> ch_Diskless h \<and> cv_MetaDisk v \<noteq> [] then cv_MetaDisk v else ''internal'')"

definition writeOnBlock :: "conf_Host \<Rightarrow> conf_Volume list \<Rightarrow> string list" where
  "writeOnBlock h vols =
     [''  on '' @ ch_NodeName h @ '' {'',
      ''    address '' @ ch_Address h @ '':'' @ Itoa (ch_Port h) @ '';'',
      ''    node-id '' @ Itoa (ch_NodeID h) @ '';''] @
     concat (map (\<lambda>v.
       [''    volume '' @ Itoa (cv_Number v) @ '' {'',
        ''      device '' @ cv_Device v @ '' minor '' @ Itoa (cv_Minor v) @ '';'',
        ''      disk '' @ diskField h v @ '';'',
        ''      meta-disk '' @ metaField h v @ '';'',
        ''    }'']) vols) @
     [''  }'']"

definition swapPathSides :: "ResourcePath list \<Rightarrow> ResourcePath list" where
  "swapPathSides = map (\<lambda>p. p\<lparr>rp_AddressA := rp_AddressB p, rp_AddressB := rp_AddressA p\<rparr>)"

fun lookupPaths :: "ResourceConnection list \<Rightarrow> string \<Rightarrow> string \<Rightarrow> ResourcePath list" where
  "lookupPaths [] a b = []"
| "lookupPaths (c # cs) a b =
     (if rc_NodeA c = a \<and> rc_NodeB c = b then rc_Paths c
      else if rc_NodeA c = b \<and> rc_NodeB c = a then swapPathSides (rc_Paths c)
      else lookupPaths cs a b)"

definition host_line :: "string \<Rightarrow> conf_Host \<Rightarrow> string \<Rightarrow> string" where
  "host_line indent h addr = indent @ ''host '' @ ch_NodeName h @ '' address '' @ addr @ '':'' @ Itoa (ch_Port h) @ '';''"

definition writePathBlocks :: "conf_Host \<Rightarrow> conf_Host \<Rightarrow> ResourcePath list \<Rightarrow> string list" where
  "writePathBlocks hostA hostB paths =
     concat (map (\<lambda>p. [''    path {'', host_line ''      '' hostA (rp_AddressA p), host_line ''      '' hostB (rp_AddressB p),
                       ''    }'']) paths)"

definition writeOneConnection :: "conf_Host \<Rightarrow> conf_Host \<Rightarrow> ResourceConnection list \<Rightarrow> props \<Rightarrow> string list" where
  "writeOneConnection hostA hostB conns peerDevice =
     [''  connection {''] @
     (let paths = lookupPaths conns (ch_NodeName hostA) (ch_NodeName hostB) in
      if paths \<noteq> [] then writePathBlocks hostA hostB paths
      else [host_line ''    '' hostA (ch_Address hostA), host_line ''    '' hostB (ch_Address hostB)]) @
     (if peerDevice \<noteq> []
      then [''    disk {''] @ map (\<lambda>k. writeOption ''      '' k (gm_idx peerDevice k)) (sortedKeys peerDevice) @ [''    }'']
      else []) @
     [''  }'']"

definition minMeshPeers :: nat where "minMeshPeers = 2"

fun mesh_lines :: "conf_Host list \<Rightarrow> ResourceConnection list \<Rightarrow> props \<Rightarrow> string list" where
  "mesh_lines [] conns peerDevice = []"
| "mesh_lines (h # hs) conns peerDevice =
     concat (map (\<lambda>k. writeOneConnection h k conns peerDevice) hs) @ mesh_lines hs conns peerDevice"

definition writeConnectionMesh :: "conf_Host list \<Rightarrow> ResourceConnection list \<Rightarrow> props \<Rightarrow> string list" where
  "writeConnectionMesh hosts conns peerDevice =
     (if length hosts < minMeshPeers then [] else mesh_lines hosts conns peerDevice)"

definition conf_lines :: "conf_Resource \<Rightarrow> string list" where
  "conf_lines r =
     [''resource '' @ cr_Name r @ '' {''] @
     (if cn_ProtocolC (cr_Net r) \<and> gm_idx (cn_Options (cr_Net r)) ''protocol'' = [] then [''  protocol C;''] else []) @
     writeNet (cr_Net r) @ writeOptions (cr_Options r) @ writeNamedBlock ''disk'' (cr_Disk r) @
     writeNamedBlock ''handlers'' (cr_Handlers r) @
     concat (map (\<lambda>h. writeOnBlock h (cr_Volumes r)) (cr_Hosts r)) @
     writeConnectionMesh (cr_Hosts r) (cr_Connections r) (cr_PeerDevice r) @ [''}'']"

definition conf_text :: "string list \<Rightarrow> string" where
  "conf_text ls = concat (map (\<lambda>l. l @ [CHR 0x0A]) ls)"

definition Build :: "conf_Resource \<Rightarrow> conf_err + string" where
  "Build r =
     (if cr_Name r = [] then Inl ErrNameRequired
      else case checkValues r of Some e \<Rightarrow> Inl e | None \<Rightarrow> Inr (conf_text (conf_lines r)))"

end
