(* ===== verification/Satellite_Res.thy ===== *)
theory Satellite_Res
  imports Drbd_Conf
begin

text \<open>
  The desired state a satellite receives (\<open>pkg/satellite/intent/types.go\<close>), the resource file it renders from
  it (\<open>buildResFile\<close> and its helpers in \<open>pkg/satellite/reconciler.go\<close>, the disk options of
  \<open>pkg/satellite/discardgran.go\<close>), and how a later pass reads that file back to find the peers that were removed.
\<close>

section \<open>Desired state\<close>

record DesiredPeer =
  dp_Name :: string
  dp_NodeID :: "int option"

record DesiredConnectionPath =
  dcp_Name :: string
  dcp_AddressA :: string
  dcp_AddressB :: string

record DesiredConnection =
  dc_NodeA :: string
  dc_NodeB :: string
  dc_Paths :: "DesiredConnectionPath list"

record DesiredVolume =
  dv_VolumeNumber :: int
  dv_SizeKib :: int
  dv_StoragePool :: string
  dv_SeedFromGI :: string
  dv_Minor :: int
  dv_SourceSnapshot :: string
  dv_MetaPool :: string
  dv_ObservedGI :: string

record DesiredResource =
  dr_Name :: string
  dr_NodeName :: string
  dr_Flags :: "string list"
  dr_Props :: props
  dr_Volumes :: "DesiredVolume list"
  dr_Peers :: "DesiredPeer list"
  dr_DrbdOptions :: props
  dr_LayerStack :: "string list"
  dr_Connections :: "DesiredConnection list"
  dr_MetadataCreated :: bool
  dr_FilesystemFormatted :: bool
  dr_KernelLoaded :: bool
  dr_PeerHasData :: bool
  dr_SkipInitialSync :: "bool option"

definition GetPeerNames :: "DesiredResource \<Rightarrow> string list" where
  "GetPeerNames dr = map dp_Name (dr_Peers dr)"

definition isInactive :: "string list \<Rightarrow> bool" where
  "isInactive flags = (''INACTIVE'' \<in> set flags)"

definition isDiskless :: "string list \<Rightarrow> bool" where
  "isDiskless flags = (''DISKLESS'' \<in> set flags)"

definition skipDiskPropKey :: string where "skipDiskPropKey = ''DrbdOptions/SkipDisk''"

definition isSkipDiskEnabled :: "DesiredResource \<Rightarrow> bool" where
  "isSkipDiskEnabled dr =
     (if EqualFold (gm_idx (dr_DrbdOptions dr) skipDiskPropKey) ''True'' then True
      else EqualFold (gm_idx (dr_Props dr) skipDiskPropKey) ''True'')"

section \<open>Numbers in the option bag\<close>

text \<open>\<open>strconv.Atoi\<close> with the error ignored: zero for a malformed number, the nearest \<open>int\<close> for one out of range.\<close>

definition Atoi_or_zero :: "string \<Rightarrow> int" where
  "Atoi_or_zero s =
     (let (neg, ds) = cut_sign s in
      if ds = [] \<or> \<not> list_all is_digit ds then 0
      else let v = foldl (\<lambda>a c. 10 * a + digit_val c) 0 ds; i = (if neg then - v else v)
           in if i < MinInt64 then MinInt64 else if MaxInt64 < i then MaxInt64 else i)"

text \<open>\<open>%05d\<close>.\<close>

definition pad5 :: "int \<Rightarrow> string" where
  "pad5 i =
     (let ds = Itoa \<bar>i\<bar>; sign = (if i < 0 then ''-'' else '''')
      in sign @ replicate (5 - length sign - length ds) CHR ''0'' @ ds)"

section \<open>Option sections\<close>

record drbdOptionSections =
  os_Net :: props
  os_Resource :: props
  os_Disk :: props
  os_PeerDevice :: props
  os_Handlers :: props

definition split_option :: "string \<times> string \<Rightarrow> drbdOptionSections \<Rightarrow> drbdOptionSections" where
  "split_option kv out =
     (let (key, value) = kv; (rest, ok) = CutPrefix key PropPrefix in
      if \<not> ok then out
      else let (_, rawKey, hasSection) = Cut rest CHR ''/'' in
        if \<not> hasSection then out
        else let sect = SectionFor key in
          if sect = SectionNet then out\<lparr>os_Net := AList.update rawKey value (os_Net out)\<rparr>
          else if sect = SectionDisk then out\<lparr>os_Disk := AList.update rawKey value (os_Disk out)\<rparr>
          else if sect = SectionPeerDevice then out\<lparr>os_PeerDevice := AList.update rawKey value (os_PeerDevice out)\<rparr>
          else if sect = SectionHandlers then out\<lparr>os_Handlers := AList.update rawKey value (os_Handlers out)\<rparr>
          else out\<lparr>os_Resource := AList.update rawKey value (os_Resource out)\<rparr>)"

definition splitDRBDOptions :: "props \<Rightarrow> drbdOptionSections" where
  "splitDRBDOptions opts =
     fold split_option opts \<lparr>os_Net = [], os_Resource = [], os_Disk = [], os_PeerDevice = [], os_Handlers = []\<rparr>"

definition mergeAutoDiskOptions :: "props \<Rightarrow> props \<Rightarrow> props" where
  "mergeAutoDiskOptions dst auto = fold (\<lambda>(k, v) dst. if gm_has dst k then dst else AList.update k v dst) auto dst"

section \<open>Disk options of the backing device\<close>

definition rsDiscardGranularity :: string where "rsDiscardGranularity = ''rs-discard-granularity''"
definition discardZeroesAligned :: string where "discardZeroesAligned = ''discard-zeroes-if-aligned''"

definition discardZeroesIfAligned :: "string \<Rightarrow> bool" where
  "discardZeroesIfAligned kind = (kind \<in> {''LVM_THIN'', ''ZFS'', ''ZFS_THIN'', ''FILE_THIN''})"

definition rsDiscardGranularitySafe :: "string \<Rightarrow> bool" where
  "rsDiscardGranularitySafe kind = (kind \<in> {''LVM_THIN'', ''ZFS'', ''ZFS_THIN''})"

definition clampDiscardGranularity :: "int \<Rightarrow> int" where
  "clampDiscardGranularity gran = (if gran < 4096 then 4096 else if 1048576 < gran then 1048576 else gran)"

lemma dropWhile_shorter: "dropWhile P xs = y # ys \<Longrightarrow> length ys < length xs"
  by (metis length_Cons length_dropWhile_le less_eq_Suc_le)

function parseLsblkLine :: "string \<Rightarrow> props \<Rightarrow> props" where
  "parseLsblkLine line out =
     (let l1 = dropWhile (\<lambda>c. c = CHR '' '') line; key = takeWhile (\<lambda>c. c \<noteq> CHR ''='') l1
      in case dropWhile (\<lambda>c. c \<noteq> CHR ''='') l1 of
           _ # q # l2 \<Rightarrow>
             if q \<noteq> CHR ''\"'' then out
             else parseLsblkLine (tl (dropWhile (\<lambda>c. c \<noteq> CHR ''\"'') l2))
                    (AList.update key (takeWhile (\<lambda>c. c \<noteq> CHR ''\"'') l2) out)
         | _ \<Rightarrow> out)"
  by pat_completeness auto

termination
proof (relation "measure (\<lambda>(line, out). length line)", goal_cases)
  case 1
  then show ?case by simp
next
  case (2 line out l1 key e l q l2)
  have "length l < length l1" using 2 by (metis dropWhile_shorter)
  moreover have "length l1 \<le> length line" using 2(1) by (simp add: length_dropWhile_le)
  moreover have "length (tl (dropWhile (\<lambda>c. c \<noteq> CHR ''\"'') l2)) \<le> length l2"
    by (metis diff_le_self length_dropWhile_le length_tl order_trans)
  ultimately show ?case using 2 by simp
qed

definition parseDiscGran :: "string \<Rightarrow> int option" where
  "parseDiscGran raw =
     (case List.map_filter (\<lambda>line.
        let l = TrimSpace line in
        if l = [] then None
        else case map_of (parseLsblkLine l []) ''DISC-GRAN'' of
               None \<Rightarrow> None
             | Some v \<Rightarrow> let v = TrimSpace v in if v = [] then None else ParseInt 64 v) (Split CHR 0x0A raw)
      of gran # _ \<Rightarrow> Some gran | [] \<Rightarrow> None)"

definition smallerNumeric :: "string \<Rightarrow> string \<Rightarrow> bool" where
  "smallerNumeric l r = (case (ParseInt 64 l, ParseInt 64 r) of (Some a, Some b) \<Rightarrow> a < b | _ \<Rightarrow> False)"

definition mergeResourceDiscardOptions :: "props \<Rightarrow> props \<Rightarrow> props" where
  "mergeResourceDiscardOptions acc volOpts =
     fold (\<lambda>(key, val) acc.
       if key = rsDiscardGranularity
       then (if \<not> gm_has acc key \<or> smallerNumeric val (gm_idx acc key) then AList.update key val acc else acc)
       else if key = discardZeroesAligned
       then (if gm_idx acc key \<noteq> ''no'' then AList.update key val acc else acc)
       else AList.update key val acc) volOpts acc"

section \<open>Rendering\<close>

definition drbdAddrPlaceholder :: string where "drbdAddrPlaceholder = ''0.0.0.0''"

definition resolveAddr :: "string \<Rightarrow> string \<Rightarrow> string" where
  "resolveAddr supplied fallback =
     (if (supplied = [] \<or> supplied = drbdAddrPlaceholder) \<and> fallback \<noteq> [] then fallback else supplied)"

definition peerKey :: "string \<Rightarrow> string \<Rightarrow> string" where
  "peerKey peer field = ''peer.'' @ peer @ ''.'' @ field"

definition volMinorOrBase :: "DesiredVolume \<Rightarrow> int \<Rightarrow> int" where
  "volMinorOrBase vol base = (if dv_Minor vol \<noteq> 0 then dv_Minor vol else wrap64 (base + dv_VolumeNumber vol))"

definition buildResVolumes :: "DesiredResource \<Rightarrow> (int, string) gomap \<Rightarrow> int \<Rightarrow> conf_Volume list" where
  "buildResVolumes dr devices minor =
     map (\<lambda>vol.
       let dev = gm_idx devices (dv_VolumeNumber vol);
           guess = (\<lambda>pool. ''/dev/'' @ pool @ ''/'' @ dr_Name dr @ ''_'' @ pad5 (dv_VolumeNumber vol));
           volMinor = volMinorOrBase vol minor
       in \<lparr>cv_Number = dv_VolumeNumber vol, cv_Device = ''/dev/drbd'' @ Itoa volMinor,
           cv_Disk = (if dev = [] then guess (dv_StoragePool vol) else dev), cv_Minor = volMinor,
           cv_MetaDisk = (if dv_MetaPool vol \<noteq> [] then guess (dv_MetaPool vol) @ ''_meta'' else [])\<rparr>)
       (dr_Volumes dr)"

definition buildResConnections :: "DesiredResource \<Rightarrow> ResourceConnection list" where
  "buildResConnections dr =
     map (\<lambda>c. \<lparr>rc_NodeA = dc_NodeA c, rc_NodeB = dc_NodeB c,
                rc_Paths = map (\<lambda>p. \<lparr>rp_Name = dcp_Name p, rp_AddressA = dcp_AddressA p, rp_AddressB = dcp_AddressB p\<rparr>)
                             (dc_Paths c)\<rparr>) (dr_Connections dr)"

definition local_host :: "DesiredResource \<Rightarrow> string \<Rightarrow> string \<Rightarrow> conf_Host" where
  "local_host dr localNode localAddr =
     \<lparr>ch_NodeName = localNode, ch_Address = resolveAddr (gm_idx (dr_DrbdOptions dr) ''address'') localAddr,
      ch_Port = Atoi_or_zero (gm_idx (dr_DrbdOptions dr) ''port''),
      ch_NodeID = Atoi_or_zero (gm_idx (dr_DrbdOptions dr) ''node-id''),
      ch_IsLocal = True, ch_Diskless = isDiskless (dr_Flags dr)\<rparr>"

definition peer_host :: "props \<Rightarrow> string \<Rightarrow> conf_Host" where
  "peer_host opts peer =
     \<lparr>ch_NodeName = peer, ch_Address = resolveAddr (gm_idx opts (peerKey peer ''address'')) [],
      ch_Port = Atoi_or_zero (gm_idx opts (peerKey peer ''port'')),
      ch_NodeID = Atoi_or_zero (gm_idx opts (peerKey peer ''node-id'')),
      ch_IsLocal = False, ch_Diskless = (gm_idx opts (peerKey peer ''diskless'') = ''true'')\<rparr>"

definition res_of :: "DesiredResource \<Rightarrow> string \<Rightarrow> string \<Rightarrow> (int, string) gomap \<Rightarrow> props \<Rightarrow> conf_Resource" where
  "res_of dr localNode localAddr devices autoDisk =
     (let opts = dr_DrbdOptions dr; sects = splitDRBDOptions opts in
      \<lparr>cr_Name = dr_Name dr,
       cr_Net = \<lparr>cn_ProtocolC = True, cn_SharedSecret = [], cn_Options = os_Net sects\<rparr>,
       cr_Hosts = local_host dr localNode localAddr # map (peer_host opts) (GetPeerNames dr),
       cr_Volumes = buildResVolumes dr devices (Atoi_or_zero (gm_idx opts ''minor'')),
       cr_Options = os_Resource sects, cr_Disk = mergeAutoDiskOptions (os_Disk sects) autoDisk,
       cr_Handlers = os_Handlers sects, cr_PeerDevice = os_PeerDevice sects,
       cr_Connections = buildResConnections dr\<rparr>)"

definition buildResFile ::
  "DesiredResource \<Rightarrow> string \<Rightarrow> string \<Rightarrow> (int, string) gomap \<Rightarrow> props \<Rightarrow> conf_err + string" where
  "buildResFile dr localNode localAddr devices autoDisk = Build (res_of dr localNode localAddr devices autoDisk)"

section \<open>Reading the file back\<close>

definition on_name :: "string \<Rightarrow> string option" where
  "on_name line =
     (let t = TrimSpace line in
      if \<not> HasPrefix t ''on '' then None
      else let (head, _, ok) = Cut (TrimPrefix t ''on '') CHR ''{'' in
        if \<not> ok then None else let name = TrimSpace head in if name = [] then None else Some name)"

definition extractResFilePeers :: "string \<Rightarrow> string list" where
  "extractResFilePeers body = List.map_filter on_name (Split CHR 0x0A body)"

definition node_id_line :: "string \<Rightarrow> string \<times> (string, int) gomap \<Rightarrow> string \<times> (string, int) gomap" where
  "node_id_line line st =
     (let (current, out) = st; t = TrimSpace line in
      if HasPrefix t ''on '' then
        (let (head, _, ok) = Cut (TrimPrefix t ''on '') CHR ''{'' in if \<not> ok then st else (TrimSpace head, out))
      else if current \<noteq> [] \<and> HasPrefix t ''node-id '' then
        (let rest = TrimPrefix t ''node-id '';
             rest = TrimSpace (if HasSuffix rest '';'' then butlast rest else rest)
         in ([], case ParseInt 32 rest of Some i \<Rightarrow> AList.update current i out | None \<Rightarrow> out))
      else st)"

definition extractResFilePeerNodeIDs :: "string option \<Rightarrow> (string, int) gomap" where
  "extractResFilePeerNodeIDs file =
     (case file of None \<Rightarrow> [] | Some body \<Rightarrow> snd (fold node_id_line (Split CHR 0x0A body) ([], [])))"

definition computeRemovedPeers :: "string option \<Rightarrow> DesiredResource \<Rightarrow> string \<Rightarrow> string list" where
  "computeRemovedPeers file dr localNode =
     (case file of
        None \<Rightarrow> []
      | Some body \<Rightarrow> filter (\<lambda>p. p \<noteq> localNode \<and> p \<notin> set (GetPeerNames dr)) (extractResFilePeers body))"

end
