(* ===== verification/Example_Replica.thy ===== *)
theory Example_Replica
  imports Satellite_Res
begin

text \<open>A replica of a definition with one volume on a thin pool and two peers, as the dispatcher describes it.\<close>

definition ex_vol :: DesiredVolume where
  "ex_vol = \<lparr>dv_VolumeNumber = 0, dv_SizeKib = 1024, dv_StoragePool = ''thin'', dv_SeedFromGI = [], dv_Minor = 1000,
     dv_SourceSnapshot = [], dv_MetaPool = [], dv_ObservedGI = []\<rparr>"

definition ex_opts :: props where
  "ex_opts = [(''node-id'', ''0''), (''port'', ''7000''), (''address'', ''10.0.0.1''), (''minor'', ''1000''),
     (''auto-primary'', ''true''), (''DrbdOptions/Net/protocol'', ''C''),
     (''peer.n2.node-id'', ''1''), (''peer.n2.port'', ''7000''), (''peer.n2.address'', ''10.0.0.2''),
     (''peer.n3.node-id'', ''2''), (''peer.n3.port'', ''7000''), (''peer.n3.address'', ''10.0.0.3''),
     (''peer.n3.diskless'', ''true'')]"

definition ex_dr :: DesiredResource where
  "ex_dr = \<lparr>dr_Name = ''pvc'', dr_NodeName = ''n1'', dr_Flags = [], dr_Props = [], dr_Volumes = [ex_vol],
     dr_Peers = [\<lparr>dp_Name = ''n2'', dp_NodeID = Some 1\<rparr>, \<lparr>dp_Name = ''n3'', dp_NodeID = Some 2\<rparr>],
     dr_DrbdOptions = ex_opts, dr_LayerStack = [''DRBD'', ''STORAGE''], dr_Connections = [],
     dr_MetadataCreated = False, dr_FilesystemFormatted = False, dr_KernelLoaded = False, dr_PeerHasData = False,
     dr_SkipInitialSync = Some True\<rparr>"

definition ex_devices :: "(int, string) gomap" where "ex_devices = [(0, ''/dev/vg/pvc_00000'')]"

end
