(* ===== verification/Satellite_Peers.thy ===== *)
theory Satellite_Peers
  imports Example_Replica
begin

text \<open>
  The satellite finds the peers that were taken out of a definition by reading the resource file it rendered on
  an earlier pass.  These lemmas show that what it reads is what it rendered.
\<close>

section \<open>Lines that name no host\<close>

definition plain_line :: "string \<Rightarrow> bool" where
  "plain_line l =
     (CHR 0x0A \<notin> set l \<and> \<not> HasPrefix (TrimSpace l) ''on '' \<and> \<not> HasPrefix (TrimSpace l) ''node-id '')"

definition one_line :: "string \<Rightarrow> bool" where
  "one_line s = (CHR 0x0A \<notin> set s)"

definition clean_name :: "string \<Rightarrow> bool" where
  "clean_name s = (s \<noteq> [] \<and> list_all (\<lambda>c. \<not> is_space c \<and> c \<noteq> CHR ''{'') s)"

definition clean_keys :: "props \<Rightarrow> bool" where
  "clean_keys opts = list_all (\<lambda>k. clean_name k \<and> k \<noteq> ''on'' \<and> k \<noteq> ''node-id'') (map fst opts)"

lemma HasPrefix_TrimSpace: "HasPrefix (TrimSpace l) p \<Longrightarrow> HasPrefix (dropWhile is_space l) p"
proof -
  let ?d = "dropWhile is_space l"
  have "\<exists>t. ?d = TrimSpace l @ t"
    unfolding TrimSpace_def
    by (metis append_eq_appendI rev_append rev_rev_ident takeWhile_dropWhile_id)
  then show "HasPrefix (TrimSpace l) p \<Longrightarrow> HasPrefix ?d p"
    by (auto simp: HasPrefix_iff)
qed

lemma plain_lineI:
  assumes "CHR 0x0A \<notin> set l" "\<not> HasPrefix (dropWhile is_space l) ''on ''" "\<not> HasPrefix (dropWhile is_space l) ''node-id ''"
  shows "plain_line l"
  using assms HasPrefix_TrimSpace unfolding plain_line_def by blast

lemma key_prefix:
  assumes "CHR '' '' \<notin> set k" "CHR '' '' \<notin> set w" "HasPrefix (k @ CHR '' '' # v) (w @ '' '')"
  shows "k = w"
proof -
  from assms(3) obtain t where "k @ CHR '' '' # v = w @ CHR '' '' # t" by (auto simp: HasPrefix_iff prefix_def)
  then have "takeWhile (\<lambda>c. c \<noteq> CHR '' '') (k @ CHR '' '' # v) = takeWhile (\<lambda>c. c \<noteq> CHR '' '') (w @ CHR '' '' # t)"
    by simp
  moreover have "takeWhile (\<lambda>c. c \<noteq> CHR '' '') x = x" if "CHR '' '' \<notin> set x" for x
    using that by (auto simp: takeWhile_eq_all_conv)
  ultimately show ?thesis using assms(1,2) by (simp add: takeWhile_append2 takeWhile_tail)
qed

lemma one_line_simps [simp]:
  "one_line []" "one_line (c # s) \<longleftrightarrow> c \<noteq> CHR 0x0A \<and> one_line s" "one_line (s @ t) \<longleftrightarrow> one_line s \<and> one_line t"
  by (auto simp: one_line_def)

lemma one_line_Itoa [simp]: "one_line (Itoa i)"
  using digits_of_digits digit_not_sign by (fastforce simp: one_line_def Itoa_def list_all_iff is_space_def split: if_splits)

lemma one_line_quote [simp]: "one_line v \<Longrightarrow> one_line (quoteValue v)"
  by (auto simp: one_line_def quoteValue_def split: if_splits)

lemma clean_name_one_line: "clean_name s \<Longrightarrow> one_line s"
  by (auto simp: clean_name_def one_line_def list_all_iff is_space_def)

lemma plain_option:
  assumes "clean_name k" "k \<noteq> ''on''" "k \<noteq> ''node-id''" "one_line v" "list_all is_space indent" "one_line indent"
  shows "plain_line (indent @ k @ '' '' @ v)"
proof (rule plain_lineI)
  have sp: "CHR '' '' \<notin> set k" using assms(1) by (auto simp: clean_name_def list_all_iff is_space_def)
  have d: "dropWhile is_space (indent @ k @ '' '' @ v) = k @ CHR '' '' # v"
    using assms(1,5) by (induction indent) (cases k; auto simp: clean_name_def)+
  show "CHR 0x0A \<notin> set (indent @ k @ '' '' @ v)"
    using assms(4,6) clean_name_one_line [OF assms(1)] by (simp add: one_line_def)
  show "\<not> HasPrefix (dropWhile is_space (indent @ k @ '' '' @ v)) ''on ''"
    unfolding d using key_prefix [OF sp, of "''on''" v] assms(2) by auto
  show "\<not> HasPrefix (dropWhile is_space (indent @ k @ '' '' @ v)) ''node-id ''"
    unfolding d using key_prefix [OF sp, of "''node-id''" v] assms(3) by auto
qed

lemma plain_writeOption:
  "clean_name k \<Longrightarrow> k \<noteq> ''on'' \<Longrightarrow> k \<noteq> ''node-id'' \<Longrightarrow> one_line v \<Longrightarrow> list_all is_space indent \<Longrightarrow>
   one_line indent \<Longrightarrow> plain_line (writeOption indent k v)"
  unfolding writeOption_def using plain_option [of k "(if needsQuoting v then quoteValue v else v) @ '';''" indent] by auto

lemma first_err_None: "first_err es = None \<longleftrightarrow> (\<forall>e \<in> set es. e = None)"
  by (induction es rule: first_err.induct) auto

lemma ValidateOptionValue_one_line: "ValidateOptionValue block k v = None \<Longrightarrow> one_line v"
  by (auto simp: ValidateOptionValue_def find_None_iff one_line_def)

definition one_line_values :: "props \<Rightarrow> bool" where
  "one_line_values opts = list_all (\<lambda>k. one_line (gm_idx opts k)) (map fst opts)"

lemma checkValues_one_line:
  assumes "checkValues r = None"
  shows "one_line_values (cn_Options (cr_Net r))" "one_line_values (cr_Options r)" "one_line_values (cr_Disk r)"
    "one_line_values (cr_Handlers r)" "one_line_values (cr_PeerDevice r)" "one_line (cn_SharedSecret (cr_Net r))"
  using assms unfolding checkValues_def Let_def first_err_None one_line_values_def list_all_iff sortedKeys_def
  by (auto simp: image_Un ball_Un intro: ValidateOptionValue_one_line)

lemma plain_options:
  assumes "clean_keys opts" "one_line_values opts" "list_all is_space indent" "one_line indent"
  shows "list_all plain_line (map (\<lambda>k. writeOption indent k (gm_idx opts k)) (sortedKeys opts))"
  using assms unfolding clean_keys_def one_line_values_def sortedKeys_def
  by (auto simp: list_all_iff intro!: plain_writeOption)

section \<open>A rendered file\<close>

text \<open>
  What the renderer expects of the parts it writes unchecked: names and option keys are single words, and no
  address or path carries a newline.
\<close>

definition clean_res :: "conf_Resource \<Rightarrow> bool" where
  "clean_res r =
     (one_line (cr_Name r) \<and>
      list_all (\<lambda>h. clean_name (ch_NodeName h) \<and> one_line (ch_Address h)) (cr_Hosts r) \<and>
      list_all (\<lambda>v. one_line (cv_Device v) \<and> one_line (cv_Disk v) \<and> one_line (cv_MetaDisk v)) (cr_Volumes r) \<and>
      list_all (\<lambda>c. list_all (\<lambda>p. one_line (rp_AddressA p) \<and> one_line (rp_AddressB p)) (rc_Paths c)) (cr_Connections r) \<and>
      list_all clean_keys [cn_Options (cr_Net r), cr_Options r, cr_Disk r, cr_Handlers r, cr_PeerDevice r])"

lemma plain_word:
  assumes "clean_name k" "k \<noteq> ''on''" "k \<noteq> ''node-id''" "one_line v" "l = replicate n CHR '' '' @ k @ '' '' @ v"
  shows "plain_line l"
  unfolding assms(5) using assms(1-4)
  by (intro plain_option) (simp_all add: is_space_def one_line_def list_all_iff)

lemma plain_close [simp]: "plain_line ''}''" "plain_line ''  }''" "plain_line ''    }''"
  by (rule plain_lineI; simp add: is_space_def HasPrefix_def)+

lemma plain_heads [simp]:
  "plain_line ''  net {''" "plain_line ''  connection {''" "plain_line ''    path {''" "plain_line ''    disk {''"
  "plain_line ''  protocol C;''"
  by (rule plain_lineI; simp add: is_space_def HasPrefix_def)+

lemma clean_words [simp]:
  "clean_name ''resource''" "clean_name ''protocol''" "clean_name ''net''" "clean_name ''options''" "clean_name ''disk''"
  "clean_name ''handlers''" "clean_name ''address''" "clean_name ''volume''" "clean_name ''device''" "clean_name ''meta-disk''"
  "clean_name ''connection''" "clean_name ''path''" "clean_name ''host''" "clean_name ''shared-secret''"
  by (simp_all add: clean_name_def is_space_def)

lemma plain_net:
  assumes "clean_keys (cn_Options n)" "one_line_values (cn_Options n)" "one_line (cn_SharedSecret n)"
  shows "list_all plain_line (writeNet n)"
proof -
  have s: "plain_line (''    '' @ sharedSecretOption @ '' '' @ quoteValue (cn_SharedSecret n) @ '';'')"
    unfolding sharedSecretOption_def by (rule plain_option) (use assms(3) in \<open>simp_all add: is_space_def\<close>)
  have k: "plain_line (''    '' @ k @ '' '' @ quoteValue (gm_idx (cn_Options n) k) @ '';'') \<and>
      plain_line (writeOption ''    '' k (gm_idx (cn_Options n) k))" if "k \<in> set (sortedKeys (cn_Options n))" for k
  proof -
    have c: "clean_name k" "k \<noteq> ''on''" "k \<noteq> ''node-id''" and v: "one_line (gm_idx (cn_Options n) k)"
      using that assms(1,2) unfolding clean_keys_def one_line_values_def sortedKeys_def by (auto simp: list_all_iff)
    show ?thesis
      by (rule conjI, rule plain_option [OF c], use v in \<open>simp_all add: is_space_def\<close>)
         (rule plain_writeOption [OF c v], simp_all add: is_space_def)
  qed
  show ?thesis unfolding writeNet_def using s k by (auto simp: list_all_iff)
qed

lemma plain_block:
  assumes "clean_keys opts" "one_line_values opts" "clean_name name" "name \<noteq> ''on''" "name \<noteq> ''node-id''"
  shows "list_all plain_line (writeNamedBlock name opts)"
proof -
  have "plain_line (''  '' @ name @ '' {'')"
    by (rule plain_word [of name "''{''" _ 2]) (use assms(3-5) in \<open>simp_all add: numeral_eq_Suc\<close>)
  moreover have "list_all plain_line (map (\<lambda>k. writeOption ''    '' k (gm_idx opts k)) (sortedKeys opts))"
    by (rule plain_options) (use assms in \<open>simp_all add: is_space_def\<close>)
  ultimately show ?thesis by (simp add: writeNamedBlock_def)
qed

lemma writeOptions_block: "writeOptions opts = writeNamedBlock ''options'' opts"
  by (simp add: writeOptions_def writeNamedBlock_def)

lemma plain_host_line:
  assumes "one_line (ch_NodeName h)" "one_line addr"
  shows "plain_line (host_line ''    '' h addr)" "plain_line (host_line ''      '' h addr)"
  unfolding host_line_def
  by (rule plain_word [of "''host''" "ch_NodeName h @ '' address '' @ addr @ '':'' @ Itoa (ch_Port h) @ '';''" _ 4];
      use assms in \<open>simp add: numeral_eq_Suc\<close>)
     (rule plain_word [of "''host''" "ch_NodeName h @ '' address '' @ addr @ '':'' @ Itoa (ch_Port h) @ '';''" _ 6];
      use assms in \<open>simp add: numeral_eq_Suc\<close>)

lemma plain_connection:
  assumes "list_all (\<lambda>h. clean_name (ch_NodeName h) \<and> one_line (ch_Address h)) [hostA, hostB]"
    and "list_all (\<lambda>p. one_line (rp_AddressA p) \<and> one_line (rp_AddressB p)) (lookupPaths conns (ch_NodeName hostA) (ch_NodeName hostB))"
    and "clean_keys peerDevice" "one_line_values peerDevice"
  shows "list_all plain_line (writeOneConnection hostA hostB conns peerDevice)"
proof -
  have h: "one_line (ch_NodeName hostA)" "one_line (ch_NodeName hostB)" "one_line (ch_Address hostA)" "one_line (ch_Address hostB)"
    using assms(1) clean_name_one_line by auto
  have paths: "list_all plain_line (writePathBlocks hostA hostB ps)"
    if "list_all (\<lambda>p. one_line (rp_AddressA p) \<and> one_line (rp_AddressB p)) ps" for ps
    using that h by (induction ps) (simp_all add: writePathBlocks_def plain_host_line)
  have opts: "list_all plain_line (map (\<lambda>k. writeOption ''      '' k (gm_idx peerDevice k)) (sortedKeys peerDevice))"
    by (rule plain_options) (use assms(3,4) in \<open>simp_all add: is_space_def\<close>)
  show ?thesis
    unfolding writeOneConnection_def Let_def
    using opts h paths [OF assms(2)] by (simp add: plain_host_line)
qed

lemma lookupPaths_clean:
  "list_all (\<lambda>c. list_all (\<lambda>p. one_line (rp_AddressA p) \<and> one_line (rp_AddressB p)) (rc_Paths c)) conns \<Longrightarrow>
   list_all (\<lambda>p. one_line (rp_AddressA p) \<and> one_line (rp_AddressB p)) (lookupPaths conns a b)"
  by (induction conns a b rule: lookupPaths.induct) (auto simp: swapPathSides_def list_all_iff)

lemma plain_mesh:
  assumes "list_all (\<lambda>h. clean_name (ch_NodeName h) \<and> one_line (ch_Address h)) hosts"
    and "list_all (\<lambda>c. list_all (\<lambda>p. one_line (rp_AddressA p) \<and> one_line (rp_AddressB p)) (rc_Paths c)) conns"
    and "clean_keys peerDevice" "one_line_values peerDevice"
  shows "list_all plain_line (mesh_lines hosts conns peerDevice)"
  using assms(1)
proof (induction hosts)
  case (Cons h hs)
  have "list_all plain_line (writeOneConnection h k conns peerDevice)" if "k \<in> set hs" for k
    by (rule plain_connection [OF _ lookupPaths_clean [OF assms(2)] assms(3,4)])
       (use Cons.prems that in \<open>auto simp: list_all_iff\<close>)
  with Cons show ?case by (auto simp: list_all_iff)
qed simp

text \<open>The lines of a host: its name, then its node-id, then lines that name nothing.\<close>

definition host_tail :: "conf_Host \<Rightarrow> conf_Volume list \<Rightarrow> string list" where
  "host_tail h vols = concat (map (\<lambda>v.
       [''    volume '' @ Itoa (cv_Number v) @ '' {'',
        ''      device '' @ cv_Device v @ '' minor '' @ Itoa (cv_Minor v) @ '';'',
        ''      disk '' @ diskField h v @ '';'',
        ''      meta-disk '' @ metaField h v @ '';'',
        ''    }'']) vols) @ [''  }'']"

definition on_line :: "string \<Rightarrow> string" where "on_line n = ''  on '' @ n @ '' {''"
definition id_line :: "int \<Rightarrow> string" where "id_line i = ''    node-id '' @ Itoa i @ '';''"
definition address_line :: "conf_Host \<Rightarrow> string" where
  "address_line h = ''    address '' @ ch_Address h @ '':'' @ Itoa (ch_Port h) @ '';''"

lemma writeOnBlock_lines:
  "writeOnBlock h vols = on_line (ch_NodeName h) # address_line h # id_line (ch_NodeID h) # host_tail h vols"
  by (simp add: writeOnBlock_def host_tail_def on_line_def id_line_def address_line_def)

lemma plain_host_tail:
  assumes "list_all (\<lambda>v. one_line (cv_Device v) \<and> one_line (cv_Disk v) \<and> one_line (cv_MetaDisk v)) vols"
  shows "list_all plain_line (host_tail h vols)"
proof -
  have "plain_line (''    volume '' @ Itoa (cv_Number v) @ '' {'')"
    "plain_line (''      device '' @ cv_Device v @ '' minor '' @ Itoa (cv_Minor v) @ '';'')"
    "plain_line (''      disk '' @ diskField h v @ '';'')" "plain_line (''      meta-disk '' @ metaField h v @ '';'')"
    if v: "one_line (cv_Device v) \<and> one_line (cv_Disk v) \<and> one_line (cv_MetaDisk v)" for v
  proof -
    have "one_line (diskField h v)" "one_line (metaField h v)"
      using v by (simp_all add: diskField_def metaField_def peerDiskPlaceholder_def)
    with v show "plain_line (''    volume '' @ Itoa (cv_Number v) @ '' {'')"
      "plain_line (''      device '' @ cv_Device v @ '' minor '' @ Itoa (cv_Minor v) @ '';'')"
      "plain_line (''      disk '' @ diskField h v @ '';'')" "plain_line (''      meta-disk '' @ metaField h v @ '';'')"
      by (auto intro: plain_word [of "''volume''" "Itoa (cv_Number v) @ '' {''" _ 4]
          plain_word [of "''device''" "cv_Device v @ '' minor '' @ Itoa (cv_Minor v) @ '';''" _ 6]
          plain_word [of "''disk''" "diskField h v @ '';''" _ 6] plain_word [of "''meta-disk''" "metaField h v @ '';''" _ 6]
          simp: numeral_eq_Suc)
  qed
  with assms show ?thesis by (induction vols) (simp_all add: host_tail_def)
qed

lemma on_name_plain: "plain_line l \<Longrightarrow> on_name l = None"
  by (simp add: plain_line_def on_name_def Let_def)

lemma node_id_plain: "plain_line l \<Longrightarrow> node_id_line l st = st"
  by (cases st) (simp add: plain_line_def node_id_line_def Let_def)

lemma TrimSpace_on:
  assumes "clean_name n"
  shows "TrimSpace (''  on '' @ n @ '' {'') = ''on '' @ n @ '' {''" "Cut (n @ '' {'') CHR ''{'' = (n @ '' '', [], True)"
    "TrimSpace (n @ '' '') = n"
proof -
  show "TrimSpace (''  on '' @ n @ '' {'') = ''on '' @ n @ '' {''"
    using TrimSpace_inner [of "CHR ''o''" "CHR ''{''" "''  ''" "''n '' @ n @ '' ''"] by (simp add: is_space_def)
  show "Cut (n @ '' {'') CHR ''{'' = (n @ '' '', [], True)"
    using assms Cut_sep [of "CHR ''{''" "n @ '' ''" "[]"] by (auto simp: clean_name_def list_all_iff)
  have "\<not> is_space (last n)" "\<not> is_space (hd n)" "n \<noteq> []" using assms by (auto simp: clean_name_def list_all_iff)
  then have "dropWhile is_space (rev n) = rev n" by (simp add: dropWhile_eq_self_iff hd_rev)
  moreover have "dropWhile is_space (n @ '' '') = n @ '' ''"
    using assms by (cases n) (simp_all add: clean_name_def)
  ultimately show "TrimSpace (n @ '' '') = n"
    by (simp add: TrimSpace_def is_space_def)
qed

lemma on_name_on: "clean_name n \<Longrightarrow> on_name (on_line n) = Some n"
  unfolding on_name_def on_line_def TrimSpace_on
  by (simp add: HasPrefix_def TrimPrefix_def TrimSpace_on [simplified] clean_name_def)

lemma map_filter_plain: "list_all plain_line ls \<Longrightarrow> List.map_filter on_name ls = []"
  by (induction ls) (simp_all add: List.map_filter_def on_name_plain)

lemma map_filter_append: "List.map_filter f (xs @ ys) = List.map_filter f xs @ List.map_filter f ys"
  by (simp add: List.map_filter_def)

lemma fold_plain: "list_all plain_line ls \<Longrightarrow> fold node_id_line ls st = st"
  by (induction ls arbitrary: st) (simp_all add: node_id_plain)

lemma plain_address: "one_line (ch_Address h) \<Longrightarrow> plain_line (address_line h)"
  unfolding address_line_def
  by (rule plain_word [of "''address''" "ch_Address h @ '':'' @ Itoa (ch_Port h) @ '';''" _ 4]) (simp_all add: numeral_eq_Suc)

lemma TrimSpace_node_id:
  "TrimSpace (''    node-id '' @ Itoa i @ '';'') = ''node-id '' @ Itoa i @ '';''"
  using TrimSpace_inner [of "CHR ''n''" "CHR '';''" "''    ''" "''ode-id '' @ Itoa i"] by (simp add: is_space_def)

lemma node_id_node_id:
  assumes "current \<noteq> []" "in_int32 i"
  shows "node_id_line (id_line i) (current, out) = ([], AList.update current i out)"
proof -
  have "ParseInt 32 (Itoa i) = Some i" using assms(2) by (simp add: in_int32_def MinInt32_def MaxInt32_def ParseInt_Itoa)
  then show ?thesis
    unfolding node_id_line_def id_line_def TrimSpace_node_id
    using assms(1) by (simp add: HasPrefix_def TrimPrefix_def HasSuffix_def TrimSpace_Itoa butlast_append)
qed

lemma node_id_on:
  assumes "clean_name n"
  shows "node_id_line (on_line n) (current, out) = (n, out)"
  unfolding node_id_line_def on_line_def TrimSpace_on [OF assms]
  using TrimSpace_on [OF assms] by (simp add: HasPrefix_def TrimPrefix_def)

lemma host_blocks:
  assumes "list_all (\<lambda>h. clean_name (ch_NodeName h) \<and> one_line (ch_Address h)) hosts"
    and "list_all (\<lambda>v. one_line (cv_Device v) \<and> one_line (cv_Disk v) \<and> one_line (cv_MetaDisk v)) vols"
  shows "List.map_filter on_name (concat (map (\<lambda>h. writeOnBlock h vols) hosts)) = map ch_NodeName hosts"
    and "list_all (\<lambda>h. in_int32 (ch_NodeID h)) hosts \<Longrightarrow>
      fold node_id_line (concat (map (\<lambda>h. writeOnBlock h vols) hosts)) ([], out) =
      ([], fold (\<lambda>h. AList.update (ch_NodeName h) (ch_NodeID h)) hosts out)"
    and "list_all one_line (concat (map (\<lambda>h. writeOnBlock h vols) hosts))"
proof -
  have n: "on_name (id_line i) = None" for i
    unfolding on_name_def id_line_def TrimSpace_node_id by (simp add: HasPrefix_def)
  note lines = writeOnBlock_lines plain_address on_name_plain node_id_plain
  show "List.map_filter on_name (concat (map (\<lambda>h. writeOnBlock h vols) hosts)) = map ch_NodeName hosts"
    using assms(1)
    by (induction hosts)
       (simp_all add: lines map_filter_append map_filter_plain [OF plain_host_tail [OF assms(2)]]
         List.map_filter_simps on_name_on n)
  show "list_all (\<lambda>h. in_int32 (ch_NodeID h)) hosts \<Longrightarrow>
      fold node_id_line (concat (map (\<lambda>h. writeOnBlock h vols) hosts)) ([], out) =
      ([], fold (\<lambda>h. AList.update (ch_NodeName h) (ch_NodeID h)) hosts out)"
    using assms(1)
    by (induction hosts arbitrary: out)
       (simp_all add: lines fold_plain [OF plain_host_tail [OF assms(2)]] node_id_on node_id_node_id clean_name_def)
  show "list_all one_line (concat (map (\<lambda>h. writeOnBlock h vols) hosts))"
    using assms(1) clean_name_one_line plain_host_tail [OF assms(2)]
    by (induction hosts)
       (auto simp: writeOnBlock_lines list_all_iff plain_line_def one_line_def [symmetric] on_line_def id_line_def address_line_def)
qed

lemma plain_frame:
  assumes "clean_res r" "checkValues r = None"
  shows "list_all plain_line (writeNet (cr_Net r))" "list_all plain_line (writeOptions (cr_Options r))"
    "list_all plain_line (writeNamedBlock ''disk'' (cr_Disk r))" "list_all plain_line (writeNamedBlock ''handlers'' (cr_Handlers r))"
    "list_all plain_line (writeConnectionMesh (cr_Hosts r) (cr_Connections r) (cr_PeerDevice r))"
    "plain_line (''resource '' @ cr_Name r @ '' {'')"
proof -
  note v = checkValues_one_line [OF assms(2)]
  note c = assms(1) [unfolded clean_res_def]
  show "list_all plain_line (writeNet (cr_Net r))" by (rule plain_net) (use c v in simp_all)
  show "list_all plain_line (writeOptions (cr_Options r))"
    unfolding writeOptions_block by (rule plain_block) (use c v in simp_all)
  show "list_all plain_line (writeNamedBlock ''disk'' (cr_Disk r))" by (rule plain_block) (use c v in simp_all)
  show "list_all plain_line (writeNamedBlock ''handlers'' (cr_Handlers r))" by (rule plain_block) (use c v in simp_all)
  show "list_all plain_line (writeConnectionMesh (cr_Hosts r) (cr_Connections r) (cr_PeerDevice r))"
    unfolding writeConnectionMesh_def using plain_mesh [of "cr_Hosts r" "cr_Connections r" "cr_PeerDevice r"] c v by simp
  show "plain_line (''resource '' @ cr_Name r @ '' {'')"
    by (rule plain_word [of "''resource''" "cr_Name r @ '' {''" _ 0]) (use c in simp_all)
qed

lemma Split_conf_text: "list_all one_line ls \<Longrightarrow> Split CHR 0x0A (conf_text ls) = ls @ [[]]"
  by (induction ls) (simp_all add: conf_text_def one_line_def Split_sep)

lemma conf_lines_read:
  assumes "clean_res r" "checkValues r = None"
  shows "extractResFilePeers (conf_text (conf_lines r)) = map ch_NodeName (cr_Hosts r)"
    and "list_all (\<lambda>h. in_int32 (ch_NodeID h)) (cr_Hosts r) \<Longrightarrow>
      extractResFilePeerNodeIDs (Some (conf_text (conf_lines r))) =
      fold (\<lambda>h. AList.update (ch_NodeName h) (ch_NodeID h)) (cr_Hosts r) []"
proof -
  note f = plain_frame [OF assms]
  note h = host_blocks [of "cr_Hosts r" "cr_Volumes r"]
  have c: "list_all (\<lambda>h. clean_name (ch_NodeName h) \<and> one_line (ch_Address h)) (cr_Hosts r)"
    "list_all (\<lambda>v. one_line (cv_Device v) \<and> one_line (cv_Disk v) \<and> one_line (cv_MetaDisk v)) (cr_Volumes r)"
    using assms(1) by (simp_all add: clean_res_def)
  define pre where "pre = [''resource '' @ cr_Name r @ '' {''] @
     (if cn_ProtocolC (cr_Net r) \<and> gm_idx (cn_Options (cr_Net r)) ''protocol'' = [] then [''  protocol C;''] else []) @
     writeNet (cr_Net r) @ writeOptions (cr_Options r) @ writeNamedBlock ''disk'' (cr_Disk r) @
     writeNamedBlock ''handlers'' (cr_Handlers r)"
  define post where "post = writeConnectionMesh (cr_Hosts r) (cr_Connections r) (cr_PeerDevice r) @ [''}'']"
  have l: "conf_lines r = pre @ concat (map (\<lambda>h. writeOnBlock h (cr_Volumes r)) (cr_Hosts r)) @ post"
    by (simp add: conf_lines_def pre_def post_def)
  have plain: "list_all plain_line pre" "list_all plain_line post" using f by (simp_all add: pre_def post_def)
  have one: "list_all one_line (conf_lines r)"
    unfolding l using plain h(3) [OF c] by (auto simp: list_all_iff plain_line_def one_line_def)
  have e: "plain_line []" by (rule plain_lineI) (simp_all add: HasPrefix_def)
  show "extractResFilePeers (conf_text (conf_lines r)) = map ch_NodeName (cr_Hosts r)"
    unfolding extractResFilePeers_def Split_conf_text [OF one] unfolding l
    using h(1) [OF c] plain e by (simp add: map_filter_append map_filter_plain List.map_filter_simps on_name_plain)
  show "extractResFilePeerNodeIDs (Some (conf_text (conf_lines r))) =
      fold (\<lambda>h. AList.update (ch_NodeName h) (ch_NodeID h)) (cr_Hosts r) []"
    if "list_all (\<lambda>h. in_int32 (ch_NodeID h)) (cr_Hosts r)"
    unfolding extractResFilePeerNodeIDs_def option.case Split_conf_text [OF one] unfolding l
    using h(2) [OF c that] plain e by (simp add: fold_plain node_id_plain)
qed

lemma fold_update_lookup:
  "distinct (map f hs) \<Longrightarrow> h \<in> set hs \<Longrightarrow> map_of (fold (\<lambda>h. AList.update (f h) (g h)) hs out) (f h) = Some (g h)"
proof (induction hs arbitrary: out)
  case (Cons x hs)
  have "map_of (fold (\<lambda>h. AList.update (f h) (g h)) hs out) k = map_of out k" if "k \<notin> f ` set hs" for k out
    using that by (induction hs arbitrary: out) (auto simp: update_conv')
  with Cons show ?case by (cases "h = x") (auto simp: update_conv')
qed simp

text \<open>
  C28. What a pass renders, a later pass reads. From the file rendered for a definition with single-word names,
  the peers found to be removed are exactly the peers of that definition that the new one lacks, in their
  order, and the node-id read for each is the one that was allocated to it.
\<close>

theorem removed_peers_read:
  assumes "buildResFile dr node addr devices autoDisk = Inr body"
    and "clean_res (res_of dr node addr devices autoDisk)" "distinct (node # GetPeerNames dr)"
    and "list_all (\<lambda>h. in_int32 (ch_NodeID h)) (cr_Hosts (res_of dr node addr devices autoDisk))"
  shows "computeRemovedPeers (Some body) dr' node = filter (\<lambda>p. p \<notin> set (GetPeerNames dr')) (GetPeerNames dr) \<and>
    list_all (\<lambda>p. map_of (extractResFilePeerNodeIDs (Some body)) p =
      Some (Atoi_or_zero (gm_idx (dr_DrbdOptions dr) (peerKey p ''node-id'')))) (GetPeerNames dr)"
proof -
  let ?r = "res_of dr node addr devices autoDisk"
  have v: "checkValues ?r = None" and b: "body = conf_text (conf_lines ?r)"
    using assms(1) by (auto simp: buildResFile_def Build_def split: if_splits option.splits)
  have hosts: "cr_Hosts ?r = local_host dr node addr # map (peer_host (dr_DrbdOptions dr)) (GetPeerNames dr)"
    by (simp add: res_of_def Let_def)
  have names: "map ch_NodeName (cr_Hosts ?r) = node # GetPeerNames dr"
    unfolding hosts by (simp add: local_host_def peer_host_def comp_def)
  have "map_of (extractResFilePeerNodeIDs (Some body)) p = Some (Atoi_or_zero (gm_idx (dr_DrbdOptions dr) (peerKey p ''node-id'')))"
    if "p \<in> set (GetPeerNames dr)" for p
  proof -
    have "peer_host (dr_DrbdOptions dr) p \<in> set (cr_Hosts ?r)" using that unfolding hosts by simp
    from fold_update_lookup [OF _ this, of ch_NodeName ch_NodeID "[]"] show ?thesis
      unfolding b conf_lines_read(2) [OF assms(2) v assms(4)] names using assms(3) by (simp add: peer_host_def)
  qed
  moreover have "computeRemovedPeers (Some body) dr' node = filter (\<lambda>p. p \<notin> set (GetPeerNames dr')) (GetPeerNames dr)"
    unfolding computeRemovedPeers_def option.case b conf_lines_read(1) [OF assms(2) v] names
    using assms(3) by (auto intro: filter_cong)
  ultimately show ?thesis by (simp add: list_all_iff)
qed

theorem removed_peers_read_witness:
  "case buildResFile ex_dr ''n1'' ''10.0.0.1'' ex_devices [] of
     Inl _ \<Rightarrow> False
   | Inr body \<Rightarrow>
       computeRemovedPeers (Some body) (ex_dr\<lparr>dr_Peers := [\<lparr>dp_Name = ''n2'', dp_NodeID = Some 1\<rparr>]\<rparr>) ''n1'' = [''n3''] \<and>
       map_of (extractResFilePeerNodeIDs (Some body)) ''n3'' = Some 2"
proof -
  let ?r = "res_of ex_dr ''n1'' ''10.0.0.1'' ex_devices []"
  have "is_Inr (buildResFile ex_dr ''n1'' ''10.0.0.1'' ex_devices [])" by code_simp
  then obtain body where b: "buildResFile ex_dr ''n1'' ''10.0.0.1'' ex_devices [] = Inr body" by (auto simp: is_Inr_ex)
  have "clean_res ?r" "distinct (''n1'' # GetPeerNames ex_dr)" "list_all (\<lambda>h. in_int32 (ch_NodeID h)) (cr_Hosts ?r)"
    by code_simp+
  from removed_peers_read [OF b this] have
    "computeRemovedPeers (Some body) (ex_dr\<lparr>dr_Peers := [\<lparr>dp_Name = ''n2'', dp_NodeID = Some 1\<rparr>]\<rparr>) ''n1'' =
       filter (\<lambda>p. p \<notin> set (GetPeerNames (ex_dr\<lparr>dr_Peers := [\<lparr>dp_Name = ''n2'', dp_NodeID = Some 1\<rparr>]\<rparr>))) (GetPeerNames ex_dr)"
    "list_all (\<lambda>p. map_of (extractResFilePeerNodeIDs (Some body)) p =
      Some (Atoi_or_zero (gm_idx (dr_DrbdOptions ex_dr) (peerKey p ''node-id'')))) (GetPeerNames ex_dr)" by blast+
  moreover have "filter (\<lambda>p. p \<notin> set (GetPeerNames (ex_dr\<lparr>dr_Peers := [\<lparr>dp_Name = ''n2'', dp_NodeID = Some 1\<rparr>]\<rparr>)))
      (GetPeerNames ex_dr) = [''n3'']" by code_simp
  moreover have "GetPeerNames ex_dr = [''n2'', ''n3'']" by code_simp
  moreover have "Atoi_or_zero (gm_idx (dr_DrbdOptions ex_dr) (peerKey ''n3'' ''node-id'')) = 2" by code_simp
  ultimately show ?thesis unfolding b sum.case by simp
qed

end
