(* ===== verification/Satellite_Fsm.thy ===== *)
theory Satellite_Fsm
  imports Go_Strings
begin

text \<open>
  The phases of a replica and the table that picks the next action (\<open>pkg/satellite/fsm.go\<close>), and the action the
  older chain of conditions picks for the same observation (\<open>computeLegacyAction\<close> in
  \<open>pkg/satellite/fsm_shadow.go\<close>).
\<close>

section \<open>Phases, actions, observations\<close>

datatype DRBDPhase = PhaseNone | PhaseUnprovisioned | PhaseMetadataPending | PhaseMetadataReady | PhaseRunning
  | PhaseSkipDisk | PhaseDecommissioning

datatype fsm_action = ActionRenderRes | ActionCreateMd | ActionUp | ActionAdjust | ActionDecommission | ActionNoop
  | ActionAdjustSkipDisk

fun action_name :: "fsm_action \<Rightarrow> string" where
  "action_name ActionRenderRes = ''renderRes''"
| "action_name ActionCreateMd = ''createMd''"
| "action_name ActionUp = ''up''"
| "action_name ActionAdjust = ''adjust''"
| "action_name ActionDecommission = ''decommission''"
| "action_name ActionNoop = ''noop''"
| "action_name ActionAdjustSkipDisk = ''adjustSkipDisk''"

record Observation =
  SpecHasResource :: bool
  SpecFlagsHasDiskless :: bool
  SpecHasDeletionTS :: bool
  ResFileExists :: bool
  KernelLoaded :: bool
  KernelHasDiskless :: bool
  MetadataExists :: bool
  SkipDiskProp :: bool

record Transition =
  tr_From :: DRBDPhase
  tr_To :: DRBDPhase
  tr_Trigger :: "Observation \<Rightarrow> bool"
  tr_Action :: fsm_action

section \<open>The table\<close>

definition transition :: "DRBDPhase \<Rightarrow> DRBDPhase \<Rightarrow> (Observation \<Rightarrow> bool) \<Rightarrow> fsm_action \<Rightarrow> Transition" where
  "transition from to trigger action = \<lparr>tr_From = from, tr_To = to, tr_Trigger = trigger, tr_Action = action\<rparr>"

definition fsm :: "Transition list" where
  "fsm =
    [transition PhaseRunning PhaseDecommissioning SpecHasDeletionTS ActionDecommission,
     transition PhaseMetadataReady PhaseDecommissioning SpecHasDeletionTS ActionDecommission,
     transition PhaseMetadataPending PhaseDecommissioning SpecHasDeletionTS ActionDecommission,
     transition PhaseUnprovisioned PhaseDecommissioning SpecHasDeletionTS ActionDecommission,
     transition PhaseSkipDisk PhaseDecommissioning SpecHasDeletionTS ActionDecommission,
     transition PhaseRunning PhaseSkipDisk SkipDiskProp ActionAdjustSkipDisk,
     transition PhaseSkipDisk PhaseRunning (\<lambda>obs. \<not> SkipDiskProp obs) ActionAdjust,
     transition PhaseSkipDisk PhaseSkipDisk (\<lambda>obs. SkipDiskProp obs \<and> KernelLoaded obs) ActionAdjustSkipDisk,
     transition PhaseUnprovisioned PhaseMetadataPending (\<lambda>obs. SpecHasResource obs \<and> \<not> ResFileExists obs) ActionRenderRes,
     transition PhaseMetadataPending PhaseMetadataReady
       (\<lambda>obs. ResFileExists obs \<and> \<not> MetadataExists obs \<and> \<not> SpecFlagsHasDiskless obs) ActionCreateMd,
     transition PhaseMetadataReady PhaseRunning (\<lambda>obs. MetadataExists obs \<and> \<not> KernelLoaded obs) ActionUp,
     transition PhaseRunning PhaseMetadataPending
       (\<lambda>obs. KernelLoaded obs \<and> KernelHasDiskless obs \<and> \<not> SpecFlagsHasDiskless obs \<and> \<not> MetadataExists obs) ActionCreateMd,
     transition PhaseRunning PhaseRunning KernelLoaded ActionAdjust]"

definition ObservePhase :: "Observation \<Rightarrow> DRBDPhase" where
  "ObservePhase obs =
     (if \<not> SpecHasResource obs then PhaseNone
      else if SpecHasDeletionTS obs then PhaseDecommissioning
      else if SkipDiskProp obs then PhaseSkipDisk
      else if \<not> ResFileExists obs then PhaseUnprovisioned
      else if \<not> MetadataExists obs \<and> \<not> SpecFlagsHasDiskless obs then PhaseMetadataPending
      else if \<not> KernelLoaded obs then PhaseMetadataReady
      else PhaseRunning)"

definition NextTransition :: "DRBDPhase \<Rightarrow> Observation \<Rightarrow> Transition option" where
  "NextTransition from obs = List.find (\<lambda>t. tr_From t = from \<and> tr_Trigger t obs) fsm"

definition computeLegacyAction :: "Observation \<Rightarrow> fsm_action" where
  "computeLegacyAction obs =
     (if \<not> SpecHasResource obs then ActionNoop
      else let diskless = SpecFlagsHasDiskless obs;
               firstActivation = (\<not> MetadataExists obs \<and> \<not> diskless);
               diskfulFlip = (KernelLoaded obs \<and> KernelHasDiskless obs \<and> \<not> SpecFlagsHasDiskless obs \<and> \<not> MetadataExists obs)
           in if (firstActivation \<or> diskfulFlip) \<and> \<not> diskless then ActionCreateMd
              else if \<not> KernelLoaded obs then ActionUp
              else let skipDisk = (if \<not> SkipDiskProp obs \<and> KernelHasDiskless obs \<and> \<not> SpecFlagsHasDiskless obs then True
                                   else SkipDiskProp obs)
                   in if skipDisk then ActionAdjustSkipDisk else ActionAdjust)"

text \<open>The action \<open>logFsmShadow\<close> expects: that of the next transition, none without one.\<close>

definition expectedAction :: "Observation \<Rightarrow> fsm_action" where
  "expectedAction obs = (case NextTransition (ObservePhase obs) obs of Some t \<Rightarrow> tr_Action t | None \<Rightarrow> ActionNoop)"

section \<open>What the table does\<close>

lemma NextTransition_cases:
  "NextTransition (ObservePhase obs) obs =
     (if \<not> SpecHasResource obs \<or> SpecHasDeletionTS obs then None
      else if SkipDiskProp obs
      then (if KernelLoaded obs
            then Some (transition PhaseSkipDisk PhaseSkipDisk (\<lambda>obs. SkipDiskProp obs \<and> KernelLoaded obs) ActionAdjustSkipDisk)
            else None)
      else if \<not> ResFileExists obs
      then Some (transition PhaseUnprovisioned PhaseMetadataPending (\<lambda>obs. SpecHasResource obs \<and> \<not> ResFileExists obs) ActionRenderRes)
      else if \<not> MetadataExists obs \<and> \<not> SpecFlagsHasDiskless obs
      then Some (transition PhaseMetadataPending PhaseMetadataReady
             (\<lambda>obs. ResFileExists obs \<and> \<not> MetadataExists obs \<and> \<not> SpecFlagsHasDiskless obs) ActionCreateMd)
      else if \<not> KernelLoaded obs
      then (if MetadataExists obs
            then Some (transition PhaseMetadataReady PhaseRunning (\<lambda>obs. MetadataExists obs \<and> \<not> KernelLoaded obs) ActionUp)
            else None)
      else Some (transition PhaseRunning PhaseRunning KernelLoaded ActionAdjust))"
  by (simp add: NextTransition_def fsm_def ObservePhase_def transition_def)

lemma expectedAction_eq:
  "expectedAction obs =
     (if \<not> SpecHasResource obs \<or> SpecHasDeletionTS obs then ActionNoop
      else if SkipDiskProp obs then (if KernelLoaded obs then ActionAdjustSkipDisk else ActionNoop)
      else if \<not> ResFileExists obs then ActionRenderRes
      else if \<not> MetadataExists obs \<and> \<not> SpecFlagsHasDiskless obs then ActionCreateMd
      else if \<not> KernelLoaded obs then (if MetadataExists obs then ActionUp else ActionNoop)
      else ActionAdjust)"
  unfolding expectedAction_def NextTransition_cases by (simp add: transition_def)

text \<open>
  C29. Where the table and the older chain disagree. On a live resource they pick different actions exactly in
  these cases: the resource is being deleted; it is pinned, and not a loaded slot with metadata or without a
  disk; it is not pinned, and its file is missing, or it is diskless, not loaded and without metadata, or it is
  loaded without its disk although it has metadata.
\<close>

theorem fsm_agrees:
  "expectedAction obs \<noteq> computeLegacyAction obs \<longleftrightarrow>
     SpecHasResource obs \<and>
     (SpecHasDeletionTS obs \<or>
      (if SkipDiskProp obs then \<not> (KernelLoaded obs \<and> (MetadataExists obs \<or> SpecFlagsHasDiskless obs))
       else \<not> ResFileExists obs \<or>
            SpecFlagsHasDiskless obs \<and> \<not> MetadataExists obs \<and> \<not> KernelLoaded obs \<or>
            MetadataExists obs \<and> \<not> SpecFlagsHasDiskless obs \<and> KernelLoaded obs \<and> KernelHasDiskless obs))"
  unfolding expectedAction_eq computeLegacyAction_def by (auto simp: Let_def)

theorem fsm_agrees_witness:
  "expectedAction \<lparr>SpecHasResource = True, SpecFlagsHasDiskless = False, SpecHasDeletionTS = False, ResFileExists = True,
     KernelLoaded = True, KernelHasDiskless = True, MetadataExists = True, SkipDiskProp = False\<rparr> = ActionAdjust \<and>
   computeLegacyAction \<lparr>SpecHasResource = True, SpecFlagsHasDiskless = False, SpecHasDeletionTS = False, ResFileExists = True,
     KernelLoaded = True, KernelHasDiskless = True, MetadataExists = True, SkipDiskProp = False\<rparr> = ActionAdjustSkipDisk \<and>
   ActionAdjust \<noteq> ActionAdjustSkipDisk"
  using fsm_agrees [of "\<lparr>SpecHasResource = True, SpecFlagsHasDiskless = False, SpecHasDeletionTS = False, ResFileExists = True,
     KernelLoaded = True, KernelHasDiskless = True, MetadataExists = True, SkipDiskProp = False\<rparr>"]
  by (simp add: expectedAction_eq computeLegacyAction_def)

section \<open>Progress\<close>

text \<open>What an observation shows after the action succeeded.\<close>

fun after_action :: "fsm_action \<Rightarrow> Observation \<Rightarrow> Observation" where
  "after_action ActionRenderRes obs = obs\<lparr>ResFileExists := True\<rparr>"
| "after_action ActionCreateMd obs = obs\<lparr>MetadataExists := True\<rparr>"
| "after_action ActionUp obs = obs\<lparr>KernelLoaded := True\<rparr>"
| "after_action _ obs = obs"

definition fsm_pass :: "Observation \<Rightarrow> Observation" where
  "fsm_pass obs = (case NextTransition (ObservePhase obs) obs of Some t \<Rightarrow> after_action (tr_Action t) obs | None \<Rightarrow> obs)"

lemma fsm_pass_eq: "fsm_pass obs = after_action (expectedAction obs) obs"
  by (simp add: fsm_pass_def expectedAction_def split: option.split)

text \<open>From a state in which nothing is ahead of the file, the transition leads to the phase it names.\<close>

lemma fsm_pass_To:
  assumes "\<not> SpecHasDeletionTS obs" "\<not> SkipDiskProp obs" "\<not> SpecFlagsHasDiskless obs"
    and "KernelLoaded obs \<longrightarrow> MetadataExists obs" "MetadataExists obs \<longrightarrow> ResFileExists obs"
    and "NextTransition (ObservePhase obs) obs = Some t"
  shows "ObservePhase (fsm_pass obs) = tr_To t"
  using assms unfolding fsm_pass_eq NextTransition_cases
  by (auto simp: expectedAction_eq ObservePhase_def transition_def split: if_splits)





text \<open>
  A replica without a disk and with no metadata recorded, or one that is pinned, has no transition while its
  kernel slot is not loaded.
\<close>

lemma fsm_stuck:
  "SpecHasResource obs \<Longrightarrow> \<not> SpecHasDeletionTS obs \<Longrightarrow> \<not> KernelLoaded obs \<Longrightarrow>
   SkipDiskProp obs \<or> ResFileExists obs \<and> SpecFlagsHasDiskless obs \<and> \<not> MetadataExists obs \<Longrightarrow>
   NextTransition (ObservePhase obs) obs = None"
  unfolding NextTransition_cases by auto

end
