(* ===== verification/Satellite_Host.thy ===== *)
theory Satellite_Host
  imports Satellite_Res Drbd_Status Drbd_GI Drbd_Alloc "HOL-Library.State_Monad"
begin

text \<open>
  What the satellite's reconciler runs on: the commands it executes, the files of its state directory, the
  stampers it calls and the clock.  An action is a state transformer over \<open>host\<close>, which holds the state
  directory, the in-memory tables of \<open>Reconciler\<close> and the trace of everything done so far, newest first.
  Each entry of the trace also keeps the state directory as the event found it, since the external tools read
  the resource file.

  The answers come from the environment \<open>env\<close>: a function of the trace and the request, so that nothing is
  assumed about how the host behaves.  The clock is such an answer too.  The last section is a Hoare logic for
  these actions.
\<close>

section \<open>Errors\<close>

datatype err_kind = PlainErr | ErrMetadataUnclean | ErrUnresolvedLocalNodeID | ErrUnresolvedSkipInitialSync

text \<open>An error value: what \<open>errors.Is\<close> finds in it, and its text.\<close>

datatype goerr = GoErr (err_is: err_kind) (err_text: string)

definition Wrapf :: "string \<Rightarrow> goerr \<Rightarrow> goerr" where
  "Wrapf msg e = GoErr (err_is e) (msg @ '': '' @ err_text e)"

section \<open>Host\<close>

datatype event =
    Run "string list"
  | ReadEvent string
  | WriteFile string string
  | RemoveFile string
  | TouchFile string
  | Stamp string string
  | EnsureDeviceNode int
  | Clock

type_synonym files = "(string, string) gomap"
type_synonym trace = "(event \<times> files) list"

datatype run_result = RunErr string string | RunOk string

text \<open>\<open>os.ReadFile\<close>: no such file, another error, or the content.\<close>

datatype read_result = Missing | Unreadable string | Content string

text \<open>A failed write leaves the old content, or what was written of the new one.\<close>

datatype write_result = WriteOk | WriteErr string "string option"

record provider =
  pv_Kind :: string
  pv_ResizeZeroFills :: "bool option"

record env =
  c_Providers :: "(string, provider) gomap"
  c_Adm :: bool
  c_Exec :: bool
  c_StateDir :: bool
  c_NodeName :: string
  c_LocalAddress :: string
  c_MetadataCreatedStamper :: bool
  c_FilesystemFormattedStamper :: bool
  c_SkipDiskClearer :: bool
  w_run :: "trace \<Rightarrow> string list \<Rightarrow> run_result"
  w_json :: "string \<Rightarrow> drbdsetupStatusResource list option"
  w_write :: "trace \<Rightarrow> string \<Rightarrow> string \<Rightarrow> write_result"
  w_read :: "trace \<Rightarrow> string \<Rightarrow> string option"
  w_open :: "trace \<Rightarrow> string \<Rightarrow> string option"
  w_close :: "trace \<Rightarrow> string \<Rightarrow> string option"
  w_remove :: "trace \<Rightarrow> string \<Rightarrow> string option"
  w_stamp :: "trace \<Rightarrow> string \<Rightarrow> string \<Rightarrow> string option"
  w_now :: "trace \<Rightarrow> int"
  w_cancelled :: "trace \<Rightarrow> bool"
  w_sha256 :: "string \<Rightarrow> string"

record host =
  h_files :: files
  h_trace :: trace
  h_lastRecoveryPromoteAt :: "(string, int) gomap"
  h_firstLateAddStallAt :: "(string, int) gomap"
  h_restoreBlankFallback :: "(string, bool) gomap"
  h_fsmShadowAgreeCount :: "(string, int) gomap"
  h_lastRecordedGI :: "(string, string) gomap"

type_synonym 'a act = "(host, 'a) state"

definition asks :: "(host \<Rightarrow> 'a) \<Rightarrow> 'a act" where
  "asks f = State (\<lambda>h. (f h, h))"

definition emit :: "event \<Rightarrow> unit act" where
  "emit e = State (\<lambda>h. ((), h\<lparr>h_trace := (e, h_files h) # h_trace h\<rparr>))"

definition Exec_Run :: "env \<Rightarrow> string list \<Rightarrow> run_result act" where
  "Exec_Run E argv = State (\<lambda>h. (w_run E (h_trace h) argv, h\<lparr>h_trace := (Run argv, h_files h) # h_trace h\<rparr>))"

definition ReadFile :: "env \<Rightarrow> string \<Rightarrow> read_result act" where
  "ReadFile E name = State (\<lambda>h.
     (case map_of (h_files h) name of
        None \<Rightarrow> Missing
      | Some body \<Rightarrow> (case w_read E (h_trace h) name of Some txt \<Rightarrow> Unreadable txt | None \<Rightarrow> Content body),
      h\<lparr>h_trace := (ReadEvent name, h_files h) # h_trace h\<rparr>))"

text \<open>The content, for callers that take any error for no file.\<close>

fun readable :: "read_result \<Rightarrow> string option" where
  "readable (Content body) = Some body"
| "readable _ = None"

definition file_exists :: "string \<Rightarrow> bool act" where
  "file_exists name = asks (\<lambda>h. gm_has (h_files h) name)"

definition write_file :: "env \<Rightarrow> string \<Rightarrow> string \<Rightarrow> goerr option act" where
  "write_file E name body = State (\<lambda>h.
     let h' = h\<lparr>h_trace := (WriteFile name body, h_files h) # h_trace h\<rparr> in
     case w_write E (h_trace h) name body of
       WriteOk \<Rightarrow> (None, h'\<lparr>h_files := AList.update name body (h_files h)\<rparr>)
     | WriteErr txt None \<Rightarrow> (Some (GoErr PlainErr txt), h')
     | WriteErr txt (Some part) \<Rightarrow> (Some (GoErr PlainErr txt), h'\<lparr>h_files := AList.update name part (h_files h)\<rparr>))"

text \<open>
  \<open>os.OpenFile\<close> with \<open>O_CREATE|O_WRONLY\<close>, then \<open>Close\<close>: the file exists once the first succeeded.  The error of
  each is wrapped with its own message.
\<close>

definition touch_file :: "env \<Rightarrow> string \<Rightarrow> string \<Rightarrow> string \<Rightarrow> goerr option act" where
  "touch_file E openMsg closeMsg name = State (\<lambda>h.
     let h' = h\<lparr>h_trace := (TouchFile name, h_files h) # h_trace h\<rparr> in
     case w_open E (h_trace h) name of
       Some txt \<Rightarrow> (Some (Wrapf openMsg (GoErr PlainErr txt)), h')
     | None \<Rightarrow> (map_option (\<lambda>txt. Wrapf closeMsg (GoErr PlainErr txt)) (w_close E (h_trace h) name),
         h'\<lparr>h_files := (if gm_has (h_files h) name then h_files h else AList.update name [] (h_files h))\<rparr>))"

text \<open>
  A write through a temporary file that replaces the old one: an error leaves either the old content or, when
  it comes after the rename, the new one.
\<close>

definition write_file_durably :: "env \<Rightarrow> string \<Rightarrow> string \<Rightarrow> goerr option act" where
  "write_file_durably E name body = State (\<lambda>h.
     let h' = h\<lparr>h_trace := (WriteFile name body, h_files h) # h_trace h\<rparr>;
         written = h'\<lparr>h_files := AList.update name body (h_files h)\<rparr> in
     case w_write E (h_trace h) name body of
       WriteOk \<Rightarrow> (None, written)
     | WriteErr txt None \<Rightarrow> (Some (GoErr PlainErr txt), h')
     | WriteErr txt (Some _) \<Rightarrow> (Some (GoErr PlainErr txt), written))"

text \<open>\<open>os.Remove\<close> by a caller that takes a missing file for success.\<close>

definition remove_file :: "env \<Rightarrow> string \<Rightarrow> goerr option act" where
  "remove_file E name = State (\<lambda>h.
     let h' = h\<lparr>h_trace := (RemoveFile name, h_files h) # h_trace h\<rparr> in
     if \<not> gm_has (h_files h) name then (None, h')
     else case w_remove E (h_trace h) name of
            Some txt \<Rightarrow> (Some (GoErr PlainErr txt), h')
          | None \<Rightarrow> (None, h'\<lparr>h_files := AList.delete name (h_files h)\<rparr>))"

definition stamp :: "env \<Rightarrow> string \<Rightarrow> string \<Rightarrow> goerr option act" where
  "stamp E what name = State (\<lambda>h.
     (map_option (GoErr PlainErr) (w_stamp E (h_trace h) what name),
      h\<lparr>h_trace := (Stamp what name, h_files h) # h_trace h\<rparr>))"

definition now :: "env \<Rightarrow> int act" where
  "now E = State (\<lambda>h. (w_now E (h_trace h), h\<lparr>h_trace := (Clock, h_files h) # h_trace h\<rparr>))"

definition modify_host :: "(host \<Rightarrow> host) \<Rightarrow> unit act" where
  "modify_host f = State (\<lambda>h. ((), f h))"

section \<open>Sequencing with errors\<close>

text \<open>\<open>err := m; if err != nil { return err }; k\<close>.\<close>

definition try_then :: "goerr option act \<Rightarrow> goerr option act \<Rightarrow> goerr option act" where
  "try_then m k = do { e \<leftarrow> m; case e of Some err \<Rightarrow> State_Monad.return (Some err) | None \<Rightarrow> k }"

text \<open>The same for a call with a result.\<close>

definition try_bind :: "(goerr + 'a) act \<Rightarrow> ('a \<Rightarrow> (goerr + 'b) act) \<Rightarrow> (goerr + 'b) act" where
  "try_bind m k = do { r \<leftarrow> m; case r of Inl err \<Rightarrow> State_Monad.return (Inl err) | Inr a \<Rightarrow> k a }"

text \<open>\<open>errors.Wrapf\<close> of an error that may be nil.\<close>

definition wrapping :: "string \<Rightarrow> goerr option act \<Rightarrow> goerr option act" where
  "wrapping msg m = do { e \<leftarrow> m; State_Monad.return (map_option (Wrapf msg) e) }"

text \<open>A loop that returns at the first error.\<close>

fun each_until_err :: "('a \<Rightarrow> goerr option act) \<Rightarrow> 'a list \<Rightarrow> goerr option act" where
  "each_until_err f [] = State_Monad.return None"
| "each_until_err f (x # xs) = try_then (f x) (each_until_err f xs)"

text \<open>A loop with an accumulator that returns at the first error.\<close>

fun fold_until_err :: "('a \<Rightarrow> 'b \<Rightarrow> (goerr + 'b) act) \<Rightarrow> 'a list \<Rightarrow> 'b \<Rightarrow> (goerr + 'b) act" where
  "fold_until_err f [] b = State_Monad.return (Inr b)"
| "fold_until_err f (x # xs) b = try_bind (f x b) (fold_until_err f xs)"

text \<open>A loop of probes that stops at the first one that holds.\<close>

fun any_act :: "('a \<Rightarrow> bool act) \<Rightarrow> 'a list \<Rightarrow> bool act" where
  "any_act f [] = State_Monad.return False"
| "any_act f (x # xs) = do { b \<leftarrow> f x; if b then State_Monad.return True else any_act f xs }"

lemma each_all_None:
  "(\<And>x h. x \<in> set xs \<Longrightarrow> fst (run_state (f x) h) = None) \<Longrightarrow> fst (run_state (each_until_err f xs) h) = None"
  by (induction xs arbitrary: h) (simp_all add: try_then_def case_prod_beta)

section \<open>Hoare logic\<close>

definition hoare :: "(host \<Rightarrow> bool) \<Rightarrow> 'a act \<Rightarrow> ('a \<Rightarrow> host \<Rightarrow> bool) \<Rightarrow> bool" where
  "hoare P m Q = (\<forall>h. P h \<longrightarrow> Q (fst (run_state m h)) (snd (run_state m h)))"

lemma hoareD: "hoare P m Q \<Longrightarrow> P h \<Longrightarrow> run_state m h = (a, h') \<Longrightarrow> Q a h'"
  by (auto simp: hoare_def)

lemma hoare_return: "(\<And>h. P h \<Longrightarrow> Q a h) \<Longrightarrow> hoare P (State_Monad.return a) Q"
  by (simp add: hoare_def)

lemma hoare_bind: "hoare P m R \<Longrightarrow> (\<And>a. hoare (R a) (f a) Q) \<Longrightarrow> hoare P (State_Monad.bind m f) Q"
  by (simp add: hoare_def case_prod_beta)

lemma hoare_weaken: "hoare P' m Q' \<Longrightarrow> (\<And>h. P h \<Longrightarrow> P' h) \<Longrightarrow> (\<And>a h. Q' a h \<Longrightarrow> Q a h) \<Longrightarrow> hoare P m Q"
  by (auto simp: hoare_def)

lemma hoare_conj: "hoare P m Q \<Longrightarrow> hoare P m R \<Longrightarrow> hoare P m (\<lambda>a h. Q a h \<and> R a h)"
  by (auto simp: hoare_def)

text \<open>An action keeps an invariant of the host.\<close>

definition keeps :: "(host \<Rightarrow> bool) \<Rightarrow> 'a act \<Rightarrow> bool" where
  "keeps I m = hoare I m (\<lambda>_. I)"

named_theorems keeps_rules

lemma keepsD: "keeps I m \<Longrightarrow> I h \<Longrightarrow> I (snd (run_state m h))"
  by (simp add: keeps_def hoare_def)

lemma keeps_return [keeps_rules]: "keeps I (State_Monad.return a)"
  by (simp add: keeps_def hoare_return)

lemma keeps_bind [keeps_rules]: "keeps I m \<Longrightarrow> (\<And>a. keeps I (f a)) \<Longrightarrow> keeps I (State_Monad.bind m f)"
  unfolding keeps_def by (rule hoare_bind)

lemma keeps_if [keeps_rules]: "(b \<Longrightarrow> keeps I m) \<Longrightarrow> (\<not> b \<Longrightarrow> keeps I n) \<Longrightarrow> keeps I (if b then m else n)"
  by simp

lemma keeps_option [keeps_rules]:
  "(x = None \<Longrightarrow> keeps I m) \<Longrightarrow> (\<And>a. x = Some a \<Longrightarrow> keeps I (f a)) \<Longrightarrow> keeps I (case x of None \<Rightarrow> m | Some a \<Rightarrow> f a)"
  by (cases x) simp_all

lemma keeps_sum [keeps_rules]:
  "(\<And>a. x = Inl a \<Longrightarrow> keeps I (f a)) \<Longrightarrow> (\<And>b. x = Inr b \<Longrightarrow> keeps I (g b)) \<Longrightarrow> keeps I (case x of Inl a \<Rightarrow> f a | Inr b \<Rightarrow> g b)"
  by (cases x) simp_all

lemma keeps_prod [keeps_rules]: "(\<And>a b. x = (a, b) \<Longrightarrow> keeps I (f a b)) \<Longrightarrow> keeps I (case x of (a, b) \<Rightarrow> f a b)"
  by (cases x) simp

lemma keeps_run_result [keeps_rules]:
  "(\<And>e out. x = RunErr e out \<Longrightarrow> keeps I (f e out)) \<Longrightarrow> (\<And>out. x = RunOk out \<Longrightarrow> keeps I (g out)) \<Longrightarrow>
   keeps I (case x of RunErr e out \<Rightarrow> f e out | RunOk out \<Rightarrow> g out)"
  by (cases x) simp_all

lemma keeps_Let [keeps_rules]: "(\<And>x. x = t \<Longrightarrow> keeps I (f x)) \<Longrightarrow> keeps I (let x = t in f x)"
  by simp

lemma keeps_asks [keeps_rules]: "keeps I (asks f)"
  by (simp add: keeps_def hoare_def asks_def)

lemma keeps_file_exists [keeps_rules]: "keeps I (file_exists name)"
  by (simp add: file_exists_def keeps_asks)

lemma keeps_try_then [keeps_rules]: "keeps I m \<Longrightarrow> keeps I k \<Longrightarrow> keeps I (try_then m k)"
  unfolding try_then_def by (intro keeps_rules)

lemma keeps_try_bind [keeps_rules]: "keeps I m \<Longrightarrow> (\<And>a. keeps I (k a)) \<Longrightarrow> keeps I (try_bind m k)"
  unfolding try_bind_def by (intro keeps_rules)

lemma keeps_wrapping [keeps_rules]: "keeps I m \<Longrightarrow> keeps I (wrapping msg m)"
  unfolding wrapping_def by (intro keeps_rules)

lemma keeps_each [keeps_rules]: "(\<And>x. x \<in> set xs \<Longrightarrow> keeps I (f x)) \<Longrightarrow> keeps I (each_until_err f xs)"
  by (induction xs) (simp_all add: keeps_return keeps_try_then)

lemma keeps_fold [keeps_rules]: "(\<And>x b. x \<in> set xs \<Longrightarrow> keeps I (f x b)) \<Longrightarrow> keeps I (fold_until_err f xs b)"
  by (induction xs arbitrary: b) (simp_all add: keeps_return keeps_try_bind)

lemma keeps_any [keeps_rules]: "(\<And>x. x \<in> set xs \<Longrightarrow> keeps I (f x)) \<Longrightarrow> keeps I (any_act f xs)"
  by (induction xs) (auto intro!: keeps_rules)

text \<open>
  The invariants of interest speak of the trace: every event is allowed after the ones before it, with the
  state directory it found.
\<close>

fun trace_ok :: "(trace \<Rightarrow> event \<Rightarrow> files \<Rightarrow> bool) \<Rightarrow> trace \<Rightarrow> bool" where
  "trace_ok ok [] = True"
| "trace_ok ok ((e, fs) # before) = (ok before e fs \<and> trace_ok ok before)"

lemma trace_ok_at: "trace_ok ok (later @ (e, fs) # before) \<Longrightarrow> ok before e fs"
  by (induction later) auto

definition only :: "(event \<Rightarrow> bool) \<Rightarrow> host \<Rightarrow> bool" where
  "only allowed h = trace_ok (\<lambda>before e fs. allowed e) (h_trace h)"

lemma keeps_emit_only [keeps_rules]:
  "allowed e \<Longrightarrow> keeps (only allowed) (emit e)"
  "allowed (Run argv) \<Longrightarrow> keeps (only allowed) (Exec_Run E argv)"
  "allowed Clock \<Longrightarrow> keeps (only allowed) (now E)"
  "allowed (Stamp what name) \<Longrightarrow> keeps (only allowed) (stamp E what name)"
  "allowed (ReadEvent name) \<Longrightarrow> keeps (only allowed) (ReadFile E name)"
  "allowed (TouchFile name) \<Longrightarrow> keeps (only allowed) (touch_file E openMsg closeMsg name)"
  "allowed (WriteFile name body) \<Longrightarrow> keeps (only allowed) (write_file E name body)"
  by (auto simp: keeps_def hoare_def only_def emit_def Exec_Run_def now_def stamp_def touch_file_def write_file_def ReadFile_def Let_def
      split: option.split write_result.split)

end
