(* ===== verification/Drbd_Adm.thy ===== *)
theory Drbd_Adm
  imports Satellite_Host
begin

text \<open>
  The verbs of \<open>pkg/drbd/drbdadm.go\<close> as actions: which command each one runs and how it reads the outcome, and
  the error codes of \<open>pkg/drbd/errcodes.go\<close>.  The status predicates of \<^const>\<open>NeedsRecoveryPromote\<close> and the
  like are evaluated on the answer of one \<open>drbdsetup status\<close>.
\<close>

section \<open>Error texts\<close>

text \<open>\<open>strings.Cut\<close> with a separator of several bytes.\<close>

fun CutStr :: "string \<Rightarrow> string \<Rightarrow> (string \<times> string) option" where
  "CutStr [] sep = (if sep = [] then Some ([], []) else None)"
| "CutStr (c # s) sep =
     (if HasPrefix (c # s) sep then Some ([], drop (length sep) (c # s))
      else map_option (\<lambda>(a, b). (c # a, b)) (CutStr s sep))"

text \<open>The first match of \<open>\((\d+)\)\<close>.\<close>

fun find_code :: "string \<Rightarrow> string option" where
  "find_code [] = None"
| "find_code (c # s) =
     (let ds = takeWhile is_digit s in
      if c = CHR ''('' \<and> ds \<noteq> [] \<and> HasPrefix (dropWhile is_digit s) '')'' then Some ds else find_code s)"

definition ExtractDrbdsetupErrCode :: "string \<Rightarrow> int option" where
  "ExtractDrbdsetupErrCode out = Option.bind (find_code out) (ParseInt 64)"

definition IsErrCode :: "goerr \<Rightarrow> int \<Rightarrow> bool" where
  "IsErrCode e code = (ExtractDrbdsetupErrCode (err_text e) = Some code)"

definition IsUnknownResourceErr :: "goerr \<Rightarrow> bool" where
  "IsUnknownResourceErr e = IsErrCode e 158"

definition IsBitmapDropBothDisksErr :: "goerr \<Rightarrow> bool" where
  "IsBitmapDropBothDisksErr e = (IsErrCode e 162 \<and> Contains (err_text e) ''Can not drop the bitmap'')"

definition ParseConfiguredDeviceMinor :: "goerr \<Rightarrow> int option" where
  "ParseConfiguredDeviceMinor e =
     (case CutStr (err_text e) (''Device '' @ [CHR 0x27]) of
        None \<Rightarrow> None
      | Some (_, rest) \<Rightarrow>
          (let (num, rest2, ok) = Cut rest CHR 0x27 in
           if \<not> ok \<or> \<not> HasPrefix rest2 '' is configured'' then None else ParseInt 32 num))"

section \<open>Running\<close>

definition adm_run :: "env \<Rightarrow> string list \<Rightarrow> goerr option act" where
  "adm_run E args = do {
     r \<leftarrow> Exec_Run E (''drbdadm'' # args);
     State_Monad.return (case r of RunOk _ \<Rightarrow> None | RunErr e _ \<Rightarrow> Some (Wrapf (''drbdadm '' @ hd args) (GoErr PlainErr e)))
   }"

text \<open>A command other than \<open>drbdadm\<close> whose failure is wrapped with a message.\<close>

definition run_wrapped :: "env \<Rightarrow> string \<Rightarrow> string list \<Rightarrow> goerr option act" where
  "run_wrapped E msg argv = do {
     r \<leftarrow> Exec_Run E argv;
     State_Monad.return (case r of RunOk _ \<Rightarrow> None | RunErr e _ \<Rightarrow> Some (Wrapf msg (GoErr PlainErr e)))
   }"

definition target_of :: "string \<Rightarrow> int \<Rightarrow> string" where
  "target_of res vol = res @ ''/'' @ Itoa vol"

definition Up :: "env \<Rightarrow> string \<Rightarrow> goerr option act" where "Up E res = adm_run E [''up'', res]"
definition Down :: "env \<Rightarrow> string \<Rightarrow> goerr option act" where "Down E res = adm_run E [''down'', res]"
definition SetupDown :: "env \<Rightarrow> string \<Rightarrow> goerr option act" where
  "SetupDown E res = run_wrapped E (''drbdsetup down '' @ res) [''drbdsetup'', ''down'', res]"
definition Adjust :: "env \<Rightarrow> string \<Rightarrow> goerr option act" where "Adjust E res = adm_run E [''adjust'', res]"
definition AdjustSkipDisk :: "env \<Rightarrow> string \<Rightarrow> goerr option act" where
  "AdjustSkipDisk E res = adm_run E [''adjust'', ''--skip-disk'', res]"
definition AdjustSkipNet :: "env \<Rightarrow> string \<Rightarrow> goerr option act" where
  "AdjustSkipNet E res = adm_run E [''adjust'', ''--skip-net'', res]"
definition AdjustSkipNetSkipDisk :: "env \<Rightarrow> string \<Rightarrow> goerr option act" where
  "AdjustSkipNetSkipDisk E res = adm_run E [''adjust'', ''--skip-net'', ''--skip-disk'', res]"
definition InvalidateVolume :: "env \<Rightarrow> string \<Rightarrow> int \<Rightarrow> goerr option act" where
  "InvalidateVolume E res vol = adm_run E [''invalidate'', target_of res vol]"
definition CreateMD :: "env \<Rightarrow> string \<Rightarrow> goerr option act" where
  "CreateMD E res = adm_run E [''create-md'', ''--force'', ''--max-peers='' @ Itoa (MaxPeers - 1), res]"
definition PrimaryForce :: "env \<Rightarrow> string \<Rightarrow> goerr option act" where
  "PrimaryForce E res = adm_run E [''primary'', ''--force'', res]"
definition Secondary :: "env \<Rightarrow> string \<Rightarrow> goerr option act" where "Secondary E res = adm_run E [''secondary'', res]"
definition Resize :: "env \<Rightarrow> string \<Rightarrow> bool \<Rightarrow> goerr option act" where
  "Resize E res assumeClean =
     (if assumeClean then adm_run E [''resize'', ''--assume-clean'', res] else adm_run E [''resize'', res])"
definition ApplyAL :: "env \<Rightarrow> string \<Rightarrow> goerr option act" where "ApplyAL E res = adm_run E [''apply-al'', res]"

definition SetGIString :: "env \<Rightarrow> string \<Rightarrow> int \<Rightarrow> string \<Rightarrow> int \<Rightarrow> string \<Rightarrow> goerr option act" where
  "SetGIString E res vol device peer gi =
     run_wrapped E (''drbdmeta set-gi '' @ target_of res vol @ '' --node-id '' @ Itoa peer)
       [''drbdmeta'', ''--force'', ''-'', ''v09'', device, ''internal'', ''set-gi'', ''--node-id'', Itoa peer, gi]"

definition ForgetPeer :: "env \<Rightarrow> string \<Rightarrow> int \<Rightarrow> goerr option act" where
  "ForgetPeer E res peer =
     run_wrapped E (''drbdsetup forget-peer '' @ res @ '' '' @ Itoa peer) [''drbdsetup'', ''forget-peer'', res, Itoa peer]"

definition DelPeer :: "env \<Rightarrow> string \<Rightarrow> string \<Rightarrow> goerr option act" where
  "DelPeer E res peer = do {
     _ \<leftarrow> Exec_Run E [''drbdadm'', ''disconnect'', peer @ '':'' @ res];
     r \<leftarrow> Exec_Run E [''drbdadm'', ''del-peer'', peer @ '':'' @ res];
     State_Monad.return (case r of
         RunOk _ \<Rightarrow> None
       | RunErr e out \<Rightarrow>
           if Contains out ''not defined in your config'' \<or> Contains e ''not defined in your config'' then None
           else Some (Wrapf (''drbdadm del-peer '' @ peer @ '':'' @ res) (GoErr PlainErr e)))
   }"

section \<open>Metadata probes\<close>

definition matchesAny :: "string \<Rightarrow> string \<Rightarrow> string list \<Rightarrow> bool" where
  "matchesAny e out markers = list_ex (\<lambda>m. Contains (ToLower (e @ [CHR 0x0A] @ out)) (ToLower m)) markers"

definition metadataAbsent :: "string \<Rightarrow> string \<Rightarrow> bool" where
  "metadataAbsent e out = matchesAny e out [''no valid meta data'', ''no valid meta-data'']"

definition metadataUnclean :: "string \<Rightarrow> string \<Rightarrow> bool" where
  "metadataUnclean e out = matchesAny e out [''please apply-al'']"

text \<open>How the outcome of \<open>drbdadm dump-md\<close> is read: metadata or none, or an error.\<close>

definition hasMD_of :: "string \<Rightarrow> run_result \<Rightarrow> goerr + bool" where
  "hasMD_of target r = (case r of
     RunOk out \<Rightarrow> Inr (out \<noteq> [])
   | RunErr e out \<Rightarrow>
       if Contains e ''Device or resource busy'' \<or> Contains e ''is configured!'' \<or>
          Contains out ''Device or resource busy'' \<or> Contains out ''is configured!'' then Inr True
       else if metadataAbsent e out then Inr False
       else if metadataUnclean e out
       then Inl (Wrapf (''dump-md '' @ target)
                  (GoErr ErrMetadataUnclean ''metadata is present but its activity log needs applying''))
       else Inl (Wrapf (''dump-md '' @ target @
              '': probe failed for an unrecognised reason, refusing to report metadata as absent'') (GoErr PlainErr e)))"

definition HasMD :: "env \<Rightarrow> string \<Rightarrow> (goerr + bool) act" where
  "HasMD E target = do { r \<leftarrow> Exec_Run E [''drbdadm'', ''dump-md'', target]; State_Monad.return (hasMD_of target r) }"

definition MetadataUUIDs :: "env \<Rightarrow> string \<Rightarrow> (goerr + string list) act" where
  "MetadataUUIDs E target = do {
     r \<leftarrow> Exec_Run E [''drbdadm'', ''dump-md'', target];
     State_Monad.return (case r of
         RunErr e _ \<Rightarrow> Inl (Wrapf (''drbdadm dump-md '' @ target) (GoErr PlainErr e))
       | RunOk out \<Rightarrow> (case ParseMetadataUUIDs out of
             Inl d \<Rightarrow> Inl (Wrapf (''drbdadm dump-md '' @ target) (GoErr PlainErr
               (case d of DumpLineTooLong \<Rightarrow> ''bufio.Scanner: token too long''
                | ErrUnreadableMetadataDump \<Rightarrow> ''dump-md printed no current UUID this parser recognises'')))
           | Inr uuids \<Rightarrow> Inr uuids))
   }"

definition CurrentGI :: "env \<Rightarrow> string \<Rightarrow> int \<Rightarrow> string \<Rightarrow> (goerr + string) act" where
  "CurrentGI E res vol device = do {
     r \<leftarrow> Exec_Run E [''drbdmeta'', ''--force'', ''-'', ''v09'', device, ''internal'', ''get-gi'', ''--node-id'', ''0''];
     State_Monad.return (case r of
         RunErr e _ \<Rightarrow> Inl (Wrapf (''drbdmeta get-gi '' @ target_of res vol) (GoErr PlainErr e))
       | RunOk out \<Rightarrow>
           (let (current, _, found) = Cut (TrimSpace out) CHR '':'' in
            Inr (if \<not> found \<or> current = [] then [] else ToUpper current)))
   }"

section \<open>Kernel probes\<close>

definition status :: "env \<Rightarrow> string \<Rightarrow> status_probe act" where
  "status E res = do {
     r \<leftarrow> Exec_Run E [''drbdsetup'', ''status'', res, ''--json''];
     State_Monad.return (case r of
         RunErr e out \<Rightarrow> RunFailed e out
       | RunOk out \<Rightarrow> (case w_json E out of None \<Rightarrow> Undecodable | Some rs \<Rightarrow> Decoded rs))
   }"

definition ask_status :: "env \<Rightarrow> string \<Rightarrow> (status_probe \<Rightarrow> 'a) \<Rightarrow> 'a act" where
  "ask_status E res f = do { p \<leftarrow> status E res; State_Monad.return (f p) }"

definition show_slots :: "env \<Rightarrow> string \<Rightarrow> (string + (string, KernelSlot) gomap) act" where
  "show_slots E res = do {
     r \<leftarrow> Exec_Run E [''drbdsetup'', ''status'', ''-j'', res];
     State_Monad.return (Show (case r of
         RunErr e out \<Rightarrow> RunFailed e out
       | RunOk out \<Rightarrow> (case w_json E out of None \<Rightarrow> Undecodable | Some rs \<Rightarrow> Decoded rs)))
   }"

definition IsLoaded :: "env \<Rightarrow> string \<Rightarrow> bool act" where
  "IsLoaded E res = do {
     r \<leftarrow> Exec_Run E [''drbdsetup'', ''status'', res];
     State_Monad.return (case r of RunErr _ _ \<Rightarrow> False | RunOk out \<Rightarrow> TrimSpace out \<noteq> [])
   }"

definition not_attached_line :: "string \<Rightarrow> bool" where
  "not_attached_line line =
     list_ex (\<lambda>token. Contains line token \<and> \<not> (Contains line (''peer-'' @ token) \<and> \<not> Contains line ('' '' @ token)))
       [''disk:Diskless'', ''disk:Detaching'', ''disk:Failed'']"

definition HasDisklessVolume :: "env \<Rightarrow> string \<Rightarrow> bool act" where
  "HasDisklessVolume E res = do {
     r \<leftarrow> Exec_Run E [''drbdsetup'', ''status'', ''--verbose'', res];
     State_Monad.return (case r of RunErr _ _ \<Rightarrow> False | RunOk out \<Rightarrow> list_ex not_attached_line (Split CHR 0x0A out))
   }"

fun owner_scan :: "string \<Rightarrow> string list \<Rightarrow> string \<Rightarrow> string" where
  "owner_scan needle [] current = []"
| "owner_scan needle (line # ls) current =
     (if line \<noteq> [] \<and> hd line \<noteq> CHR '' '' \<and> hd line \<noteq> CHR 0x09 \<and> \<not> HasPrefix (TrimSpace line) ''#''
      then owner_scan needle ls (case Fields line of f # _ \<Rightarrow> f | [] \<Rightarrow> current)
      else if needle \<in> set (Fields line) then current
      else owner_scan needle ls current)"

definition ResourceOwningMinor :: "env \<Rightarrow> int \<Rightarrow> (goerr + string) act" where
  "ResourceOwningMinor E minor = do {
     r \<leftarrow> Exec_Run E [''drbdsetup'', ''status'', ''--verbose''];
     State_Monad.return (case r of
         RunErr e out \<Rightarrow>
           if Contains out ''No currently configured DRBD'' \<or> Contains e ''No currently configured DRBD'' then Inr []
           else Inl (Wrapf ''drbdsetup status --verbose'' (GoErr PlainErr e))
       | RunOk out \<Rightarrow> Inr (owner_scan (''minor:'' @ Itoa minor) (Split CHR 0x0A out) []))
   }"

section \<open>Minting a source for a late volume\<close>

fun mint_minors :: "env \<Rightarrow> string \<Rightarrow> int list \<Rightarrow> goerr option act" where
  "mint_minors E res [] = wrapping (''adjust '' @ res @ '' after mint'') (adm_run E [''adjust'', res])"
| "mint_minors E res (m # ms) = do {
     r \<leftarrow> Exec_Run E [''drbdsetup'', ''new-current-uuid'', ''--clear-bitmap'', Itoa m];
     case r of
       RunErr e _ \<Rightarrow> do {
         _ \<leftarrow> adm_run E [''adjust'', res];
         State_Monad.return (Some (Wrapf (''new-current-uuid --clear-bitmap '' @ Itoa m) (GoErr PlainErr e)))
       }
     | RunOk _ \<Rightarrow> mint_minors E res ms
   }"

definition MintLateAddSource :: "env \<Rightarrow> string \<Rightarrow> goerr option act" where
  "MintLateAddSource E res = do {
     p \<leftarrow> status E res;
     case p of
       RunFailed e _ \<Rightarrow> State_Monad.return (Some (Wrapf (''drbdsetup status '' @ res) (GoErr PlainErr e)))
     | Undecodable \<Rightarrow> State_Monad.return (Some (Wrapf (''parse drbdsetup status '' @ res) (GoErr PlainErr ''json'')))
     | Decoded [] \<Rightarrow> State_Monad.return None
     | Decoded (r # _) \<Rightarrow>
         (let minors = map sd_Minor (filter (\<lambda>d. DiskState_of (sd_DiskState d) = DiskStateInconsistent) (sr_Devices r)) in
          if minors = [] then State_Monad.return None
          else do { _ \<leftarrow> Exec_Run E [''drbdadm'', ''disconnect'', res]; mint_minors E res minors })
   }"

end
