(* ===== verification/Example_Host.thy ===== *)
theory Example_Host
  imports Drbd_Adm Example_Replica
begin

text \<open>
  A host on which every command works: a volume has metadata once it was created, and the kernel knows the
  resource once it was brought up or adjusted.
\<close>

definition ran :: "trace \<Rightarrow> (string list \<Rightarrow> bool) \<Rightarrow> bool" where
  "ran before P = list_ex (\<lambda>(e, fs). case e of Run argv \<Rightarrow> P argv | _ \<Rightarrow> False) before"

definition ex_run_cmd :: "trace \<Rightarrow> string list \<Rightarrow> run_result" where
  "ex_run_cmd before argv =
     (if take 2 argv = [''drbdadm'', ''dump-md'']
      then (if ran before (\<lambda>a. take 2 a = [''drbdadm'', ''create-md''] \<and> last a = last argv) then RunOk ''current-uuid''
            else RunErr ''No valid meta data found'' [])
      else if take 2 argv = [''drbdsetup'', ''status'']
      then (if ran before (\<lambda>a. take 2 a \<in> {[''drbdadm'', ''up''], [''drbdadm'', ''adjust'']}) then RunOk ''loaded''
            else RunErr ''No such resource'' [])
      else RunOk [])"

definition ex_env :: env where
  "ex_env = \<lparr>c_Providers = [(''thin'', \<lparr>pv_Kind = ''LVM_THIN'', pv_ResizeZeroFills = Some True\<rparr>)], c_Adm = True, c_Exec = True,
     c_StateDir = True, c_NodeName = ''n1'', c_LocalAddress = ''10.0.0.1'', c_MetadataCreatedStamper = True,
     c_FilesystemFormattedStamper = True, c_SkipDiskClearer = True, w_run = ex_run_cmd, w_json = (\<lambda>out. Some []),
     w_write = (\<lambda>before name body. WriteOk), w_read = (\<lambda>before name. None),
     w_open = (\<lambda>before name. None), w_close = (\<lambda>before name. None), w_remove = (\<lambda>before name. None), w_stamp = (\<lambda>before what name. None),
     w_now = (\<lambda>before. 0), w_cancelled = (\<lambda>before. False), w_sha256 = (\<lambda>s. replicate 32 CHR 0x41)\<rparr>"

definition ex_host :: host where
  "ex_host = \<lparr>h_files = [], h_trace = [], h_lastRecoveryPromoteAt = [], h_firstLateAddStallAt = [],
     h_restoreBlankFallback = [], h_fsmShadowAgreeCount = [],
     h_lastRecordedGI = []\<rparr>"

end
