(* ===== verification/Satellite_Seed.thy ===== *)
theory Satellite_Seed
  imports Example_Host
begin

text \<open>
  Seeding the generation identifiers of a new replica (\<open>pkg/satellite/reconciler.go\<close>): which identifier a
  volume starts with, who is elected to start up to date, and the gates that hold a replica back until the
  controller has decided.
\<close>

section \<open>Gates\<close>

definition localNodeIDFromOpts :: "DesiredResource \<Rightarrow> int option" where
  "localNodeIDFromOpts dr =
     (case map_of (dr_DrbdOptions dr) ''node-id'' of
        None \<Rightarrow> None
      | Some raw \<Rightarrow> if raw = [] then None else ParseInt 32 raw)"

definition refuseUnresolvedLocalNodeID :: "DesiredResource \<Rightarrow> goerr option" where
  "refuseUnresolvedLocalNodeID dr =
     (if localNodeIDFromOpts dr = None
      then Some (GoErr ErrUnresolvedLocalNodeID ''local DRBD node-id not yet allocated by controller'') else None)"

definition refuseUnresolvedSkipInitialSync :: "DesiredResource \<Rightarrow> bool \<Rightarrow> goerr option" where
  "refuseUnresolvedSkipInitialSync dr freshActivation =
     (if freshActivation \<and> dr_SkipInitialSync dr = None
      then Some (GoErr ErrUnresolvedSkipInitialSync ''Resource.Spec.SkipInitialSync not yet stamped by controller'') else None)"

definition mdMarker :: "DesiredResource \<Rightarrow> string" where "mdMarker dr = dr_Name dr @ ''.md-created''"
definition resPath :: "DesiredResource \<Rightarrow> string" where "resPath dr = dr_Name dr @ ''.res''"

definition gateBringUpReadiness :: "DesiredResource \<Rightarrow> bool \<Rightarrow> goerr option act" where
  "gateBringUpReadiness dr diskless =
     (case refuseUnresolvedLocalNodeID dr of
        Some e \<Rightarrow> State_Monad.return (Some e)
      | None \<Rightarrow>
          if diskless then State_Monad.return None
          else do {
            marker \<leftarrow> file_exists (mdMarker dr);
            State_Monad.return (refuseUnresolvedSkipInitialSync dr (\<not> dr_MetadataCreated dr \<and> \<not> marker))
          })"

section \<open>Elections\<close>

definition isInitialUpToDateWinner :: "DesiredResource \<Rightarrow> bool \<Rightarrow> bool" where
  "isInitialUpToDateWinner dr firstActivation =
     (firstActivation \<and> gm_idx (dr_DrbdOptions dr) ''auto-primary'' = ''true'' \<and> \<not> dr_PeerHasData dr)"

definition isLateAddWinner :: "DesiredResource \<Rightarrow> bool" where
  "isLateAddWinner dr =
     (case localNodeIDFromOpts dr of
        None \<Rightarrow> False
      | Some localID \<Rightarrow> list_all (\<lambda>p. case dp_NodeID p of None \<Rightarrow> True | Some i \<Rightarrow> localID < i) (dr_Peers dr))"

section \<open>Seeds\<close>

definition IsThinOrZFS :: "string \<Rightarrow> bool" where
  "IsThinOrZFS kind = (kind \<in> {''LVM_THIN'', ''ZFS_THIN'', ''ZFS'', ''FILE_THIN''})"

definition isRestoreBlankFallback :: "string \<Rightarrow> int \<Rightarrow> bool act" where
  "isRestoreBlankFallback rdName vol =
     asks (\<lambda>h. map_of (h_restoreBlankFallback h) (target_of rdName vol) = Some True)"

definition resolveVolumeSeed ::
  "env \<Rightarrow> string \<Rightarrow> DesiredVolume \<Rightarrow> bool \<Rightarrow> bool \<Rightarrow> bool option \<Rightarrow> GISeed option act" where
  "resolveVolumeSeed E resourceName vol peerHasData isWinner skipInitialSync =
     (if peerHasData then State_Monad.return None
      else do {
        blank \<leftarrow> isRestoreBlankFallback resourceName (dv_VolumeNumber vol);
        let skipAllowed = (skipInitialSync = Some True \<and> \<not> (dv_SourceSnapshot vol \<noteq> [] \<and> blank));
        let day0 = Day0GIFor (w_sha256 E) resourceName (dv_VolumeNumber vol);
        if dv_SeedFromGI vol \<noteq> []
        then State_Monad.return (Some (zero_GISeed\<lparr>gs_Current := dv_SeedFromGI vol, gs_BitmapBase := dv_SeedFromGI vol\<rparr>))
        else if isWinner \<and> skipAllowed
        then State_Monad.return (Some (zero_GISeed\<lparr>gs_Current := day0, gs_Consistent := True, gs_UpToDate := True\<rparr>))
        else case map_of (c_Providers E) (dv_StoragePool vol) of
               None \<Rightarrow> State_Monad.return None
             | Some provider \<Rightarrow>
                 if \<not> IsThinOrZFS (pv_Kind provider) then State_Monad.return None
                 else if \<not> skipAllowed then State_Monad.return None
                 else do {
                   data \<leftarrow> ask_status E resourceName (\<lambda>p. AnyConnectedPeerHasDataForVolume p (dv_VolumeNumber vol));
                   State_Monad.return (if data then None else Some (zero_GISeed\<lparr>gs_Current := day0, gs_WasUpToDate := True\<rparr>))
                 }
      })"

definition NodeIDMax :: int where "NodeIDMax = 31"

definition seedPerPeerGI :: "env \<Rightarrow> DesiredResource \<Rightarrow> DesiredVolume \<Rightarrow> string \<Rightarrow> GISeed \<Rightarrow> goerr option act" where
  "seedPerPeerGI E dr vol device seed =
     (case GISeed_Validate seed of
        Some _ \<Rightarrow> State_Monad.return (Some (Wrapf (''validate GI seed vol '' @ Itoa (dv_VolumeNumber vol)) (GoErr PlainErr ''invalid GI seed'')))
      | None \<Rightarrow>
          each_until_err (\<lambda>nodeID.
            wrapping (''set-gi vol '' @ Itoa (dv_VolumeNumber vol) @ '' node-id '' @ Itoa nodeID)
              (SetGIString E (dr_Name dr) (dv_VolumeNumber vol) device nodeID (GISeed_String seed))) [0..NodeIDMax])"

definition seed_volume :: "env \<Rightarrow> DesiredResource \<Rightarrow> (int, string) gomap \<Rightarrow> bool \<Rightarrow> DesiredVolume \<Rightarrow> goerr option act" where
  "seed_volume E dr devices isWinner vol =
     (let device = gm_idx devices (dv_VolumeNumber vol) in
      if device = [] then State_Monad.return None
      else do {
        seed \<leftarrow> resolveVolumeSeed E (dr_Name dr) vol (dr_PeerHasData dr) isWinner (dr_SkipInitialSync dr);
        case seed of None \<Rightarrow> State_Monad.return None | Some s \<Rightarrow> seedPerPeerGI E dr vol device s
      })"

definition seedInitialGI :: "env \<Rightarrow> DesiredResource \<Rightarrow> (int, string) gomap \<Rightarrow> bool \<Rightarrow> goerr option act" where
  "seedInitialGI E dr devices isWinner = each_until_err (seed_volume E dr devices isWinner) (dr_Volumes dr)"

definition seedFreshVolumes :: "env \<Rightarrow> DesiredResource \<Rightarrow> (int, string) gomap \<Rightarrow> int list \<Rightarrow> goerr option act" where
  "seedFreshVolumes E dr devices fresh =
     each_until_err (\<lambda>vol. if dv_VolumeNumber vol \<in> set fresh then seed_volume E dr devices (isLateAddWinner dr) vol
                           else State_Monad.return None) (dr_Volumes dr)"

section \<open>Which seeds are written\<close>





section \<open>How seeds are written\<close>









end
