(* ===== verification/Satellite_Metadata.thy ===== *)
theory Satellite_Metadata
  imports Satellite_Seed
begin

text \<open>
  The first half of a replica's apply (\<open>pkg/satellite/reconciler.go\<close>): dropping removed peers, rendering the
  resource file, and making sure every volume has DRBD metadata, with the repair of metadata left by a crash and
  the record of generation identifiers it consults (\<open>pkg/satellite/gi_history.go\<close>).
\<close>

section \<open>Removed peers\<close>

definition anyDevice :: "(int, string) gomap \<Rightarrow> bool" where
  "anyDevice devices = list_ex (\<lambda>(v, d). d \<noteq> []) devices"

definition tearDownRemovedPeers :: "env \<Rightarrow> DesiredResource \<Rightarrow> (int, string) gomap \<Rightarrow> goerr option act" where
  "tearDownRemovedPeers E dr devices = do {
     old \<leftarrow> ReadFile E (resPath dr);
     let removed = computeRemovedPeers (readable old) dr (c_NodeName E);
     if removed = [] then State_Monad.return None
     else do {
       file \<leftarrow> ReadFile E (resPath dr);
       let peerIDs = extractResFilePeerNodeIDs (readable file);
       each_until_err (\<lambda>peer.
         try_then (wrapping (''del-peer '' @ peer @ '' from '' @ dr_Name dr) (DelPeer E (dr_Name dr) peer))
           (case map_of peerIDs peer of
              Some peerID \<Rightarrow>
                if anyDevice devices then do { _ \<leftarrow> ForgetPeer E (dr_Name dr) peerID; State_Monad.return None }
                else State_Monad.return None
            | None \<Rightarrow> State_Monad.return None)) removed
     }
   }"

section \<open>The resource file\<close>

definition stampOwnershipMarker :: "env \<Rightarrow> string \<Rightarrow> goerr option act" where
  "stampOwnershipMarker E name =
     (if \<not> c_StateDir E then State_Monad.return None
      else touch_file E (''stamp ownership marker '' @ name @ ''.owned'') (''close ownership marker '' @ name @ ''.owned'')
             (name @ ''.owned''))"

definition autoDiskOptions :: "env \<Rightarrow> string \<Rightarrow> string \<Rightarrow> props act" where
  "autoDiskOptions E kind devicePath =
     (let out = [(discardZeroesAligned, if discardZeroesIfAligned kind then ''yes'' else ''no'')] in
      if \<not> rsDiscardGranularitySafe kind \<or> devicePath = [] then State_Monad.return out
      else do {
        r \<leftarrow> Exec_Run E [''lsblk'', ''-Pbndo'', ''DISC-GRAN'', devicePath];
        State_Monad.return (case r of
            RunErr _ _ \<Rightarrow> out
          | RunOk txt \<Rightarrow> (case parseDiscGran txt of
                None \<Rightarrow> out
              | Some gran \<Rightarrow> if gran \<le> 0 then out
                  else AList.update rsDiscardGranularity (Itoa (clampDiscardGranularity gran)) out))
      })"

fun auto_disk_loop :: "env \<Rightarrow> (int, string) gomap \<Rightarrow> DesiredVolume list \<Rightarrow> props \<Rightarrow> props act" where
  "auto_disk_loop E devices [] out = State_Monad.return out"
| "auto_disk_loop E devices (vol # vols) out =
     (case map_of (c_Providers E) (dv_StoragePool vol) of
        None \<Rightarrow> State_Monad.return []
      | Some pv \<Rightarrow> do {
          volOpts \<leftarrow> autoDiskOptions E (pv_Kind pv) (gm_idx devices (dv_VolumeNumber vol));
          auto_disk_loop E devices vols (mergeResourceDiscardOptions out volOpts)
        })"

definition autoDiskOptionsForResource :: "env \<Rightarrow> DesiredResource \<Rightarrow> (int, string) gomap \<Rightarrow> props act" where
  "autoDiskOptionsForResource E dr devices =
     (if \<not> c_Exec E \<or> isDiskless (dr_Flags dr) then State_Monad.return []
      else auto_disk_loop E devices (dr_Volumes dr) [])"

definition renderResFile :: "env \<Rightarrow> DesiredResource \<Rightarrow> (int, string) gomap \<Rightarrow> goerr option act" where
  "renderResFile E dr devices = do {
     autoDisk \<leftarrow> autoDiskOptionsForResource E dr devices;
     case buildResFile dr (c_NodeName E) (c_LocalAddress E) devices autoDisk of
       Inl _ \<Rightarrow> State_Monad.return (Some (GoErr PlainErr (''build .res for '' @ dr_Name dr @ '': drbd.Build'')))
     | Inr body \<Rightarrow>
         try_then (stampOwnershipMarker E (dr_Name dr)) (do {
           current \<leftarrow> ReadFile E (resPath dr);
           if (case readable current of Some c \<Rightarrow> c | None \<Rightarrow> []) = body then State_Monad.return None
           else wrapping (''write '' @ resPath dr) (write_file E (resPath dr) body)
         })
   }"

section \<open>The record of generations\<close>

text \<open>\<open>history[vol]\<close>, where an absent volume has no generations.\<close>

definition gens_of :: "(int, string list) gomap \<Rightarrow> int \<Rightarrow> string list" where
  "gens_of hist vol = (case map_of hist vol of Some gs \<Rightarrow> gs | None \<Rightarrow> [])"

text \<open>The lines of the record, grouped by volume; a line this code did not write is an error.\<close>

fun history_lines :: "string list \<Rightarrow> (int, string list) gomap \<Rightarrow> (int, string list) gomap option" where
  "history_lines [] out = Some out"
| "history_lines (raw # ls) out =
     (let line = TrimSpace raw in
      if line = [] then history_lines ls out
      else let (volField, generation, ok) = Cut line CHR '' '' in
        case ParseInt 32 volField of
          Some vol \<Rightarrow>
            if ok \<and> IsGenerationUUID generation
            then history_lines ls (AList.update vol (gens_of out vol @ [generation]) out)
            else None
        | None \<Rightarrow> None)"

definition scanTokenMax :: int where "scanTokenMax = 65536"

definition parse_history :: "string \<Rightarrow> (int, string list) gomap option" where
  "parse_history data =
     (if list_ex (\<lambda>l. scanTokenMax \<le> int (length l)) (Split CHR 0x0A data) then None
      else history_lines (Split CHR 0x0A data) [])"

definition giHistoryPath :: "string \<Rightarrow> string" where "giHistoryPath rdName = rdName @ ''.gi-history''"

definition readGIHistory :: "env \<Rightarrow> string \<Rightarrow> (goerr + (int, string list) gomap) act" where
  "readGIHistory E rdName = do {
     file \<leftarrow> ReadFile E (giHistoryPath rdName);
     State_Monad.return (case file of
         Missing \<Rightarrow> Inr []
       | Unreadable txt \<Rightarrow> Inl (Wrapf (''read the generation record of '' @ rdName) (GoErr PlainErr txt))
       | Content data \<Rightarrow> (case parse_history data of
             None \<Rightarrow> Inl (GoErr PlainErr (''the generation record of '' @ rdName @ '': damaged line''))
           | Some hist \<Rightarrow> Inr hist))
   }"

definition recordedGIs :: "env \<Rightarrow> string \<Rightarrow> int \<Rightarrow> (goerr + string list) act" where
  "recordedGIs E rdName vol = try_bind (readGIHistory E rdName) (\<lambda>hist. State_Monad.return (Inr (gens_of hist vol)))"

section \<open>Metadata\<close>

definition repairUncleanMetadata :: "env \<Rightarrow> string \<Rightarrow> DesiredVolume \<Rightarrow> (goerr + bool) act" where
  "repairUncleanMetadata E rdName vol =
     (let target = target_of rdName (dv_VolumeNumber vol) in
      try_bind (recordedGIs E rdName (dv_VolumeNumber vol)) (\<lambda>recorded.
        let known = recorded @ (if dv_ObservedGI vol \<noteq> [] then [dv_ObservedGI vol] else []) in
        if known = [] then State_Monad.return (Inr False)
        else do {
          e \<leftarrow> ApplyAL E target;
          case e of
            Some err \<Rightarrow> State_Monad.return (Inl (Wrapf (''apply the activity log of '' @ target @
                '', which this replica held established metadata on'') err))
          | None \<Rightarrow> do {
              uuids \<leftarrow> MetadataUUIDs E target;
              State_Monad.return (case uuids of
                  Inl err \<Rightarrow> Inl (Wrapf (''read the metadata of '' @ target @ '' after apply-al'') err)
                | Inr onDisk \<Rightarrow> Inr (anySameGeneration onDisk known))
            }
        }))"

text \<open>The probe of a volume, with the repair of a dirty activity log.\<close>

definition probe_volume :: "env \<Rightarrow> DesiredResource \<Rightarrow> DesiredVolume \<Rightarrow> (goerr + bool) act" where
  "probe_volume E dr vol = do {
     r \<leftarrow> HasMD E (target_of (dr_Name dr) (dv_VolumeNumber vol));
     r2 \<leftarrow> (case r of
          Inl e \<Rightarrow> if err_is e = ErrMetadataUnclean then repairUncleanMetadata E (dr_Name dr) vol else State_Monad.return (Inl e)
        | Inr b \<Rightarrow> State_Monad.return (Inr b));
     State_Monad.return (case r2 of
         Inl e \<Rightarrow> Inl (Wrapf (''dump-md '' @ target_of (dr_Name dr) (dv_VolumeNumber vol)) e) | Inr b \<Rightarrow> Inr b)
   }"

definition createMDWithCollisionRecovery :: "env \<Rightarrow> string \<Rightarrow> string \<Rightarrow> goerr option act" where
  "createMDWithCollisionRecovery E selfRD target = do {
     e \<leftarrow> CreateMD E target;
     case e of
       None \<Rightarrow> State_Monad.return None
     | Some err \<Rightarrow>
         (case ParseConfiguredDeviceMinor err of
            None \<Rightarrow> State_Monad.return (Some err)
          | Some minor \<Rightarrow> do {
              owner \<leftarrow> ResourceOwningMinor E minor;
              case owner of
                Inl _ \<Rightarrow> State_Monad.return (Some err)
              | Inr name \<Rightarrow>
                  if name = [] \<or> name = selfRD then State_Monad.return (Some err)
                  else do {
                    downErr \<leftarrow> SetupDown E name;
                    case downErr of Some _ \<Rightarrow> State_Monad.return (Some err) | None \<Rightarrow> CreateMD E target
                  }
            })
   }"

text \<open>One volume of either metadata pass: the volumes created so far are accumulated.\<close>

definition create_missing :: "env \<Rightarrow> DesiredResource \<Rightarrow> DesiredVolume \<Rightarrow> int list \<Rightarrow> (goerr + int list) act" where
  "create_missing E dr vol fresh =
     (let target = target_of (dr_Name dr) (dv_VolumeNumber vol) in
      try_bind (probe_volume E dr vol) (\<lambda>hasMD.
        if hasMD then State_Monad.return (Inr fresh)
        else do {
          e \<leftarrow> createMDWithCollisionRecovery E (dr_Name dr) target;
          State_Monad.return (case e of
              Some err \<Rightarrow> Inl (Wrapf (''create-md '' @ target) err)
            | None \<Rightarrow> Inr (List.insert (dv_VolumeNumber vol) fresh))
        }))"

definition ensureMetadata :: "env \<Rightarrow> DesiredResource \<Rightarrow> (int, string) gomap \<Rightarrow> bool \<Rightarrow> goerr option act" where
  "ensureMetadata E dr devices firstActivation = do {
     r \<leftarrow> fold_until_err (create_missing E dr) (dr_Volumes dr) [];
     case r of
       Inl err \<Rightarrow> State_Monad.return (Some err)
     | Inr fresh \<Rightarrow>
         try_then (wrapping (''write '' @ mdMarker dr) (write_file E (mdMarker dr) [])) (do {
           _ \<leftarrow> (if c_MetadataCreatedStamper E then stamp E ''MetadataCreated'' (dr_Name dr @ ''.'' @ dr_NodeName dr)
                else State_Monad.return None);
           if \<not> firstActivation \<and> fresh = [] then State_Monad.return None
           else wrapping (''seed initial-sync GI '' @ dr_Name dr)
                  (seedInitialGI E dr devices (isInitialUpToDateWinner dr firstActivation))
         })
   }"

definition createMetadata :: "env \<Rightarrow> DesiredResource \<Rightarrow> (int, string) gomap \<Rightarrow> goerr option act" where
  "createMetadata E dr devices = ensureMetadata E dr devices True"

definition maybeStampMetadata :: "env \<Rightarrow> DesiredResource \<Rightarrow> (int, string) gomap \<Rightarrow> bool \<Rightarrow> bool \<Rightarrow> bool \<Rightarrow> goerr option act" where
  "maybeStampMetadata E dr devices diskless firstActivation diskfulFlip =
     (if diskless then State_Monad.return None
      else if firstActivation \<and> \<not> diskfulFlip then createMetadata E dr devices
      else if diskfulFlip then ensureMetadata E dr devices False
      else State_Monad.return None)"

definition isDisklessToDiskfulFlip :: "env \<Rightarrow> DesiredResource \<Rightarrow> bool \<Rightarrow> bool act" where
  "isDisklessToDiskfulFlip E dr diskless =
     (if diskless then State_Monad.return False
      else do {
        loaded \<leftarrow> IsLoaded E (dr_Name dr);
        if \<not> loaded then State_Monad.return False else HasDisklessVolume E (dr_Name dr)
      })"

definition hasUnattachedDesiredVolume :: "env \<Rightarrow> DesiredResource \<Rightarrow> bool act" where
  "hasUnattachedDesiredVolume E dr =
     ask_status E (dr_Name dr) (\<lambda>p. list_ex (\<lambda>v. dv_VolumeNumber v \<notin> set (AttachedVolumes p)) (dr_Volumes dr))"

definition shouldEnsurePerVolumeMetadata :: "env \<Rightarrow> DesiredResource \<Rightarrow> bool \<Rightarrow> bool act" where
  "shouldEnsurePerVolumeMetadata E dr diskless =
     (if diskless \<or> \<not> dr_MetadataCreated dr then State_Monad.return False
      else do {
        unattached \<leftarrow> hasUnattachedDesiredVolume E dr;
        if \<not> unattached then State_Monad.return False
        else do { flip \<leftarrow> isDisklessToDiskfulFlip E dr diskless; State_Monad.return (\<not> flip) }
      })"

definition ensurePerVolumeMetadata :: "env \<Rightarrow> DesiredResource \<Rightarrow> (int, string) gomap \<Rightarrow> bool \<Rightarrow> goerr option act" where
  "ensurePerVolumeMetadata E dr devices diskless =
     (if diskless \<or> \<not> c_Adm E then State_Monad.return None
      else try_then (renderResFile E dr devices) (do {
        r \<leftarrow> fold_until_err (create_missing E dr) (dr_Volumes dr) [];
        case r of
          Inl err \<Rightarrow> State_Monad.return (Some err)
        | Inr fresh \<Rightarrow> if fresh = [] then State_Monad.return None else seedFreshVolumes E dr devices fresh
      }))"

end
