(* ===== verification/Satellite_Promote.thy ===== *)
theory Satellite_Promote
  imports Satellite_Metadata
begin

text \<open>
  Promotion, formatting and the self-heals of a replica (\<open>pkg/satellite/reconciler.go\<close>): when a replica is
  forced primary, what is formatted while it is, and what a later pass does about a replica that never became
  up to date.  Times are in nanoseconds, as \<open>time.Duration\<close> counts them.
\<close>

section \<open>Filesystems\<close>

definition fs_type :: "DesiredResource \<Rightarrow> string" where
  "fs_type dr = TrimSpace (gm_idx (dr_Props dr) ''FileSystem/Type'')"

definition mkfsMarker :: "DesiredResource \<Rightarrow> string" where "mkfsMarker dr = dr_Name dr @ ''.mkfs.done''"

definition needsMkfs :: "DesiredResource \<Rightarrow> bool" where "needsMkfs dr = (fs_type dr \<noteq> [])"

definition drbdDevicesForMkfs :: "DesiredResource \<Rightarrow> (int, string) gomap" where
  "drbdDevicesForMkfs dr =
     fold (\<lambda>vol out. AList.update (dv_VolumeNumber vol)
             (''/dev/drbd'' @ Itoa (volMinorOrBase vol (Atoi_or_zero (gm_idx (dr_DrbdOptions dr) ''minor'')))) out)
       (dr_Volumes dr) []"

definition deviceHasFilesystem :: "env \<Rightarrow> string \<Rightarrow> bool act" where
  "deviceHasFilesystem E device = do {
     r \<leftarrow> Exec_Run E [''blkid'', ''-o'', ''export'', device];
     State_Monad.return (case r of
         RunErr _ _ \<Rightarrow> False
       | RunOk out \<Rightarrow> list_ex (\<lambda>line. HasPrefix (TrimSpace line) ''TYPE='') (Split CHR 0x0A out))
   }"

definition backingHasUserFilesystem :: "env \<Rightarrow> string \<Rightarrow> bool act" where
  "backingHasUserFilesystem E device = do {
     r \<leftarrow> Exec_Run E [''blkid'', ''-o'', ''export'', device];
     State_Monad.return (case r of
         RunErr _ _ \<Rightarrow> False
       | RunOk out \<Rightarrow> list_ex (\<lambda>line. HasPrefix (TrimSpace line) ''TYPE='' \<and> TrimPrefix (TrimSpace line) ''TYPE='' \<noteq> ''drbd'')
           (Split CHR 0x0A out))
   }"

text \<open>One volume of \<open>runAutoMkfs\<close>.\<close>

definition mkfs_volume :: "env \<Rightarrow> string \<Rightarrow> string list \<Rightarrow> (int, string) gomap \<Rightarrow> DesiredVolume \<Rightarrow> goerr option act" where
  "mkfs_volume E fsType args devices vol =
     (let device = gm_idx devices (dv_VolumeNumber vol) in
      if device = [] then State_Monad.return None
      else do {
        formatted \<leftarrow> deviceHasFilesystem E device;
        if formatted then State_Monad.return None
        else run_wrapped E (''mkfs.'' @ fsType @ '' '' @ device) ((''mkfs.'' @ fsType) # args @ [device])
      })"

definition runAutoMkfs :: "env \<Rightarrow> DesiredResource \<Rightarrow> (int, string) gomap \<Rightarrow> goerr option act" where
  "runAutoMkfs E dr devices =
     (if fs_type dr = [] then State_Monad.return None
      else if \<not> c_Exec E \<or> \<not> c_StateDir E then State_Monad.return None
      else if dr_FilesystemFormatted dr then State_Monad.return None
      else do {
        marker \<leftarrow> file_exists (mkfsMarker dr);
        if marker then State_Monad.return None
        else try_then
          (each_until_err (mkfs_volume E (fs_type dr) (Fields (TrimSpace (gm_idx (dr_Props dr) ''FileSystem/MkfsParams''))) devices)
             (dr_Volumes dr))
          (try_then (wrapping (''write '' @ mkfsMarker dr) (write_file E (mkfsMarker dr) [])) (do {
             _ \<leftarrow> (if c_FilesystemFormattedStamper E then stamp E ''FilesystemFormatted'' (dr_Name dr @ ''.'' @ dr_NodeName dr)
                  else State_Monad.return None);
             State_Monad.return None
           }))
      })"

section \<open>Promotion\<close>

definition runAutoPromote :: "env \<Rightarrow> DesiredResource \<Rightarrow> goerr option act" where
  "runAutoPromote E dr =
     try_then (wrapping (''auto-primary '' @ dr_Name dr) (PrimaryForce E (dr_Name dr)))
    (try_then (wrapping (''auto-mkfs '' @ dr_Name dr) (runAutoMkfs E dr (drbdDevicesForMkfs dr)))
              (wrapping (''auto-secondary '' @ dr_Name dr) (Secondary E (dr_Name dr))))"

definition forcePromoteProbes :: nat where "forcePromoteProbes = 12"

text \<open>The polling loop of \<open>shouldForcePromote\<close>: a cancelled context ends it with no promotion.\<close>

fun force_promote_poll :: "env \<Rightarrow> string \<Rightarrow> nat \<Rightarrow> bool act" where
  "force_promote_poll E res 0 = State_Monad.return True"
| "force_promote_poll E res (Suc n) = do {
     data \<leftarrow> ask_status E res AnyConnectedPeerHasData;
     if data then State_Monad.return False
     else do {
       cancelled \<leftarrow> asks (\<lambda>h. w_cancelled E (h_trace h));
       if cancelled then State_Monad.return False else force_promote_poll E res n
     }
   }"

definition shouldForcePromote :: "env \<Rightarrow> DesiredResource \<Rightarrow> bool act" where
  "shouldForcePromote E dr =
     (if dr_PeerHasData dr then State_Monad.return False
      else if GetPeerNames dr = [] then State_Monad.return True
      else force_promote_poll E (dr_Name dr) forcePromoteProbes)"

section \<open>Evidence\<close>

definition disklessPeerSet :: "DesiredResource \<Rightarrow> string list" where
  "disklessPeerSet dr = filter (\<lambda>peer. gm_idx (dr_DrbdOptions dr) (peerKey peer ''diskless'') = ''true'') (GetPeerNames dr)"

fun volumes_day0_empty :: "env \<Rightarrow> DesiredResource \<Rightarrow> (int, string) gomap \<Rightarrow> DesiredVolume list \<Rightarrow> bool act" where
  "volumes_day0_empty E dr devices [] = State_Monad.return True"
| "volumes_day0_empty E dr devices (vol # vols) =
     (let device = gm_idx devices (dv_VolumeNumber vol) in
      if device = [] then State_Monad.return False
      else do {
        r \<leftarrow> CurrentGI E (dr_Name dr) (dv_VolumeNumber vol) device;
        case r of
          Inl _ \<Rightarrow> State_Monad.return False
        | Inr gi \<Rightarrow>
            if gi = [] then State_Monad.return False
            else if \<not> EqualFold gi (Day0GIFor (w_sha256 E) (dr_Name dr) (dv_VolumeNumber vol)) then State_Monad.return False
            else do {
              user \<leftarrow> backingHasUserFilesystem E device;
              if user then State_Monad.return False else volumes_day0_empty E dr devices vols
            }
      })"

definition allVolumesDay0Empty :: "env \<Rightarrow> DesiredResource \<Rightarrow> (int, string) gomap \<Rightarrow> bool act" where
  "allVolumesDay0Empty E dr devices = volumes_day0_empty E dr devices (dr_Volumes dr)"

definition day0EmptyMkfsBypass :: "env \<Rightarrow> DesiredResource \<Rightarrow> (int, string) gomap \<Rightarrow> bool act" where
  "day0EmptyMkfsBypass E dr devices =
     (if \<not> needsMkfs dr \<or> \<not> c_Exec E then State_Monad.return False
      else if dr_SkipInitialSync dr \<noteq> Some True then State_Monad.return False
      else do {
        siblings \<leftarrow> ask_status E (dr_Name dr) (\<lambda>p. Day0SiblingSetConnected p (disklessPeerSet dr));
        if \<not> siblings then State_Monad.return False else allVolumesDay0Empty E dr devices
      })"

definition isLowestDiskfulNodeID :: "DesiredResource \<Rightarrow> bool" where
  "isLowestDiskfulNodeID dr =
     (let opts = dr_DrbdOptions dr in
      case ParseInt 64 (gm_idx opts ''node-id'') of
        None \<Rightarrow> False
      | Some selfID \<Rightarrow>
          list_all (\<lambda>peer. gm_idx opts (peerKey peer ''diskless'') = ''true'' \<or>
            (case ParseInt 64 (gm_idx opts (peerKey peer ''node-id'')) of None \<Rightarrow> False | Some peerID \<Rightarrow> selfID \<le> peerID))
            (GetPeerNames dr))"

section \<open>Throttles\<close>

definition recoveryPromoteThrottle :: int where "recoveryPromoteThrottle = 10 * 1000000000"
definition lateAddStallDwell :: int where "lateAddStallDwell = 20 * 1000000000"

definition recoveryPromoteDue :: "env \<Rightarrow> string \<Rightarrow> bool act" where
  "recoveryPromoteDue E name = do {
     t \<leftarrow> now E;
     prev \<leftarrow> asks (\<lambda>h. map_of (h_lastRecoveryPromoteAt h) name);
     if (case prev of Some p \<Rightarrow> t - p < recoveryPromoteThrottle | None \<Rightarrow> False) then State_Monad.return False
     else do {
       _ \<leftarrow> modify_host (\<lambda>h. h\<lparr>h_lastRecoveryPromoteAt := AList.update name t (h_lastRecoveryPromoteAt h)\<rparr>);
       State_Monad.return True
     }
   }"

definition lateAddStallDwellElapsed :: "env \<Rightarrow> string \<Rightarrow> bool act" where
  "lateAddStallDwellElapsed E name = do {
     t \<leftarrow> now E;
     first \<leftarrow> asks (\<lambda>h. map_of (h_firstLateAddStallAt h) name);
     case first of
       None \<Rightarrow> do {
         _ \<leftarrow> modify_host (\<lambda>h. h\<lparr>h_firstLateAddStallAt := AList.update name t (h_firstLateAddStallAt h)\<rparr>);
         State_Monad.return False
       }
     | Some f \<Rightarrow> State_Monad.return (lateAddStallDwell \<le> t - f)
   }"

definition clearLateAddStall :: "string \<Rightarrow> unit act" where
  "clearLateAddStall name =
     modify_host (\<lambda>h. h\<lparr>h_firstLateAddStallAt := AList.delete name (h_firstLateAddStallAt h)\<rparr>)"

section \<open>Formatting again\<close>

definition needsAutoMkfsRetry :: "env \<Rightarrow> DesiredResource \<Rightarrow> bool act" where
  "needsAutoMkfsRetry E dr =
     (if fs_type dr = [] \<or> \<not> c_Exec E \<or> \<not> c_StateDir E \<or> dr_FilesystemFormatted dr then State_Monad.return False
      else do { marker \<leftarrow> file_exists (mkfsMarker dr); State_Monad.return (\<not> marker) })"

definition latchFreeMkfsRetryAllowed :: "env \<Rightarrow> DesiredResource \<Rightarrow> (int, string) gomap \<Rightarrow> bool act" where
  "latchFreeMkfsRetryAllowed E dr devices =
     (if \<not> isLowestDiskfulNodeID dr then State_Monad.return False
      else do {
        safe \<leftarrow> ask_status E (dr_Name dr) SafeForMkfsRetryPromote;
        if \<not> safe then State_Monad.return False
        else do {
          anyVolumeNeedsMkfs \<leftarrow> any_act (\<lambda>vol.
            let device = gm_idx devices (dv_VolumeNumber vol) in
            if device = [] then State_Monad.return False
            else do { user \<leftarrow> backingHasUserFilesystem E device; State_Monad.return (\<not> user) }) (dr_Volumes dr);
          if \<not> anyVolumeNeedsMkfs then State_Monad.return False else recoveryPromoteDue E (dr_Name dr)
        }
      })"

definition shouldRetryAutoMkfs ::
  "env \<Rightarrow> DesiredResource \<Rightarrow> bool \<Rightarrow> bool \<Rightarrow> bool \<Rightarrow> (int, string) gomap \<Rightarrow> bool act" where
  "shouldRetryAutoMkfs E dr autoPromote autoPrimaryReplica diskless devices =
     (if autoPromote \<or> diskless then State_Monad.return False
      else do {
        retry \<leftarrow> needsAutoMkfsRetry E dr;
        if \<not> retry then State_Monad.return False
        else if autoPrimaryReplica then State_Monad.return True
        else latchFreeMkfsRetryAllowed E dr devices
      })"

section \<open>Self-heals\<close>

definition maybeRecoveryPromote :: "env \<Rightarrow> DesiredResource \<Rightarrow> bool \<Rightarrow> bool \<Rightarrow> goerr option act" where
  "maybeRecoveryPromote E dr autoPromote autoPrimaryReplica =
     (if autoPromote \<or> \<not> autoPrimaryReplica then State_Monad.return None
      else do {
        needed \<leftarrow> ask_status E (dr_Name dr) NeedsRecoveryPromote;
        if \<not> needed then State_Monad.return None
        else do {
          due \<leftarrow> recoveryPromoteDue E (dr_Name dr);
          if \<not> due then State_Monad.return None else runAutoPromote E dr
        }
      })"

definition maybeLateAddPromote :: "env \<Rightarrow> DesiredResource \<Rightarrow> bool \<Rightarrow> goerr option act" where
  "maybeLateAddPromote E dr diskless =
     (if diskless \<or> \<not> c_Adm E then State_Monad.return None
      else do {
        needed \<leftarrow> ask_status E (dr_Name dr) NeedsLateAddPromote;
        if \<not> needed then State_Monad.return None
        else do {
          due \<leftarrow> recoveryPromoteDue E (dr_Name dr);
          if \<not> due then State_Monad.return None
          else wrapping (''late-add-promote mint source '' @ dr_Name dr) (MintLateAddSource E (dr_Name dr))
        }
      })"

definition maybeKickLateAddResync :: "env \<Rightarrow> DesiredResource \<Rightarrow> bool \<Rightarrow> goerr option act" where
  "maybeKickLateAddResync E dr diskless =
     (if diskless \<or> \<not> c_Adm E then State_Monad.return None
      else do {
        volumes \<leftarrow> ask_status E (dr_Name dr) LateAddResyncKickVolumes;
        case volumes of
          [] \<Rightarrow> do { _ \<leftarrow> clearLateAddStall (dr_Name dr); State_Monad.return None }
        | vol # _ \<Rightarrow> do {
            elapsed \<leftarrow> lateAddStallDwellElapsed E (dr_Name dr);
            if \<not> elapsed then State_Monad.return None
            else do {
              due \<leftarrow> recoveryPromoteDue E (dr_Name dr);
              if \<not> due then State_Monad.return None
              else wrapping (''late-add resync-kick invalidate '' @ target_of (dr_Name dr) vol) (InvalidateVolume E (dr_Name dr) vol)
            }
          }
      })"

definition maybeSoloPromote :: "env \<Rightarrow> DesiredResource \<Rightarrow> bool \<Rightarrow> goerr option act" where
  "maybeSoloPromote E dr diskless =
     (if diskless \<or> \<not> c_Adm E \<or> GetPeerNames dr \<noteq> [] then State_Monad.return None
      else do {
        needed \<leftarrow> ask_status E (dr_Name dr) NeedsSoloPromote;
        if \<not> needed then State_Monad.return None
        else do {
          due \<leftarrow> recoveryPromoteDue E (dr_Name dr);
          if \<not> due then State_Monad.return None else runAutoPromote E dr
        }
      })"

definition maybePromoteSelfHeals :: "env \<Rightarrow> DesiredResource \<Rightarrow> bool \<Rightarrow> bool \<Rightarrow> bool \<Rightarrow> bool \<Rightarrow> goerr option act" where
  "maybePromoteSelfHeals E dr diskless autoPromote autoPrimaryReplica resizing =
     try_then (maybeRecoveryPromote E dr autoPromote autoPrimaryReplica)
    (try_then (if resizing then State_Monad.return None
               else try_then (maybeLateAddPromote E dr diskless) (maybeKickLateAddResync E dr diskless))
              (maybeSoloPromote E dr diskless))"

section \<open>After the adjust\<close>

definition resizeAssumeClean :: "env \<Rightarrow> DesiredResource \<Rightarrow> bool" where
  "resizeAssumeClean E dr =
     list_all (\<lambda>vol. dv_StoragePool vol = [] \<or>
       (case map_of (c_Providers E) (dv_StoragePool vol) of
          None \<Rightarrow> True
        | Some provider \<Rightarrow> pv_ResizeZeroFills provider = Some True)) (dr_Volumes dr)"

definition finishDRBDApply :: "env \<Rightarrow> DesiredResource \<Rightarrow> bool \<Rightarrow> bool \<Rightarrow> bool \<Rightarrow> (int, string) gomap \<Rightarrow> goerr option act" where
  "finishDRBDApply E dr diskless firstActivation resized devices =
     try_then (if resized then wrapping (''resize '' @ dr_Name dr) (Resize E (dr_Name dr) (resizeAssumeClean E dr))
               else State_Monad.return None)
     (let autoPrimaryReplica = (\<not> diskless \<and> gm_idx (dr_DrbdOptions dr) ''auto-primary'' = ''true'');
          autoPromote = (firstActivation \<and> autoPrimaryReplica) in do {
        promote \<leftarrow> (if autoPromote then shouldForcePromote E dr else State_Monad.return True);
        proceed \<leftarrow> (if promote then State_Monad.return True else day0EmptyMkfsBypass E dr devices);
        if \<not> proceed then State_Monad.return None
        else try_then (if autoPromote \<and> needsMkfs dr then runAutoPromote E dr else State_Monad.return None) (do {
          retry \<leftarrow> shouldRetryAutoMkfs E dr autoPromote autoPrimaryReplica diskless devices;
          try_then (if retry then runAutoPromote E dr else State_Monad.return None)
            (maybePromoteSelfHeals E dr diskless autoPromote autoPrimaryReplica resized)
        })
      })"

end
