(* ===== verification/Satellite_Apply.thy ===== *)
theory Satellite_Apply
  imports Satellite_Promote Satellite_Fsm
begin

text \<open>
  The apply of a replica: \<open>applyDRBD\<close> of \<open>pkg/satellite/reconciler.go\<close> with the dispatch of the state machine
  (\<open>pkg/satellite/fsm_dispatch.go\<close>, \<open>pkg/satellite/fsm_shadow.go\<close>) and the adjust of a loaded resource.
\<close>

section \<open>Adjusting\<close>

fun ensureDeviceNodes_loop :: "int \<Rightarrow> DesiredVolume list \<Rightarrow> unit act" where
  "ensureDeviceNodes_loop baseMinor [] = State_Monad.return ()"
| "ensureDeviceNodes_loop baseMinor (vol # vols) = do {
     let minor = (if dv_Minor vol = 0 then wrap64 (baseMinor + dv_VolumeNumber vol) else dv_Minor vol);
     _ \<leftarrow> (if minor \<le> 0 then State_Monad.return () else emit (EnsureDeviceNode minor));
     ensureDeviceNodes_loop baseMinor vols
   }"

definition ensureDeviceNodes :: "DesiredResource \<Rightarrow> unit act" where
  "ensureDeviceNodes dr = ensureDeviceNodes_loop (Atoi_or_zero (gm_idx (dr_DrbdOptions dr) ''minor'')) (dr_Volumes dr)"

definition bringUpResource :: "env \<Rightarrow> DesiredResource \<Rightarrow> goerr option act" where
  "bringUpResource E dr =
     try_then (wrapping (''drbdadm up '' @ dr_Name dr) (Up E (dr_Name dr)))
       (do { _ \<leftarrow> ensureDeviceNodes dr; State_Monad.return None })"

definition dispatchAdjust :: "env \<Rightarrow> string \<Rightarrow> bool \<Rightarrow> bool \<Rightarrow> goerr option act" where
  "dispatchAdjust E res skipDisk skipNet =
     (if skipDisk \<and> skipNet then AdjustSkipNetSkipDisk E res
      else if skipDisk then AdjustSkipDisk E res
      else if skipNet then AdjustSkipNet E res
      else Adjust E res)"

definition shouldSkipNetOnAdjust :: "env \<Rightarrow> string \<Rightarrow> bool act" where
  "shouldSkipNetOnAdjust E res = do {
     r \<leftarrow> show_slots E res;
     State_Monad.return (case r of
         Inl _ \<Rightarrow> False
       | Inr slots \<Rightarrow> list_ex (\<lambda>(n, slot). ks_ConnectionState slot = ConnectionState_String ConnectionStateStandAlone \<and>
                               ks_PeerDevicesByVolNum slot \<noteq> []) slots)
   }"

definition recoverFromBitmapBothDisks :: "env \<Rightarrow> DesiredResource \<Rightarrow> bool \<Rightarrow> bool \<Rightarrow> goerr option act" where
  "recoverFromBitmapBothDisks E dr skipDisk skipNet =
     try_then (wrapping (''drbdadm down '' @ dr_Name dr @ '' (recovery from bitmap-bothdisks)'') (Down E (dr_Name dr)))
    (try_then (wrapping (''drbdadm up '' @ dr_Name dr @ '' (recovery from bitmap-bothdisks)'') (Up E (dr_Name dr)))
    (try_then (wrapping (''adjust '' @ dr_Name dr @ '' (after bitmap-bothdisks recovery)'') (dispatchAdjust E (dr_Name dr) skipDisk skipNet))
       (do { _ \<leftarrow> ensureDeviceNodes dr; State_Monad.return None })))"

definition runAdjust :: "env \<Rightarrow> DesiredResource \<Rightarrow> bool \<Rightarrow> goerr option act" where
  "runAdjust E dr diskfulFlip = do {
     skipDisk \<leftarrow> (if \<not> isSkipDiskEnabled dr \<and> \<not> diskfulFlip then HasDisklessVolume E (dr_Name dr)
                  else State_Monad.return (isSkipDiskEnabled dr));
     _ \<leftarrow> (if isSkipDiskEnabled dr \<and> \<not> diskfulFlip \<and> c_SkipDiskClearer E
          then do {
            diskless \<leftarrow> HasDisklessVolume E (dr_Name dr);
            if diskless then State_Monad.return None else stamp E ''ClearSkipDisk'' (dr_Name dr)
          }
          else State_Monad.return None);
     skipNet \<leftarrow> shouldSkipNetOnAdjust E (dr_Name dr);
     e \<leftarrow> dispatchAdjust E (dr_Name dr) skipDisk skipNet;
     case e of
       None \<Rightarrow> do { _ \<leftarrow> ensureDeviceNodes dr; State_Monad.return None }
     | Some err \<Rightarrow>
         if IsUnknownResourceErr err
         then try_then (wrapping (''drbdadm up '' @ dr_Name dr @ '' (after adjust 158 fallback)'') (Up E (dr_Name dr)))
                (do { _ \<leftarrow> ensureDeviceNodes dr; State_Monad.return None })
         else if IsBitmapDropBothDisksErr err then recoverFromBitmapBothDisks E dr skipDisk skipNet
         else State_Monad.return (Some (Wrapf (''adjust '' @ dr_Name dr) err))
   }"

definition adjustResource :: "env \<Rightarrow> DesiredResource \<Rightarrow> bool \<Rightarrow> goerr option act" where
  "adjustResource E dr diskfulFlip = runAdjust E dr diskfulFlip"

definition runApplyDRBDVerb :: "env \<Rightarrow> DesiredResource \<Rightarrow> bool \<Rightarrow> bool \<Rightarrow> goerr option act" where
  "runApplyDRBDVerb E dr firstActivation diskfulFlip =
     (if firstActivation \<or> diskfulFlip then adjustResource E dr diskfulFlip else State_Monad.return None)"

section \<open>The state machine on the host\<close>

definition observeForFsm :: "env \<Rightarrow> DesiredResource \<Rightarrow> bool \<Rightarrow> Observation act" where
  "observeForFsm E dr diskless =
     (let obs = \<lparr>SpecHasResource = (dr_Name dr \<noteq> []), SpecFlagsHasDiskless = diskless, SpecHasDeletionTS = False,
        ResFileExists = False, KernelLoaded = False, KernelHasDiskless = False, MetadataExists = False,
        SkipDiskProp = isSkipDiskEnabled dr\<rparr> in
      if \<not> SpecHasResource obs then State_Monad.return obs
      else do {
        res \<leftarrow> file_exists (resPath dr);
        md \<leftarrow> file_exists (mdMarker dr);
        loaded \<leftarrow> (if \<not> dr_KernelLoaded dr \<and> c_Adm E then IsLoaded E (dr_Name dr) else State_Monad.return (dr_KernelLoaded dr));
        disklessVol \<leftarrow> (if loaded \<and> c_Adm E then HasDisklessVolume E (dr_Name dr) else State_Monad.return False);
        State_Monad.return (obs\<lparr>ResFileExists := res, MetadataExists := (dr_MetadataCreated dr \<or> md), KernelLoaded := loaded,
          KernelHasDiskless := disklessVol\<rparr>)
      })"

text \<open>\<open>fsmShadowAgreeCount.Add\<close>; the counter wraps as \<open>expvar.Int\<close> does.\<close>

definition bump :: "string \<Rightarrow> unit act" where
  "bump key = modify_host (\<lambda>h. h\<lparr>h_fsmShadowAgreeCount :=
     AList.update key (wrap64 ((case map_of (h_fsmShadowAgreeCount h) key of Some n \<Rightarrow> n | None \<Rightarrow> 0) + 1))
       (h_fsmShadowAgreeCount h)\<rparr>)"

definition recordFsmShadowAgreement :: "fsm_action \<Rightarrow> fsm_action \<Rightarrow> unit act" where
  "recordFsmShadowAgreement expected legacy =
     bump (action_name expected @ '':'' @ (if expected = legacy then ''agree'' else ''diverge''))"

definition logFsmShadow :: "env \<Rightarrow> DesiredResource \<Rightarrow> bool \<Rightarrow> unit act" where
  "logFsmShadow E dr diskless = do {
     obs \<leftarrow> observeForFsm E dr diskless;
     recordFsmShadowAgreement (expectedAction obs) (computeLegacyAction obs)
   }"

definition dispatchFsmAction ::
  "env \<Rightarrow> DesiredResource \<Rightarrow> (int, string) gomap \<Rightarrow> fsm_action \<Rightarrow> Observation \<Rightarrow> goerr option act" where
  "dispatchFsmAction E dr devices action obs =
     try_then (if action \<in> {ActionCreateMd, ActionUp, ActionAdjust, ActionAdjustSkipDisk} then renderResFile E dr devices
               else State_Monad.return None)
     (case action of
        ActionRenderRes \<Rightarrow> renderResFile E dr devices
      | ActionCreateMd \<Rightarrow>
          if \<not> SpecHasResource obs \<or> MetadataExists obs \<or> SpecFlagsHasDiskless obs \<or> (KernelLoaded obs \<and> KernelHasDiskless obs)
          then State_Monad.return None else createMetadata E dr devices
      | ActionUp \<Rightarrow> bringUpResource E dr
      | ActionAdjust \<Rightarrow> adjustResource E dr False
      | ActionAdjustSkipDisk \<Rightarrow> adjustResource E dr False
      | ActionDecommission \<Rightarrow> State_Monad.return None
      | ActionNoop \<Rightarrow> State_Monad.return None)"

definition reconcileKernelMyNodeID :: "env \<Rightarrow> DesiredResource \<Rightarrow> goerr option act" where
  "reconcileKernelMyNodeID E dr =
     (case ParseInt 64 (gm_idx (dr_DrbdOptions dr) ''node-id'') of
        None \<Rightarrow> State_Monad.return None
      | Some desiredID \<Rightarrow> do {
          r \<leftarrow> ask_status E (dr_Name dr) KernelMyNodeID;
          case r of (kernelID, ok) \<Rightarrow>
            if \<not> ok \<or> kernelID = desiredID then State_Monad.return None
            else wrapping (''recreate DRBD slot: drbdadm down '' @ dr_Name dr @ '' (kernel node-id '' @ Itoa kernelID @
                   '', allocated '' @ Itoa desiredID @ '')'') (Down E (dr_Name dr))
        })"

definition healAndDispatchFsm :: "env \<Rightarrow> DesiredResource \<Rightarrow> bool \<Rightarrow> (int, string) gomap \<Rightarrow> goerr option act" where
  "healAndDispatchFsm E dr diskless devices =
     try_then (reconcileKernelMyNodeID E dr) (do {
       obs \<leftarrow> observeForFsm E dr diskless;
       case NextTransition (ObservePhase obs) obs of
         None \<Rightarrow> State_Monad.return None
       | Some next \<Rightarrow>
           try_then (wrapping (''fsm dispatch '' @ action_name (tr_Action next)) (dispatchFsmAction E dr devices (tr_Action next) obs))
             (do { _ \<leftarrow> bump (action_name (tr_Action next) @ '':fsm-dispatched''); State_Monad.return None })
     })"

section \<open>The apply\<close>

text \<open>The steps after the dispatch, from what the marker and the kernel say by then.\<close>

definition apply_rest ::
  "env \<Rightarrow> DesiredResource \<Rightarrow> bool \<Rightarrow> (int, string) gomap \<Rightarrow> bool \<Rightarrow> goerr option act" where
  "apply_rest E dr diskless devices resized = do {
     marker \<leftarrow> file_exists (mdMarker dr);
     let firstActivation = (\<not> dr_MetadataCreated dr \<and> \<not> marker);
     diskfulFlip \<leftarrow> isDisklessToDiskfulFlip E dr diskless;
     let soloDiskfulFlip = (diskfulFlip \<and> GetPeerNames dr = []);
     let effectiveFirstActivation = (firstActivation \<and> (\<not> diskfulFlip \<or> soloDiskfulFlip));
     try_then (maybeStampMetadata E dr devices diskless firstActivation diskfulFlip)
    (try_then (runApplyDRBDVerb E dr effectiveFirstActivation diskfulFlip)
              (finishDRBDApply E dr diskless effectiveFirstActivation resized devices))
   }"

definition applyDRBD :: "env \<Rightarrow> DesiredResource \<Rightarrow> bool \<Rightarrow> (int, string) gomap \<Rightarrow> bool \<Rightarrow> bool \<Rightarrow> goerr option act" where
  "applyDRBD E dr diskless devices resized cloned =
     (if dr_Volumes dr = [] then State_Monad.return None
      else try_then (gateBringUpReadiness dr diskless) (do {
        _ \<leftarrow> logFsmShadow E dr diskless;
        try_then (tearDownRemovedPeers E dr devices) (do {
          perVolume \<leftarrow> shouldEnsurePerVolumeMetadata E dr diskless;
          try_then (if perVolume then ensurePerVolumeMetadata E dr devices diskless else State_Monad.return None)
         (try_then (healAndDispatchFsm E dr diskless devices)
                   (apply_rest E dr diskless devices resized))
        })
      }))"

end
