(* ===== verification/Satellite_Policy.thy ===== *)
theory Satellite_Policy
  imports Satellite_Apply
begin

text \<open>
  What an apply keeps.  The locale \<open>apply_policy\<close> is the contract between the code of an apply and an invariant
  of the host: the invariant survives each primitive the code uses, and the two steps that overwrite data,
  creating metadata and promoting to format, are left to the invariant's own proof.  Inside the locale the
  invariant is carried through every step of \<^const>\<open>applyDRBD\<close> once and for all; the safety properties of the next
  theory are interpretations of it.
\<close>

section \<open>Commands that overwrite data\<close>

definition creates :: "string list \<Rightarrow> bool" where "creates argv = (take 2 argv = [''drbdadm'', ''create-md''])"

definition formats :: "string list \<Rightarrow> bool" where "formats argv = (argv \<noteq> [] \<and> HasPrefix (hd argv) ''mkfs.'')"

lemma keeps_pure_modify:
  "(\<And>h. I h \<Longrightarrow> I (f h)) \<Longrightarrow> keeps I (modify_host f)"
  by (simp add: keeps_def hoare_def modify_host_def)

lemma hoare_try:
  assumes "hoare P m (\<lambda>r h. if r = None then R h else Q r h)" and "hoare R k Q"
  shows "hoare P (try_then m k) Q"
  unfolding try_then_def
proof (rule hoare_bind [OF assms(1)])
  fix e
  show "hoare (\<lambda>h. if e = None then R h else Q e h) (case e of None \<Rightarrow> k | Some err \<Rightarrow> State_Monad.return (Some err)) Q"
    using assms(2) by (cases e) (simp_all add: hoare_return)
qed

lemma hoare_wrapping:
  "hoare P m (\<lambda>r h. A h \<and> (r = None \<longrightarrow> B h)) \<Longrightarrow> hoare P (wrapping msg m) (\<lambda>r h. A h \<and> (r = None \<longrightarrow> B h))"
  by (simp add: wrapping_def hoare_def case_prod_beta)

lemma hoare_pre: "(A \<Longrightarrow> hoare P m Q) \<Longrightarrow> hoare (\<lambda>h. P h \<and> A) m Q"
  by (auto simp: hoare_def)

lemma hoare_keeps: "keeps I m \<Longrightarrow> (\<And>h. P h \<Longrightarrow> I h) \<Longrightarrow> (\<And>a h. I h \<Longrightarrow> Q a h) \<Longrightarrow> hoare P m Q"
  by (auto simp: keeps_def hoare_def)

lemma keeps_action [keeps_rules]:
  "(a = ActionRenderRes \<Longrightarrow> keeps I m1) \<Longrightarrow> (a = ActionCreateMd \<Longrightarrow> keeps I m2) \<Longrightarrow> (a = ActionUp \<Longrightarrow> keeps I m3) \<Longrightarrow>
   (a = ActionAdjust \<Longrightarrow> keeps I m4) \<Longrightarrow> (a = ActionDecommission \<Longrightarrow> keeps I m5) \<Longrightarrow> (a = ActionNoop \<Longrightarrow> keeps I m6) \<Longrightarrow>
   (a = ActionAdjustSkipDisk \<Longrightarrow> keeps I m7) \<Longrightarrow>
   keeps I (case a of ActionRenderRes \<Rightarrow> m1 | ActionCreateMd \<Rightarrow> m2 | ActionUp \<Rightarrow> m3 | ActionAdjust \<Rightarrow> m4
     | ActionDecommission \<Rightarrow> m5 | ActionNoop \<Rightarrow> m6 | ActionAdjustSkipDisk \<Rightarrow> m7)"
  by (cases a) simp_all

lemma keeps_list [keeps_rules]:
  "(xs = [] \<Longrightarrow> keeps I m) \<Longrightarrow> (\<And>y ys. xs = y # ys \<Longrightarrow> keeps I (f y ys)) \<Longrightarrow> keeps I (case xs of [] \<Rightarrow> m | y # ys \<Rightarrow> f y ys)"
  by (cases xs) simp_all

lemma keeps_probe [keeps_rules]:
  "(\<And>e out. p = RunFailed e out \<Longrightarrow> keeps I (f e out)) \<Longrightarrow> (p = Undecodable \<Longrightarrow> keeps I m) \<Longrightarrow>
   (\<And>rs. p = Decoded rs \<Longrightarrow> keeps I (g rs)) \<Longrightarrow>
   keeps I (case p of RunFailed e out \<Rightarrow> f e out | Undecodable \<Rightarrow> m | Decoded rs \<Rightarrow> g rs)"
  by (cases p) simp_all

lemmas adm_defs = adm_run_def run_wrapped_def Up_def Down_def SetupDown_def Adjust_def AdjustSkipDisk_def AdjustSkipNet_def
  AdjustSkipNetSkipDisk_def InvalidateVolume_def PrimaryForce_def Secondary_def Resize_def ApplyAL_def SetGIString_def
  ForgetPeer_def DelPeer_def CurrentGI_def status_def ask_status_def show_slots_def IsLoaded_def HasDisklessVolume_def
  ResourceOwningMinor_def

section \<open>The contract\<close>

locale apply_policy =
  fixes E :: env and dr :: DesiredResource and I :: "host \<Rightarrow> bool"
  assumes run: "\<not> creates argv \<Longrightarrow> \<not> formats argv \<Longrightarrow> keeps I (Exec_Run E argv)"
    and read: "keeps I (ReadFile E name)"
    and marker: "keeps I (write_file E (mdMarker dr) [])"
    and stamped: "keeps I (stamp E what name)"
    and clock: "keeps I (now E)"
    and node: "keeps I (emit (EnsureDeviceNode i))"
    and tables: "(\<And>h. h_trace (f h) = h_trace h \<and> h_files (f h) = h_files h) \<Longrightarrow> keeps I (modify_host f)"
    and create: "vol \<in> set (dr_Volumes dr) \<Longrightarrow> keeps I (create_missing E dr vol fresh)"
    and promote: "keeps I (runAutoPromote E dr)"
begin

lemma run_word [keeps_rules]:
  "w \<noteq> ''create-md'' \<Longrightarrow> keeps I (Exec_Run E (''drbdadm'' # w # ws))"
  "keeps I (Exec_Run E (''drbdsetup'' # ws))" "keeps I (Exec_Run E (''drbdmeta'' # ws))"
  "keeps I (Exec_Run E (''blkid'' # ws))" "keeps I (Exec_Run E (''lsblk'' # ws))"
  by (rule run; simp add: creates_def formats_def HasPrefix_iff)+

lemmas policy_rules [keeps_rules] = read marker stamped clock node create promote

lemma verbs [keeps_rules]:
  "keeps I (Up E res)" "keeps I (Down E res)" "keeps I (Adjust E res)" "keeps I (AdjustSkipDisk E res)"
  "keeps I (AdjustSkipNet E res)" "keeps I (AdjustSkipNetSkipDisk E res)" "keeps I (InvalidateVolume E res v)"
  "keeps I (Resize E res clean)" "keeps I (SetGIString E res v device i gi)" "keeps I (ForgetPeer E res i)"
  "keeps I (DelPeer E res peer)" "keeps I (CurrentGI E res v device)" "keeps I (status E res)" "keeps I (ask_status E res f)"
  "keeps I (show_slots E res)" "keeps I (IsLoaded E res)" "keeps I (HasDisklessVolume E res)"
  unfolding adm_defs by (intro keeps_rules; simp)+

lemma mint [keeps_rules]: "keeps I (MintLateAddSource E res)"
proof -
  have "keeps I (mint_minors E res ms)" for ms
    by (induction ms) (simp_all add: adm_run_def, (intro keeps_rules; simp)+)
  then show ?thesis unfolding MintLateAddSource_def by (intro keeps_rules) simp_all
qed

lemma seeds [keeps_rules]: "keeps I (seedInitialGI E dr devices isWinner)" "keeps I (seedFreshVolumes E dr devices fresh)"
proof -
  have "keeps I (seed_volume E dr devices isWinner vol)" for isWinner vol
    unfolding seed_volume_def seedPerPeerGI_def resolveVolumeSeed_def isRestoreBlankFallback_def by (intro keeps_rules)
  then show "keeps I (seedInitialGI E dr devices isWinner)" "keeps I (seedFreshVolumes E dr devices fresh)"
    unfolding seedInitialGI_def seedFreshVolumes_def by (auto intro!: keeps_rules)
qed

lemma metadata [keeps_rules]:
  "keeps I (ensureMetadata E dr devices first)" "keeps I (createMetadata E dr devices)"
  "keeps I (maybeStampMetadata E dr devices diskless first flip)"
  unfolding maybeStampMetadata_def createMetadata_def ensureMetadata_def by (intro keeps_rules; assumption)+

lemma removed_peers [keeps_rules]: "keeps I (tearDownRemovedPeers E dr devices)"
  unfolding tearDownRemovedPeers_def by (intro keeps_rules)

lemma kernel_state [keeps_rules]:
  "keeps I (isDisklessToDiskfulFlip E dr diskless)" "keeps I (shouldEnsurePerVolumeMetadata E dr diskless)"
  "keeps I (observeForFsm E dr diskless)" "keeps I (reconcileKernelMyNodeID E dr)" "keeps I (gateBringUpReadiness dr diskless)"
  unfolding isDisklessToDiskfulFlip_def shouldEnsurePerVolumeMetadata_def hasUnattachedDesiredVolume_def observeForFsm_def
    reconcileKernelMyNodeID_def gateBringUpReadiness_def
  by (intro keeps_rules)+

lemma counters [keeps_rules]: "keeps I (bump key)" "keeps I (logFsmShadow E dr diskless)"
  unfolding logFsmShadow_def recordFsmShadowAgreement_def bump_def by (intro keeps_rules tables; simp)+

lemma nodes [keeps_rules]: "keeps I (ensureDeviceNodes dr)"
proof -
  have "keeps I (ensureDeviceNodes_loop base vols)" for base vols
    by (induction vols) (auto intro!: keeps_rules)
  then show ?thesis by (simp add: ensureDeviceNodes_def)
qed

lemma adjust [keeps_rules]: "keeps I (bringUpResource E dr)" "keeps I (adjustResource E dr flip)" "keeps I (runApplyDRBDVerb E dr first flip)"
  unfolding bringUpResource_def runApplyDRBDVerb_def adjustResource_def runAdjust_def shouldSkipNetOnAdjust_def dispatchAdjust_def
    recoverFromBitmapBothDisks_def
  by (intro keeps_rules)+

lemma throttles [keeps_rules]:
  "keeps I (recoveryPromoteDue E name)" "keeps I (lateAddStallDwellElapsed E name)" "keeps I (clearLateAddStall name)"
  unfolding recoveryPromoteDue_def lateAddStallDwellElapsed_def clearLateAddStall_def by (intro keeps_rules tables; simp)+

lemma evidence [keeps_rules]:
  "keeps I (shouldForcePromote E dr)" "keeps I (day0EmptyMkfsBypass E dr devices)"
  "keeps I (shouldRetryAutoMkfs E dr auto replica diskless devices)"
proof -
  have user [keeps_rules]: "keeps I (backingHasUserFilesystem E device)" for device
    unfolding backingHasUserFilesystem_def by (intro keeps_rules)
  have "keeps I (force_promote_poll E res n)" for res n
    by (induction n) (auto intro!: keeps_rules)
  then show "keeps I (shouldForcePromote E dr)"
    unfolding shouldForcePromote_def by (intro keeps_rules)
  have "keeps I (volumes_day0_empty E dr devices vols)" for vols
    by (induction vols; simp only: volumes_day0_empty.simps; intro keeps_rules user; assumption)
  then show "keeps I (day0EmptyMkfsBypass E dr devices)"
    unfolding day0EmptyMkfsBypass_def allVolumesDay0Empty_def by (intro keeps_rules)
  show "keeps I (shouldRetryAutoMkfs E dr auto replica diskless devices)"
    unfolding shouldRetryAutoMkfs_def needsAutoMkfsRetry_def latchFreeMkfsRetryAllowed_def by (intro keeps_rules user)
qed

lemma heals [keeps_rules]: "keeps I (maybePromoteSelfHeals E dr diskless auto replica resizing)"
  unfolding maybePromoteSelfHeals_def maybeRecoveryPromote_def maybeLateAddPromote_def maybeKickLateAddResync_def maybeSoloPromote_def
  by (intro keeps_rules)

lemma finish [keeps_rules]: "keeps I (finishDRBDApply E dr diskless first resized devices)"
  unfolding finishDRBDApply_def by (intro keeps_rules)

lemma rest [keeps_rules]: "keeps I (apply_rest E dr diskless devices resized)"
  unfolding apply_rest_def by (intro keeps_rules)

lemma action_body:
  "action \<noteq> ActionRenderRes \<Longrightarrow> keeps I (case action of
      ActionRenderRes \<Rightarrow> renderResFile E dr devices
    | ActionCreateMd \<Rightarrow>
        if \<not> SpecHasResource obs \<or> MetadataExists obs \<or> SpecFlagsHasDiskless obs \<or> (KernelLoaded obs \<and> KernelHasDiskless obs)
        then State_Monad.return None else createMetadata E dr devices
    | ActionUp \<Rightarrow> bringUpResource E dr
    | ActionAdjust \<Rightarrow> adjustResource E dr False
    | ActionAdjustSkipDisk \<Rightarrow> adjustResource E dr False
    | ActionDecommission \<Rightarrow> State_Monad.return None
    | ActionNoop \<Rightarrow> State_Monad.return None)"
  by (intro keeps_rules) simp_all

end

text \<open>An invariant that the rendering of the resource file keeps as well is kept by the whole apply.\<close>

locale apply_policy_full = apply_policy +
  assumes owned: "keeps I (touch_file E openMsg closeMsg (dr_Name dr @ ''.owned''))"
    and res_file: "keeps I (write_file E (resPath dr) body)"
begin

lemma render [keeps_rules]: "keeps I (renderResFile E dr devices)"
proof -
  have "keeps I (auto_disk_loop E devices vols out)" for vols out
    by (induction vols arbitrary: out; simp only: auto_disk_loop.simps autoDiskOptions_def; intro keeps_rules; assumption)
  then show ?thesis
    unfolding renderResFile_def autoDiskOptionsForResource_def stampOwnershipMarker_def
    by (intro keeps_rules owned res_file)
qed

lemma whole: "keeps I (applyDRBD E dr diskless devices resized cloned)"
proof -
  have "keeps I (dispatchFsmAction E dr devices action obs)" for action obs
    unfolding dispatchFsmAction_def by (intro keeps_rules)
  then show ?thesis
    unfolding applyDRBD_def healAndDispatchFsm_def ensurePerVolumeMetadata_def by (intro keeps_rules) assumption+
qed

end

end
