(* ===== verification/Example_Apply.thy ===== *)
theory Example_Apply
  imports Satellite_Policy
begin

text \<open>
  A first apply, evaluated: a replica alone in its definition that asks for a filesystem.  The pass renders the
  resource file, creates metadata, adjusts, promotes, formats and demotes.
\<close>

definition ex_solo :: DesiredResource where
  "ex_solo = ex_dr\<lparr>dr_Peers := [], dr_SkipInitialSync := Some False, dr_Props := [(''FileSystem/Type'', ''ext4'')],
     dr_DrbdOptions := [(''node-id'', ''0''), (''port'', ''7000''), (''minor'', ''1000''), (''auto-primary'', ''true'')]\<rparr>"

definition ex_after :: host where
  "ex_after = snd (run_state (applyDRBD ex_env ex_solo False ex_devices False False) ex_host)"

lemma ex_pass:
  "case run_state (applyDRBD ex_env ex_solo False ex_devices False False) ex_host of (r, h) \<Rightarrow>
     r = None \<and> ran (h_trace h) creates \<and> ran (h_trace h) formats \<and> ran (h_trace h) (\<lambda>argv. take 2 argv = [''drbdadm'', ''adjust''])"
  by code_simp

lemma ex_run:
  "run_state (applyDRBD ex_env ex_solo False ex_devices False False) ex_host = (None, ex_after)"
  "ran (h_trace ex_after) creates" "ran (h_trace ex_after) formats"
  "ran (h_trace ex_after) (\<lambda>argv. take 2 argv = [''drbdadm'', ''adjust''])"
  using ex_pass by (simp_all add: ex_after_def case_prod_beta prod_eq_iff)

lemma ex_host_trace [simp]: "h_trace ex_host = []"
  by (simp add: ex_host_def)

end
