(* ===== verification/Satellite_GI.thy ===== *)
theory Satellite_GI
  imports Satellite_Metadata Satellite_Peers
begin

text \<open>
  Keeping the record of generations (\<open>pkg/satellite/gi_history.go\<close>): the observer notes every identifier a volume
  is seen with, the repair of a crashed replica reads them back.
\<close>

section \<open>Writing\<close>


definition history_text :: "(int, string list) gomap \<Rightarrow> string" where
  "history_text hist =
     concat (map (\<lambda>vol. concat (map (\<lambda>gi. Itoa vol @ '' '' @ gi @ [CHR 0x0A]) (gens_of hist vol))) (sort (map fst hist)))"

definition writeGIHistory :: "env \<Rightarrow> string \<Rightarrow> (int, string list) gomap \<Rightarrow> goerr option act" where
  "writeGIHistory E rdName hist = write_file_durably E (giHistoryPath rdName) (history_text hist)"



definition keepGIHistoryOf :: "env \<Rightarrow> string \<Rightarrow> int list \<Rightarrow> unit act" where
  "keepGIHistoryOf E rdName vols =
     (if \<not> c_StateDir E then State_Monad.return ()
      else do {
        r \<leftarrow> readGIHistory E rdName;
        case r of
          Inl _ \<Rightarrow> State_Monad.return ()
        | Inr hist \<Rightarrow>
            (let gone = filter (\<lambda>vol. vol \<notin> set vols) (map fst hist) in
             if gone = [] then State_Monad.return ()
             else do {
               _ \<leftarrow> modify_host (\<lambda>h. h\<lparr>h_lastRecordedGI := fold (\<lambda>vol. AList.delete (target_of rdName vol)) gone (h_lastRecordedGI h)\<rparr>);
               _ \<leftarrow> writeGIHistory E rdName (filter (\<lambda>(vol, gs). vol \<in> set vols) hist);
               State_Monad.return ()
             })
      })"

definition forgetGIHistory :: "env \<Rightarrow> string \<Rightarrow> goerr option act" where
  "forgetGIHistory E rdName = do {
     _ \<leftarrow> modify_host (\<lambda>h. h\<lparr>h_lastRecordedGI := filter (\<lambda>(key, g). \<not> HasPrefix key (rdName @ ''/'')) (h_lastRecordedGI h)\<rparr>);
     remove_file E (giHistoryPath rdName)
   }"

section \<open>Reading back\<close>


lemma gens_of_Nil [simp]: "gens_of [] vol = []"
  by (simp add: gens_of_def)

lemma gens_of_update [simp]: "gens_of (AList.update vol gs hist) v = (if v = vol then gs else gens_of hist v)"
  by (simp add: gens_of_def map_of_gm_update)




























end
