(* ===== verification/Satellite_Safety.thy ===== *)
theory Satellite_Safety
  imports Example_Apply Satellite_GI
begin

text \<open>
  What an apply never does to data.  Each property is an invariant of the trace of commands, kept by an apply of
  the replica whatever the host answers: the interpretations below instantiate the contract of the previous
  theory.
\<close>

section \<open>Invariants of the trace\<close>

definition tr_ok :: "(trace \<Rightarrow> event \<Rightarrow> files \<Rightarrow> bool) \<Rightarrow> host \<Rightarrow> bool" where
  "tr_ok ok h = trace_ok ok (h_trace h)"

lemma tr_ok_prims:
  "(\<And>before fs. ok before (Run argv) fs) \<Longrightarrow> keeps (tr_ok ok) (Exec_Run E argv)"
  "(\<And>before fs. ok before (ReadEvent name) fs) \<Longrightarrow> keeps (tr_ok ok) (ReadFile E name)"
  "(\<And>before fs. ok before (WriteFile name body) fs) \<Longrightarrow> keeps (tr_ok ok) (write_file E name body)"
  "(\<And>before fs. ok before (TouchFile name) fs) \<Longrightarrow> keeps (tr_ok ok) (touch_file E m1 m2 name)"
  "(\<And>before fs. ok before (Stamp what name) fs) \<Longrightarrow> keeps (tr_ok ok) (stamp E what name)"
  "(\<And>before fs. ok before Clock fs) \<Longrightarrow> keeps (tr_ok ok) (now E)"
  "(\<And>before fs. ok before e fs) \<Longrightarrow> keeps (tr_ok ok) (emit e)"
  "(\<And>h. h_trace (f h) = h_trace h \<and> h_files (f h) = h_files h) \<Longrightarrow> keeps (tr_ok ok) (modify_host f)"
  by (auto simp: tr_ok_def keeps_def hoare_def Exec_Run_def ReadFile_def write_file_def touch_file_def stamp_def now_def emit_def
      modify_host_def Let_def split: option.split write_result.split)

section \<open>Creating metadata\<close>







lemma creates_words [simp]:
  "creates (''drbdadm'' # w # ws) \<longleftrightarrow> w = ''create-md''" "\<not> creates (''drbdsetup'' # ws)" "\<not> creates (''drbdmeta'' # ws)"
  "\<not> creates (''blkid'' # ws)" "\<not> creates (''lsblk'' # ws)"
  by (auto simp: creates_def)

lemma anySameGeneration_Nil [simp]: "\<not> anySameGeneration onDisk []"
  by (auto simp: anySameGeneration_def list_ex_iff)









section \<open>Formatting\<close>

definition blkid_cmd :: "string \<Rightarrow> string list" where "blkid_cmd device = [''blkid'', ''-o'', ''export'', device]"

definition shows_type :: "run_result \<Rightarrow> bool" where
  "shows_type r = (case r of RunErr _ _ \<Rightarrow> False
     | RunOk out \<Rightarrow> list_ex (\<lambda>line. HasPrefix (TrimSpace line) ''TYPE='') (Split CHR 0x0A out))"

text \<open>The latest promotion or demotion of the resource was a promotion that succeeded.\<close>

fun promoted :: "env \<Rightarrow> string \<Rightarrow> trace \<Rightarrow> bool" where
  "promoted E res [] = False"
| "promoted E res ((e, fs) # before) =
     (if e = Run [''drbdadm'', ''primary'', ''--force'', res]
      then (case w_run E before [''drbdadm'', ''primary'', ''--force'', res] of RunOk _ \<Rightarrow> True | RunErr _ _ \<Rightarrow> False)
      else if e \<in> {Run [''drbdadm'', ''secondary'', res], Run [''drbdadm'', ''down'', res]} then False
      else promoted E res before)"

definition probed_blank :: "env \<Rightarrow> string \<Rightarrow> trace \<Rightarrow> bool" where
  "probed_blank E device before =
     (case before of (e, fs) # earlier \<Rightarrow> e = Run (blkid_cmd device) \<and> \<not> shows_type (w_run E earlier (blkid_cmd device)) | [] \<Rightarrow> False)"

definition mkfs_ok :: "env \<Rightarrow> DesiredResource \<Rightarrow> trace \<Rightarrow> event \<Rightarrow> files \<Rightarrow> bool" where
  "mkfs_ok E dr before e fs =
     (case e of Run argv \<Rightarrow> if formats argv
        then probed_blank E (last argv) before \<and> promoted E (dr_Name dr) before \<and> \<not> gm_has fs (mkfsMarker dr) \<and>
          \<not> dr_FilesystemFormatted dr
        else True
      | _ \<Rightarrow> True)"

lemma formats_words [simp]:
  "\<not> formats (''drbdadm'' # ws)" "\<not> formats (''drbdsetup'' # ws)" "\<not> formats (''drbdmeta'' # ws)" "\<not> formats (''blkid'' # ws)"
  by (simp_all add: formats_def HasPrefix_iff)

lemma creating_formats_nothing: "keeps (tr_ok (mkfs_ok E dr)) (create_missing E dr vol fresh)"
  unfolding create_missing_def probe_volume_def HasMD_def repairUncleanMetadata_def recordedGIs_def readGIHistory_def ApplyAL_def
    adm_run_def MetadataUUIDs_def createMDWithCollisionRecovery_def CreateMD_def ResourceOwningMinor_def SetupDown_def run_wrapped_def
  by (intro keeps_rules tr_ok_prims) (simp_all add: mkfs_ok_def)

definition formatting :: "env \<Rightarrow> DesiredResource \<Rightarrow> host \<Rightarrow> bool" where
  "formatting E dr h = (tr_ok (mkfs_ok E dr) h \<and> promoted E (dr_Name dr) (h_trace h))"

lemma mkfs_volume_guarded:
  assumes "\<not> dr_FilesystemFormatted dr"
  shows "keeps (\<lambda>h. formatting E dr h \<and> \<not> gm_has (h_files h) (mkfsMarker dr)) (mkfs_volume E t args devices vol)"
  using assms
  by (auto simp: keeps_def hoare_def formatting_def tr_ok_def mkfs_volume_def deviceHasFilesystem_def run_wrapped_def Exec_Run_def
      mkfs_ok_def probed_blank_def blkid_cmd_def shows_type_def Let_def split: run_result.split)

lemma runAutoMkfs_guarded: "keeps (formatting E dr) (runAutoMkfs E dr devices)"
proof (cases "dr_FilesystemFormatted dr")
  case True
  then show ?thesis unfolding runAutoMkfs_def by (simp add: keeps_return)
next
  case False
  have other: "keeps (formatting E dr) (write_file E name [])" "keeps (formatting E dr) (stamp E what name)" for name what
    by (auto simp: keeps_def hoare_def formatting_def tr_ok_def mkfs_ok_def write_file_def stamp_def Let_def split: write_result.split option.split)
  let ?loop = "each_until_err (mkfs_volume E (fs_type dr) (Fields (TrimSpace (gm_idx (dr_Props dr) ''FileSystem/MkfsParams''))) devices)
    (dr_Volumes dr)"
  let ?done = "try_then (wrapping (''write '' @ mkfsMarker dr) (write_file E (mkfsMarker dr) [])) (do {
      _ \<leftarrow> (if c_FilesystemFormattedStamper E then stamp E ''FilesystemFormatted'' (dr_Name dr @ ''.'' @ dr_NodeName dr)
           else State_Monad.return None);
      State_Monad.return None })"
  have loop: "hoare (\<lambda>h. formatting E dr h \<and> \<not> gm_has (h_files h) (mkfsMarker dr)) ?loop (\<lambda>_. formatting E dr)"
    by (rule hoare_keeps [OF keeps_each [OF mkfs_volume_guarded [OF False]]]) simp_all
  have "keeps (formatting E dr) ?done" by (intro keeps_rules other)
  then have rest: "hoare (formatting E dr) ?done (\<lambda>_. formatting E dr)" by (simp add: keeps_def)
  have run: "hoare (\<lambda>h. formatting E dr h \<and> \<not> gm_has (h_files h) (mkfsMarker dr)) (try_then ?loop ?done) (\<lambda>_. formatting E dr)"
    by (rule hoare_try [where R = "formatting E dr"]) (use loop rest in simp_all)
  have "keeps (formatting E dr) (do { marker \<leftarrow> file_exists (mkfsMarker dr);
      if marker then State_Monad.return None else try_then ?loop ?done })"
    using run by (auto simp: keeps_def hoare_def file_exists_def asks_def)
  then show ?thesis unfolding runAutoMkfs_def by (auto simp: keeps_return)
qed

lemma runAutoPromote_guarded: "keeps (tr_ok (mkfs_ok E dr)) (runAutoPromote E dr)"
proof -
  have primary: "hoare (tr_ok (mkfs_ok E dr)) (wrapping msg (PrimaryForce E (dr_Name dr)))
      (\<lambda>r h. if r = None then formatting E dr h else tr_ok (mkfs_ok E dr) h)" for msg
    by (auto simp: hoare_def wrapping_def PrimaryForce_def adm_run_def Exec_Run_def formatting_def tr_ok_def mkfs_ok_def
        split: run_result.split)
  have "keeps (tr_ok (mkfs_ok E dr)) (Secondary E (dr_Name dr))"
    unfolding Secondary_def adm_run_def by (intro keeps_rules tr_ok_prims) (simp add: mkfs_ok_def)
  then have down: "hoare (tr_ok (mkfs_ok E dr)) (wrapping msg (Secondary E (dr_Name dr))) (\<lambda>_. tr_ok (mkfs_ok E dr))" for msg
    unfolding keeps_def [symmetric] by (intro keeps_rules)
  have mkfs: "hoare (formatting E dr) (wrapping msg (runAutoMkfs E dr devices)) (\<lambda>_. tr_ok (mkfs_ok E dr))" for msg devices
    by (rule hoare_keeps [OF keeps_wrapping [OF runAutoMkfs_guarded]]) (simp_all add: formatting_def)
  have tail: "hoare (formatting E dr) (try_then (wrapping m1 (runAutoMkfs E dr devices)) (wrapping m2 (Secondary E (dr_Name dr))))
      (\<lambda>_. tr_ok (mkfs_ok E dr))" for m1 m2 devices
    by (rule hoare_try [where R = "tr_ok (mkfs_ok E dr)"]) (use mkfs down in simp_all)
  show ?thesis
    unfolding keeps_def runAutoPromote_def by (rule hoare_try [OF primary tail])
qed

interpretation formatted: apply_policy_full E dr "tr_ok (mkfs_ok E dr)" for E dr
  by unfold_locales
    (auto intro!: tr_ok_prims creating_formats_nothing runAutoPromote_guarded simp: mkfs_ok_def)

text \<open>
  C34. When a device is formatted. Whatever the host answers, an apply runs \<open>mkfs\<close> on a device only directly after a
  \<open>blkid\<close> of that device that showed no type, while the replica is promoted (its latest promotion succeeded and it
  was not demoted or taken down since), and while neither the marker file nor the reported condition says that
  the resource was formatted before.
\<close>

theorem mkfs_guarded:
  assumes "trace_ok (mkfs_ok E dr) (h_trace h)"
    and "run_state (applyDRBD E dr diskless devices resized cloned) h = (r, h')"
  shows "trace_ok (mkfs_ok E dr) (h_trace h')"
  using keepsD [OF formatted.whole [of E dr diskless devices resized cloned], of h] assms by (simp add: tr_ok_def)


theorem mkfs_guarded_witness:
  "trace_ok (mkfs_ok ex_env ex_solo) (h_trace ex_after) \<and> ran (h_trace ex_after) formats"
  using mkfs_guarded [OF _ ex_run(1)] ex_run(3) by simp

end
