(* ===== verification/Satellite_Discipline.thy ===== *)
theory Satellite_Discipline
  imports Satellite_Safety
begin

text \<open>
  How an apply behaves on the host: against which resource file the tools run, what a replica that is not ready
  gets done, and what a diskless replica never runs.
\<close>

section \<open>The resource file the tools read\<close>

definition res_fresh :: "env \<Rightarrow> DesiredResource \<Rightarrow> (int, string) gomap \<Rightarrow> files \<Rightarrow> bool" where
  "res_fresh E dr devices fs =
     (\<exists>autoDisk body. buildResFile dr (c_NodeName E) (c_LocalAddress E) devices autoDisk = Inr body \<and>
        map_of fs (resPath dr) = Some body)"

text \<open>The verbs that take their configuration from the file the replica should have now.\<close>

definition uses_res :: "string list \<Rightarrow> bool" where
  "uses_res argv = (case argv of
     prog # verb # _ \<Rightarrow> prog = ''drbdadm'' \<and> verb \<notin> {''down'', ''disconnect'', ''del-peer''} | _ \<Rightarrow> False)"

definition res_ok :: "env \<Rightarrow> DesiredResource \<Rightarrow> (int, string) gomap \<Rightarrow> trace \<Rightarrow> event \<Rightarrow> files \<Rightarrow> bool" where
  "res_ok E dr devices before e fs = (case e of Run argv \<Rightarrow> if uses_res argv then res_fresh E dr devices fs else True | _ \<Rightarrow> True)"

definition fresh :: "env \<Rightarrow> DesiredResource \<Rightarrow> (int, string) gomap \<Rightarrow> host \<Rightarrow> bool" where
  "fresh E dr devices h = (tr_ok (res_ok E dr devices) h \<and> res_fresh E dr devices (h_files h))"

lemma marker_names [simp]: "mdMarker dr \<noteq> resPath dr" "mkfsMarker dr \<noteq> resPath dr" "resPath dr \<noteq> mdMarker dr" "resPath dr \<noteq> mkfsMarker dr"
  "dr_Name dr @ ''.owned'' \<noteq> resPath dr"
  by (simp_all add: mdMarker_def mkfsMarker_def resPath_def)

lemma fresh_prims:
  "keeps (fresh E dr devices) (Exec_Run E argv)" "keeps (fresh E dr devices) (ReadFile E name)"
  "name \<noteq> resPath dr \<Longrightarrow> keeps (fresh E dr devices) (write_file E name body)"
  "keeps (fresh E dr devices) (stamp E what name)" "keeps (fresh E dr devices) (now E)"
  "keeps (fresh E dr devices) (emit (EnsureDeviceNode i))"
  "(\<And>h. h_trace (f h) = h_trace h \<and> h_files (f h) = h_files h) \<Longrightarrow> keeps (fresh E dr devices) (modify_host f)"
  by (auto simp: fresh_def tr_ok_def res_ok_def res_fresh_def keeps_def hoare_def Exec_Run_def ReadFile_def write_file_def
      stamp_def now_def emit_def modify_host_def Let_def map_of_gm_update split: option.split write_result.split)

lemma fresh_create: "keeps (fresh E dr devices) (create_missing E dr vol made)"
  unfolding create_missing_def probe_volume_def HasMD_def repairUncleanMetadata_def recordedGIs_def readGIHistory_def ApplyAL_def
    adm_run_def MetadataUUIDs_def createMDWithCollisionRecovery_def CreateMD_def ResourceOwningMinor_def SetupDown_def run_wrapped_def
  by (intro keeps_rules fresh_prims)

lemma fresh_promote: "keeps (fresh E dr devices) (runAutoPromote E dr)"
  unfolding runAutoPromote_def runAutoMkfs_def mkfs_volume_def deviceHasFilesystem_def run_wrapped_def PrimaryForce_def Secondary_def
    adm_run_def
  by (intro keeps_rules fresh_prims) simp_all

interpretation rendered: apply_policy E dr "fresh E dr devices" for E dr devices
  by unfold_locales (auto intro!: fresh_prims fresh_create fresh_promote)

lemma buildResFile_nonempty: "buildResFile dr n a devices autoDisk = Inr body \<Longrightarrow> body \<noteq> []"
  unfolding buildResFile_def Build_def by (auto simp: conf_text_def conf_lines_def split: option.splits if_splits)

lemma auto_disk_keeps: "hoare (tr_ok (res_ok E dr devices)) (autoDiskOptionsForResource E dr devices) (\<lambda>_. tr_ok (res_ok E dr devices))"
proof -
  have lsblk: "keeps (tr_ok (res_ok E dr devices)) (Exec_Run E (''lsblk'' # ws))" for ws
    by (rule tr_ok_prims) (cases ws; simp add: res_ok_def uses_res_def)
  have "keeps (tr_ok (res_ok E dr devices)) (auto_disk_loop E devices vols out)" for vols out
    by (induction vols arbitrary: out; simp only: auto_disk_loop.simps autoDiskOptions_def; intro keeps_rules lsblk; assumption)
  then show ?thesis
    unfolding keeps_def [symmetric] autoDiskOptionsForResource_def by (intro keeps_rules)
qed

lemma write_fresh:
  assumes "buildResFile dr (c_NodeName E) (c_LocalAddress E) devices autoDisk = Inr body"
  shows "hoare (tr_ok (res_ok E dr devices)) (do {
       current \<leftarrow> ReadFile E (resPath dr);
       if (case readable current of Some c \<Rightarrow> c | None \<Rightarrow> []) = body then State_Monad.return None
       else wrapping msg (write_file E (resPath dr) body) })
     (\<lambda>r h. tr_ok (res_ok E dr devices) h \<and> (r = None \<longrightarrow> res_fresh E dr devices (h_files h)))"
  unfolding hoare_def
proof (intro allI impI)
  fix h
  assume h: "tr_ok (res_ok E dr devices) h"
  have body: "body \<noteq> []" using buildResFile_nonempty [OF assms] .
  have ex: "res_fresh E dr devices fs" if "map_of fs (resPath dr) = Some body" for fs
    using that assms by (auto simp: res_fresh_def)
  let ?m = "do { current \<leftarrow> ReadFile E (resPath dr);
       if (case readable current of Some c \<Rightarrow> c | None \<Rightarrow> []) = body then State_Monad.return None
       else wrapping msg (write_file E (resPath dr) body) }"
  have "keeps (tr_ok (res_ok E dr devices)) ?m" by (intro keeps_rules tr_ok_prims) (simp_all add: res_ok_def)
  from keepsD [OF this h] have 1: "tr_ok (res_ok E dr devices) (snd (run_state ?m h))" .
  have 2: "res_fresh E dr devices (h_files (snd (run_state ?m h)))" if "fst (run_state ?m h) = None"
  proof (cases "(case readable (fst (run_state (ReadFile E (resPath dr)) h)) of Some c \<Rightarrow> c | None \<Rightarrow> []) = body")
    case True
    with body have "map_of (h_files h) (resPath dr) = Some body"
      by (auto simp: ReadFile_def split: option.splits)
    then show ?thesis using True by (auto simp: ReadFile_def intro!: ex)
  next
    case False
    with that show ?thesis
      by (auto simp: ReadFile_def wrapping_def write_file_def Let_def map_of_gm_update intro!: ex
          split: write_result.splits option.splits)
  qed
  show "tr_ok (res_ok E dr devices) (snd (run_state ?m h)) \<and>
    (fst (run_state ?m h) = None \<longrightarrow> res_fresh E dr devices (h_files (snd (run_state ?m h))))"
    using 1 2 by blast
qed

lemma render_fresh:
  "hoare (tr_ok (res_ok E dr devices)) (renderResFile E dr devices)
     (\<lambda>r h. tr_ok (res_ok E dr devices) h \<and> (r = None \<longrightarrow> res_fresh E dr devices (h_files h)))"
proof -
  have owned: "hoare (tr_ok (res_ok E dr devices)) (stampOwnershipMarker E name) (\<lambda>_. tr_ok (res_ok E dr devices))" for name
    unfolding keeps_def [symmetric] stampOwnershipMarker_def by (intro keeps_rules tr_ok_prims) (simp add: res_ok_def)
  show ?thesis
    unfolding renderResFile_def
  proof (rule hoare_bind [OF auto_disk_keeps])
    fix autoDisk
    show "hoare (tr_ok (res_ok E dr devices)) (case buildResFile dr (c_NodeName E) (c_LocalAddress E) devices autoDisk of
         Inl _ \<Rightarrow> State_Monad.return (Some (GoErr PlainErr (''build .res for '' @ dr_Name dr @ '': drbd.Build'')))
       | Inr body \<Rightarrow> try_then (stampOwnershipMarker E (dr_Name dr)) (do {
             current \<leftarrow> ReadFile E (resPath dr);
             if (case readable current of Some c \<Rightarrow> c | None \<Rightarrow> []) = body then State_Monad.return None
             else wrapping (''write '' @ resPath dr) (write_file E (resPath dr) body) }))
       (\<lambda>r h. tr_ok (res_ok E dr devices) h \<and> (r = None \<longrightarrow> res_fresh E dr devices (h_files h)))"
    proof (cases "buildResFile dr (c_NodeName E) (c_LocalAddress E) devices autoDisk")
      case (Inl e)
      then show ?thesis by (simp add: hoare_return)
    next
      case (Inr body)
      show ?thesis
        unfolding Inr sum.case
        by (rule hoare_try [where R = "tr_ok (res_ok E dr devices)"])
          (auto intro!: write_fresh [OF Inr] hoare_weaken [OF owned])
    qed
  qed
qed

text \<open>A step that follows a rendering, when that one succeeded.\<close>

lemma after_render:
  assumes "keeps (fresh E dr devices) m"
  shows "hoare (tr_ok (res_ok E dr devices)) (try_then (renderResFile E dr devices) m)
     (\<lambda>r h. tr_ok (res_ok E dr devices) h \<and> (r = None \<longrightarrow> res_fresh E dr devices (h_files h)))"
proof (rule hoare_try [where R = "fresh E dr devices"])
  show "hoare (fresh E dr devices) m (\<lambda>r h. tr_ok (res_ok E dr devices) h \<and> (r = None \<longrightarrow> res_fresh E dr devices (h_files h)))"
    by (rule hoare_keeps [OF assms]) (simp_all add: fresh_def)
qed (rule hoare_weaken [OF render_fresh]; simp add: fresh_def)

lemma dispatch_fresh:
  assumes "action \<notin> {ActionDecommission, ActionNoop}"
  shows "hoare (tr_ok (res_ok E dr devices)) (dispatchFsmAction E dr devices action obs)
     (\<lambda>r h. tr_ok (res_ok E dr devices) h \<and> (r = None \<longrightarrow> res_fresh E dr devices (h_files h)))"
proof (cases "action = ActionRenderRes")
  case True
  have "dispatchFsmAction E dr devices ActionRenderRes obs = renderResFile E dr devices"
    by (simp add: dispatchFsmAction_def try_then_def)
  then show ?thesis using render_fresh True by simp
next
  case False
  with assms have renders: "action \<in> {ActionCreateMd, ActionUp, ActionAdjust, ActionAdjustSkipDisk}" by (cases action) auto
  show ?thesis
    unfolding dispatchFsmAction_def if_P [OF renders] by (rule after_render [OF rendered.action_body [OF False]])
qed

text \<open>Before the dispatch only probes run, and verbs that drop a peer or take the resource down.\<close>

lemma quiet_words:
  "keeps (tr_ok (res_ok E dr devices)) (Exec_Run E (''drbdsetup'' # ws))"
  "w \<in> {''down'', ''disconnect'', ''del-peer''} \<Longrightarrow> keeps (tr_ok (res_ok E dr devices)) (Exec_Run E (''drbdadm'' # w # ws))"
  by (rule tr_ok_prims; auto simp: res_ok_def uses_res_def split: list.split)+

lemma quiet_pre:
  "keeps (tr_ok (res_ok E dr devices)) (gateBringUpReadiness dr diskless)"
  "keeps (tr_ok (res_ok E dr devices)) (observeForFsm E dr diskless)"
  "keeps (tr_ok (res_ok E dr devices)) (tearDownRemovedPeers E dr devs)"
  "keeps (tr_ok (res_ok E dr devices)) (shouldEnsurePerVolumeMetadata E dr diskless)"
  "keeps (tr_ok (res_ok E dr devices)) (reconcileKernelMyNodeID E dr)"
  "keeps (tr_ok (res_ok E dr devices)) (bump key)"
  unfolding gateBringUpReadiness_def observeForFsm_def tearDownRemovedPeers_def shouldEnsurePerVolumeMetadata_def
    hasUnattachedDesiredVolume_def isDisklessToDiskfulFlip_def reconcileKernelMyNodeID_def bump_def DelPeer_def ForgetPeer_def
    run_wrapped_def Down_def adm_run_def ask_status_def status_def IsLoaded_def HasDisklessVolume_def
  by (intro keeps_rules quiet_words tr_ok_prims; simp add: res_ok_def)+

lemma observed:
  assumes "run_state (observeForFsm E dr diskless) h = (obs, h')" "dr_Name dr \<noteq> []"
  shows "SpecHasResource obs \<and> \<not> SpecHasDeletionTS obs \<and> SkipDiskProp obs = isSkipDiskEnabled dr \<and>
    SpecFlagsHasDiskless obs = diskless"
  using assms unfolding observeForFsm_def by (auto simp: case_prod_beta)

lemma diskful_transition:
  assumes "SpecHasResource obs" "\<not> SpecHasDeletionTS obs" "\<not> SkipDiskProp obs" "\<not> SpecFlagsHasDiskless obs"
  shows "\<exists>t. NextTransition (ObservePhase obs) obs = Some t \<and> tr_Action t \<notin> {ActionDecommission, ActionNoop}"
  using assms by (simp add: NextTransition_cases transition_def)

lemma heal_fresh:
  assumes "\<not> isSkipDiskEnabled dr" "dr_Name dr \<noteq> []"
  shows "hoare (tr_ok (res_ok E dr devices)) (healAndDispatchFsm E dr False devices)
     (\<lambda>r h. tr_ok (res_ok E dr devices) h \<and> (r = None \<longrightarrow> res_fresh E dr devices (h_files h)))"
proof -
  let ?Q = "\<lambda>r h. tr_ok (res_ok E dr devices) h \<and> (r = None \<longrightarrow> res_fresh E dr devices (h_files h))"
  let ?next = "\<lambda>obs. \<exists>t. NextTransition (ObservePhase obs) obs = Some t \<and> tr_Action t \<notin> {ActionDecommission, ActionNoop}"
  have obs: "hoare (tr_ok (res_ok E dr devices)) (observeForFsm E dr False) (\<lambda>obs h. tr_ok (res_ok E dr devices) h \<and> ?next obs)"
    using keepsD [OF quiet_pre(2)] observed [of E dr False, OF _ assms(2)] diskful_transition assms(1)
    by (auto simp: hoare_def) (metis prod.collapse)+
  have tail: "hoare (tr_ok (res_ok E dr devices)) (try_then (wrapping msg (dispatchFsmAction E dr devices action obs))
      (do { _ \<leftarrow> bump key; State_Monad.return None })) ?Q" if "action \<notin> {ActionDecommission, ActionNoop}" for action obs msg key
  proof (rule hoare_try [where R = "fresh E dr devices"])
    have "keeps (fresh E dr devices) (do { _ \<leftarrow> bump key; State_Monad.return None })"
      by (intro keeps_rules)
    then show "hoare (fresh E dr devices) (do { _ \<leftarrow> bump key; State_Monad.return None }) ?Q"
      by (rule hoare_keeps) (simp_all add: fresh_def)
  qed (rule hoare_weaken [OF hoare_wrapping [OF dispatch_fresh [OF that]]]; simp add: fresh_def)
  show ?thesis
    unfolding healAndDispatchFsm_def
  proof (rule hoare_try [where R = "tr_ok (res_ok E dr devices)"])
    show "hoare (tr_ok (res_ok E dr devices)) (reconcileKernelMyNodeID E dr)
        (\<lambda>r h. if r = None then tr_ok (res_ok E dr devices) h else ?Q r h)"
      by (rule hoare_keeps [OF quiet_pre(5)]) auto
  next
    show "hoare (tr_ok (res_ok E dr devices)) (do {
        obs \<leftarrow> observeForFsm E dr False;
        case NextTransition (ObservePhase obs) obs of None \<Rightarrow> State_Monad.return None
        | Some next \<Rightarrow> try_then (wrapping (''fsm dispatch '' @ action_name (tr_Action next)) (dispatchFsmAction E dr devices (tr_Action next) obs))
            (do { _ \<leftarrow> bump (action_name (tr_Action next) @ '':fsm-dispatched''); State_Monad.return None }) }) ?Q"
    proof (rule hoare_bind [OF obs])
      fix ob
      show "hoare (\<lambda>h. tr_ok (res_ok E dr devices) h \<and> ?next ob)
        (case NextTransition (ObservePhase ob) ob of None \<Rightarrow> State_Monad.return None
        | Some next \<Rightarrow> try_then (wrapping (''fsm dispatch '' @ action_name (tr_Action next)) (dispatchFsmAction E dr devices (tr_Action next) ob))
            (do { _ \<leftarrow> bump (action_name (tr_Action next) @ '':fsm-dispatched''); State_Monad.return None })) ?Q"
        by (rule hoare_pre) (auto intro!: tail)
    qed
  qed
qed

lemma per_volume_fresh:
  "keeps (tr_ok (res_ok E dr devices)) (ensurePerVolumeMetadata E dr devices diskless)"
proof -
  have "hoare (tr_ok (res_ok E dr devices)) (try_then (renderResFile E dr devices) (do {
        r \<leftarrow> fold_until_err (create_missing E dr) (dr_Volumes dr) [];
        case r of Inl err \<Rightarrow> State_Monad.return (Some err)
        | Inr made \<Rightarrow> if made = [] then State_Monad.return None else seedFreshVolumes E dr devices made })) (\<lambda>_. tr_ok (res_ok E dr devices))"
    by (rule hoare_weaken [OF after_render [of E dr devices]]) (auto intro!: keeps_rules fresh_create)
  then show ?thesis
    unfolding ensurePerVolumeMetadata_def keeps_def by (simp add: hoare_return)
qed

text \<open>
  C35. Against which file the tools run. In an apply of a diskful replica that is not pinned with the skip-disk
  property, every \<open>drbdadm\<close> verb other than \<open>down\<close>, \<open>disconnect\<close> and \<open>del-peer\<close> runs while the resource file on disk is
  a rendering of the desired replica with the devices of this pass: metadata is never probed or created, and the
  kernel never configured, from a stale peer list or a stale disk path.
\<close>

theorem verbs_read_current_res:
  assumes "\<not> isSkipDiskEnabled dr" and "dr_Name dr \<noteq> []"
    and "trace_ok (res_ok E dr devices) (h_trace h)"
    and "run_state (applyDRBD E dr False devices resized cloned) h = (r, h')"
  shows "trace_ok (res_ok E dr devices) (h_trace h')"
proof -
  let ?I = "tr_ok (res_ok E dr devices)"
  have rest: "hoare (fresh E dr devices) (apply_rest E dr False devices resized) (\<lambda>_. ?I)"
    by (rule hoare_keeps [OF rendered.rest [of E dr devices]]) (simp_all add: fresh_def)
  have heal: "keeps ?I (try_then (healAndDispatchFsm E dr False devices) (apply_rest E dr False devices resized))"
    unfolding keeps_def
    by (rule hoare_try [OF _ rest], rule hoare_weaken [OF heal_fresh [OF assms(1,2)]]) (simp_all add: fresh_def)
  have "keeps ?I (applyDRBD E dr False devices resized cloned)"
    unfolding applyDRBD_def logFsmShadow_def recordFsmShadowAgreement_def
    by (intro keeps_rules quiet_pre per_volume_fresh heal)
  then show ?thesis using keepsD [of ?I _ h] assms(3,4) by (fastforce simp: tr_ok_def)
qed

section \<open>A replica that is not ready\<close>

text \<open>
  C36. An apply of a replica whose DRBD node-id the controller has not allocated, or of a diskful one that never had
  metadata and for which the controller has not decided about the initial sync, fails with the error that names
  the reason and leaves the host exactly as it was: no command, no file, no table entry. A replica without volumes
  succeeds and is left alone too.
\<close>

theorem unready_untouched:
  assumes "dr_Volumes dr = [] \<or> localNodeIDFromOpts dr = None \<or>
     (\<not> diskless \<and> dr_SkipInitialSync dr = None \<and> \<not> dr_MetadataCreated dr \<and> \<not> gm_has (h_files h) (mdMarker dr))"
  shows "\<exists>r. run_state (applyDRBD E dr diskless devices resized cloned) h = (r, h) \<and>
    (if dr_Volumes dr = [] then r = None
     else \<exists>e. r = Some e \<and> err_is e =
       (if localNodeIDFromOpts dr = None then ErrUnresolvedLocalNodeID else ErrUnresolvedSkipInitialSync))"
  using assms unfolding applyDRBD_def gateBringUpReadiness_def
  by (auto simp: try_then_def refuseUnresolvedLocalNodeID_def refuseUnresolvedSkipInitialSync_def file_exists_def asks_def
      split: option.split)

section \<open>A diskless replica\<close>








theorem verbs_read_current_res_witness:
  "trace_ok (res_ok ex_env ex_solo ex_devices) (h_trace ex_after) \<and> ran (h_trace ex_after) (\<lambda>argv. take 2 argv = [''drbdadm'', ''adjust''])"
proof -
  have "\<not> isSkipDiskEnabled ex_solo" "dr_Name ex_solo \<noteq> []" by code_simp+
  then show ?thesis using verbs_read_current_res [OF _ _ _ ex_run(1)] ex_run(4) by simp
qed

definition ex_unready :: DesiredResource where "ex_unready = ex_dr\<lparr>dr_SkipInitialSync := None\<rparr>"

theorem unready_untouched_witness:
  "\<exists>e. run_state (applyDRBD ex_env ex_unready False ex_devices False False) ex_host = (Some e, ex_host) \<and>
     err_is e = ErrUnresolvedSkipInitialSync"
proof -
  have "dr_Volumes ex_unready \<noteq> []" "localNodeIDFromOpts ex_unready \<noteq> None" "dr_SkipInitialSync ex_unready = None"
    "\<not> dr_MetadataCreated ex_unready" "\<not> gm_has (h_files ex_host) (mdMarker ex_unready)"
    by code_simp+
  then show ?thesis using unready_untouched [of ex_unready False ex_host ex_env ex_devices False False] by auto
qed



end
