(* ===== verification/Store_Reach.thy ===== *)
theory Store_Reach
  imports Example_Cluster
begin

text \<open>
  The store as a state machine: one step relation per table, with a rule for every call that changes it, and the
  stores that such calls can reach from the empty one.  A mutator that is handed to a patch call may do anything
  to a row but rename it.
\<close>

section \<open>Steps of the tables\<close>

definition keeps_key :: "('v \<Rightarrow> 'k) \<Rightarrow> ('v \<Rightarrow> err + 'v) \<Rightarrow> bool" where
  "keeps_key key f = (\<forall>v w. f v = Inr w \<longrightarrow> key w = key v)"

inductive spd_op :: "spd_table \<Rightarrow> spd_table \<Rightarrow> bool" where
  "StoragePoolDefinitions_Create t v = Inr t' \<Longrightarrow> spd_op t t'"
| "StoragePoolDefinitions_Update t v = Inr t' \<Longrightarrow> spd_op t t'"
| "StoragePoolDefinitions_Delete t name = Inr t' \<Longrightarrow> spd_op t t'"

inductive node_op :: "node_table \<Rightarrow> node_table \<Rightarrow> bool" where
  "Nodes_Create t v = Inr t' \<Longrightarrow> node_op t t'"
| "Nodes_Update t v = Inr t' \<Longrightarrow> node_op t t'"
| "Nodes_Delete t name = Inr t' \<Longrightarrow> node_op t t'"
| "Nodes_PatchNetInterfaces t name g = (e, t') \<Longrightarrow> node_op t t'"
| "Nodes_PatchProps t name p = Inr t' \<Longrightarrow> node_op t t'"
| "keeps_key n_Name f \<Longrightarrow> Nodes_PatchNodeSpec t name (Some f) = Inr t' \<Longrightarrow> node_op t t'"
| "Nodes_SetConnectionStatus t name st = Inr t' \<Longrightarrow> node_op t t'"

inductive pool_op :: "pool_table \<Rightarrow> pool_table \<Rightarrow> bool" where
  "StoragePools_Create t v = Inr t' \<Longrightarrow> pool_op t t'"
| "StoragePools_Update t v = Inr t' \<Longrightarrow> pool_op t t'"
| "StoragePools_Delete t node pool = Inr t' \<Longrightarrow> pool_op t t'"
| "StoragePools_SetCapacity t node pool freeKib totalKib snap = Inr t' \<Longrightarrow> pool_op t t'"
| "keeps_key sp_key f \<Longrightarrow> StoragePools_PatchStoragePoolSpec t node pool (Some f) = Inr t' \<Longrightarrow> pool_op t t'"

inductive rg_op :: "rg_table \<Rightarrow> rg_table \<Rightarrow> bool" where
  "ResourceGroups_Create t v = Inr t' \<Longrightarrow> rg_op t t'"
| "ResourceGroups_Update t v = Inr t' \<Longrightarrow> rg_op t t'"
| "ResourceGroups_Delete t name = Inr t' \<Longrightarrow> rg_op t t'"
| "keeps_key rg_Name f \<Longrightarrow> ResourceGroups_PatchResourceGroup t name (Some f) = Inr t' \<Longrightarrow> rg_op t t'"

inductive rd_op :: "rd_table \<Rightarrow> rd_table \<Rightarrow> bool" where
  "ResourceDefinitions_Create t v = Inr t' \<Longrightarrow> rd_op t t'"
| "ResourceDefinitions_Update t v = Inr t' \<Longrightarrow> rd_op t t'"
| "ResourceDefinitions_Delete t name = Inr t' \<Longrightarrow> rd_op t t'"
| "keeps_key rd_Name f \<Longrightarrow> ResourceDefinitions_PatchResourceDefinitionSpec t name (Some f) = Inr t' \<Longrightarrow> rd_op t t'"

inductive res_op :: "res_table \<Rightarrow> res_table \<Rightarrow> bool" where
  "Resources_Create t v = Inr t' \<Longrightarrow> res_op t t'"
| "Resources_Update t v = Inr t' \<Longrightarrow> res_op t t'"
| "Resources_Delete t rd node = Inr t' \<Longrightarrow> res_op t t'"
| "Resources_DeleteIfTieBreaker t rd node = (b, t') \<Longrightarrow> res_op t t'"
| "Resources_SetState t rd node st vols = Inr t' \<Longrightarrow> res_op t t'"
| "Resources_ClearDRBDPort t rd node = Inr t' \<Longrightarrow> res_op t t'"
| "keeps_key r_key f \<Longrightarrow> Resources_PatchResourceSpec t rd node (Some f) = Inr t' \<Longrightarrow> res_op t t'"

inductive vd_op :: "vd_table \<Rightarrow> vd_table \<Rightarrow> bool" where
  "VolumeDefinitions_Create t rd v = Inr t' \<Longrightarrow> vd_op t t'"
| "VolumeDefinitions_CreateAutoNumbered t rd v = Some (Inr (i, t')) \<Longrightarrow> vd_op t t'"
| "VolumeDefinitions_Update t rd v = Inr t' \<Longrightarrow> vd_op t t'"
| "VolumeDefinitions_Delete t rd i = Inr t' \<Longrightarrow> vd_op t t'"
| "keeps_key vd_VolumeNumber f \<Longrightarrow> VolumeDefinitions_PatchVolumeDefinitionSpec t rd i (Some f) = Inr t' \<Longrightarrow> vd_op t t'"

inductive snap_op :: "snap_table \<Rightarrow> snap_table \<Rightarrow> bool" where
  "Snapshots_Create t v = Inr t' \<Longrightarrow> snap_op t t'"
| "Snapshots_Update t v = Inr t' \<Longrightarrow> snap_op t t'"
| "Snapshots_Delete t rd name = Inr t' \<Longrightarrow> snap_op t t'"
| "Snapshots_PatchSnapshotProps t rd name p = Inr t' \<Longrightarrow> snap_op t t'"

inductive pd_op :: "pd_table \<Rightarrow> pd_table \<Rightarrow> bool" where
  "PhysicalDevices_Create t v = Inr t' \<Longrightarrow> pd_op t t'"
| "PhysicalDevices_Update t v = Inr t' \<Longrightarrow> pd_op t t'"
| "PhysicalDevices_Delete t name = Inr t' \<Longrightarrow> pd_op t t'"
| "keeps_key pd_Name f \<Longrightarrow> PhysicalDevices_PatchPhysicalDeviceSpec t name (Some f) = Inr t' \<Longrightarrow> pd_op t t'"

section \<open>Steps of the store\<close>

inductive store_step :: "InMemory \<Rightarrow> InMemory \<Rightarrow> bool" where
  "node_op (im_nodes s) t \<Longrightarrow> store_step s (s\<lparr>im_nodes := t\<rparr>)"
| "pool_op (im_storagePools s) t \<Longrightarrow> store_step s (s\<lparr>im_storagePools := t\<rparr>)"
| "rg_op (im_resourceGroups s) t \<Longrightarrow> store_step s (s\<lparr>im_resourceGroups := t\<rparr>)"
| "rd_op (im_resourceDefinitions s) t \<Longrightarrow> store_step s (s\<lparr>im_resourceDefinitions := t\<rparr>)"
| "res_op (im_resources s) t \<Longrightarrow> store_step s (s\<lparr>im_resources := t\<rparr>)"
| "vd_op (im_volumeDefinitions s) t \<Longrightarrow> store_step s (s\<lparr>im_volumeDefinitions := t\<rparr>)"
| "snap_op (im_snapshots s) t \<Longrightarrow> store_step s (s\<lparr>im_snapshots := t\<rparr>)"
| "pd_op (im_physicalDevices s) t \<Longrightarrow> store_step s (s\<lparr>im_physicalDevices := t\<rparr>)"
| "spd_op (im_storagePoolDefinitions s) t \<Longrightarrow> store_step s (s\<lparr>im_storagePoolDefinitions := t\<rparr>)"
| "store_step s (s\<lparr>im_controllerProps := ControllerProps_Set (im_controllerProps s) new\<rparr>)"
| "ControllerProps_PatchProps (im_controllerProps s) f = Inr p \<Longrightarrow> gm_wf p \<Longrightarrow> store_step s (s\<lparr>im_controllerProps := p\<rparr>)"

inductive reachable :: "InMemory \<Rightarrow> bool" where
  "reachable NewInMemory"
| "reachable s \<Longrightarrow> store_step s s' \<Longrightarrow> reachable s'"

section \<open>Well-formed tables\<close>

lemmas table_wf = rows_wf_update rows_wf_delete rows_wf_modify

lemma spd_op_wf: "spd_op t t' \<Longrightarrow> rows_wf spd_Name t \<Longrightarrow> rows_wf spd_Name t'"
  by (induction rule: spd_op.induct)
    (auto simp: StoragePoolDefinitions_Create_def StoragePoolDefinitions_Update_def StoragePoolDefinitions_Delete_def
      intro: table_wf split: option.splits if_splits)

lemma node_op_wf: "node_op t t' \<Longrightarrow> rows_wf n_Name t \<Longrightarrow> rows_wf n_Name t'"
  by (induction rule: node_op.induct)
    (auto simp: Nodes_Create_def Nodes_Update_def Nodes_Delete_def Nodes_PatchNetInterfaces_def Nodes_PatchProps_def
      Nodes_PatchNodeSpec_def Nodes_SetConnectionStatus_def keeps_key_def intro: table_wf
      split: option.splits if_splits sum.splits prod.splits)

lemma pool_op_wf: "pool_op t t' \<Longrightarrow> rows_wf sp_key t \<Longrightarrow> rows_wf sp_key t'"
  by (induction rule: pool_op.induct)
    (auto simp: StoragePools_Create_def StoragePools_Update_def StoragePools_Delete_def StoragePools_SetCapacity_def
      StoragePools_PatchStoragePoolSpec_def keeps_key_def intro: table_wf split: option.splits if_splits sum.splits)

lemma rg_op_wf: "rg_op t t' \<Longrightarrow> rows_wf rg_Name t \<Longrightarrow> rows_wf rg_Name t'"
  by (induction rule: rg_op.induct)
    (auto simp: ResourceGroups_Create_def ResourceGroups_Update_def ResourceGroups_Delete_def ResourceGroups_PatchResourceGroup_def
      keeps_key_def intro: table_wf split: option.splits if_splits sum.splits)

lemma rd_op_wf: "rd_op t t' \<Longrightarrow> rows_wf rd_Name t \<Longrightarrow> rows_wf rd_Name t'"
  by (induction rule: rd_op.induct)
    (auto simp: ResourceDefinitions_Create_def ResourceDefinitions_Update_def ResourceDefinitions_Delete_def
      ResourceDefinitions_PatchResourceDefinitionSpec_def keeps_key_def intro: table_wf split: option.splits if_splits sum.splits)

lemma res_wf_modify:
  assumes "map_of m (rd, node) = Some v" and "rows_wf r_key m" and "r_Name w = r_Name v" and "r_NodeName w = r_NodeName v"
  shows "rows_wf r_key (AList.update (rd, node) w m)"
  by (rule rows_wf_modify [OF assms(2,1)]) (simp add: assms(3,4))

lemma res_op_wf: "res_op t t' \<Longrightarrow> rows_wf r_key (res_m t) \<Longrightarrow> rows_wf r_key (res_m t')"
  by (induction rule: res_op.induct)
    (auto simp: Resources_Create_def Resources_Update_def Resources_Delete_def Resources_DeleteIfTieBreaker_def Resources_SetState_def
      Resources_ClearDRBDPort_def Resources_PatchResourceSpec_def keeps_key_def Let_def rows_wf_update rows_wf_delete res_wf_modify
      split: option.splits if_splits sum.splits ResourceLayer.splits)

lemma snap_op_wf: "snap_op t t' \<Longrightarrow> rows_wf sn_key t \<Longrightarrow> rows_wf sn_key t'"
  by (induction rule: snap_op.induct)
    (auto simp: Snapshots_Create_def Snapshots_Update_def Snapshots_Delete_def Snapshots_PatchSnapshotProps_def
      intro: table_wf split: option.splits if_splits sum.splits)

lemma pd_op_wf: "pd_op t t' \<Longrightarrow> rows_wf pd_Name t \<Longrightarrow> rows_wf pd_Name t'"
  by (induction rule: pd_op.induct)
    (auto simp: PhysicalDevices_Create_def PhysicalDevices_Update_def PhysicalDevices_Delete_def
      PhysicalDevices_PatchPhysicalDeviceSpec_def keeps_key_def intro: table_wf split: option.splits if_splits sum.splits)

lemma vd_wf_lookup: "vd_wf m \<Longrightarrow> map_of m k = Some v \<Longrightarrow> vd_VolumeNumber v = snd k"
  by (auto simp: vd_wf_def list_all_iff dest: map_of_SomeD)

lemma vd_op_wf: "vd_op t t' \<Longrightarrow> vd_wf t \<Longrightarrow> vd_wf t'"
  by (induction rule: vd_op.induct)
    (auto simp: VolumeDefinitions_Create_def VolumeDefinitions_CreateAutoNumbered_def VolumeDefinitions_Update_def
      VolumeDefinitions_Delete_def VolumeDefinitions_PatchVolumeDefinitionSpec_def keeps_key_def Let_def
      intro!: vd_wf_update vd_wf_delete dest: vd_wf_lookup split: option.splits if_splits sum.splits)

lemma store_step_wf: "store_step s s' \<Longrightarrow> store_wf s \<Longrightarrow> store_wf s'"
  by (induction rule: store_step.induct)
    (simp_all add: store_wf_def spd_op_wf node_op_wf pool_op_wf rg_op_wf rd_op_wf res_op_wf snap_op_wf pd_op_wf vd_op_wf
      ControllerProps_Set_def)

lemma reachable_wf: "reachable s \<Longrightarrow> store_wf s"
proof (induction rule: reachable.induct)
  case 1
  show ?case by (simp add: store_wf_def NewInMemory_def vd_wf_def)
qed (rule store_step_wf)

section \<open>Properties\<close>

text \<open>Whatever calls are made, a table and the abstract machine stay in step and answer with the same errors.\<close>

definition runs_agree ::
  "('t \<Rightarrow> 'k \<Rightarrow> 'v option) \<Rightarrow> ('t \<Rightarrow> ('k, 'v) row_op \<Rightarrow> err + 't) \<Rightarrow>
   (('k \<Rightarrow> 'v option) \<Rightarrow> ('k, 'v) row_op \<Rightarrow> err + ('k \<Rightarrow> 'v option)) \<Rightarrow> 't \<Rightarrow> ('k, 'v) row_op list \<Rightarrow> bool"
where
  "runs_agree absm step spec t xs =
     (absm (fst (run_ops step t xs)) = fst (run_ops spec (absm t) xs) \<and> snd (run_ops step t xs) = snd (run_ops spec (absm t) xs))"

definition ex_spd :: StoragePoolDefinition where
  "ex_spd = \<lparr>spd_Name = ''lvm'', spd_Props = []\<rparr>"

definition ex_tables :: InMemory where
  "ex_tables = NewInMemory\<lparr>im_storagePoolDefinitions := [(''lvm'', ex_spd)],
     im_resources := \<lparr>res_m = [((''r'', ''n1''), ex_witness ''n1'')], res_volStates = []\<rparr>\<rparr>"

lemma ex_tables_reachable: "reachable ex_tables"
proof -
  let ?s = "NewInMemory\<lparr>im_storagePoolDefinitions := [(''lvm'', ex_spd)]\<rparr>"
  have "StoragePoolDefinitions_Create (im_storagePoolDefinitions NewInMemory) (Some ex_spd) = Inr [(''lvm'', ex_spd)]"
    by (simp add: StoragePoolDefinitions_Create_def NewInMemory_def ex_spd_def gm_has_def)
  then have 1: "store_step NewInMemory ?s"
    by (intro store_step.intros spd_op.intros)
  have "Resources_Create (im_resources ?s) (Some (ex_witness ''n1'')) =
      Inr \<lparr>res_m = [((''r'', ''n1''), ex_witness ''n1'')], res_volStates = []\<rparr>"
    by (simp add: Resources_Create_def NewInMemory_def ex_witness_def gm_has_def)
  then have 2: "store_step ?s ex_tables"
    unfolding ex_tables_def by (intro store_step.intros res_op.intros)
  show ?thesis
    by (rule reachable.intros(2) [OF reachable.intros(2) [OF reachable.intros(1) 1] 2])
qed

text \<open>C39. The tables of the in-memory store implement one abstract machine, a partial map from keys to rows.  From every store that
  calls can reach, and for every sequence of Create, Update and Delete calls on a table, the table holds at the end
  exactly the rows of the machine and every call answers with the machine's error or success: Create refuses a taken key
  with ErrAlreadyExists, Update and Delete refuse a missing one with ErrNotFound, a refused call changes nothing, and an Update
  stores the new row except for the fields each table carries over (the layer stack of a definition, the
  annotations when the caller sends none) or refuses (a claimed physical device).\<close>

theorem store_refines:
  assumes "reachable s"
  shows
    "runs_agree map_of
       (table_step (\<lambda>t v. Nodes_Create t (Some v)) (\<lambda>t v. Nodes_Update t (Some v)) Nodes_Delete)
       (spec_step n_Name (\<lambda>prev v. Inr v)) (im_nodes s) x_nodes \<and>
     runs_agree map_of
       (table_step (\<lambda>t v. StoragePools_Create t (Some v)) (\<lambda>t v. StoragePools_Update t (Some v))
         (\<lambda>t k. StoragePools_Delete t (fst k) (snd k)))
       (spec_step sp_key (\<lambda>prev v. Inr v)) (im_storagePools s) x_pools \<and>
     runs_agree map_of
       (table_step (\<lambda>t v. ResourceGroups_Create t (Some v)) (\<lambda>t v. ResourceGroups_Update t (Some v)) ResourceGroups_Delete)
       (spec_step rg_Name (\<lambda>prev v. Inr (v\<lparr>rg_Annotations := carryAnnotationsOnNil (rg_Annotations v) (rg_Annotations prev)\<rparr>)))
       (im_resourceGroups s) x_groups \<and>
     runs_agree map_of
       (table_step (\<lambda>t v. ResourceDefinitions_Create t (Some v)) (\<lambda>t v. ResourceDefinitions_Update t (Some v)) ResourceDefinitions_Delete)
       (spec_step rd_Name (\<lambda>prev v. Inr (v\<lparr>rd_LayerStack := (if rd_LayerStack v = [] then rd_LayerStack prev else rd_LayerStack v),
          rd_Annotations := carryAnnotationsOnNil (rd_Annotations v) (rd_Annotations prev)\<rparr>)))
       (im_resourceDefinitions s) x_defs \<and>
     runs_agree (\<lambda>t. map_of (res_m t))
       (table_step (\<lambda>t v. Resources_Create t (Some v)) (\<lambda>t v. Resources_Update t (Some v))
         (\<lambda>t k. Resources_Delete t (fst k) (snd k)))
       (spec_step r_key (\<lambda>prev v. Inr (v\<lparr>r_Annotations := carryAnnotationsOnNil (r_Annotations v) (r_Annotations prev)\<rparr>)))
       (im_resources s) x_ress \<and>
     runs_agree (\<lambda>m k. map_option (Pair (fst k)) (map_of m k))
       (table_step (\<lambda>m v. VolumeDefinitions_Create m (fst v) (Some (snd v))) (\<lambda>m v. VolumeDefinitions_Update m (fst v) (Some (snd v)))
         (\<lambda>m k. VolumeDefinitions_Delete m (fst k) (snd k)))
       (spec_step (\<lambda>v. (fst v, vd_VolumeNumber (snd v))) (\<lambda>prev v. Inr v)) (im_volumeDefinitions s) x_vols \<and>
     runs_agree map_of
       (table_step (\<lambda>t v. Snapshots_Create t (Some v)) (\<lambda>t v. Snapshots_Update t (Some v))
         (\<lambda>t k. Snapshots_Delete t (fst k) (snd k)))
       (spec_step sn_key (\<lambda>prev v. Inr (v\<lparr>sn_Annotations := carryAnnotationsOnNil (sn_Annotations v) (sn_Annotations prev)\<rparr>)))
       (im_snapshots s) x_snaps \<and>
     runs_agree map_of
       (table_step (\<lambda>t v. PhysicalDevices_Create t (Some v)) (\<lambda>t v. PhysicalDevices_Update t (Some v)) PhysicalDevices_Delete)
       (spec_step pd_Name (\<lambda>prev v. if pd_AttachTo v \<noteq> None \<and> pd_AttachTo prev \<noteq> None then Inl ErrAlreadyExists else Inr v))
       (im_physicalDevices s) x_devs \<and>
     runs_agree map_of
       (table_step (\<lambda>t v. StoragePoolDefinitions_Create t (Some v)) (\<lambda>t v. StoragePoolDefinitions_Update t (Some v))
         StoragePoolDefinitions_Delete)
       (spec_step spd_Name (\<lambda>prev v. Inr v)) (im_storagePoolDefinitions s) x_spds"
proof -
  note rows = reachable_wf [OF assms, unfolded store_wf_def]
  show ?thesis
    unfolding runs_agree_def
    using nodes.run_refines [of "im_nodes s" x_nodes] pools.run_refines [of "im_storagePools s" x_pools]
      rgs.run_refines [of "im_resourceGroups s" x_groups] rds.run_refines [of "im_resourceDefinitions s" x_defs] ress.run_refines [of "im_resources s" x_ress]
      vds.run_refines [of "im_volumeDefinitions s" x_vols] snaps.run_refines [of "im_snapshots s" x_snaps]
      pds.run_refines [of "im_physicalDevices s" x_devs] spds.run_refines [of "im_storagePoolDefinitions s" x_spds] rows
    by (intro conjI) simp_all
qed

text \<open>The second creation of a pool definition is refused by table and machine alike, and its deletion empties both.\<close>

theorem store_refines_witness:
  "run_ops (table_step (\<lambda>t v. StoragePoolDefinitions_Create t (Some v)) (\<lambda>t v. StoragePoolDefinitions_Update t (Some v))
      StoragePoolDefinitions_Delete) (im_storagePoolDefinitions ex_tables) [RCreate ex_spd, RDelete ''lvm''] =
     ([], [Some ErrAlreadyExists, None]) \<and>
   snd (run_ops (spec_step spd_Name (\<lambda>prev v. Inr v)) (map_of (im_storagePoolDefinitions ex_tables)) [RCreate ex_spd, RDelete ''lvm'']) =
     [Some ErrAlreadyExists, None]"
proof -
  have "run_ops (table_step (\<lambda>t v. StoragePoolDefinitions_Create t (Some v)) (\<lambda>t v. StoragePoolDefinitions_Update t (Some v))
      StoragePoolDefinitions_Delete) (im_storagePoolDefinitions ex_tables) [RCreate ex_spd, RDelete ''lvm''] =
     ([], [Some ErrAlreadyExists, None])"
    by (simp add: ex_tables_def ex_spd_def StoragePoolDefinitions_Create_def StoragePoolDefinitions_Delete_def gm_has_def)
  then show ?thesis
    using store_refines [OF ex_tables_reachable, where x_spds = "[RCreate ex_spd, RDelete ''lvm'']"]
    by (simp add: runs_agree_def)
qed

end
