(* ===== verification/Spec2Isabelle.thy ===== *)
theory Spec2Isabelle
  imports Placer_Spread Placer_Outcome Placer_Rank Drbd_Alloc Effective_Props Drbd_Election Drbd_GI
    Satellite_Peers Satellite_Fsm Satellite_Seed Satellite_Discipline Store_Reach
begin

text \<open>
  \<^bold>\<open>Verification of blockstor.\<close>

  blockstor keeps replicated block volumes on a Kubernetes cluster: it speaks the REST protocol of LINSTOR, keeps its
  objects in custom resources, and drives DRBD on every node.  This development models the parts of the code under
  \<open>src/\<close> that decide where replicas go, how they are configured, and what a node does to its disks.

  \<^bold>\<open>The parts and how they meet.\<close>
  A request reaches the \<^emph>\<open>store\<close> of objects (\<open>pkg/store\<close>).  The \<^emph>\<open>autoplacer\<close> (\<open>pkg/placer\<close>) reads nodes, pools and
  replicas from it and creates replicas in it.  Numbers (ports, minors, node-ids) come from the \<^emph>\<open>allocators\<close> and
  options from the \<^emph>\<open>resolvers\<close> (\<open>pkg/drbd\<close>, \<open>pkg/effectiveprops\<close>); object names and typed properties are folded by the
  helpers of \<open>pkg/store/k8s\<close>.  The dispatcher (not modelled) turns all this into the desired state of one replica
  on one node, and the \<^emph>\<open>satellite\<close> (\<open>pkg/satellite\<close>) of that node applies it: it renders the DRBD resource file, creates
  and seeds metadata, brings the resource up, adjusts it, promotes it where needed, formats it, and heals it.

  \<^bold>\<open>Conventions.\<close>
  A Go struct is a record, an enumeration a datatype, a map an association list with distinct keys (\<open>gomap\<close> in
  \<open>Prelude\<close>), a slice a list, a string a list of characters (one per byte), a pointer that may be nil an option.  An
  error is a value (\<open>err + 'a\<close>, or an optional \<open>goerr\<close> on the satellite).  \<open>int32\<close> counters wrap where the code lets them
  (\<open>wrap32\<close>), \<open>float64\<close> is rounded as in IEEE 754 (\<open>Float64\<close>).  Iteration over a Go map, whose order is
  unspecified, follows the order of the association list, and the theorems hold for every such order.
  Definitions keep the names of the code; the receiver comes first where two would clash (\<open>Resources_Create\<close>).

  \<^bold>\<open>Foundations.\<close>
  \<^item> \<open>Prelude\<close>: maps, lookups and lists shared by all components.  \<open>Float64\<close>: rounding and \<open>strconv.ParseFloat\<close>.
    \<open>Go_Strings\<close>: the functions of \<open>strings\<close> and \<open>strconv\<close> that are used, with the round trip of numbers.
    \<open>Go_Sort\<close>: the block insertion sort and symmerge of \<open>sort.SliceStable\<close>, since the autoplacer's comparator depends on
    positions.
  \<^item> \<open>Greedy\<close>: the greedy walk on its own; the locale \<open>greedy_gate\<close> has the laws of a gate that only tightens and proves
    soundness and completeness of the walk once.

  \<^bold>\<open>Wire types and store.\<close>
  \<^item> \<open>Api_Types\<close> (\<open>pkg/api/v1\<close>): records, constants, layer stacks, node capabilities, witness promotion.
  \<^item> \<open>Store_Spec\<close>: the contract of a table as an abstract machine; the locales \<open>row_store\<close> and \<open>patch_store\<close>.
    \<open>Store\<close> (\<open>pkg/store/inmemory*.go\<close>): nine tables with every operation and error, each an interpretation of the
    contract.  \<open>Store_Reach\<close>: the store as a step relation with a rule for every mutating call.
    C39: on every reachable store every sequence of calls refines the machine.

  \<^bold>\<open>Placement.\<close>
  \<^item> \<open>Oversub\<close> (\<open>oversub.go\<close>, \<open>provider_kind_mixing.go\<close>) and \<open>Placer\<close> (\<open>placer.go\<close>): the call \<open>Place\<close> with all its phases.
    \<open>Placer_Props\<close> shows that it is a greedy walk followed by the diskless fill and interprets \<open>greedy_gate\<close>.
  \<^item> \<open>Placer_Theorems\<close>: the reported count (C1), the frame (C2), eligibility (C3), completeness (C4).  \<open>Placer_Spread\<close>:
    the topology constraints (C5--C9) and driver compatibility (C10).  \<open>Placer_Outcome\<close>: the error of every outcome
    (C11), stability of a second call (C12).  \<open>Placer_Rank\<close>: ranking is right for two candidates (C13) and wrong
    for three, where the comparator reads scores by position (\<open>rankCandidates_misorders\<close>); with it the other inputs
    on which the code departs from its comments.
  \<^item> The last section of this theory lets placements and store calls interleave; C40: the store stays well-formed.

  \<^bold>\<open>Numbers, options and names.\<close>
  \<^item> \<open>Drbd_Alloc\<close> (\<open>portpool.go\<close>, \<open>allocator.go\<close>): lowest free port and node-id (C14, C15), ranges (C16).
  \<^item> \<open>Drbd_Options\<close> (\<open>options.go\<close>, \<open>flagkeys.go\<close>, \<open>resolver.go\<close>, \<open>typed_resolver.go\<close>, \<open>typed_emit.go\<close>): flag keys (C17), scope order (C18),
    agreement of typed and flat resolver (C19).  \<open>Drbd_Transcode\<close> (\<open>drbd_transcode.go\<close>): C22.  \<open>Effective_Props\<close>
    (\<open>effective.go\<close>): C23.  \<open>K8s_Names\<close> (\<open>crdname.go\<close>): C20, C21.

  \<^bold>\<open>DRBD status and identifiers.\<close>
  \<^item> \<open>Drbd_States\<close> (\<open>states.go\<close>), \<open>Drbd_Status\<close> (the predicates of \<open>drbdadm.go\<close> and \<open>drbdsetup_show.go\<close> on a decoded status).
    \<open>Drbd_Election\<close> puts the statuses of two nodes side by side: at most one promotes (C24), at most one mints a
    late volume (C25), and what opens each gate (C26).
  \<^item> \<open>Drbd_GI\<close> (\<open>gi.go\<close>, \<open>dumpmd.go\<close>): seeds and the reading of a metadata dump (C27).  \<open>Drbd_Conf\<close> (\<open>conffile.go\<close>): rendering.

  \<^bold>\<open>The satellite.\<close>
  \<^item> \<open>Satellite_Res\<close> (\<open>intent/types.go\<close>, \<open>buildResFile\<close> and its helpers, \<open>discardgran.go\<close>), \<open>Satellite_Peers\<close> (C28: what is rendered is
    read back), \<open>Satellite_Fsm\<close> (\<open>fsm.go\<close>, \<open>fsm_shadow.go\<close>; C29, C30).
  \<^item> \<open>Satellite_Host\<close>: the state monad the reconciler runs in.  Its state holds the files of the state directory,
    the in-memory maps of the reconciler, and the trace of everything done, newest first, with the files at that
    moment.  Every answer of the outside (a command's outcome, a failing write, the clock) is a function of the
    trace in \<open>env\<close>, so a theorem about all \<open>env\<close> is about all hosts.  A small Hoare logic (\<open>hoare\<close>, \<open>keeps\<close>) goes with it.
    \<open>Drbd_Adm\<close>: the verbs of \<open>drbdadm.go\<close>.
  \<^item> \<open>Satellite_Seed\<close> (\<open>resolveVolumeSeed\<close>, \<open>seedPerPeerGI\<close>; C31, C32), \<open>Satellite_Metadata\<close> (\<open>ensureMetadata\<close>, repair, late volumes,
    rendering, removed peers), \<open>Satellite_Promote\<close> (promotion, formatting, self-heals), \<open>Satellite_Apply\<close> (\<open>applyDRBD\<close>, the dispatch
    of \<open>fsm_dispatch.go\<close>, \<open>adjust\<close> and its fall-backs), \<open>Satellite_GI\<close> (\<open>gi_history.go\<close>; C38).
  \<^item> \<open>Satellite_Policy\<close>: the locale \<open>apply_policy\<close>, which says what an invariant of the host must survive, and proves that
    then the whole \<open>applyDRBD\<close> keeps it.  \<open>Satellite_Safety\<close> interprets it twice, for the creation of metadata (C33) and for
    formatting (C34); \<open>Satellite_Discipline\<close> for the freshness of the resource file (C35), with the refusal of a replica
    that is not ready (C36) and the harmlessness of a diskless one (C37).
  \<^item> \<open>Example_Cluster\<close>, \<open>Example_Zones\<close>, \<open>Example_Replica\<close>, \<open>Example_Host\<close>, \<open>Example_Apply\<close>: concrete inputs for the witnesses.

  \<^bold>\<open>Bounds.\<close>
  Loops that end are total functions.  The port scan is a \<open>partial_function\<close> (its 32-bit counter wraps when
  the range ends at the largest value); C14 proves that it returns below that.  The automatic numbering of volumes
  has as fuel one more than the numbers in use, which is enough by \<open>auto_number_loop_finds\<close>.  The poll before a forced promote
  has the code's twelve probes, a seed the code's thirty-two slots, a record of generations its thirty-two entries.

  \<^bold>\<open>Parameters.\<close>
  Code outside the repository is an argument: SHA-256, name-based UUIDs, regular expressions given by the operator, the
  decoding of \<open>drbdsetup\<close>'s JSON, the Kubernetes reader of the effective properties (the outcome of each read), and
  the host (\<open>env\<close>).  Where a theorem needs something of them it is a hypothesis.

  \<^bold>\<open>Abstractions.\<close>
  Every store call and every apply is one sequence of steps: locks and goroutines are left out, and with them
  interleavings of two applies of one resource, which the controller serialises.  Go's deep copies against aliasing are
  values here.  Log lines and metrics are left out, except the counter of state machine agreements.  Error texts keep the
  messages the code gives, without quoted payloads; paths are relative to the state directory.  \<open>os.Stat\<close> tells only
  whether a file exists.  The durable write of a record is one step that leaves the old content or the new.

  \<^bold>\<open>Not modelled.\<close>
  The Kubernetes store, the controllers and the REST server (\<open>pkg/store/k8s\<close>, \<open>internal/controller\<close>, \<open>pkg/rest\<close>,
  \<open>pkg/satellite/controllers\<close>): caching, conflict retries and server-side apply of controller-runtime and HTTP handling.  The
  dispatcher, the validation helpers, the restore and clone workflows of \<open>pkg/store\<close>, and the storage, LUKS, snapshot, clone and
  delete paths of \<open>reconciler.go\<close>: they hand their result to the parts above, whose theorems hold for every such
  input.  The storage providers (execution of \<open>lvm\<close>, \<open>zfs\<close>, \<open>losetup\<close>), the event stream of the kernel, device discovery, the command
  line and the migration from LINSTOR: input and output, or conversions used once.
\<close>

section \<open>The store and the autoplacer together\<close>

text \<open>Every write of a placement is a call of the store, so a placement is a sequence of its steps.\<close>

lemma create_tolerant_reachable:
  assumes "reachable st" and "create_tolerant st r = Inr st'"
  shows "reachable st'"
proof (cases "Resources_Create (im_resources st) (Some r)")
  case (Inl e)
  then show ?thesis using assms by (simp add: create_tolerant_def split: if_splits)
next
  case (Inr t)
  then have "store_step st st'"
    using assms(2) by (auto simp: create_tolerant_def intro: store_step.intros res_op.intros)
  then show ?thesis by (rule reachable.intros(2) [OF assms(1)])
qed

lemma promoteWitness_reachable:
  assumes "reachable st" and "promoteWitness st rd pool = Inr st'"
  shows "reachable st'"
proof (cases "Resources_PatchResourceSpec (im_resources st) rd (sp_NodeName pool) (Some (promote_row pool))")
  case (Inl e)
  then show ?thesis
    using assms create_tolerant_reachable [OF assms(1)] by (auto simp: promoteWitness_def split: if_splits)
next
  case (Inr t)
  have "keeps_key r_key (promote_row pool)"
    by (auto simp: keeps_key_def promote_row_def)
  then have "store_step st st'"
    using assms(2) Inr by (auto simp: promoteWitness_def intro: store_step.intros res_op.intros)
  then show ?thesis by (rule reachable.intros(2) [OF assms(1)])
qed

lemma tryPlace_reachable: "reachable st \<Longrightarrow> tryPlace st s rd pool = Inr (st', s', ok) \<Longrightarrow> reachable st'"
  by (auto simp: tryPlace_def intro: create_tolerant_reachable promoteWitness_reachable
      split: option.splits sum.splits if_splits)

lemma placeDiskful_reachable:
  "reachable st \<Longrightarrow> placeDiskful st rd s pools placed want = (st', rest) \<Longrightarrow> reachable st'"
proof (induction pools arbitrary: st s placed)
  case (Cons pool pools)
  show ?case
  proof (cases "tryPlace st s rd pool")
    case (Inl e)
    then show ?thesis using Cons.prems by (simp split: if_splits)
  next
    case (Inr x)
    obtain st1 s1 ok where x: "x = (st1, s1, ok)" by (metis prod_cases3)
    then have "reachable st1" using tryPlace_reachable [OF Cons.prems(1)] Inr by simp
    then show ?thesis using Cons.IH [of st1 s1] Cons.prems Inr x by (simp split: if_splits)
  qed
qed simp

lemma diskless_loop_reachable:
  "reachable st \<Longrightarrow> diskless_loop st rd s nodes = (st', rest) \<Longrightarrow> reachable st'"
proof (induction nodes arbitrary: st s)
  case (Cons node nodes)
  show ?case
  proof (cases "create_tolerant st (diskless_replica rd node)")
    case (Inl e)
    then show ?thesis using Cons by (simp split: if_splits)
  next
    case (Inr st1)
    then show ?thesis
      using Cons.IH [of st] Cons.IH [OF create_tolerant_reachable [OF Cons.prems(1) Inr]] Cons.prems by (simp split: if_splits)
  qed
qed simp

lemma Place_reachable:
  assumes "reachable st"
  shows "reachable (fst (Place L st rd fl))"
proof (cases "buildPlan L st rd (constrainFilterToRestoreSource st rd fl)")
  case (ShortfallPlan required gates)
  then show ?thesis using assms by (simp add: Place_def Let_def)
next
  case (Plan s preferred lastResort existing disabled required gates)
  let ?fl = "constrainFilterToRestoreSource st rd fl"
  obtain st1 s1 n1 e1 where 1: "placeDiskful st rd s preferred (countDiskfulReplicas existing disabled) (PlaceCount ?fl) = (st1, s1, n1, e1)"
    by (metis prod_cases4)
  obtain st2 s2 n2 e2 where 2: "placeDiskful st1 rd s1 lastResort n1 (PlaceCount ?fl) = (st2, s2, n2, e2)"
    by (metis prod_cases4)
  obtain st3 s3 e3 where 3: "placeDisklessOnRemaining st2 rd s2 = (st3, s3, e3)"
    by (metis prod_cases3)
  have r1: "reachable st1" by (rule placeDiskful_reachable [OF assms 1])
  have r2: "reachable st2" by (rule placeDiskful_reachable [OF r1 2])
  have r3: "reachable st3" by (rule diskless_loop_reachable [OF r2 3 [unfolded placeDisklessOnRemaining_def]])
  show ?thesis
    using r1 r2 r3 1 2 by (simp add: Place_def Let_def Plan 3 split: option.split)
qed

text \<open>A cluster: any interleaving of calls to the store and of placements, from the empty store on.\<close>

inductive cluster :: "golib \<Rightarrow> InMemory \<Rightarrow> bool" for L where
  "cluster L NewInMemory"
| "cluster L s \<Longrightarrow> store_step s s' \<Longrightarrow> cluster L s'"
| "cluster L s \<Longrightarrow> cluster L (fst (Place L s rd fl))"

lemma cluster_reachable: "cluster L s \<Longrightarrow> reachable s"
  by (induction rule: cluster.induct) (auto intro: reachable.intros Place_reachable)

lemma reachable_cluster: "reachable s \<Longrightarrow> cluster L s"
  by (induction rule: reachable.induct) (auto intro: cluster.intros)

text \<open>C40. Well-formedness of the store is an invariant of the cluster.  In every store that any interleaving of placements and
  of Create, Update, Delete, patch and status calls can reach, each table is a map with distinct keys whose
  rows are filed under the key they carry (volume definitions under their number); so what Get returns is the
  row that was asked for, and the listing of a definition's replicas names no node twice.  Mutators
  handed to the patch calls may do anything to a row but rename it.\<close>

theorem cluster_typed:
  assumes "cluster L s"
  shows "store_wf s \<and>
    (Resources_Get (im_resources s) rd node = Inr r \<longrightarrow> r_Name r = rd \<and> r_NodeName r = node) \<and>
    distinct (map r_NodeName (Resources_ListByDefinition (im_resources s) rd))"
proof -
  have w: "store_wf s"
    by (rule reachable_wf [OF cluster_reachable [OF assms]])
  then have rows: "rows_wf r_key (res_m (im_resources s))"
    by (simp add: store_wf_def)
  show ?thesis
    using w rows_wf_lookup [OF rows, of "(rd, node)" r] Resources_ListByDefinition_distinct [OF rows]
    by (simp add: Resources_Get_def split: option.split)
qed

theorem cluster_typed_witness:
  "store_wf (fst (Place ex_lib ex_tables ''r'' (ex_filter 1))) \<and>
   Resources_Get (im_resources ex_tables) ''r'' ''n1'' = Inr (ex_witness ''n1'') \<and> r_NodeName (ex_witness ''n1'') = ''n1'' \<and>
   map r_NodeName (Resources_ListByDefinition (im_resources ex_tables) ''r'') = [''n1''] \<and> distinct [''n1'']"
proof -
  note c = reachable_cluster [OF ex_tables_reachable, of ex_lib]
  have "Resources_Get (im_resources ex_tables) ''r'' ''n1'' = Inr (ex_witness ''n1'')"
    "map r_NodeName (Resources_ListByDefinition (im_resources ex_tables) ''r'') = [''n1'']"
    by (simp_all add: Resources_Get_def Resources_ListByDefinition_def ex_tables_def ex_witness_def)
  then show ?thesis
    using cluster_typed [OF c, of "''r''" "''n1''" "ex_witness ''n1''"]
      cluster_typed [OF cluster.intros(3) [OF c, of "''r''" "ex_filter 1"]] by simp
qed

end
